(* ===== verification/Prelude.thy ===== *)
theory Prelude
  imports Main
    "HOL-Library.AList"
    "HOL-Library.Sublist"
    "HOL-Library.Multiset"
    "HOL-Library.Char_ord"
    "HOL-Library.List_Lexorder"
    "HOL-Library.Monad_Syntax"
begin

text \<open>
  The vocabulary every component of the development shares: Go maps as association lists, Go
  strings as byte lists, 64-bit wrap-around, decimal conversion, insertion sort as sort.Slice
  runs it on short slices, and the lemmas about them that carry the component proofs.

  Conventions.  A computation that can panic has an option type, with None the panic.  A
  computation that returns a Go error has a sum type, Inl the error.  A Go map is an association
  list whose keys are distinct (wf_map); the order of the list stands for the iteration order of
  one run, which Go leaves open, so a statement for every list is a statement for every order.
\<close>

named_theorems go_map \<open>lookups after an update of a Go map\<close>
named_theorems go_str \<open>facts about decimal conversion and string tests\<close>

section \<open>Go maps\<close>

type_synonym ('k, 'v) gomap = "('k \<times> 'v) list"
type_synonym strmap = "(string, string) gomap"

abbreviation mget :: "('k, 'v) gomap \<Rightarrow> 'k \<Rightarrow> 'v option" where
  "mget \<equiv> map_of"

abbreviation mput :: "('k, 'v) gomap \<Rightarrow> 'k \<Rightarrow> 'v \<Rightarrow> ('k, 'v) gomap" where
  "mput m k v \<equiv> AList.update k v m"

abbreviation mdel :: "('k, 'v) gomap \<Rightarrow> 'k \<Rightarrow> ('k, 'v) gomap" where
  "mdel m k \<equiv> AList.delete k m"

definition wf_map :: "('k, 'v) gomap \<Rightarrow> bool" where
  "wf_map m \<longleftrightarrow> distinct (map fst m)"

text \<open>Reading a missing key of a map of strings gives the empty string.\<close>

definition mget0 :: "strmap \<Rightarrow> string \<Rightarrow> string" where
  "mget0 m k = (case mget m k of None \<Rightarrow> '''' | Some v \<Rightarrow> v)"

lemma mget_mput [go_map]: "mget (mput m k v) k' = (if k' = k then Some v else mget m k')"
  by (simp add: update_conv')

lemma mget_mdel [go_map]: "mget (mdel m k) k' = (if k' = k then None else mget m k')"
  by (simp add: delete_conv')

lemma wf_map_Nil [simp]: "wf_map []"
  by (simp add: wf_map_def)

lemma wf_map_single [simp]: "wf_map [(k, v)]"
  by (simp add: wf_map_def)

lemma set_mdel: "set (mdel m k) = {(k', v) \<in> set m. k' \<noteq> k}"
  by (induction m) auto

lemma wf_map_mput [simp, intro]: "wf_map m \<Longrightarrow> wf_map (mput m k v)"
  by (simp add: wf_map_def distinct_update)

lemma wf_map_mdel [simp, intro]: "wf_map m \<Longrightarrow> wf_map (mdel m k)"
  by (simp add: wf_map_def distinct_delete)

lemma mget_in_set: "mget m k = Some v \<Longrightarrow> (k, v) \<in> set m"
  by (rule map_of_SomeD)

lemma wf_map_mget: "wf_map m \<Longrightarrow> (k, v) \<in> set m \<Longrightarrow> mget m k = Some v"
  by (simp add: wf_map_def)

lemma keys_mdel: "map fst (mdel m k) = filter (\<lambda>x. x \<noteq> k) (map fst m)"
  by (induction m) auto

section \<open>Integers of 64 bits\<close>

definition max_int64 :: int where
  "max_int64 = 9223372036854775807"

definition min_int64 :: int where
  "min_int64 = - 9223372036854775808"

definition wrap64 :: "int \<Rightarrow> int" where
  "wrap64 x = (x + 9223372036854775808) mod 18446744073709551616 - 9223372036854775808"

lemma wrap64_id: "min_int64 \<le> x \<Longrightarrow> x \<le> max_int64 \<Longrightarrow> wrap64 x = x"
  by (simp add: wrap64_def min_int64_def max_int64_def)

lemma wrap64_range: "min_int64 \<le> wrap64 x \<and> wrap64 x \<le> max_int64"
proof -
  have "0 \<le> (x + 9223372036854775808) mod 18446744073709551616"
    and "(x + 9223372036854775808) mod 18446744073709551616 < 18446744073709551616"
    by simp_all
  then show ?thesis by (simp add: wrap64_def min_int64_def max_int64_def)
qed

section \<open>Strings\<close>

text \<open>strings.HasPrefix and strings.Contains.\<close>

definition str_has_prefix :: "string \<Rightarrow> string \<Rightarrow> bool" where
  "str_has_prefix s p = prefix p s"

fun str_contains :: "string \<Rightarrow> string \<Rightarrow> bool" where
  "str_contains [] sub = (sub = [])"
| "str_contains (c # cs) sub = (prefix sub (c # cs) \<or> str_contains cs sub)"

lemma str_contains_iff: "str_contains s sub \<longleftrightarrow> sublist sub s"
  by (induction s) (auto simp: sublist_Cons_right)

text \<open>strings.ToLower and strings.ToUpper, on ASCII letters.\<close>

definition lower_char :: "char \<Rightarrow> char" where
  "lower_char c = (let n = of_char c :: nat in if 65 \<le> n \<and> n \<le> 90 then char_of (n + 32) else c)"

definition upper_char :: "char \<Rightarrow> char" where
  "upper_char c = (let n = of_char c :: nat in if 97 \<le> n \<and> n \<le> 122 then char_of (n - 32) else c)"

definition to_lower :: "string \<Rightarrow> string" where
  "to_lower s = map lower_char s"

definition to_upper :: "string \<Rightarrow> string" where
  "to_upper s = map upper_char s"

text \<open>strings.TrimSpace, on the ASCII white space characters.\<close>

definition is_space :: "char \<Rightarrow> bool" where
  "is_space c = (let n = of_char c :: nat in n = 32 \<or> (9 \<le> n \<and> n \<le> 13))"

definition trim_space :: "string \<Rightarrow> string" where
  "trim_space s = rev (dropWhile is_space (rev (dropWhile is_space s)))"

definition blank :: "string \<Rightarrow> bool" where
  "blank s \<longleftrightarrow> trim_space s = []"

lemma blank_iff: "blank s \<longleftrightarrow> list_all is_space s"
proof
  assume "blank s"
  then have "\<forall>c \<in> set (dropWhile is_space s). is_space c"
    by (simp add: blank_def trim_space_def)
  then have "dropWhile is_space s = []"
    by (metis hd_dropWhile hd_in_set)
  then show "list_all is_space s"
    by (simp add: list_all_iff)
next
  assume "list_all is_space s"
  then show "blank s"
    by (auto simp: blank_def trim_space_def list_all_iff dest: set_dropWhileD)
qed

text \<open>The control characters of the texts.\<close>

definition nl :: string where
  "nl = [CHR 0x0A]"

definition tab :: string where
  "tab = [CHR 0x09]"

section \<open>Decimal conversion: strconv.Itoa and strconv.Atoi\<close>

definition digit_char :: "nat \<Rightarrow> char" where
  "digit_char d = char_of (48 + d)"

definition is_digit :: "char \<Rightarrow> bool" where
  "is_digit c = (let n = of_char c :: nat in 48 \<le> n \<and> n \<le> 57)"

definition digit_val :: "char \<Rightarrow> nat" where
  "digit_val c = of_char c - 48"

fun nat_digits :: "nat \<Rightarrow> string" where
  "nat_digits n = (if n < 10 then [digit_char n] else nat_digits (n div 10) @ [digit_char (n mod 10)])"

declare nat_digits.simps [simp del]

definition digits_val :: "string \<Rightarrow> nat" where
  "digits_val s = foldl (\<lambda>a c. a * 10 + digit_val c) 0 s"

definition itoa :: "int \<Rightarrow> string" where
  "itoa i = (if i < 0 then CHR ''-'' # nat_digits (nat (- i)) else nat_digits (nat i))"

text \<open>
  Atoi returns a value and whether there was no error.  On a syntax error the value is 0, on a
  value out of range the nearest bound.
\<close>

definition atoi :: "string \<Rightarrow> int \<times> bool" where
  "atoi s =
     (let neg = (s \<noteq> [] \<and> hd s = CHR ''-'');
          body = (if s \<noteq> [] \<and> (hd s = CHR ''-'' \<or> hd s = CHR ''+'') then tl s else s)
      in if body = [] \<or> \<not> list_all is_digit body then (0, False)
         else let v = (if neg then - int (digits_val body) else int (digits_val body))
              in if v < min_int64 then (min_int64, False)
                 else if max_int64 < v then (max_int64, False)
                 else (v, True))"

lemma of_char_digit_char [go_str]: "d < 10 \<Longrightarrow> (of_char (digit_char d) :: nat) = 48 + d"
  by (simp add: digit_char_def)

lemma digit_char_digit [go_str]: "d < 10 \<Longrightarrow> is_digit (digit_char d) \<and> digit_val (digit_char d) = d"
  by (simp add: is_digit_def digit_val_def of_char_digit_char)

lemma nat_digits_nonempty [go_str]: "nat_digits n \<noteq> []"
  by (subst nat_digits.simps) simp

lemma nat_digits_all_digits: "list_all is_digit (nat_digits n)"
proof (induction n rule: nat_digits.induct)
  case (1 n)
  then show ?case
    by (subst nat_digits.simps) (auto simp: digit_char_digit)
qed

lemma digits_val_nat_digits [go_str]: "digits_val (nat_digits n) = n"
proof (induction n rule: nat_digits.induct)
  case (1 n)
  show ?case
  proof (cases "n < 10")
    case True
    then show ?thesis by (subst nat_digits.simps) (simp add: digits_val_def digit_char_digit)
  next
    case False
    then have "digits_val (nat_digits (n div 10)) = n div 10" by (rule "1.IH")
    then have ih: "foldl (\<lambda>a c. a * 10 + digit_val c) 0 (nat_digits (n div 10)) = n div 10"
      by (simp only: digits_val_def)
    from False show ?thesis
      by (subst nat_digits.simps) (simp add: digits_val_def ih digit_char_digit)
  qed
qed

lemma digit_char_not_sign: "is_digit c \<Longrightarrow> c \<noteq> CHR ''-'' \<and> c \<noteq> CHR ''+''"
  by (auto simp: is_digit_def)

lemma hd_nat_digits: "hd (nat_digits n) \<noteq> CHR ''-'' \<and> hd (nat_digits n) \<noteq> CHR ''+''"
proof -
  have "hd (nat_digits n) \<in> set (nat_digits n)"
    using nat_digits_nonempty by simp
  then have "is_digit (hd (nat_digits n))"
    using nat_digits_all_digits by (auto simp: list_all_iff)
  then show ?thesis by (rule digit_char_not_sign)
qed

lemma atoi_itoa [go_str]:
  assumes "min_int64 \<le> i" and "i \<le> max_int64"
  shows "atoi (itoa i) = (i, True)"
proof (cases "i < 0")
  case True
  then show ?thesis using assms
    by (simp add: atoi_def itoa_def Let_def nat_digits_nonempty nat_digits_all_digits
        digits_val_nat_digits)
next
  case False
  then show ?thesis using assms hd_nat_digits
    by (simp add: atoi_def itoa_def Let_def nat_digits_nonempty nat_digits_all_digits
        digits_val_nat_digits)
qed

lemma atoi_range: "min_int64 \<le> fst (atoi s) \<and> fst (atoi s) \<le> max_int64"
  by (auto simp: atoi_def Let_def min_int64_def max_int64_def)

lemma itoa_inj: "itoa i = itoa j \<Longrightarrow> min_int64 \<le> i \<Longrightarrow> i \<le> max_int64 \<Longrightarrow>
    min_int64 \<le> j \<Longrightarrow> j \<le> max_int64 \<Longrightarrow> i = j"
  by (metis atoi_itoa prod.inject)

section \<open>sort.Slice\<close>

text \<open>
  sort.Slice orders up to twelve elements by insertion sort: element i moves left past its
  predecessor while less holds.  The prefix already sorted is kept reversed.
\<close>

fun go_insert :: "('a \<Rightarrow> 'a \<Rightarrow> bool) \<Rightarrow> 'a \<Rightarrow> 'a list \<Rightarrow> 'a list" where
  "go_insert lt x [] = [x]"
| "go_insert lt x (y # ys) = (if lt x y then y # go_insert lt x ys else x # y # ys)"

definition sort_slice :: "('a \<Rightarrow> 'a \<Rightarrow> bool) \<Rightarrow> 'a list \<Rightarrow> 'a list" where
  "sort_slice lt xs = rev (fold (go_insert lt) xs [])"

lemma mset_go_insert: "mset (go_insert lt x ys) = add_mset x (mset ys)"
  by (induction ys) auto

lemma mset_fold_go_insert: "mset (fold (go_insert lt) xs ys) = mset xs + mset ys"
  by (induction xs arbitrary: ys) (auto simp: mset_go_insert)

lemma mset_sort_slice [simp]: "mset (sort_slice lt xs) = mset xs"
  by (simp add: sort_slice_def mset_fold_go_insert)

lemma set_sort_slice [simp]: "set (sort_slice lt xs) = set xs"
  by (metis mset_sort_slice set_mset_mset)

lemma length_sort_slice [simp]: "length (sort_slice lt xs) = length xs"
  by (metis mset_sort_slice size_mset)

lemma set_go_insert: "set (go_insert lt x ys) = insert x (set ys)"
  by (metis mset_go_insert set_mset_add_mset_insert set_mset_mset)

text \<open>A strict weak order, the contract sort.Slice states for its less argument.\<close>

definition weak_order :: "('a \<Rightarrow> 'a \<Rightarrow> bool) \<Rightarrow> bool" where
  "weak_order lt \<longleftrightarrow> (\<forall>a b. lt a b \<longrightarrow> \<not> lt b a)
     \<and> (\<forall>a b c. \<not> lt a b \<longrightarrow> \<not> lt b c \<longrightarrow> \<not> lt a c)"

lemma weak_orderD:
  assumes "weak_order lt"
  shows "lt a b \<Longrightarrow> \<not> lt b a"
    and "\<not> lt a b \<Longrightarrow> \<not> lt b c \<Longrightarrow> \<not> lt a c"
  using assms unfolding weak_order_def by blast+

lemma weak_order_key: "weak_order (\<lambda>x y. f x < (f y :: 'b :: linorder))"
  by (auto simp: weak_order_def)

lemma sorted_go_insert:
  assumes w: "weak_order lt" and s: "sorted_wrt (\<lambda>a b. \<not> lt a b) ys"
  shows "sorted_wrt (\<lambda>a b. \<not> lt a b) (go_insert lt x ys)"
  using s
proof (induction ys)
  case Nil
  then show ?case by simp
next
  case (Cons y ys)
  show ?case
  proof (cases "lt x y")
    case True
    then have "\<not> lt y x" by (rule weak_orderD(1) [OF w])
    with True Cons show ?thesis by (simp add: set_go_insert)
  next
    case False
    then have "\<forall>z \<in> set ys. \<not> lt x z"
      using Cons.prems weak_orderD(2) [OF w False] by simp
    with False Cons.prems show ?thesis by simp
  qed
qed

lemma sorted_sort_slice:
  assumes w: "weak_order lt"
  shows "sorted_wrt (\<lambda>a b. \<not> lt b a) (sort_slice lt xs)"
proof -
  have "sorted_wrt (\<lambda>a b. \<not> lt a b) (fold (go_insert lt) xs ys)"
    if "sorted_wrt (\<lambda>a b. \<not> lt a b) ys" for ys
    using that by (induction xs arbitrary: ys) (auto intro: sorted_go_insert [OF w])
  from this [of "[]"] show ?thesis
    by (simp add: sort_slice_def sorted_wrt_rev)
qed

end
