(* ===== verification/Go_Json.thy ===== *)
theory Go_Json
  imports Prelude
begin

text \<open>
  JSON documents, as encoding/json reads and writes them, and the Go values of type interface
  that a decoded document gives: null, bool, number, string, array, object.  A byte slice that
  holds JSON is modelled by the document it denotes, bytes that are no JSON by None.  Numbers are
  integers: the program's documents hold no others where it reads them back.
  An object is an association list; encoding/json writes the fields of a struct in the order
  of their declaration and drops an omitempty field that has the zero value.
\<close>

datatype json =
    JNull
  | JBool bool
  | JNum int
  | JStr string
  | JArr "json list"
  | JObj "(string \<times> json) list"

type_synonym jobj = "(string \<times> json) list"
type_synonym doc = "json option"

section \<open>Encoding with omitempty\<close>

definition omit_str :: "string \<Rightarrow> string \<Rightarrow> jobj" where
  "omit_str k s = (if s = '''' then [] else [(k, JStr s)])"

definition omit_bool :: "string \<Rightarrow> bool \<Rightarrow> jobj" where
  "omit_bool k b = (if b then [(k, JBool b)] else [])"

definition omit_int :: "string \<Rightarrow> int \<Rightarrow> jobj" where
  "omit_int k n = (if n = 0 then [] else [(k, JNum n)])"

definition omit_list :: "string \<Rightarrow> ('a \<Rightarrow> json) \<Rightarrow> 'a list \<Rightarrow> jobj" where
  "omit_list k enc xs = (if xs = [] then [] else [(k, JArr (map enc xs))])"

definition omit_ptr :: "string \<Rightarrow> ('a \<Rightarrow> json) \<Rightarrow> 'a option \<Rightarrow> jobj" where
  "omit_ptr k enc p = (case p of None \<Rightarrow> [] | Some x \<Rightarrow> [(k, enc x)])"

definition enc_strmap :: "strmap \<Rightarrow> json" where
  "enc_strmap m = JObj (map (\<lambda>(k, v). (k, JStr v)) m)"

definition omit_strmap :: "string \<Rightarrow> strmap \<Rightarrow> jobj" where
  "omit_strmap k m = (if m = [] then [] else [(k, enc_strmap m)])"

section \<open>Decoding\<close>

text \<open>
  A missing key and a null leave the zero value; a value of another type is an error (None).
\<close>

definition dec_str :: "jobj \<Rightarrow> string \<Rightarrow> string option" where
  "dec_str obj k = (case mget obj k of
     None \<Rightarrow> Some '''' | Some JNull \<Rightarrow> Some '''' | Some (JStr s) \<Rightarrow> Some s | Some _ \<Rightarrow> None)"

definition dec_bool :: "jobj \<Rightarrow> string \<Rightarrow> bool option" where
  "dec_bool obj k = (case mget obj k of
     None \<Rightarrow> Some False | Some JNull \<Rightarrow> Some False | Some (JBool b) \<Rightarrow> Some b | Some _ \<Rightarrow> None)"

definition dec_int :: "jobj \<Rightarrow> string \<Rightarrow> int option" where
  "dec_int obj k = (case mget obj k of
     None \<Rightarrow> Some 0 | Some JNull \<Rightarrow> Some 0 | Some (JNum n) \<Rightarrow> Some n | Some _ \<Rightarrow> None)"

definition dec_strptr :: "jobj \<Rightarrow> string \<Rightarrow> string option option" where
  "dec_strptr obj k = (case mget obj k of
     None \<Rightarrow> Some None | Some JNull \<Rightarrow> Some None | Some (JStr s) \<Rightarrow> Some (Some s) | Some _ \<Rightarrow> None)"

definition dec_boolptr :: "jobj \<Rightarrow> string \<Rightarrow> bool option option" where
  "dec_boolptr obj k = (case mget obj k of
     None \<Rightarrow> Some None | Some JNull \<Rightarrow> Some None | Some (JBool b) \<Rightarrow> Some (Some b) | Some _ \<Rightarrow> None)"

definition dec_string :: "json \<Rightarrow> string option" where
  "dec_string j = (case j of JStr s \<Rightarrow> Some s | JNull \<Rightarrow> Some '''' | _ \<Rightarrow> None)"

definition dec_list :: "jobj \<Rightarrow> string \<Rightarrow> (json \<Rightarrow> 'a option) \<Rightarrow> 'a list option" where
  "dec_list obj k dec = (case mget obj k of
     None \<Rightarrow> Some [] | Some JNull \<Rightarrow> Some [] | Some (JArr js) \<Rightarrow> those (map dec js) | Some _ \<Rightarrow> None)"

definition dec_ptr :: "jobj \<Rightarrow> string \<Rightarrow> (json \<Rightarrow> 'a option) \<Rightarrow> 'a option option" where
  "dec_ptr obj k dec = (case mget obj k of
     None \<Rightarrow> Some None | Some JNull \<Rightarrow> Some None | Some j \<Rightarrow> map_option Some (dec j))"

definition dec_strmap :: "jobj \<Rightarrow> string \<Rightarrow> strmap option" where
  "dec_strmap obj k = (case mget obj k of
     None \<Rightarrow> Some [] | Some JNull \<Rightarrow> Some []
   | Some (JObj kvs) \<Rightarrow> those (map (\<lambda>(k', j). map_option (Pair k') (dec_string j)) kvs)
   | Some _ \<Rightarrow> None)"

text \<open>Unmarshal into a slice, with the decoder of the element type.\<close>

definition unmarshal_list :: "(json \<Rightarrow> 'a option) \<Rightarrow> doc \<Rightarrow> 'a list option" where
  "unmarshal_list dec d = (case d of
     Some JNull \<Rightarrow> Some [] | Some (JArr js) \<Rightarrow> those (map dec js) | _ \<Rightarrow> None)"

section \<open>Lemmas\<close>

named_theorems json_omit \<open>lookups in an object written with omitempty\<close>

lemma those_map_Some [simp]: "those (map Some xs) = Some xs"
  by (induction xs) auto

lemma those_map_inv:
  assumes "\<And>x. x \<in> set xs \<Longrightarrow> dec (enc x) = Some x"
  shows "those (map (dec \<circ> enc) xs) = Some xs"
  using assms by (induction xs) auto

lemma those_Some_length: "those xs = Some ys \<Longrightarrow> length ys = length xs"
  by (induction xs arbitrary: ys) (auto split: option.splits)

lemma those_Some_nth: "those xs = Some ys \<Longrightarrow> xs = map Some ys"
  by (induction xs arbitrary: ys) (auto split: option.splits)

lemma those_None_iff: "those xs = None \<longleftrightarrow> None \<in> set xs"
  by (induction xs) (auto split: option.splits)

lemma mget_append: "mget (xs @ ys) k = (case mget xs k of Some v \<Rightarrow> Some v | None \<Rightarrow> mget ys k)"
  by (simp add: map_add_def)

lemma mget_omit_str [json_omit]:
  "mget (omit_str k s) k' = (if k' = k \<and> s \<noteq> '''' then Some (JStr s) else None)"
  by (simp add: omit_str_def)

lemma mget_omit_bool [json_omit]:
  "mget (omit_bool k b) k' = (if k' = k \<and> b then Some (JBool b) else None)"
  by (simp add: omit_bool_def)

lemma mget_omit_int [json_omit]:
  "mget (omit_int k n) k' = (if k' = k \<and> n \<noteq> 0 then Some (JNum n) else None)"
  by (simp add: omit_int_def)

lemma mget_omit_list [json_omit]:
  "mget (omit_list k enc xs) k' = (if k' = k \<and> xs \<noteq> [] then Some (JArr (map enc xs)) else None)"
  by (simp add: omit_list_def)

lemma mget_omit_ptr [json_omit]:
  "mget (omit_ptr k enc p) k' = (if k' = k then map_option enc p else None)"
  by (simp add: omit_ptr_def split: option.splits)

lemma mget_omit_strmap [json_omit]:
  "mget (omit_strmap k m) k' = (if k' = k \<and> m \<noteq> [] then Some (enc_strmap m) else None)"
  by (simp add: omit_strmap_def)

lemma those_enc_strmap:
  "those (map (\<lambda>(k', j). map_option (Pair k') (dec_string j)) (map (\<lambda>(k, v). (k, JStr v)) m)) = Some m"
  by (induction m) (auto simp: dec_string_def)

end
