(* ===== verification/Utils.thy ===== *)
theory Utils
  imports Go_Json
begin

text \<open>
  pkg/utils/utils.go: the slice and map helpers every component calls, the emptiness test by
  reflection, and the conversions between structs and maps that go through JSON.
\<close>

section \<open>Slices\<close>

text \<open>
  ArrayFinds returns the index and the element of the first match; None stands for
  (-1, false, zero value).
\<close>

fun ArrayFinds :: "'a list \<Rightarrow> ('a \<Rightarrow> bool) \<Rightarrow> (nat \<times> 'a) option" where
  "ArrayFinds [] f = None"
| "ArrayFinds (t # ts) f =
     (if f t then Some (0, t) else map_option (\<lambda>(i, v). (Suc i, v)) (ArrayFinds ts f))"

definition ArrayFind :: "string \<Rightarrow> string list \<Rightarrow> nat option" where
  "ArrayFind s sub = map_option fst (ArrayFinds sub (\<lambda>m. s = m))"

fun ArrayFilter :: "'a list \<Rightarrow> ('a \<Rightarrow> bool) \<Rightarrow> 'a list \<times> 'a list" where
  "ArrayFilter [] f = ([], [])"
| "ArrayFilter (v # vs) f =
     (let (wh, notWh) = ArrayFilter vs f in if f v then (v # wh, notWh) else (wh, v # notWh))"

fun dedup_loop :: "string list \<Rightarrow> string list \<Rightarrow> string list" where
  "dedup_loop [] newSub = newSub"
| "dedup_loop (s # ss) newSub =
     dedup_loop ss (if ArrayFind s newSub = None then newSub @ [s] else newSub)"

definition ArrayDeduplication :: "string list \<Rightarrow> string list" where
  "ArrayDeduplication sub = dedup_loop sub []"

text \<open>
  SliceRemove switches on the dynamic type of its argument; the result None is the nil interface.
\<close>

datatype slice_arg = StringSlice "string list" | IntSlice "int list" | OtherArg

fun SliceRemove :: "string \<Rightarrow> slice_arg \<Rightarrow> string list option" where
  "SliceRemove s (StringSlice t) =
     Some (case ArrayFind s t of Some i \<Rightarrow> take i t @ drop (i + 1) t | None \<Rightarrow> t)"
| "SliceRemove s (IntSlice t) = None"
| "SliceRemove s OtherArg = None"

definition BoolToString :: "bool \<Rightarrow> string" where
  "BoolToString b = (if b then ''true'' else ''false'')"

definition StringToBool :: "string \<Rightarrow> bool" where
  "StringToBool b = (b = ''true'')"

section \<open>The emptiness test\<close>

text \<open>
  IsEmptyValue switches on the reflect kind of its argument: one constructor per kind the switch
  names (with what the switch reads of the value), VOther for the kinds of the default branch.
\<close>

datatype go_val =
    VNil | VString string | VSlice nat | VMap nat | VPtr bool | VStruct bool | VBool bool
  | VInt int | VUint nat | VFloatZero bool | VOther

fun IsEmptyValue :: "go_val \<Rightarrow> bool" where
  "IsEmptyValue VNil = True"
| "IsEmptyValue (VString s) = (length (trim_space s) = 0)"
| "IsEmptyValue (VSlice len) = (len = 0)"
| "IsEmptyValue (VMap len) = (len = 0)"
| "IsEmptyValue (VPtr isNil) = isNil"
| "IsEmptyValue (VStruct isZero) = isZero"
| "IsEmptyValue (VBool b) = (\<not> b)"
| "IsEmptyValue (VInt n) = (n = 0)"
| "IsEmptyValue (VUint n) = (n = 0)"
| "IsEmptyValue (VFloatZero isZero) = isZero"
| "IsEmptyValue VOther = False"

text \<open>The kinds of the values a decoded document holds.\<close>

fun json_val :: "json \<Rightarrow> go_val" where
  "json_val JNull = VNil"
| "json_val (JBool b) = VBool b"
| "json_val (JNum n) = VFloatZero (n = 0)"
| "json_val (JStr s) = VString s"
| "json_val (JArr js) = VSlice (length js)"
| "json_val (JObj kvs) = VMap (length kvs)"

section \<open>Conversions through JSON\<close>

text \<open>
  The argument is the document json.Marshal writes for the object.  A null element of an array
  decodes to a nil map, which reads like the empty one.
\<close>

definition obj_of :: "json \<Rightarrow> jobj option" where
  "obj_of j = (case j of JObj kvs \<Rightarrow> Some kvs | JNull \<Rightarrow> Some [] | _ \<Rightarrow> None)"

definition ArrayStructToArrayMap :: "json \<Rightarrow> jobj list option" where
  "ArrayStructToArrayMap j = unmarshal_list obj_of (Some j)"

definition StructToMap :: "json \<Rightarrow> jobj option" where
  "StructToMap j = (case j of JObj kvs \<Rightarrow> Some kvs | _ \<Rightarrow> None)"

definition MapToStruct :: "(json \<Rightarrow> 'a option) \<Rightarrow> jobj list \<Rightarrow> 'a list" where
  "MapToStruct dec maps = (case those (map (dec \<circ> JObj) maps) of None \<Rightarrow> [] | Some ts \<Rightarrow> ts)"

section \<open>Maps\<close>

fun merge_into :: "('k, 'v) gomap \<Rightarrow> ('k, 'v) gomap \<Rightarrow> ('k, 'v) gomap" where
  "merge_into res [] = res"
| "merge_into res ((k, v) # m) = merge_into (mput res k v) m"

definition MergeMap :: "('k, 'v) gomap list \<Rightarrow> ('k, 'v) gomap" where
  "MergeMap ms = fold (\<lambda>m res. merge_into res m) ms []"

text \<open>The type assertion v.(string) panics on another dynamic type.\<close>

definition as_string :: "json \<Rightarrow> string option" where
  "as_string j = (case j of JStr s \<Rightarrow> Some s | _ \<Rightarrow> None)"

definition MapValConvert :: "jobj \<Rightarrow> strmap option" where
  "MapValConvert m = those (map (\<lambda>(k, j). map_option (Pair k) (as_string j)) m)"

definition ArrayValConvert :: "json list \<Rightarrow> string list option" where
  "ArrayValConvert js = those (map as_string js)"

definition DeepCopyMap :: "('k, 'v) gomap option \<Rightarrow> ('k, 'v) gomap option" where
  "DeepCopyMap m = map_option (merge_into []) m"

section \<open>Lemmas\<close>

named_theorems arr_find \<open>what the search helpers return\<close>

lemma ArrayFinds_None [arr_find]: "ArrayFinds xs f = None \<longleftrightarrow> (\<forall>x \<in> set xs. \<not> f x)"
  by (induction xs) auto

lemma ArrayFinds_Some:
  "ArrayFinds xs f = Some (i, v) \<longleftrightarrow> i < length xs \<and> v = xs ! i \<and> f v \<and> (\<forall>j < i. \<not> f (xs ! j))"
proof (induction xs arbitrary: i)
  case Nil
  then show ?case by simp
next
  case (Cons x xs)
  show ?case
  proof (cases i)
    case 0
    then show ?thesis by (auto split: prod.splits)
  next
    case (Suc k)
    have "(\<forall>j < Suc k. \<not> f ((x # xs) ! j)) \<longleftrightarrow> \<not> f x \<and> (\<forall>j < k. \<not> f (xs ! j))"
      by (auto simp: less_Suc_eq_0_disj)
    with Suc Cons.IH [of k] show ?thesis by (auto split: prod.splits)
  qed
qed

lemma ArrayFinds_find: "map_option snd (ArrayFinds xs f) = find f xs"
  by (induction xs) (auto simp: option.map_comp comp_def case_prod_unfold)

lemma ArrayFind_None [arr_find]: "ArrayFind s xs = None \<longleftrightarrow> s \<notin> set xs"
  by (auto simp: ArrayFind_def ArrayFinds_None)

lemma ArrayFind_not_None [arr_find]: "ArrayFind s xs \<noteq> None \<longleftrightarrow> s \<in> set xs"
  by (simp only: ArrayFind_None simp_thms)

lemma ArrayFilter_eq [simp]: "ArrayFilter xs f = (filter f xs, filter (\<lambda>x. \<not> f x) xs)"
  by (induction xs) auto

lemma take_drop_remove1:
  "ArrayFind s xs = Some i \<Longrightarrow> take i xs @ drop (i + 1) xs = remove1 s xs"
proof (induction xs arbitrary: i)
  case Nil
  then show ?case by (simp add: ArrayFind_def)
next
  case (Cons x xs)
  show ?case
  proof (cases "s = x")
    case True
    with Cons.prems show ?thesis by (simp add: ArrayFind_def)
  next
    case False
    with Cons.prems obtain k where "ArrayFind s xs = Some k" and "i = Suc k"
      by (auto simp: ArrayFind_def)
    with Cons.IH [of k] False show ?thesis by simp
  qed
qed

lemma SliceRemove_strings [simp]: "SliceRemove s (StringSlice xs) = Some (remove1 s xs)"
proof (cases "ArrayFind s xs")
  case None
  then have "s \<notin> set xs" by (simp add: ArrayFind_None)
  with None show ?thesis by (simp add: remove1_idem)
next
  case (Some i)
  then show ?thesis using take_drop_remove1 [OF Some] by simp
qed

declare SliceRemove.simps(1) [simp del]

lemma dedup_loop_props:
  "distinct acc \<Longrightarrow> distinct (dedup_loop xs acc) \<and> set (dedup_loop xs acc) = set acc \<union> set xs"
proof (induction xs arbitrary: acc)
  case Nil
  then show ?case by simp
next
  case (Cons x xs)
  then show ?case
    by (cases "x \<in> set acc") (auto simp: ArrayFind_None)
qed

lemma ArrayDeduplication_props:
  "distinct (ArrayDeduplication xs) \<and> set (ArrayDeduplication xs) = set xs"
  using dedup_loop_props [of "[]" xs] by (simp add: ArrayDeduplication_def)

lemma StringToBool_BoolToString [simp]: "StringToBool (BoolToString b) = b"
  by (simp add: StringToBool_def BoolToString_def)

lemma IsEmptyValue_VString [simp]: "IsEmptyValue (VString s) = blank s"
  by (simp add: blank_def)

declare IsEmptyValue.simps(2) [simp del]

lemma mget_merge_into:
  assumes "wf_map m"
  shows "mget (merge_into res m) k = (case mget m k of Some v \<Rightarrow> Some v | None \<Rightarrow> mget res k)"
  using assms
proof (induction res m rule: merge_into.induct)
  case (1 res)
  then show ?case by simp
next
  case (2 res k' v m)
  then have "wf_map m" and "mget m k' = None"
    by (auto simp: wf_map_def map_of_eq_None_iff image_iff)
  with 2 show ?case by (auto simp: go_map split: option.splits)
qed

lemma wf_merge_into [simp, intro]: "wf_map res \<Longrightarrow> wf_map (merge_into res m)"
  by (induction res m rule: merge_into.induct) auto

lemma mget_MergeMap2 [go_map]:
  assumes "wf_map m1" and "wf_map m2"
  shows "mget (MergeMap [m1, m2]) k = (case mget m2 k of Some v \<Rightarrow> Some v | None \<Rightarrow> mget m1 k)"
  using assms by (simp add: MergeMap_def mget_merge_into split: option.splits)

lemma wf_MergeMap [simp, intro]: "wf_map (MergeMap ms)"
proof -
  have "wf_map res \<Longrightarrow> wf_map (fold (\<lambda>m res. merge_into res m) ms res)" for res
    by (induction ms arbitrary: res) auto
  then show ?thesis by (simp add: MergeMap_def)
qed

lemma merge_into_append: "wf_map (res @ m) \<Longrightarrow> merge_into res m = res @ m"
proof (induction res m rule: merge_into.induct)
  case (1 res)
  then show ?case by simp
next
  case (2 res k v m)
  then have k: "k \<notin> fst ` set res" by (auto simp: wf_map_def)
  then have "mput res k v = res @ [(k, v)]" by (induction res) auto
  with 2 show ?case by (simp add: wf_map_def)
qed

lemma DeepCopyMap_id: "wf_map m \<Longrightarrow> DeepCopyMap (Some m) = Some m"
  by (simp add: DeepCopyMap_def merge_into_append)

lemma MergeMap_right_Nil: "wf_map m \<Longrightarrow> MergeMap [m, []] = m"
  by (simp add: MergeMap_def merge_into_append)

lemma MapToStruct_single: "MapToStruct dec [m] = (case dec (JObj m) of None \<Rightarrow> [] | Some t \<Rightarrow> [t])"
  by (simp add: MapToStruct_def split: option.splits)

end
