(* ===== verification/Go_Time.thy ===== *)
theory Go_Time
  imports Prelude
begin

text \<open>
  Instants and durations of Go's package time.  An instant counts the nanoseconds since the zero
  time (January 1 of year 1), so the zero time is Time 0; a pointer to a time is an option.  The
  type is ordered by Before.  Durations are int64 nanoseconds: Sub saturates, as Go's does.
  ParseDuration is the parser of the standard library, with the fraction of a component taken
  exactly where Go rounds it in float64.
\<close>

datatype time = Time (nanos: int)

instantiation time :: linorder
begin

definition less_eq_time :: "time \<Rightarrow> time \<Rightarrow> bool" where
  "less_eq_time t u \<longleftrightarrow> nanos t \<le> nanos u"

definition less_time :: "time \<Rightarrow> time \<Rightarrow> bool" where
  "less_time t u \<longleftrightarrow> nanos t < nanos u"

instance
  by standard (auto simp: less_eq_time_def less_time_def time.expand)

end

definition time_zero :: time where
  "time_zero = Time 0"

definition time_add :: "time \<Rightarrow> int \<Rightarrow> time" where
  "time_add t d = Time (nanos t + d)"

definition time_sub :: "time \<Rightarrow> time \<Rightarrow> int" where
  "time_sub t u = max min_int64 (min max_int64 (nanos t - nanos u))"

text \<open>IsZero and Before on pointers to a time: nil is zero, and nil is before nothing.\<close>

definition is_zero :: "time option \<Rightarrow> bool" where
  "is_zero t \<longleftrightarrow> t = None \<or> t = Some time_zero"

definition time_before :: "time option \<Rightarrow> time option \<Rightarrow> bool" where
  "time_before t u = (case (t, u) of (Some a, Some b) \<Rightarrow> a < b | _ \<Rightarrow> False)"

definition millisecond :: int where
  "millisecond = 1000000"

definition second :: int where
  "second = 1000000000"

definition minute :: int where
  "minute = 60 * second"

lemma time_less_iff [simp]: "Time a < Time b \<longleftrightarrow> a < b"
  by (simp add: less_time_def)

lemma nanos_time_add [simp]: "nanos (time_add t d) = nanos t + d"
  by (simp add: time_add_def)

lemma time_add_less [simp]: "time_add t d < u \<longleftrightarrow> nanos t + d < nanos u"
  by (simp add: less_time_def)

lemma time_sub_small:
  "min_int64 \<le> nanos t - nanos u \<Longrightarrow> nanos t - nanos u \<le> max_int64 \<Longrightarrow> time_sub t u = nanos t - nanos u"
  by (simp add: time_sub_def)

lemma weak_order_before: "weak_order (\<lambda>x y. (f x :: time) < f y)"
  by (rule weak_order_key)

section \<open>ParseDuration\<close>

definition dur_unit :: "string \<Rightarrow> int option" where
  "dur_unit u =
     (if u = ''ns'' then Some 1
      else if u = ''us'' \<or> u = [char_of (194::nat), char_of (181::nat), CHR ''s'']
           \<or> u = [char_of (206::nat), char_of (188::nat), CHR ''s''] then Some 1000
      else if u = ''ms'' then Some 1000000
      else if u = ''s'' then Some second
      else if u = ''m'' then Some (60 * second)
      else if u = ''h'' then Some (3600 * second)
      else None)"

definition num_char :: "char \<Rightarrow> bool" where
  "num_char c = (is_digit c \<or> c = CHR ''.'')"

text \<open>One number with its unit after another; d is the sum so far, in nanoseconds.\<close>

function dur_loop :: "string \<Rightarrow> int \<Rightarrow> int option" where
  "dur_loop s d =
     (if s = [] then Some d
      else if \<not> num_char (hd s) then None
      else
        let ip = takeWhile is_digit s;
            r1 = dropWhile is_digit s;
            v = int (digits_val ip);
            dot = (r1 \<noteq> [] \<and> hd r1 = CHR ''.'');
            fp = (if dot then takeWhile is_digit (tl r1) else []);
            r2 = (if dot then dropWhile is_digit (tl r1) else r1);
            u = takeWhile (\<lambda>c. \<not> num_char c) r2;
            r3 = dropWhile (\<lambda>c. \<not> num_char c) r2
        in if 9223372036854775808 < v then None
           else if ip = [] \<and> fp = [] then None
           else if u = [] then None
           else (case dur_unit u of
               None \<Rightarrow> None
             | Some unit \<Rightarrow>
                 if 9223372036854775808 div unit < v then None
                 else let v' = v * unit + int (digits_val fp) * unit div 10 ^ length fp
                      in if 9223372036854775808 < v' \<or> 9223372036854775808 < d + v' then None
                         else dur_loop r3 (d + v')))"
  by pat_completeness auto
termination
proof (relation "measure (\<lambda>(s, d). length s)", goal_cases)
  case 1
  show ?case by simp
next
  case (2 s d ip r1 v dot fp r2 u r3 unit v')
  have "length r2 \<le> length s"
    using 2(3,4,6,8) length_dropWhile_le [of is_digit s] length_dropWhile_le [of is_digit "tl r1"]
    by (auto split: if_splits)
  moreover have "length r2 = length u + length r3"
    using 2(9,10) by (metis length_append takeWhile_dropWhile_id)
  moreover have "0 < length u" using 2(13) by simp
  ultimately have "length r3 < length s" by linarith
  then show ?case by simp
qed

declare dur_loop.simps [simp del]

definition ParseDuration :: "string \<Rightarrow> int option" where
  "ParseDuration s =
     (let signed = (s \<noteq> [] \<and> (hd s = CHR ''-'' \<or> hd s = CHR ''+''));
          neg = (s \<noteq> [] \<and> hd s = CHR ''-'');
          body = (if signed then tl s else s)
      in if body = ''0'' then Some 0
         else if body = [] then None
         else (case dur_loop body 0 of
             None \<Rightarrow> None
           | Some d \<Rightarrow> if neg then Some (- d) else if max_int64 < d then None else Some d))"

lemma ParseDuration_10m: "ParseDuration ''10m'' = Some (10 * minute)"
  by code_simp

end
