(* ===== verification/Constants.thy ===== *)
theory Constants
  imports Go_Time
begin

text \<open>
  pkg/constant/constant.go and pkg/conf/conf.go: the names the program shares with the cluster,
  the configuration of the manager (KubeEyeConfig) and the choice of a cluster's job settings.
  Data, Prometheus and some resource names carry a prefix or suffix here (constData,
  PrometheusType, confNodes), because the plain name is taken.
\<close>

section \<open>pkg/constant\<close>

definition AuditorServiceAddrConfigMap :: string where
  [simp]: "AuditorServiceAddrConfigMap = ''auditor-service-addr''"

definition DefaultNamespace :: string where
  [simp]: "DefaultNamespace = ''kubeeye-system''"

definition BaseFilePrefix :: string where
  [simp]: "BaseFilePrefix = ''kubeeye-base-file''"

definition Opa :: string where
  [simp]: "Opa = ''opa''"

definition FileChange :: string where
  [simp]: "FileChange = ''filechange''"

definition PrometheusType :: string where
  [simp]: "PrometheusType = ''promQL''"

definition BaseFile :: string where
  [simp]: "BaseFile = ''basefile''"

definition constData :: string where
  [simp]: "constData = ''data''"

definition Sysctl :: string where
  [simp]: "Sysctl = ''sysctl''"

definition Systemd :: string where
  [simp]: "Systemd = ''systemd''"

definition FileFilter :: string where
  [simp]: "FileFilter = ''filefilter''"

definition ServiceConnect :: string where
  [simp]: "ServiceConnect = ''serviceconnect''"

definition Component :: string where
  [simp]: "Component = ''component''"

definition CustomCommand :: string where
  [simp]: "CustomCommand = ''customcommand''"

definition NodeInfo :: string where
  [simp]: "NodeInfo = ''nodeinfo''"

definition NodesStatus :: string where
  [simp]: "NodesStatus = ''nodes status''"

definition AbnormalPods :: string where
  [simp]: "AbnormalPods = ''abnormal pods''"

definition NodeStatsSummary :: string where
  [simp]: "NodeStatsSummary = ''NodeStatsSummary''"

definition Cpu :: string where
  [simp]: "Cpu = ''cpu''"

definition Memory :: string where
  [simp]: "Memory = ''memory''"

definition Filesystem :: string where
  [simp]: "Filesystem = ''filesystem''"

definition LoadAvg :: string where
  [simp]: "LoadAvg = ''loadavg''"

definition Inode :: string where
  [simp]: "Inode = ''inode''"

definition LabelName :: string where
  [simp]: "LabelName = ''kubeeye.kubesphere.io/name''"

definition LabelPlanName :: string where
  [simp]: "LabelPlanName = ''kubeeye.kubesphere.io/plan-name''"

definition LabelRuleType :: string where
  [simp]: "LabelRuleType = ''kubeeye.kubesphere.io/rule-type''"

definition LabelTaskName :: string where
  [simp]: "LabelTaskName = ''kubeeye.kubesphere.io/task-name''"

definition LabelNodeName :: string where
  [simp]: "LabelNodeName = ''kubeeye.kubesphere.io/node-name''"

definition LabelConfigType :: string where
  [simp]: "LabelConfigType = ''kubeeye.kubesphere.io/config-type''"

definition LabelRuleGroup :: string where
  [simp]: "LabelRuleGroup = ''kubeeye.kubesphere.io/rule-group''"

definition LabelInspectRuleGroup :: string where
  [simp]: "LabelInspectRuleGroup = ''kubeeye.kubesphere.io/inspect-rule-group''"

definition LabelSystemWorkspace :: string where
  [simp]: "LabelSystemWorkspace = ''kubesphere.io/workspace''"

definition AnnotationStartTime :: string where
  [simp]: "AnnotationStartTime = ''kubeeye.kubesphere.io/task-start-time''"

definition AnnotationEndTime :: string where
  [simp]: "AnnotationEndTime = ''kubeeye.kubesphere.io/task-end-time''"

definition AnnotationInspectPolicy :: string where
  [simp]: "AnnotationInspectPolicy = ''kubeeye.kubesphere.io/task-inspect-policy''"

definition AnnotationJoinPlanNum :: string where
  [simp]: "AnnotationJoinPlanNum = ''kubeeye.kubesphere.io/join-plan-num''"

definition AnnotationJoinRuleNum :: string where
  [simp]: "AnnotationJoinRuleNum = ''kubeeye.kubesphere.io/join-rule-num''"

definition AnnotationDescription :: string where
  [simp]: "AnnotationDescription = ''kubeeye.kubesphere.io/description''"

definition AnnotationInspectType :: string where
  [simp]: "AnnotationInspectType = ''kubeeye.kubesphere.io/inspect-type''"

definition AnnotationInspectIgnore :: string where
  [simp]: "AnnotationInspectIgnore = ''kubeeye.kubesphere.io/inspect-ignore''"

definition ProcPathPrefix :: string where
  [simp]: "ProcPathPrefix = ''/hosts/proc''"

definition RootPathPrefix :: string where
  [simp]: "RootPathPrefix = ''/hosts/root''"

definition ResultPathPrefix :: string where
  [simp]: "ResultPathPrefix = ''/kubeeye/data''"

definition DefaultTimeout :: int where
  "DefaultTimeout = 10 * minute"

definition SystemNamespaces :: "string list" where
  "SystemNamespaces =
     [''kubeeye-system'', ''kubesphere-system'', ''kubesphere-logging-system'',
      ''kubesphere-monitoring-system'', ''openpitrix-system'', ''kube-system'', ''istio-system'',
      ''kubesphere-devops-system'', ''porter-system'']"

section \<open>pkg/conf\<close>

definition AppsGroup :: string where
  [simp]: "AppsGroup = ''apps''"

definition NoGroup :: string where
  [simp]: "NoGroup = ''''"

definition BatchGroup :: string where
  [simp]: "BatchGroup = ''batch''"

definition RoleGroup :: string where
  [simp]: "RoleGroup = ''rbac.authorization.k8s.io''"

definition APIVersionV1 :: string where
  [simp]: "APIVersionV1 = ''v1''"

definition confNodes :: string where
  [simp]: "confNodes = ''nodes''"

definition confDeployments :: string where
  [simp]: "confDeployments = ''deployments''"

definition confPods :: string where
  [simp]: "confPods = ''pods''"

definition confDaemonsets :: string where
  [simp]: "confDaemonsets = ''daemonsets''"

definition confStatefulsets :: string where
  [simp]: "confStatefulsets = ''statefulsets''"

definition confJobs :: string where
  [simp]: "confJobs = ''jobs''"

definition confCronjobs :: string where
  [simp]: "confCronjobs = ''cronjobs''"

definition confNamespaces :: string where
  [simp]: "confNamespaces = ''namespaces''"

definition confEvents :: string where
  [simp]: "confEvents = ''events''"

definition confRoles :: string where
  [simp]: "confRoles = ''roles''"

definition confClusterroles :: string where
  [simp]: "confClusterroles = ''clusterroles''"

definition confGroup :: string where
  [simp]: "confGroup = ''kubeeyeplugins.kubesphere.io''"

definition confVersion :: string where
  [simp]: "confVersion = ''v1alpha1''"

definition confResource :: string where
  [simp]: "confResource = ''pluginsubscriptions''"

definition KubeeyeNameSpace :: string where
  [simp]: "KubeeyeNameSpace = ''kubeeye-system''"

definition PluginInstalled :: string where
  [simp]: "PluginInstalled = ''installed''"

definition PluginPause :: string where
  [simp]: "PluginPause = ''pause''"

definition PluginInstalling :: string where
  [simp]: "PluginInstalling = ''installing''"

definition PluginUninstalled :: string where
  [simp]: "PluginUninstalled = ''uninstalled''"

definition AlarmMessage :: string where
  [simp]: "AlarmMessage = ''alarm''"

definition EmailMessage :: string where
  [simp]: "EmailMessage = ''email''"

definition CompleteMode :: string where
  [simp]: "CompleteMode = ''complete''"

definition AbnormalMode :: string where
  [simp]: "AbnormalMode = ''abnormal''"

record ImageConfig =
  ic_Image :: string
  ic_ImagePullPolicy :: string

text \<open>
  JobConfig embeds an ImageConfig; its resource requirements are an opaque document.  A nil
  MultiCluster map is None.
\<close>

record JobConfig = ImageConfig +
  jc_BackLimit :: "int option"
  jc_Resources :: string
  jc_AutoDelTime :: "int option"
  jc_MultiCluster :: "(string, ImageConfig) gomap option"

record EmailConfig =
  ec_Address :: string
  ec_Port :: int
  ec_Fo :: string
  ec_To :: "string list"
  ec_SecretKey :: string

record MessageConfig =
  mc_Enable :: bool
  mc_Type :: string
  mc_Mode :: string
  mc_Email :: EmailConfig

record KubeEyeConfig =
  kc_Job :: "JobConfig option"
  kc_Message :: "MessageConfig option"

record MessageEvent =
  me_Title :: string
  me_Content :: string
  me_Timestamp :: time

text \<open>
  GetClusterJobConfig: the cluster's own image settings on a copy of the job configuration.  The
  outer None is the panic on a nil Job, which the first test reads only for another cluster than
  the default one.
\<close>

definition GetClusterJobConfig :: "KubeEyeConfig \<Rightarrow> string \<Rightarrow> JobConfig option option" where
  "GetClusterJobConfig k clusterName =
     (if clusterName = ''default'' then Some (kc_Job k)
      else (case kc_Job k of
          None \<Rightarrow> None
        | Some job \<Rightarrow>
            (case jc_MultiCluster job of
                None \<Rightarrow> Some (Some job)
              | Some clusters \<Rightarrow>
                  (case mget clusters clusterName of
                      None \<Rightarrow> Some (Some job)
                    | Some mc \<Rightarrow>
                        Some (Some (job\<lparr>ic_Image := ic_Image mc,
                          ic_ImagePullPolicy := ic_ImagePullPolicy mc\<rparr>))))))"

lemma ParseDuration_default: "ParseDuration ''10m'' = Some DefaultTimeout"
  by (simp add: ParseDuration_10m DefaultTimeout_def)

end
