(* ===== verification/Api_Types.thy ===== *)
theory Api_Types
  imports Utils Constants
begin

text \<open>
  apis/kubeeye/v1alpha2: the custom resources InspectPlan, InspectTask, InspectRule and
  InspectResult and the structs they are made of, field by field.  A struct embedded in another is
  a field of its type.  A pointer is an option.  A slice is a list; a slice or map the code
  compares with nil is an option, None the nil one.  Of the metadata of Kubernetes objects
  (ObjectMeta, TypeMeta, OwnerReference: library types) the records hold what the program reads or
  writes.
\<close>

section \<open>Object metadata\<close>

record OwnerReference =
  or_APIVersion :: string
  or_Kind :: string
  or_Name :: string
  or_UID :: string
  or_Controller :: bool
  or_BlockOwnerDeletion :: bool

record ObjectMeta =
  om_Name :: string
  om_UID :: string
  om_Labels :: strmap
  om_Annotations :: strmap
  om_Finalizers :: "string list"
  om_CreationTimestamp :: time
  om_DeletionTimestamp :: "time option"
  om_OwnerReferences :: "OwnerReference list"

record TypeMeta =
  tm_Kind :: string
  tm_APIVersion :: string

section \<open>Strings with named values: phases, levels, policies, states\<close>

type_synonym Phase = string
type_synonym Level = string
type_synonym Policy = string
type_synonym RuleState = string

definition PhasePending :: Phase where
  [simp]: "PhasePending = ''Pending''"
definition PhaseRunning :: Phase where
  [simp]: "PhaseRunning = ''Running''"
definition PhaseSucceeded :: Phase where
  [simp]: "PhaseSucceeded = ''Succeeded''"
definition PhaseFailed :: Phase where
  [simp]: "PhaseFailed = ''Failed''"
definition PhaseUnknown :: Phase where
  [simp]: "PhaseUnknown = ''Unknown''"

definition IsEmpty :: "Phase \<Rightarrow> bool" where
  [simp]: "IsEmpty p = (p = '''')"
definition IsPending :: "Phase \<Rightarrow> bool" where
  [simp]: "IsPending p = (p = PhasePending)"
definition IsRunning :: "Phase \<Rightarrow> bool" where
  [simp]: "IsRunning p = (p = PhaseRunning)"
definition IsSucceeded :: "Phase \<Rightarrow> bool" where
  [simp]: "IsSucceeded p = (p = PhaseSucceeded)"
definition IsFailed :: "Phase \<Rightarrow> bool" where
  [simp]: "IsFailed p = (p = PhaseFailed)"
definition IsUnknown :: "Phase \<Rightarrow> bool" where
  [simp]: "IsUnknown p = (p = PhaseUnknown)"

definition DangerLevel :: Level where
  [simp]: "DangerLevel = ''danger''"
definition WarningLevel :: Level where
  [simp]: "WarningLevel = ''warning''"
definition IgnoreLevel :: Level where
  [simp]: "IgnoreLevel = ''ignore''"

definition CyclePolicy :: Policy where
  [simp]: "CyclePolicy = ''cycle''"
definition SinglePolicy :: Policy where
  [simp]: "SinglePolicy = ''single''"
definition InspectTypeTiming :: Policy where
  [simp]: "InspectTypeTiming = ''timing''"
definition InspectTypeInstant :: Policy where
  [simp]: "InspectTypeInstant = ''instant''"

definition StartImport :: RuleState where
  [simp]: "StartImport = ''StartImport''"
definition ImportComplete :: RuleState where
  [simp]: "ImportComplete = ''ImportComplete''"

section \<open>InspectPlan\<close>

record Cluster =
  cl_Name :: string
  cl_Provider :: string

record InspectRuleNames =
  irn_Name :: string
  irn_NodeName :: string
  irn_NodeSelector :: "strmap option"

record InspectPlanSpec =
  ips_Schedule :: "string option"
  ips_Suspend :: bool
  ips_Timeout :: string
  ips_RuleNames :: "InspectRuleNames list"
  ips_MaxTasks :: int
  ips_ClusterName :: "Cluster list option"
  ips_KubeConfig :: string
  ips_Once :: "time option"

record TaskNames =
  tn_Name :: string
  tn_TaskStatus :: Phase

record InspectPlanStatus =
  ipst_LastScheduleTime :: "time option"
  ipst_LastTaskStartTime :: "time option"
  ipst_LastTaskEndTime :: "time option"
  ipst_LastTaskName :: string
  ipst_TaskNames :: "TaskNames list"
  ipst_LastTaskStatus :: Phase
  ipst_NextScheduleTime :: "time option"

record InspectPlan =
  ip_Type :: TypeMeta
  ip_Meta :: ObjectMeta
  ip_Spec :: InspectPlanSpec
  ip_Status :: InspectPlanStatus

section \<open>InspectTask\<close>

record InspectTaskSpec =
  its_ClusterName :: "Cluster list option"
  its_RuleNames :: "InspectRuleNames list"
  its_Timeout :: string
  its_InspectPolicy :: Policy

record ClusterInfo =
  ci_ClusterVersion :: string
  ci_NodesCount :: int
  ci_NamespacesCount :: int

record JobPhase =
  jp_JobName :: string
  jp_Phase :: Phase

text \<open>RunRule holds the JSON of the job's rules.\<close>

record JobRule =
  jr_JobName :: string
  jr_RuleType :: string
  jr_RunRule :: doc

record InspectTaskStatus =
  itst_ClusterInfo :: ClusterInfo
  itst_JobPhase :: "JobPhase list option"
  itst_StartTimestamp :: "time option"
  itst_EndTimestamp :: "time option"
  itst_Duration :: string
  itst_Status :: Phase
  itst_InspectRuleType :: "string list"

record InspectTask =
  it_Type :: TypeMeta
  it_Meta :: ObjectMeta
  it_Spec :: InspectTaskSpec
  it_Status :: InspectTaskStatus

section \<open>InspectRule\<close>

record RuleItemBases =
  ri_Name :: string
  ri_Rule :: string
  ri_Desc :: string
  ri_Level :: Level

record Node =
  nd_NodeName :: "string option"
  nd_NodeSelector :: strmap

record ServiceConnectRule =
  scr_Base :: RuleItemBases
  scr_Namespace :: string
  scr_Workspace :: string

record NodeInfoRule =
  nir_Base :: RuleItemBases
  nir_Node :: Node
  nir_ResourcesType :: string
  nir_Mount :: string

record FileFilterRule =
  ffr_Base :: RuleItemBases
  ffr_Path :: string
  ffr_Node :: Node

record SysRule =
  sr_Base :: RuleItemBases
  sr_Node :: Node

record OpaRule =
  opr_Base :: RuleItemBases
  opr_Module :: string

record PrometheusConfig =
  pc_Endpoint :: string
  pc_BasicToken :: "string option"
  pc_BearerToken :: "string option"
  pc_InsecureSkipVerify :: "bool option"

record PrometheusRule =
  pr_Base :: RuleItemBases
  pr_Prometheus :: "PrometheusConfig option"
  pr_RawDataEnabled :: bool

record FileChangeRule =
  fcr_Base :: RuleItemBases
  fcr_Path :: string
  fcr_Node :: Node

record CustomCommandRule =
  ccr_Base :: RuleItemBases
  ccr_Command :: string
  ccr_Node :: Node

record InspectRuleSpec =
  irs_ComponentExclude :: "string list"
  irs_Opas :: "OpaRule list"
  irs_Prometheus :: "PrometheusConfig option"
  irs_PromQL :: "PrometheusRule list"
  irs_FileChange :: "FileChangeRule list"
  irs_Sysctl :: "SysRule list"
  irs_Systemd :: "SysRule list"
  irs_FileFilter :: "FileFilterRule list"
  irs_CustomCommand :: "CustomCommandRule list"
  irs_NodeInfo :: "NodeInfoRule list"
  irs_ServiceConnect :: "ServiceConnectRule list"

record InspectRuleStatus =
  irst_StartImportTime :: "time option"
  irst_EndImportTime :: "time option"
  irst_State :: RuleState
  irst_LevelCount :: "(Level, int) gomap"

record InspectRule =
  ir_Meta :: ObjectMeta
  ir_Spec :: InspectRuleSpec
  ir_Status :: InspectRuleStatus

definition GetBasicToken :: "PrometheusConfig \<Rightarrow> string" where
  "GetBasicToken p = (case pc_BasicToken p of None \<Rightarrow> '''' | Some t \<Rightarrow> t)"

definition GetBearerToken :: "PrometheusConfig \<Rightarrow> string" where
  "GetBearerToken p = (case pc_BearerToken p of None \<Rightarrow> '''' | Some t \<Rightarrow> t)"

section \<open>InspectResult\<close>

record BaseResult =
  br_Name :: string
  br_Assert :: bool
  br_Level :: Level

record PrometheusResult =
  pmr_Base :: BaseResult
  pmr_Result :: string
  pmr_RawDataEnabled :: bool
  pmr_Rule :: string

record ResourcesType =
  rt_Mount :: string
  rt_Type :: string

record NodeInfoResultItem =
  nri_Base :: BaseResult
  nri_ResourcesType :: ResourcesType
  nri_Value :: string
  nri_NodeName :: string

record FileChangeResultItem =
  fri_Base :: BaseResult
  fri_Issues :: "string list"
  fri_Path :: string
  fri_NodeName :: string

record NodeMetricsResultItem =
  nmi_Base :: BaseResult
  nmi_Value :: "string option"
  nmi_NodeName :: string

record ComponentResultItem =
  cri_Base :: BaseResult

record ServiceConnectResultItem =
  sci_Base :: BaseResult
  sci_Namespace :: string
  sci_Endpoint :: string

record CommandResultItem =
  cmi_Base :: BaseResult
  cmi_Command :: string
  cmi_Value :: string
  cmi_NodeName :: string

record ResultItem =
  rit_Level :: string
  rit_Message :: string
  rit_Reason :: string

record ResourceResult =
  rr_NameSpace :: string
  rr_ResourceType :: string
  rr_Name :: string
  rr_ResultItems :: "ResultItem list"

record ScoreInfo =
  si_Score :: int
  si_Total :: int
  si_Dangerous :: int
  si_Warning :: int
  si_Ignore :: int
  si_Passing :: int

record ExtraInfo =
  ei_WorkloadsCount :: int
  ei_NamespacesList :: "string list"

record KubeeyeOpaResult =
  kor_ScoreInfo :: ScoreInfo
  kor_ResourceResults :: "ResourceResult list"
  kor_Percent :: int
  kor_ExtraInfo :: ExtraInfo

record InspectResultSpec =
  rs_InspectCluster :: Cluster
  rs_InspectRuleTotal :: "(string, int) gomap"
  rs_PrometheusResult :: "PrometheusResult list"
  rs_OpaResult :: KubeeyeOpaResult
  rs_NodeInfo :: "NodeInfoResultItem list"
  rs_FileChangeResult :: "FileChangeResultItem list"
  rs_FileFilterResult :: "FileChangeResultItem list"
  rs_SysctlResult :: "NodeMetricsResultItem list"
  rs_SystemdResult :: "NodeMetricsResultItem list"
  rs_CommandResult :: "CommandResultItem list"
  rs_ComponentResult :: "ComponentResultItem list"
  rs_ServiceConnectResult :: "ServiceConnectResultItem list"

record InspectResultStatus =
  rst_Complete :: bool
  rst_Policy :: Policy
  rst_Duration :: string
  rst_TaskStartTime :: string
  rst_TaskEndTime :: string
  rst_Level :: "(Level, int option) gomap"

record InspectResult =
  res_Meta :: ObjectMeta
  res_Spec :: InspectResultSpec
  res_Status :: InspectResultStatus

section \<open>Zero values\<close>

definition zero_ScoreInfo :: ScoreInfo where
  "zero_ScoreInfo = \<lparr>si_Score = 0, si_Total = 0, si_Dangerous = 0, si_Warning = 0, si_Ignore = 0,
     si_Passing = 0\<rparr>"

definition zero_OpaResult :: KubeeyeOpaResult where
  "zero_OpaResult = \<lparr>kor_ScoreInfo = zero_ScoreInfo, kor_ResourceResults = [], kor_Percent = 0,
     kor_ExtraInfo = \<lparr>ei_WorkloadsCount = 0, ei_NamespacesList = []\<rparr>\<rparr>"

definition empty_meta :: "string \<Rightarrow> ObjectMeta" where
  "empty_meta n = \<lparr>om_Name = n, om_UID = '''', om_Labels = [], om_Annotations = [],
     om_Finalizers = [], om_CreationTimestamp = time_zero, om_DeletionTimestamp = None,
     om_OwnerReferences = []\<rparr>"

definition zero_ResultSpec :: InspectResultSpec where
  "zero_ResultSpec = \<lparr>rs_InspectCluster = \<lparr>cl_Name = '''', cl_Provider = ''''\<rparr>,
     rs_InspectRuleTotal = [], rs_PrometheusResult = [], rs_OpaResult = zero_OpaResult,
     rs_NodeInfo = [], rs_FileChangeResult = [], rs_FileFilterResult = [], rs_SysctlResult = [],
     rs_SystemdResult = [], rs_CommandResult = [], rs_ComponentResult = [],
     rs_ServiceConnectResult = []\<rparr>"

definition zero_ResultStatus :: InspectResultStatus where
  "zero_ResultStatus = \<lparr>rst_Complete = False, rst_Policy = '''', rst_Duration = '''',
     rst_TaskStartTime = '''', rst_TaskEndTime = '''', rst_Level = []\<rparr>"

definition zero_PlanStatus :: InspectPlanStatus where
  "zero_PlanStatus = \<lparr>ipst_LastScheduleTime = None, ipst_LastTaskStartTime = None,
     ipst_LastTaskEndTime = None, ipst_LastTaskName = '''', ipst_TaskNames = [],
     ipst_LastTaskStatus = '''', ipst_NextScheduleTime = None\<rparr>"

definition zero_TaskStatus :: InspectTaskStatus where
  "zero_TaskStatus = \<lparr>itst_ClusterInfo = \<lparr>ci_ClusterVersion = '''', ci_NodesCount = 0,
     ci_NamespacesCount = 0\<rparr>, itst_JobPhase = None, itst_StartTimestamp = None,
     itst_EndTimestamp = None, itst_Duration = '''', itst_Status = '''', itst_InspectRuleType = []\<rparr>"

definition zero_RuleSpec :: InspectRuleSpec where
  "zero_RuleSpec = \<lparr>irs_ComponentExclude = [], irs_Opas = [], irs_Prometheus = None, irs_PromQL = [],
     irs_FileChange = [], irs_Sysctl = [], irs_Systemd = [], irs_FileFilter = [],
     irs_CustomCommand = [], irs_NodeInfo = [], irs_ServiceConnect = []\<rparr>"

definition zero_RuleStatus :: InspectRuleStatus where
  "zero_RuleStatus = \<lparr>irst_StartImportTime = None, irst_EndImportTime = None, irst_State = [],
     irst_LevelCount = []\<rparr>"

end
