(* ===== verification/Api_Codec.thy ===== *)
theory Api_Codec
  imports Api_Types
begin

text \<open>
  The JSON of the rules and of the result items: what encoding/json writes for the structs of
  apis/kubeeye/v1alpha2 with their tags (the keys, the inlined structs, omitempty) and what it
  reads back.  Each pair of functions carries its round trip.  NodeInfoResultItem has a field,
  not an embedded struct, tagged inline: encoding/json knows no inline option, so the field keeps
  its own key ResourcesType.
\<close>

named_theorems codec_simps \<open>unfolding of the encoders and decoders\<close>
named_theorems roundtrips \<open>decoding what was encoded\<close>

section \<open>Parts of rules\<close>

definition enc_RuleItemBases :: "RuleItemBases \<Rightarrow> jobj" where
  "enc_RuleItemBases r = omit_str ''name'' (ri_Name r) @ omit_str ''rule'' (ri_Rule r)
     @ omit_str ''desc'' (ri_Desc r) @ omit_str ''level'' (ri_Level r)"

definition dec_RuleItemBases :: "jobj \<Rightarrow> RuleItemBases option" where
  "dec_RuleItemBases obj = do {
     n \<leftarrow> dec_str obj ''name''; r \<leftarrow> dec_str obj ''rule'';
     d \<leftarrow> dec_str obj ''desc''; l \<leftarrow> dec_str obj ''level'';
     Some \<lparr>ri_Name = n, ri_Rule = r, ri_Desc = d, ri_Level = l\<rparr> }"

definition enc_Node :: "Node \<Rightarrow> jobj" where
  "enc_Node n = omit_ptr ''nodeName'' JStr (nd_NodeName n)
     @ omit_strmap ''nodeSelector'' (nd_NodeSelector n)"

definition dec_Node :: "jobj \<Rightarrow> Node option" where
  "dec_Node obj = do {
     n \<leftarrow> dec_strptr obj ''nodeName''; s \<leftarrow> dec_strmap obj ''nodeSelector'';
     Some \<lparr>nd_NodeName = n, nd_NodeSelector = s\<rparr> }"

definition enc_PrometheusConfig :: "PrometheusConfig \<Rightarrow> json" where
  "enc_PrometheusConfig p = JObj (omit_str ''endpoint'' (pc_Endpoint p)
     @ omit_ptr ''basicToken'' JStr (pc_BasicToken p)
     @ omit_ptr ''bearerToken'' JStr (pc_BearerToken p)
     @ omit_ptr ''insecureSkipVerify'' JBool (pc_InsecureSkipVerify p))"

text \<open>Decoding wants an object; a decoder of a struct fails on every other document but null.\<close>

definition with_obj :: "(jobj \<Rightarrow> 'a option) \<Rightarrow> json \<Rightarrow> 'a option" where
  "with_obj f j = (case j of JObj kvs \<Rightarrow> f kvs | JNull \<Rightarrow> f [] | _ \<Rightarrow> None)"

definition dec_PrometheusConfig :: "json \<Rightarrow> PrometheusConfig option" where
  "dec_PrometheusConfig = with_obj (\<lambda>obj. do {
     e \<leftarrow> dec_str obj ''endpoint''; bt \<leftarrow> dec_strptr obj ''basicToken'';
     br \<leftarrow> dec_strptr obj ''bearerToken''; v \<leftarrow> dec_boolptr obj ''insecureSkipVerify'';
     Some \<lparr>pc_Endpoint = e, pc_BasicToken = bt, pc_BearerToken = br, pc_InsecureSkipVerify = v\<rparr> })"

section \<open>Rules\<close>

definition enc_ServiceConnectRule :: "ServiceConnectRule \<Rightarrow> json" where
  "enc_ServiceConnectRule r = JObj (enc_RuleItemBases (scr_Base r)
     @ omit_str ''namespace'' (scr_Namespace r) @ omit_str ''workspace'' (scr_Workspace r))"

definition dec_ServiceConnectRule :: "json \<Rightarrow> ServiceConnectRule option" where
  "dec_ServiceConnectRule = with_obj (\<lambda>obj. do {
     b \<leftarrow> dec_RuleItemBases obj; n \<leftarrow> dec_str obj ''namespace''; w \<leftarrow> dec_str obj ''workspace'';
     Some \<lparr>scr_Base = b, scr_Namespace = n, scr_Workspace = w\<rparr> })"

definition enc_NodeInfoRule :: "NodeInfoRule \<Rightarrow> json" where
  "enc_NodeInfoRule r = JObj (enc_RuleItemBases (nir_Base r) @ enc_Node (nir_Node r)
     @ omit_str ''resourcesType'' (nir_ResourcesType r) @ omit_str ''mount'' (nir_Mount r))"

definition dec_NodeInfoRule :: "json \<Rightarrow> NodeInfoRule option" where
  "dec_NodeInfoRule = with_obj (\<lambda>obj. do {
     b \<leftarrow> dec_RuleItemBases obj; n \<leftarrow> dec_Node obj; t \<leftarrow> dec_str obj ''resourcesType'';
     m \<leftarrow> dec_str obj ''mount'';
     Some \<lparr>nir_Base = b, nir_Node = n, nir_ResourcesType = t, nir_Mount = m\<rparr> })"

definition enc_FileFilterRule :: "FileFilterRule \<Rightarrow> json" where
  "enc_FileFilterRule r = JObj (enc_RuleItemBases (ffr_Base r) @ omit_str ''path'' (ffr_Path r)
     @ enc_Node (ffr_Node r))"

definition dec_FileFilterRule :: "json \<Rightarrow> FileFilterRule option" where
  "dec_FileFilterRule = with_obj (\<lambda>obj. do {
     b \<leftarrow> dec_RuleItemBases obj; p \<leftarrow> dec_str obj ''path''; n \<leftarrow> dec_Node obj;
     Some \<lparr>ffr_Base = b, ffr_Path = p, ffr_Node = n\<rparr> })"

definition enc_SysRule :: "SysRule \<Rightarrow> json" where
  "enc_SysRule r = JObj (enc_RuleItemBases (sr_Base r) @ enc_Node (sr_Node r))"

definition dec_SysRule :: "json \<Rightarrow> SysRule option" where
  "dec_SysRule = with_obj (\<lambda>obj. do {
     b \<leftarrow> dec_RuleItemBases obj; n \<leftarrow> dec_Node obj;
     Some \<lparr>sr_Base = b, sr_Node = n\<rparr> })"

definition enc_OpaRule :: "OpaRule \<Rightarrow> json" where
  "enc_OpaRule r = JObj (enc_RuleItemBases (opr_Base r) @ omit_str ''module'' (opr_Module r))"

definition dec_OpaRule :: "json \<Rightarrow> OpaRule option" where
  "dec_OpaRule = with_obj (\<lambda>obj. do {
     b \<leftarrow> dec_RuleItemBases obj; m \<leftarrow> dec_str obj ''module'';
     Some \<lparr>opr_Base = b, opr_Module = m\<rparr> })"

definition enc_PrometheusRule :: "PrometheusRule \<Rightarrow> json" where
  "enc_PrometheusRule r = JObj (enc_RuleItemBases (pr_Base r)
     @ omit_ptr ''prometheus'' enc_PrometheusConfig (pr_Prometheus r)
     @ omit_bool ''rawDataEnabled'' (pr_RawDataEnabled r))"

definition dec_PrometheusRule :: "json \<Rightarrow> PrometheusRule option" where
  "dec_PrometheusRule = with_obj (\<lambda>obj. do {
     b \<leftarrow> dec_RuleItemBases obj; p \<leftarrow> dec_ptr obj ''prometheus'' dec_PrometheusConfig;
     e \<leftarrow> dec_bool obj ''rawDataEnabled'';
     Some \<lparr>pr_Base = b, pr_Prometheus = p, pr_RawDataEnabled = e\<rparr> })"

definition enc_FileChangeRule :: "FileChangeRule \<Rightarrow> json" where
  "enc_FileChangeRule r = JObj (enc_RuleItemBases (fcr_Base r) @ omit_str ''path'' (fcr_Path r)
     @ enc_Node (fcr_Node r))"

definition dec_FileChangeRule :: "json \<Rightarrow> FileChangeRule option" where
  "dec_FileChangeRule = with_obj (\<lambda>obj. do {
     b \<leftarrow> dec_RuleItemBases obj; p \<leftarrow> dec_str obj ''path''; n \<leftarrow> dec_Node obj;
     Some \<lparr>fcr_Base = b, fcr_Path = p, fcr_Node = n\<rparr> })"

definition enc_CustomCommandRule :: "CustomCommandRule \<Rightarrow> json" where
  "enc_CustomCommandRule r = JObj (enc_RuleItemBases (ccr_Base r)
     @ omit_str ''command'' (ccr_Command r) @ enc_Node (ccr_Node r))"

definition dec_CustomCommandRule :: "json \<Rightarrow> CustomCommandRule option" where
  "dec_CustomCommandRule = with_obj (\<lambda>obj. do {
     b \<leftarrow> dec_RuleItemBases obj; c \<leftarrow> dec_str obj ''command''; n \<leftarrow> dec_Node obj;
     Some \<lparr>ccr_Base = b, ccr_Command = c, ccr_Node = n\<rparr> })"

definition enc_InspectRuleSpec :: "InspectRuleSpec \<Rightarrow> json" where
  "enc_InspectRuleSpec s = JObj (omit_list ''componentExclude'' JStr (irs_ComponentExclude s)
     @ omit_list ''opas'' enc_OpaRule (irs_Opas s)
     @ omit_ptr ''prometheus'' enc_PrometheusConfig (irs_Prometheus s)
     @ omit_list ''promQL'' enc_PrometheusRule (irs_PromQL s)
     @ omit_list ''fileChange'' enc_FileChangeRule (irs_FileChange s)
     @ omit_list ''sysctl'' enc_SysRule (irs_Sysctl s)
     @ omit_list ''systemd'' enc_SysRule (irs_Systemd s)
     @ omit_list ''fileFilter'' enc_FileFilterRule (irs_FileFilter s)
     @ omit_list ''customCommand'' enc_CustomCommandRule (irs_CustomCommand s)
     @ omit_list ''nodeInfo'' enc_NodeInfoRule (irs_NodeInfo s)
     @ omit_list ''serviceConnect'' enc_ServiceConnectRule (irs_ServiceConnect s))"

definition dec_InspectRuleSpec :: "json \<Rightarrow> InspectRuleSpec option" where
  "dec_InspectRuleSpec = with_obj (\<lambda>obj. do {
     ce \<leftarrow> dec_list obj ''componentExclude'' dec_string;
     op \<leftarrow> dec_list obj ''opas'' dec_OpaRule;
     pc \<leftarrow> dec_ptr obj ''prometheus'' dec_PrometheusConfig;
     pq \<leftarrow> dec_list obj ''promQL'' dec_PrometheusRule;
     fc \<leftarrow> dec_list obj ''fileChange'' dec_FileChangeRule;
     sc \<leftarrow> dec_list obj ''sysctl'' dec_SysRule;
     sd \<leftarrow> dec_list obj ''systemd'' dec_SysRule;
     ff \<leftarrow> dec_list obj ''fileFilter'' dec_FileFilterRule;
     cc \<leftarrow> dec_list obj ''customCommand'' dec_CustomCommandRule;
     ni \<leftarrow> dec_list obj ''nodeInfo'' dec_NodeInfoRule;
     sv \<leftarrow> dec_list obj ''serviceConnect'' dec_ServiceConnectRule;
     Some \<lparr>irs_ComponentExclude = ce, irs_Opas = op, irs_Prometheus = pc, irs_PromQL = pq,
       irs_FileChange = fc, irs_Sysctl = sc, irs_Systemd = sd, irs_FileFilter = ff,
       irs_CustomCommand = cc, irs_NodeInfo = ni, irs_ServiceConnect = sv\<rparr> })"

section \<open>Result items\<close>

definition enc_BaseResult :: "BaseResult \<Rightarrow> jobj" where
  "enc_BaseResult b = omit_str ''name'' (br_Name b) @ omit_bool ''assert'' (br_Assert b)
     @ omit_str ''level'' (br_Level b)"

definition dec_BaseResult :: "jobj \<Rightarrow> BaseResult option" where
  "dec_BaseResult obj = do {
     n \<leftarrow> dec_str obj ''name''; a \<leftarrow> dec_bool obj ''assert''; l \<leftarrow> dec_str obj ''level'';
     Some \<lparr>br_Name = n, br_Assert = a, br_Level = l\<rparr> }"

definition enc_PrometheusResult :: "PrometheusResult \<Rightarrow> json" where
  "enc_PrometheusResult r = JObj (enc_BaseResult (pmr_Base r) @ omit_str ''result'' (pmr_Result r)
     @ omit_bool ''rawDataEnabled'' (pmr_RawDataEnabled r) @ omit_str ''rule'' (pmr_Rule r))"

definition dec_PrometheusResult :: "json \<Rightarrow> PrometheusResult option" where
  "dec_PrometheusResult = with_obj (\<lambda>obj. do {
     b \<leftarrow> dec_BaseResult obj; r \<leftarrow> dec_str obj ''result''; e \<leftarrow> dec_bool obj ''rawDataEnabled'';
     u \<leftarrow> dec_str obj ''rule'';
     Some \<lparr>pmr_Base = b, pmr_Result = r, pmr_RawDataEnabled = e, pmr_Rule = u\<rparr> })"

definition enc_ResourcesType :: "ResourcesType \<Rightarrow> json" where
  "enc_ResourcesType t = JObj (omit_str ''mount'' (rt_Mount t) @ omit_str ''type'' (rt_Type t))"

definition dec_ResourcesType :: "json \<Rightarrow> ResourcesType option" where
  "dec_ResourcesType = with_obj (\<lambda>obj. do {
     m \<leftarrow> dec_str obj ''mount''; t \<leftarrow> dec_str obj ''type'';
     Some \<lparr>rt_Mount = m, rt_Type = t\<rparr> })"

definition enc_NodeInfoResultItem :: "NodeInfoResultItem \<Rightarrow> json" where
  "enc_NodeInfoResultItem r = JObj (enc_BaseResult (nri_Base r)
     @ [(''ResourcesType'', enc_ResourcesType (nri_ResourcesType r))]
     @ omit_str ''value'' (nri_Value r) @ omit_str ''nodeName'' (nri_NodeName r))"

definition dec_NodeInfoResultItem :: "json \<Rightarrow> NodeInfoResultItem option" where
  "dec_NodeInfoResultItem = with_obj (\<lambda>obj. do {
     b \<leftarrow> dec_BaseResult obj;
     t \<leftarrow> (case mget obj ''ResourcesType'' of
            None \<Rightarrow> dec_ResourcesType JNull | Some j \<Rightarrow> dec_ResourcesType j);
     v \<leftarrow> dec_str obj ''value''; n \<leftarrow> dec_str obj ''nodeName'';
     Some \<lparr>nri_Base = b, nri_ResourcesType = t, nri_Value = v, nri_NodeName = n\<rparr> })"

definition enc_FileChangeResultItem :: "FileChangeResultItem \<Rightarrow> json" where
  "enc_FileChangeResultItem r = JObj (enc_BaseResult (fri_Base r)
     @ omit_list ''issues'' JStr (fri_Issues r) @ omit_str ''path'' (fri_Path r)
     @ omit_str ''nodeName'' (fri_NodeName r))"

definition dec_FileChangeResultItem :: "json \<Rightarrow> FileChangeResultItem option" where
  "dec_FileChangeResultItem = with_obj (\<lambda>obj. do {
     b \<leftarrow> dec_BaseResult obj; i \<leftarrow> dec_list obj ''issues'' dec_string; p \<leftarrow> dec_str obj ''path'';
     n \<leftarrow> dec_str obj ''nodeName'';
     Some \<lparr>fri_Base = b, fri_Issues = i, fri_Path = p, fri_NodeName = n\<rparr> })"

definition enc_NodeMetricsResultItem :: "NodeMetricsResultItem \<Rightarrow> json" where
  "enc_NodeMetricsResultItem r = JObj (enc_BaseResult (nmi_Base r)
     @ omit_ptr ''value'' JStr (nmi_Value r) @ omit_str ''nodeName'' (nmi_NodeName r))"

definition dec_NodeMetricsResultItem :: "json \<Rightarrow> NodeMetricsResultItem option" where
  "dec_NodeMetricsResultItem = with_obj (\<lambda>obj. do {
     b \<leftarrow> dec_BaseResult obj; v \<leftarrow> dec_strptr obj ''value''; n \<leftarrow> dec_str obj ''nodeName'';
     Some \<lparr>nmi_Base = b, nmi_Value = v, nmi_NodeName = n\<rparr> })"

definition enc_ComponentResultItem :: "ComponentResultItem \<Rightarrow> json" where
  "enc_ComponentResultItem r = JObj (enc_BaseResult (cri_Base r))"

definition dec_ComponentResultItem :: "json \<Rightarrow> ComponentResultItem option" where
  "dec_ComponentResultItem = with_obj (\<lambda>obj. map_option (\<lambda>b. \<lparr>cri_Base = b\<rparr>) (dec_BaseResult obj))"

definition enc_ServiceConnectResultItem :: "ServiceConnectResultItem \<Rightarrow> json" where
  "enc_ServiceConnectResultItem r = JObj (enc_BaseResult (sci_Base r)
     @ omit_str ''namespace'' (sci_Namespace r) @ omit_str ''endpoint'' (sci_Endpoint r))"

definition dec_ServiceConnectResultItem :: "json \<Rightarrow> ServiceConnectResultItem option" where
  "dec_ServiceConnectResultItem = with_obj (\<lambda>obj. do {
     b \<leftarrow> dec_BaseResult obj; n \<leftarrow> dec_str obj ''namespace''; e \<leftarrow> dec_str obj ''endpoint'';
     Some \<lparr>sci_Base = b, sci_Namespace = n, sci_Endpoint = e\<rparr> })"

definition enc_CommandResultItem :: "CommandResultItem \<Rightarrow> json" where
  "enc_CommandResultItem r = JObj (enc_BaseResult (cmi_Base r)
     @ omit_str ''command'' (cmi_Command r) @ omit_str ''value'' (cmi_Value r)
     @ omit_str ''nodeName'' (cmi_NodeName r))"

definition dec_CommandResultItem :: "json \<Rightarrow> CommandResultItem option" where
  "dec_CommandResultItem = with_obj (\<lambda>obj. do {
     b \<leftarrow> dec_BaseResult obj; c \<leftarrow> dec_str obj ''command''; v \<leftarrow> dec_str obj ''value'';
     n \<leftarrow> dec_str obj ''nodeName'';
     Some \<lparr>cmi_Base = b, cmi_Command = c, cmi_Value = v, cmi_NodeName = n\<rparr> })"

section \<open>Results of the OPA rules\<close>

definition enc_ResultItem :: "ResultItem \<Rightarrow> json" where
  "enc_ResultItem r = JObj (omit_str ''level'' (rit_Level r) @ omit_str ''message'' (rit_Message r)
     @ omit_str ''reason'' (rit_Reason r))"

definition dec_ResultItem :: "json \<Rightarrow> ResultItem option" where
  "dec_ResultItem = with_obj (\<lambda>obj. do {
     l \<leftarrow> dec_str obj ''level''; m \<leftarrow> dec_str obj ''message''; r \<leftarrow> dec_str obj ''reason'';
     Some \<lparr>rit_Level = l, rit_Message = m, rit_Reason = r\<rparr> })"

definition enc_ResourceResult :: "ResourceResult \<Rightarrow> json" where
  "enc_ResourceResult r = JObj (omit_str ''namespace'' (rr_NameSpace r)
     @ omit_str ''resourceType'' (rr_ResourceType r) @ omit_str ''name'' (rr_Name r)
     @ omit_list ''resultItems'' enc_ResultItem (rr_ResultItems r))"

definition dec_ResourceResult :: "json \<Rightarrow> ResourceResult option" where
  "dec_ResourceResult = with_obj (\<lambda>obj. do {
     n \<leftarrow> dec_str obj ''namespace''; t \<leftarrow> dec_str obj ''resourceType''; m \<leftarrow> dec_str obj ''name'';
     i \<leftarrow> dec_list obj ''resultItems'' dec_ResultItem;
     Some \<lparr>rr_NameSpace = n, rr_ResourceType = t, rr_Name = m, rr_ResultItems = i\<rparr> })"

definition enc_ScoreInfo :: "ScoreInfo \<Rightarrow> json" where
  "enc_ScoreInfo s = JObj (omit_int ''score'' (si_Score s) @ omit_int ''total'' (si_Total s)
     @ omit_int ''dangerous'' (si_Dangerous s) @ omit_int ''warning'' (si_Warning s)
     @ omit_int ''ignore'' (si_Ignore s) @ omit_int ''passing'' (si_Passing s))"

definition dec_ScoreInfo :: "json \<Rightarrow> ScoreInfo option" where
  "dec_ScoreInfo = with_obj (\<lambda>obj. do {
     s \<leftarrow> dec_int obj ''score''; t \<leftarrow> dec_int obj ''total''; d \<leftarrow> dec_int obj ''dangerous'';
     w \<leftarrow> dec_int obj ''warning''; i \<leftarrow> dec_int obj ''ignore''; p \<leftarrow> dec_int obj ''passing'';
     Some \<lparr>si_Score = s, si_Total = t, si_Dangerous = d, si_Warning = w, si_Ignore = i,
       si_Passing = p\<rparr> })"

definition enc_ExtraInfo :: "ExtraInfo \<Rightarrow> json" where
  "enc_ExtraInfo e = JObj (omit_int ''workloadsCount'' (ei_WorkloadsCount e)
     @ omit_list ''namespacesList'' JStr (ei_NamespacesList e))"

definition dec_ExtraInfo :: "json \<Rightarrow> ExtraInfo option" where
  "dec_ExtraInfo = with_obj (\<lambda>obj. do {
     w \<leftarrow> dec_int obj ''workloadsCount''; n \<leftarrow> dec_list obj ''namespacesList'' dec_string;
     Some \<lparr>ei_WorkloadsCount = w, ei_NamespacesList = n\<rparr> })"

definition sub_doc :: "jobj \<Rightarrow> string \<Rightarrow> json" where
  "sub_doc obj k = (case mget obj k of None \<Rightarrow> JNull | Some j \<Rightarrow> j)"

definition enc_KubeeyeOpaResult :: "KubeeyeOpaResult \<Rightarrow> json" where
  "enc_KubeeyeOpaResult r = JObj ([(''scoreInfo'', enc_ScoreInfo (kor_ScoreInfo r))]
     @ omit_list ''resourceResults'' enc_ResourceResult (kor_ResourceResults r)
     @ omit_int ''percent'' (kor_Percent r)
     @ [(''extraInfo'', enc_ExtraInfo (kor_ExtraInfo r))])"

definition dec_KubeeyeOpaResult :: "json \<Rightarrow> KubeeyeOpaResult option" where
  "dec_KubeeyeOpaResult = with_obj (\<lambda>obj. do {
     s \<leftarrow> dec_ScoreInfo (sub_doc obj ''scoreInfo'');
     r \<leftarrow> dec_list obj ''resourceResults'' dec_ResourceResult;
     p \<leftarrow> dec_int obj ''percent'';
     e \<leftarrow> dec_ExtraInfo (sub_doc obj ''extraInfo'');
     Some \<lparr>kor_ScoreInfo = s, kor_ResourceResults = r, kor_Percent = p, kor_ExtraInfo = e\<rparr> })"

section \<open>Round trips\<close>

text \<open>
  A decoder of a field skips the fields written before it and reads its own, whatever follows.
\<close>

lemma skip_str [codec_simps]: "mget xs k = None \<Longrightarrow> dec_str (xs @ ys) k = dec_str ys k"
  by (simp add: dec_str_def map_add_def split: option.splits)

lemma skip_bool [codec_simps]: "mget xs k = None \<Longrightarrow> dec_bool (xs @ ys) k = dec_bool ys k"
  by (simp add: dec_bool_def map_add_def split: option.splits)

lemma skip_int [codec_simps]: "mget xs k = None \<Longrightarrow> dec_int (xs @ ys) k = dec_int ys k"
  by (simp add: dec_int_def map_add_def split: option.splits)

lemma skip_strptr [codec_simps]: "mget xs k = None \<Longrightarrow> dec_strptr (xs @ ys) k = dec_strptr ys k"
  by (simp add: dec_strptr_def map_add_def split: option.splits)

lemma skip_boolptr [codec_simps]: "mget xs k = None \<Longrightarrow> dec_boolptr (xs @ ys) k = dec_boolptr ys k"
  by (simp add: dec_boolptr_def map_add_def split: option.splits)

lemma skip_strmap [codec_simps]: "mget xs k = None \<Longrightarrow> dec_strmap (xs @ ys) k = dec_strmap ys k"
  by (simp add: dec_strmap_def map_add_def split: option.splits)

lemma skip_list [codec_simps]: "mget xs k = None \<Longrightarrow> dec_list (xs @ ys) k dec = dec_list ys k dec"
  by (simp add: dec_list_def map_add_def split: option.splits)

lemma skip_ptr [codec_simps]: "mget xs k = None \<Longrightarrow> dec_ptr (xs @ ys) k dec = dec_ptr ys k dec"
  by (simp add: dec_ptr_def map_add_def split: option.splits)

lemma skip_sub_doc [codec_simps]: "mget xs k = None \<Longrightarrow> sub_doc (xs @ ys) k = sub_doc ys k"
  by (simp add: sub_doc_def map_add_def split: option.splits)

lemma read_str [codec_simps]:
  "mget ys k = None \<Longrightarrow> dec_str (omit_str k s @ ys) k = Some s" "dec_str (omit_str k s) k = Some s"
  by (simp_all add: dec_str_def omit_str_def)

lemma read_bool [codec_simps]:
  "mget ys k = None \<Longrightarrow> dec_bool (omit_bool k b @ ys) k = Some b" "dec_bool (omit_bool k b) k = Some b"
  by (simp_all add: dec_bool_def omit_bool_def)

lemma read_int [codec_simps]:
  "mget ys k = None \<Longrightarrow> dec_int (omit_int k n @ ys) k = Some n" "dec_int (omit_int k n) k = Some n"
  by (simp_all add: dec_int_def omit_int_def)

lemma read_strptr [codec_simps]:
  "mget ys k = None \<Longrightarrow> dec_strptr (omit_ptr k JStr p @ ys) k = Some p"
  "dec_strptr (omit_ptr k JStr p) k = Some p"
  by (simp_all add: dec_strptr_def omit_ptr_def split: option.splits)

lemma read_boolptr [codec_simps]:
  "mget ys k = None \<Longrightarrow> dec_boolptr (omit_ptr k JBool p @ ys) k = Some p"
  "dec_boolptr (omit_ptr k JBool p) k = Some p"
  by (simp_all add: dec_boolptr_def omit_ptr_def split: option.splits)

lemma read_strmap [codec_simps]:
  "mget ys k = None \<Longrightarrow> dec_strmap (omit_strmap k m @ ys) k = Some m"
  "dec_strmap (omit_strmap k m) k = Some m"
  using those_enc_strmap [of m] by (simp_all add: dec_strmap_def omit_strmap_def enc_strmap_def)

lemma those_inverse: "(\<And>x. dec (enc x) = Some x) \<Longrightarrow> those (map dec (map enc xs)) = Some xs"
  by (induction xs) auto

lemma read_list [codec_simps]:
  assumes "\<And>x. dec (enc x) = Some x"
  shows "mget ys k = None \<Longrightarrow> dec_list (omit_list k enc xs @ ys) k dec = Some xs"
    and "dec_list (omit_list k enc xs) k dec = Some xs"
  using those_inverse [of dec enc xs, OF assms] by (simp_all add: dec_list_def omit_list_def)

lemma dec_ptr_present:
  "mget obj k = Some j \<Longrightarrow> j \<noteq> JNull \<Longrightarrow> dec_ptr obj k dec = map_option Some (dec j)"
  by (cases j) (simp_all add: dec_ptr_def)

lemma dec_ptr_missing: "mget obj k = None \<Longrightarrow> dec_ptr obj k dec = Some None"
  by (simp add: dec_ptr_def)

lemma skip_Cons [codec_simps]:
  "k' \<noteq> k \<Longrightarrow> dec_list ((k', j) # ys) k dec = dec_list ys k dec"
  "k' \<noteq> k \<Longrightarrow> dec_int ((k', j) # ys) k = dec_int ys k"
  by (simp_all add: dec_list_def dec_int_def)

lemma read_ptr [codec_simps]:
  assumes "\<And>x. dec (enc x) = Some x" and "\<And>x. enc x \<noteq> JNull"
  shows "mget ys k = None \<Longrightarrow> dec_ptr (omit_ptr k enc p @ ys) k dec = Some p"
    and "dec_ptr (omit_ptr k enc p) k dec = Some p"
proof -
  show "mget ys k = None \<Longrightarrow> dec_ptr (omit_ptr k enc p @ ys) k dec = Some p"
    by (cases p) (simp_all add: dec_ptr_missing dec_ptr_present assms omit_ptr_def)
  show "dec_ptr (omit_ptr k enc p) k dec = Some p"
    by (cases p) (simp_all add: dec_ptr_missing dec_ptr_present assms omit_ptr_def)
qed

lemma dec_string_JStr [codec_simps]: "dec_string (JStr s) = Some s"
  by (simp add: dec_string_def)

lemma with_obj_JObj [codec_simps]: "with_obj f (JObj kvs) = f kvs"
  by (simp add: with_obj_def)

lemma keys_RuleItemBases [codec_simps]:
  "k \<noteq> ''name'' \<Longrightarrow> k \<noteq> ''rule'' \<Longrightarrow> k \<noteq> ''desc'' \<Longrightarrow> k \<noteq> ''level'' \<Longrightarrow>
     mget (enc_RuleItemBases r) k = None"
  by (simp add: enc_RuleItemBases_def json_omit map_add_def)

lemma keys_Node [codec_simps]:
  "k \<noteq> ''nodeName'' \<Longrightarrow> k \<noteq> ''nodeSelector'' \<Longrightarrow> mget (enc_Node n) k = None"
  by (simp add: enc_Node_def json_omit map_add_def)

lemma keys_BaseResult [codec_simps]:
  "k \<noteq> ''name'' \<Longrightarrow> k \<noteq> ''assert'' \<Longrightarrow> k \<noteq> ''level'' \<Longrightarrow> mget (enc_BaseResult b) k = None"
  by (simp add: enc_BaseResult_def json_omit map_add_def)

lemma read_RuleItemBases [codec_simps]:
  "mget ys ''name'' = None \<Longrightarrow> mget ys ''rule'' = None \<Longrightarrow> mget ys ''desc'' = None \<Longrightarrow>
     mget ys ''level'' = None \<Longrightarrow> dec_RuleItemBases (enc_RuleItemBases b @ ys) = Some b"
  by (cases b) (simp add: dec_RuleItemBases_def enc_RuleItemBases_def codec_simps json_omit map_add_def)

lemma read_Node [codec_simps]:
  "mget ys ''nodeName'' = None \<Longrightarrow> mget ys ''nodeSelector'' = None \<Longrightarrow>
     dec_Node (enc_Node n @ ys) = Some n"
  "dec_Node (enc_Node n) = Some n"
  by (cases n; simp add: dec_Node_def enc_Node_def codec_simps json_omit map_add_def)+

lemma skip_Node [codec_simps]:
  "mget xs ''nodeName'' = None \<Longrightarrow> mget xs ''nodeSelector'' = None \<Longrightarrow>
     dec_Node (xs @ ys) = dec_Node ys"
  by (simp add: dec_Node_def codec_simps)

lemma read_BaseResult [codec_simps]:
  "mget ys ''name'' = None \<Longrightarrow> mget ys ''assert'' = None \<Longrightarrow> mget ys ''level'' = None \<Longrightarrow>
     dec_BaseResult (enc_BaseResult b @ ys) = Some b"
  "dec_BaseResult (enc_BaseResult b) = Some b"
  by (cases b; simp add: dec_BaseResult_def enc_BaseResult_def codec_simps json_omit map_add_def)+

lemma dec_enc_PrometheusConfig [codec_simps, roundtrips]: "dec_PrometheusConfig (enc_PrometheusConfig r) = Some r"
  by (cases r) (simp add: dec_PrometheusConfig_def enc_PrometheusConfig_def codec_simps json_omit map_add_def)

lemma dec_enc_ServiceConnectRule [codec_simps, roundtrips]: "dec_ServiceConnectRule (enc_ServiceConnectRule r) = Some r"
  by (cases r) (simp add: dec_ServiceConnectRule_def enc_ServiceConnectRule_def codec_simps json_omit map_add_def)

lemma dec_enc_NodeInfoRule [codec_simps, roundtrips]: "dec_NodeInfoRule (enc_NodeInfoRule r) = Some r"
  by (cases r) (simp add: dec_NodeInfoRule_def enc_NodeInfoRule_def codec_simps json_omit map_add_def)

lemma dec_enc_FileFilterRule [codec_simps, roundtrips]: "dec_FileFilterRule (enc_FileFilterRule r) = Some r"
  by (cases r) (simp add: dec_FileFilterRule_def enc_FileFilterRule_def codec_simps json_omit map_add_def)

lemma dec_enc_SysRule [codec_simps, roundtrips]: "dec_SysRule (enc_SysRule r) = Some r"
  by (cases r) (simp add: dec_SysRule_def enc_SysRule_def codec_simps json_omit map_add_def)

lemma dec_enc_OpaRule [codec_simps, roundtrips]: "dec_OpaRule (enc_OpaRule r) = Some r"
  by (cases r) (simp add: dec_OpaRule_def enc_OpaRule_def codec_simps json_omit map_add_def)

lemma enc_PrometheusConfig_not_null [codec_simps]: "enc_PrometheusConfig p \<noteq> JNull"
  by (simp add: enc_PrometheusConfig_def)

lemma dec_enc_PrometheusRule [codec_simps, roundtrips]: "dec_PrometheusRule (enc_PrometheusRule r) = Some r"
  by (cases r) (simp add: dec_PrometheusRule_def enc_PrometheusRule_def codec_simps json_omit map_add_def)

lemma dec_enc_FileChangeRule [codec_simps, roundtrips]: "dec_FileChangeRule (enc_FileChangeRule r) = Some r"
  by (cases r) (simp add: dec_FileChangeRule_def enc_FileChangeRule_def codec_simps json_omit map_add_def)

lemma dec_enc_CustomCommandRule [codec_simps, roundtrips]: "dec_CustomCommandRule (enc_CustomCommandRule r) = Some r"
  by (cases r) (simp add: dec_CustomCommandRule_def enc_CustomCommandRule_def codec_simps json_omit map_add_def)

lemma dec_enc_InspectRuleSpec [codec_simps, roundtrips]: "dec_InspectRuleSpec (enc_InspectRuleSpec r) = Some r"
  by (cases r) (simp add: dec_InspectRuleSpec_def enc_InspectRuleSpec_def codec_simps json_omit map_add_def)

lemma dec_enc_PrometheusResult [codec_simps, roundtrips]: "dec_PrometheusResult (enc_PrometheusResult r) = Some r"
  by (cases r) (simp add: dec_PrometheusResult_def enc_PrometheusResult_def codec_simps json_omit map_add_def)

lemma dec_enc_ResourcesType [codec_simps, roundtrips]: "dec_ResourcesType (enc_ResourcesType r) = Some r"
  by (cases r) (simp add: dec_ResourcesType_def enc_ResourcesType_def codec_simps json_omit map_add_def)

lemma dec_enc_FileChangeResultItem [codec_simps, roundtrips]: "dec_FileChangeResultItem (enc_FileChangeResultItem r) = Some r"
  by (cases r) (simp add: dec_FileChangeResultItem_def enc_FileChangeResultItem_def codec_simps json_omit map_add_def)

lemma dec_enc_NodeMetricsResultItem [codec_simps, roundtrips]: "dec_NodeMetricsResultItem (enc_NodeMetricsResultItem r) = Some r"
  by (cases r) (simp add: dec_NodeMetricsResultItem_def enc_NodeMetricsResultItem_def codec_simps json_omit map_add_def)

lemma dec_enc_ComponentResultItem [codec_simps, roundtrips]: "dec_ComponentResultItem (enc_ComponentResultItem r) = Some r"
  by (cases r) (simp add: dec_ComponentResultItem_def enc_ComponentResultItem_def codec_simps json_omit map_add_def)

lemma dec_enc_ServiceConnectResultItem [codec_simps, roundtrips]: "dec_ServiceConnectResultItem (enc_ServiceConnectResultItem r) = Some r"
  by (cases r) (simp add: dec_ServiceConnectResultItem_def enc_ServiceConnectResultItem_def codec_simps json_omit map_add_def)

lemma dec_enc_CommandResultItem [codec_simps, roundtrips]: "dec_CommandResultItem (enc_CommandResultItem r) = Some r"
  by (cases r) (simp add: dec_CommandResultItem_def enc_CommandResultItem_def codec_simps json_omit map_add_def)

lemma dec_enc_ResultItem [codec_simps, roundtrips]: "dec_ResultItem (enc_ResultItem r) = Some r"
  by (cases r) (simp add: dec_ResultItem_def enc_ResultItem_def codec_simps json_omit map_add_def)

lemma dec_enc_ResourceResult [codec_simps, roundtrips]: "dec_ResourceResult (enc_ResourceResult r) = Some r"
  by (cases r) (simp add: dec_ResourceResult_def enc_ResourceResult_def codec_simps json_omit map_add_def)

lemma dec_enc_ScoreInfo [codec_simps, roundtrips]: "dec_ScoreInfo (enc_ScoreInfo r) = Some r"
  by (cases r) (simp add: dec_ScoreInfo_def enc_ScoreInfo_def codec_simps json_omit map_add_def)

lemma dec_enc_ExtraInfo [codec_simps, roundtrips]: "dec_ExtraInfo (enc_ExtraInfo r) = Some r"
  by (cases r) (simp add: dec_ExtraInfo_def enc_ExtraInfo_def codec_simps json_omit map_add_def)

lemma dec_enc_NodeInfoResultItem [codec_simps, roundtrips]: "dec_NodeInfoResultItem (enc_NodeInfoResultItem r) = Some r"
  by (cases r) (simp add: dec_NodeInfoResultItem_def enc_NodeInfoResultItem_def codec_simps json_omit
      map_add_def mget_append dec_str_def)

lemma dec_enc_KubeeyeOpaResult [codec_simps, roundtrips]: "dec_KubeeyeOpaResult (enc_KubeeyeOpaResult r) = Some r"
  by (cases r) (simp add: dec_KubeeyeOpaResult_def enc_KubeeyeOpaResult_def codec_simps json_omit map_add_def sub_doc_def)

end
