(* ===== verification/Kube_Types.thy ===== *)
theory Kube_Types
  imports Api_Codec
begin

text \<open>
  What the program reads of the library objects of the cluster (nodes, pods, services, namespaces,
  config maps, jobs), and the readiness tests of pkg/kube/getresources.go,
  pkg/collectors/opa/node_stats_summary.go and pkg/inspect/component_inspect.go on them.
\<close>

record K8sNode =
  kn_Name :: string
  kn_Labels :: strmap
  kn_Conditions :: "(string \<times> string) list" \<comment> \<open>type and status\<close>
  kn_Taints :: "(string \<times> string) list" \<comment> \<open>key and effect\<close>
  kn_Addresses :: "(string \<times> string) list" \<comment> \<open>type and address\<close>
  kn_KubeletVersion :: string

record ContainerStatus =
  cs_Ready :: bool
  cs_Waiting :: "(string \<times> string) option" \<comment> \<open>reason and message\<close>
  cs_Terminated :: "(string \<times> string) option"

record K8sPod =
  kp_Name :: string
  kp_Namespace :: string
  kp_Annotations :: strmap
  kp_NodeName :: string
  kp_Phase :: string
  kp_InitContainerStatuses :: "ContainerStatus list"
  kp_ContainerStatuses :: "ContainerStatus list"

record K8sService =
  ks_Name :: string
  ks_Namespace :: string
  ks_Annotations :: strmap
  ks_Type :: string
  ks_ClusterIP :: string
  ks_Ports :: "int list"
  ks_Selector :: strmap

record K8sNamespace =
  kns_Name :: string
  kns_Labels :: strmap

record ConfigMap =
  cm_Name :: string
  cm_Labels :: strmap
  cm_BinaryData :: "(string, doc) gomap"

record K8sJob =
  kj_CreationTimestamp :: time
  kj_Conditions :: "string list" \<comment> \<open>types of the conditions\<close>
  kj_CompletionTime :: "time option"
  kj_Active :: int

definition mk_node :: "string \<Rightarrow> strmap \<Rightarrow> K8sNode" where
  "mk_node n labels = \<lparr>kn_Name = n, kn_Labels = labels, kn_Conditions = [], kn_Taints = [],
     kn_Addresses = [], kn_KubeletVersion = []\<rparr>"

text \<open>The bytes under a key of a config map; a missing key gives empty bytes, which are no JSON.\<close>

definition cm_doc :: "ConfigMap \<Rightarrow> string \<Rightarrow> doc" where
  "cm_doc cm k = (case mget (cm_BinaryData cm) k of None \<Rightarrow> None | Some d \<Rightarrow> d)"

definition IsNodesReady :: "K8sNode \<Rightarrow> bool" where
  "IsNodesReady node = list_ex (\<lambda>(typ, st). typ = ''Ready'' \<and> st = ''True'') (kn_Conditions node)"

text \<open>The collector of node statistics looks at the first Ready condition only.\<close>

fun first_ready_condition :: "(string \<times> string) list \<Rightarrow> bool" where
  "first_ready_condition [] = False"
| "first_ready_condition ((typ, st) # cs) =
     (if typ = ''Ready'' then st = ''True'' else first_ready_condition cs)"

definition isNodeReady :: "K8sNode \<Rightarrow> bool" where
  "isNodeReady node = first_ready_condition (kn_Conditions node)"

definition isAllContainersReady :: "K8sPod \<Rightarrow> bool" where
  "isAllContainersReady pod = list_ex cs_Ready (kp_ContainerStatuses pod)"

lemma first_ready_implies_ready:
  "first_ready_condition cs \<Longrightarrow> list_ex (\<lambda>(typ, st). typ = ''Ready'' \<and> st = ''True'') cs"
  by (induction cs rule: first_ready_condition.induct) (auto split: if_splits)

lemma isNodeReady_IsNodesReady: "isNodeReady n \<Longrightarrow> IsNodesReady n"
  by (simp add: isNodeReady_def IsNodesReady_def first_ready_implies_ready)

end
