(* ===== verification/Rules.thy ===== *)
theory Rules
  imports Kube_Types
begin

text \<open>
  pkg/rules/rules.go: from the InspectRules a task names to the jobs it runs.  SetRuleSchedule
  puts the node choice of the plan on rules that have none, SetPrometheusEndpoint fills in the
  Prometheus settings, MergeRule merges the rules of one kind and drops duplicates by name,
  GenerateJob allots the merged rules to jobs (one job per kind for the cluster-wide kinds, one per
  node for the others), and sortRuleOpaToAtLast moves the OPA job to the end.

  The random suffix of a job name is the parameter rnd: the suffix of the n-th job generated.
  json.Marshal of a decoded document does not fail, so the error branches behind it are not there.
\<close>

section \<open>Deduplication by name\<close>

fun dedup_names :: "jobj list \<Rightarrow> jobj list \<Rightarrow> jobj list" where
  "dedup_names [] newMaps = newMaps"
| "dedup_names (m # ms) newMaps =
     dedup_names ms
       (if ArrayFinds newMaps (\<lambda>m1. sub_doc m ''name'' = sub_doc m1 ''name'') = None
        then newMaps @ [m] else newMaps)"

text \<open>The empty list is the nil slice.\<close>

definition RuleArrayDeduplication :: "(json \<Rightarrow> 'a option) \<Rightarrow> json list \<Rightarrow> 'a list" where
  "RuleArrayDeduplication dec obj = (case ArrayStructToArrayMap (JArr obj) of
     None \<Rightarrow> []
   | Some maps \<Rightarrow> MapToStruct dec (dedup_names maps []))"

section \<open>Allocation of rules to jobs\<close>

datatype rule_error = EmptyRule string

definition marshal_slice :: "json list \<Rightarrow> json" where
  "marshal_slice js = (if js = [] then JNull else JArr js)"

text \<open>
  The rule argument is an interface: None is the nil interface, not a nil slice inside it.
\<close>

definition Allocation ::
    "string \<Rightarrow> json option \<Rightarrow> string \<Rightarrow> string \<Rightarrow> rule_error + JobRule" where
  "Allocation sfx rule taskName ruleType =
     (if rule = None \<and> ruleType \<noteq> Component then Inl (EmptyRule ''failed to Allocation rule for empty'')
      else Inr \<lparr>jr_JobName = to_lower (taskName @ ''-'' @ ruleType @ ''-'' @ sfx),
                jr_RuleType = ruleType,
                jr_RunRule = Some (case rule of None \<Rightarrow> JNull | Some r \<Rightarrow> r)\<rparr>)"

text \<open>
  A node matches a selector by the comparison of the last label the iteration meets; an empty
  selector matches no node.
\<close>

definition selector_match :: "strmap \<Rightarrow> strmap \<Rightarrow> bool" where
  "selector_match convertMap labels = fold (\<lambda>(k, v) isExist. mget0 labels k = v) convertMap False"

definition mergeMap_append :: "(string, jobj list) gomap \<Rightarrow> string \<Rightarrow> jobj \<Rightarrow> (string, jobj list) gomap" where
  "mergeMap_append mm k x = mput mm k ((case mget mm k of None \<Rightarrow> [] | Some xs \<Rightarrow> xs) @ [x])"

text \<open>None is the panic of a failed type assertion.\<close>

fun mergeNodeRule ::
    "jobj list \<Rightarrow> K8sNode list \<Rightarrow> (string, jobj list) gomap \<Rightarrow> (string, jobj list) gomap option" where
  "mergeNodeRule [] allNode mergeMap = Some mergeMap"
| "mergeNodeRule (m # ms) allNode mergeMap =
     (let nnv = mget m ''nodeName''; nsv = mget m ''nodeSelector'' in
      if nnv \<noteq> None \<and> \<not> IsEmptyValue (json_val (the nnv)) then
        (case as_string (the nnv) of
           None \<Rightarrow> None
         | Some n \<Rightarrow> mergeNodeRule ms allNode (mergeMap_append mergeMap n m))
      else (case nsv of
         None \<Rightarrow> mergeNodeRule ms allNode mergeMap
       | Some (JObj sel) \<Rightarrow>
           (case MapValConvert sel of
              None \<Rightarrow> None
            | Some convertMap \<Rightarrow>
                mergeNodeRule ms allNode
                  (fold (\<lambda>data mm. mergeMap_append mm (kn_Name data)
                            (mput m ''nodeName'' (JStr (kn_Name data))))
                     (filter (\<lambda>n. selector_match convertMap (kn_Labels n)) allNode) mergeMap))
       | Some _ \<Rightarrow> None))"

definition has_node :: "jobj \<Rightarrow> bool" where
  "has_node v \<longleftrightarrow> sub_doc v ''nodeName'' \<noteq> JNull \<or> sub_doc v ''nodeSelector'' \<noteq> JNull"

definition as_obj :: "json \<Rightarrow> jobj option" where
  "as_obj j = (case j of JObj kvs \<Rightarrow> Some kvs | _ \<Rightarrow> None)"

definition node_job :: "string \<Rightarrow> string \<Rightarrow> string \<Rightarrow> jobj list \<Rightarrow> JobRule" where
  "node_job taskName ctlOrTem sfx maps =
     \<lparr>jr_JobName = taskName @ ''-'' @ ctlOrTem @ ''-'' @ sfx, jr_RuleType = ctlOrTem,
      jr_RunRule = Some (JArr (map JObj maps))\<rparr>"

definition AllocationRule ::
    "(nat \<Rightarrow> string) \<Rightarrow> json list \<Rightarrow> string \<Rightarrow> K8sNode list \<Rightarrow> string \<Rightarrow> JobRule list option" where
  "AllocationRule rnd rule taskName allNode ctlOrTem = do {
     maps \<leftarrow> those (map as_obj rule);
     let (nodeData, filterData) = ArrayFilter maps has_node;
     nodeNameMergeMap \<leftarrow> mergeNodeRule nodeData allNode [];
     let perNode = map2 (\<lambda>i (n, ms). node_job taskName ctlOrTem (rnd i) ms)
                     [0..<length nodeNameMergeMap] nodeNameMergeMap;
     let n0 = length perNode;
     let everywhere = (if filterData = [] then []
           else map2 (\<lambda>i item. node_job taskName ctlOrTem (rnd (n0 + i))
                  (map (\<lambda>f. mput f ''nodeName'' (JStr (kn_Name item))) filterData))
                  [0..<length allNode] allNode);
     Some (perNode @ everywhere) }"

section \<open>ExecuteRule\<close>

record ExecuteRule =
  er_Task :: InspectTask
  er_clusterInspectRuleMap :: strmap
  er_clusterInspectRuleNames :: "string list"
  er_ruleTotal :: "(string, int) gomap"

definition NewExecuteRuleOptions :: "InspectTask \<Rightarrow> ExecuteRule" where
  "NewExecuteRuleOptions task =
     \<lparr>er_Task = task,
      er_clusterInspectRuleMap =
        [(''opas'', Opa), (''promQL'', PrometheusType), (''serviceConnect'', ServiceConnect),
         (''fileChange'', FileChange), (''sysctl'', Sysctl), (''systemd'', Systemd),
         (''fileFilter'', FileFilter), (''customCommand'', CustomCommand), (''nodeInfo'', NodeInfo)],
      er_clusterInspectRuleNames = [Opa, PrometheusType, ServiceConnect],
      er_ruleTotal = []\<rparr>"

text \<open>The node choice of the plan on one decoded rule that names neither node nor selector.\<close>

definition schedule_item :: "InspectRuleNames \<Rightarrow> jobj \<Rightarrow> jobj" where
  "schedule_item r m =
     (if mget m ''nodeName'' = None \<and> mget m ''nodeSelector'' = None
      then mput (mput m ''nodeName'' (JStr (irn_NodeName r))) ''nodeSelector''
             (case irn_NodeSelector r of None \<Rightarrow> JNull | Some s \<Rightarrow> enc_strmap s)
      else m)"

definition schedule_field :: "InspectRuleNames \<Rightarrow> json \<Rightarrow> json option" where
  "schedule_field r v = (case v of
     JArr val \<Rightarrow> map_option (\<lambda>ms. JArr (map (JObj \<circ> schedule_item r) ms)) (those (map as_obj val))
   | _ \<Rightarrow> Some v)"

definition schedule_rule :: "InspectRuleNames \<Rightarrow> InspectRule \<Rightarrow> InspectRule option" where
  "schedule_rule r rule =
     (if \<not> IsEmptyValue (VString (irn_NodeName r)) \<or> irn_NodeSelector r \<noteq> None then
        (case StructToMap (enc_InspectRuleSpec (ir_Spec rule)) of
           None \<Rightarrow> Some rule
         | Some toMap \<Rightarrow> do {
             toMap' \<leftarrow> those (map (\<lambda>(k, v). map_option (Pair k) (schedule_field r v)) toMap);
             (case MapToStruct dec_InspectRuleSpec [toMap'] of
                [] \<Rightarrow> None
              | spec # _ \<Rightarrow> Some (rule\<lparr>ir_Spec := spec\<rparr>)) })
      else Some rule)"

fun schedule_loop :: "InspectRuleNames list \<Rightarrow> InspectRule list \<Rightarrow> InspectRule list option" where
  "schedule_loop [] rules = Some []"
| "schedule_loop (r # rs) rules =
     (case ArrayFinds rules (\<lambda>m. irn_Name r = om_Name (ir_Meta m)) of
        None \<Rightarrow> schedule_loop rs rules
      | Some (_, rule) \<Rightarrow> do {
          rule' \<leftarrow> schedule_rule r rule;
          newRules \<leftarrow> schedule_loop rs rules;
          Some (rule' # newRules) })"

definition SetRuleSchedule :: "ExecuteRule \<Rightarrow> InspectRule list \<Rightarrow> InspectRule list option" where
  "SetRuleSchedule e rules = schedule_loop (its_RuleNames (it_Spec (er_Task e))) rules"

definition prom_fill :: "PrometheusConfig \<Rightarrow> PrometheusRule \<Rightarrow> PrometheusRule" where
  "prom_fill c p = (if IsEmptyValue (VPtr (pr_Prometheus p = None)) then p\<lparr>pr_Prometheus := Some c\<rparr> else p)"

definition SetPrometheusEndpoint :: "InspectRule list \<Rightarrow> InspectRule list" where
  "SetPrometheusEndpoint allRule =
     map (\<lambda>rule. case irs_Prometheus (ir_Spec rule) of
             None \<Rightarrow> rule
           | Some c \<Rightarrow> rule\<lparr>ir_Spec := (ir_Spec rule)\<lparr>irs_PromQL := map (prom_fill c) (irs_PromQL (ir_Spec rule))\<rparr>\<rparr>)
       allRule"

type_synonym spec_map = "(string, json list) gomap"

definition spec_get :: "spec_map \<Rightarrow> string \<Rightarrow> json list" where
  "spec_get m k = (case mget m k of None \<Rightarrow> [] | Some js \<Rightarrow> js)"

text \<open>One key of one rule.\<close>

definition merge_field ::
    "ExecuteRule \<Rightarrow> (string \<times> json) \<Rightarrow> spec_map \<times> (string, int) gomap \<Rightarrow> spec_map \<times> (string, int) gomap" where
  "merge_field e kv st = (case (kv, st) of ((k, v), (newSpecMap, ruleTotal)) \<Rightarrow>
     (case v of
        JArr val \<Rightarrow>
          (let dedupMap = RuleArrayDeduplication Some (spec_get newSpecMap k @ val) in
           if dedupMap \<noteq> []
           then (mput newSpecMap k dedupMap,
                 mput ruleTotal (mget0 (er_clusterInspectRuleMap e) k) (int (length dedupMap)))
           else (mput newSpecMap k (spec_get newSpecMap k @ val), ruleTotal))
      | _ \<Rightarrow> (newSpecMap, ruleTotal)))"

definition merge_rule ::
    "ExecuteRule \<Rightarrow> InspectRule \<Rightarrow> spec_map \<times> (string, int) gomap \<Rightarrow> spec_map \<times> (string, int) gomap" where
  "merge_rule e rule st =
     (case StructToMap (enc_InspectRuleSpec (ir_Spec rule)) of
        None \<Rightarrow> st
      | Some toMap \<Rightarrow> fold (merge_field e) toMap st)"

definition MergeRule :: "ExecuteRule \<Rightarrow> InspectRule list \<Rightarrow> (ExecuteRule \<times> spec_map) option" where
  "MergeRule e allRule = do {
     scheduled \<leftarrow> SetRuleSchedule e allRule;
     let (newSpecMap, ruleTotal) =
       fold (merge_rule e) (SetPrometheusEndpoint scheduled) ([], [(Component, 1)]);
     Some (e\<lparr>er_ruleTotal := ruleTotal\<rparr>, newSpecMap) }"

definition GetRuleTotal :: "ExecuteRule \<Rightarrow> (string, int) gomap" where
  "GetRuleTotal e = er_ruleTotal e"

text \<open>The jobs of the kinds in the iteration order of rulesSpec.\<close>

fun generate_loop ::
    "(nat \<Rightarrow> string) \<Rightarrow> ExecuteRule \<Rightarrow> K8sNode list \<Rightarrow> spec_map \<Rightarrow> JobRule list \<Rightarrow> JobRule list option" where
  "generate_loop rnd e nodes [] jobs = Some jobs"
| "generate_loop rnd e nodes ((key, v) # rest) jobs =
     (case mget (er_clusterInspectRuleMap e) key of
        None \<Rightarrow> generate_loop rnd e nodes rest jobs
      | Some mapV \<Rightarrow>
          if ArrayFind mapV (er_clusterInspectRuleNames e) \<noteq> None then
            (case Allocation (rnd (length jobs)) (Some (marshal_slice v)) (om_Name (it_Meta (er_Task e))) mapV of
               Inl _ \<Rightarrow> generate_loop rnd e nodes rest jobs
             | Inr allocation \<Rightarrow> generate_loop rnd e nodes rest (jobs @ [allocation]))
          else do {
            allocationRule \<leftarrow> AllocationRule (\<lambda>i. rnd (length jobs + i)) v (om_Name (it_Meta (er_Task e))) nodes mapV;
            generate_loop rnd e nodes rest (jobs @ allocationRule) })"

definition GenerateJob ::
    "(nat \<Rightarrow> string) \<Rightarrow> ExecuteRule \<Rightarrow> K8sNode list \<Rightarrow> spec_map \<Rightarrow> JobRule list option" where
  "GenerateJob rnd e nodes rulesSpec = do {
     jobs \<leftarrow> generate_loop rnd e nodes rulesSpec [];
     Some (case Allocation (rnd (length jobs)) (Some (marshal_slice (spec_get rulesSpec ''componentExclude'')))
                  (om_Name (it_Meta (er_Task e))) Component of
             Inl _ \<Rightarrow> jobs
           | Inr component \<Rightarrow> jobs @ [component]) }"

definition sortRuleOpaToAtLast :: "JobRule list \<Rightarrow> JobRule list" where
  "sortRuleOpaToAtLast rule =
     (case ArrayFinds rule (\<lambda>i. jr_RuleType i = Opa) of
        None \<Rightarrow> rule
      | Some (finds, OpaRule) \<Rightarrow> (take finds rule @ drop (finds + 1) rule) @ [OpaRule])"

section \<open>Which copies of a rule item run where\<close>

text \<open>
  The abstract specification of AllocationRule: the copies of one rule item that have to run.  An
  item with a node name runs as it is, one with a selector once on every node that matches, any
  other once on every node.
\<close>

definition on_node :: "jobj \<Rightarrow> K8sNode \<Rightarrow> jobj" where
  "on_node m node = mput m ''nodeName'' (JStr (kn_Name node))"

definition deploy :: "K8sNode list \<Rightarrow> jobj \<Rightarrow> jobj list" where
  "deploy nodes m =
     (if \<not> has_node m then map (on_node m) nodes
      else if mget m ''nodeName'' \<noteq> None \<and> \<not> IsEmptyValue (json_val (the (mget m ''nodeName''))) then [m]
      else case mget m ''nodeSelector'' of
          None \<Rightarrow> []
        | Some j \<Rightarrow> map (on_node m)
            (filter (\<lambda>n. selector_match (the (MapValConvert (the (as_obj j)))) (kn_Labels n)) nodes))"

definition job_items :: "JobRule \<Rightarrow> jobj list" where
  "job_items j = (case jr_RunRule j of Some (JArr js) \<Rightarrow> map (\<lambda>j. the (as_obj j)) js | _ \<Rightarrow> [])"

definition named_node :: "string \<Rightarrow> jobj \<Rightarrow> bool" where
  "named_node n x \<longleftrightarrow> mget x ''nodeName'' = Some (JStr n)"

definition groups_ok :: "(string, jobj list) gomap \<Rightarrow> bool" where
  "groups_ok mm \<longleftrightarrow> wf_map mm \<and> (\<forall>(n, xs) \<in> set mm. xs \<noteq> [] \<and> list_all (named_node n) xs)"

lemma groups_ok_Nil [simp]: "groups_ok []"
  by (simp add: groups_ok_def)

lemma set_mput: "wf_map m \<Longrightarrow> set (mput m k v) = insert (k, v) {(k', v') \<in> set m. k' \<noteq> k}"
  by (induction m) (auto simp: wf_map_def image_iff)

lemma groups_ok_append:
  "groups_ok mm \<Longrightarrow> named_node k x \<Longrightarrow> groups_ok (mergeMap_append mm k x)"
  by (auto simp: groups_ok_def mergeMap_append_def set_mput split: option.splits dest!: mget_in_set)

lemma mset_mergeMap_append:
  "mset (concat (map snd (mergeMap_append mm k x))) = add_mset x (mset (concat (map snd mm)))"
  by (induction mm) (auto simp: mergeMap_append_def split: option.splits)

lemma named_on_node [simp]: "named_node (kn_Name n) (on_node m n)"
  by (simp add: named_node_def on_node_def go_map)

lemma fold_append_nodes:
  "groups_ok mm \<Longrightarrow>
     groups_ok (fold (\<lambda>data mm. mergeMap_append mm (kn_Name data) (on_node m data)) ns mm)
     \<and> mset (concat (map snd (fold (\<lambda>data mm. mergeMap_append mm (kn_Name data) (on_node m data)) ns mm)))
       = mset (map (on_node m) ns) + mset (concat (map snd mm))"
  by (induction ns arbitrary: mm) (simp_all add: groups_ok_append mset_mergeMap_append)

lemma mergeNodeRule_groups:
  assumes "mergeNodeRule ms nodes mm = Some mm'" and "groups_ok mm" and "list_all has_node ms"
  shows "groups_ok mm' \<and>
    mset (concat (map snd mm')) = mset (concat (map (deploy nodes) ms)) + mset (concat (map snd mm))"
  using assms
proof (induction ms nodes mm rule: mergeNodeRule.induct)
  case (1 nodes mm)
  then show ?case by simp
next
  case (2 m ms nodes mm)
  show ?case
  proof (cases "mget m ''nodeName'' \<noteq> None \<and> \<not> IsEmptyValue (json_val (the (mget m ''nodeName'')))")
    case True
    with 2 obtain n where n: "mget m ''nodeName'' = Some (JStr n)"
      by (auto simp: Let_def as_string_def split: option.splits json.splits)
    then have "named_node n m" by (simp add: named_node_def)
    with 2 True n show ?thesis
      by (auto simp: Let_def as_string_def groups_ok_append mset_mergeMap_append deploy_def)
  next
    case False
    then show ?thesis
    proof (cases "mget m ''nodeSelector''")
      case None
      with 2 False show ?thesis
        by (auto simp: Let_def deploy_def has_node_def sub_doc_def split: if_splits)
    next
      case (Some j)
      with 2 False obtain sel c where s: "j = JObj sel" "MapValConvert sel = Some c"
        by (auto simp: Let_def split: option.splits json.splits if_splits)
      have h: "has_node m" using 2 by simp
      let ?f = "fold (\<lambda>data mm. mergeMap_append mm (kn_Name data) (on_node m data))
          (filter (\<lambda>n. selector_match c (kn_Labels n)) nodes) mm"
      have "groups_ok ?f \<and> mset (concat (map snd ?f)) =
          mset (map (on_node m) (filter (\<lambda>n. selector_match c (kn_Labels n)) nodes))
            + mset (concat (map snd mm))"
        using fold_append_nodes 2(5) by blast
      with 2 False s Some h show ?thesis
        by (auto simp: Let_def deploy_def as_obj_def on_node_def split: if_splits)
    qed
  qed
qed

lemma job_items_node_job [simp]: "job_items (node_job t k s xs) = xs"
  by (simp add: job_items_def node_job_def as_obj_def comp_def)

lemma those_map_Some_eq: "those (map f xs) = Some ys \<Longrightarrow> map (the \<circ> f) xs = ys"
  by (induction xs arbitrary: ys) (auto split: option.splits)

lemma map2_snd_items:
  "map (\<lambda>p. job_items (case p of (i, n, ms) \<Rightarrow> node_job t k (r i) ms)) (zip [a..<a + length mm] mm) = map snd mm"
  by (rule nth_equalityI) (auto simp: case_prod_unfold)

lemma concat_map_general:
  "mset (concat (map (\<lambda>n. map (\<lambda>f. on_node f n) fs) nodes)) = mset (concat (map (\<lambda>f. map (on_node f) nodes) fs))"
proof (induction fs)
  case Nil
  then show ?case by (induction nodes) auto
next
  case (Cons f fs)
  have "mset (concat (map (\<lambda>n. on_node f n # map (\<lambda>f. on_node f n) fs) nodes))
      = mset (map (on_node f) nodes) + mset (concat (map (\<lambda>n. map (\<lambda>f. on_node f n) fs) nodes))"
    by (induction nodes) auto
  with Cons show ?case by simp
qed

lemma deploy_split:
  "mset (concat (map (deploy nodes) maps)) =
     mset (concat (map (deploy nodes) (filter has_node maps)))
     + mset (concat (map (\<lambda>f. map (on_node f) nodes) (filter (\<lambda>m. \<not> has_node m) maps)))"
  by (induction maps) (auto simp: deploy_def)

lemma AllocationRule_cases:
  assumes "AllocationRule rnd rule taskName allNode kind = Some jobs"
  obtains maps mm where "those (map as_obj rule) = Some maps"
    and "mergeNodeRule (filter has_node maps) allNode [] = Some mm"
    and "jobs = map2 (\<lambda>i (n, ms). node_job taskName kind (rnd i) ms) [0..<length mm] mm
           @ (if filter (\<lambda>m. \<not> has_node m) maps = [] then []
              else map2 (\<lambda>i item. node_job taskName kind (rnd (length mm + i))
                     (map (\<lambda>f. on_node f item) (filter (\<lambda>m. \<not> has_node m) maps)))
                     [0..<length allNode] allNode)"
  using assms
  by (auto simp: AllocationRule_def Let_def on_node_def bind_eq_Some_conv split: option.splits if_splits)

lemma groups_ok_mergeNodeRule:
  assumes "mergeNodeRule (filter has_node maps) nodes [] = Some mm"
  shows "groups_ok mm"
    and "mset (concat (map snd mm)) = mset (concat (map (deploy nodes) (filter has_node maps)))"
  using mergeNodeRule_groups [OF assms] by (simp_all add: list_all_iff)


text \<open>Every job of a node kind holds rules of one node only, and at least one.\<close>

lemma AllocationRule_one_node:
  assumes "AllocationRule rnd rule taskName allNode kind = Some jobs" and "j \<in> set jobs"
  shows "\<exists>n. job_items j \<noteq> [] \<and> list_all (named_node n) (job_items j)"
proof -
  obtain maps mm where a: "mergeNodeRule (filter has_node maps) allNode [] = Some mm"
      "jobs = map2 (\<lambda>i (n, ms). node_job taskName kind (rnd i) ms) [0..<length mm] mm
           @ (if filter (\<lambda>m. \<not> has_node m) maps = [] then []
              else map2 (\<lambda>i item. node_job taskName kind (rnd (length mm + i))
                     (map (\<lambda>f. on_node f item) (filter (\<lambda>m. \<not> has_node m) maps)))
                     [0..<length allNode] allNode)"
    using assms(1) by (rule AllocationRule_cases)
  have g: "groups_ok mm" using groups_ok_mergeNodeRule(1) [OF a(1)] .
  consider (grp) i n ms where "(n, ms) \<in> set mm" "j = node_job taskName kind (rnd i) ms"
    | (all) i item where "filter (\<lambda>m. \<not> has_node m) maps \<noteq> []"
        "j = node_job taskName kind (rnd i) (map (\<lambda>f. on_node f item) (filter (\<lambda>m. \<not> has_node m) maps))"
    using assms(2) unfolding a(2) by (auto split: if_splits dest!: set_zip_rightD)
  then show ?thesis
  proof cases
    case grp
    with g show ?thesis by (auto simp: groups_ok_def)
  next
    case all
    then show ?thesis by (intro exI [of _ "kn_Name item"]) (simp add: list_all_iff)
  qed
qed

section \<open>The schedule of the plan on the rules, without the detour through JSON\<close>

definition sched_node :: "InspectRuleNames \<Rightarrow> Node \<Rightarrow> Node" where
  "sched_node r nd =
     (if nd_NodeName nd = None \<and> nd_NodeSelector nd = []
      then \<lparr>nd_NodeName = Some (irn_NodeName r),
            nd_NodeSelector = (case irn_NodeSelector r of None \<Rightarrow> [] | Some s \<Rightarrow> s)\<rparr>
      else nd)"

definition sched_spec :: "InspectRuleNames \<Rightarrow> InspectRuleSpec \<Rightarrow> InspectRuleSpec" where
  "sched_spec r s = s\<lparr>
     irs_FileChange := map (fcr_Node_update (sched_node r)) (irs_FileChange s),
     irs_Sysctl := map (sr_Node_update (sched_node r)) (irs_Sysctl s),
     irs_Systemd := map (sr_Node_update (sched_node r)) (irs_Systemd s),
     irs_FileFilter := map (ffr_Node_update (sched_node r)) (irs_FileFilter s),
     irs_CustomCommand := map (ccr_Node_update (sched_node r)) (irs_CustomCommand s),
     irs_NodeInfo := map (nir_Node_update (sched_node r)) (irs_NodeInfo s)\<rparr>"

text \<open>What schedule_field does to the document of one rule item.\<close>

definition sched_doc :: "InspectRuleNames \<Rightarrow> json \<Rightarrow> json" where
  "sched_doc r j = JObj (schedule_item r (the (as_obj j)))"

lemma as_obj_JObj [simp]: "as_obj (JObj m) = Some m"
  by (simp add: as_obj_def)

lemma dec_strmap_enc: "mget m k = Some (enc_strmap s) \<Longrightarrow> dec_strmap m k = Some s"
  using those_enc_strmap [of s] by (simp add: dec_strmap_def enc_strmap_def)

lemma dec_strmap_null: "mget m k = Some JNull \<Longrightarrow> dec_strmap m k = Some []"
  by (simp add: dec_strmap_def)

text \<open>The two new keys are read by dec_Node and by nothing else.\<close>

lemma schedule_item_other:
  assumes "k \<noteq> ''nodeName''" and "k \<noteq> ''nodeSelector''"
  shows "mget (schedule_item r m) k = mget m k"
  using assms by (simp add: schedule_item_def go_map)

lemma schedule_item_fields [simp]:
  assumes "k \<noteq> ''nodeName''" and "k \<noteq> ''nodeSelector''"
  shows "dec_str (schedule_item r m) k = dec_str m k"
    and "dec_bool (schedule_item r m) k = dec_bool m k"
    and "dec_ptr (schedule_item r m) k d = dec_ptr m k d"
  using assms by (simp_all add: schedule_item_other dec_str_def dec_bool_def dec_ptr_def)

lemma schedule_item_bases [simp]: "dec_RuleItemBases (schedule_item r m) = dec_RuleItemBases m"
  by (simp add: dec_RuleItemBases_def)

lemma dec_Node_schedule:
  assumes "mget m ''nodeName'' = mget (enc_Node nd) ''nodeName''"
    and "mget m ''nodeSelector'' = mget (enc_Node nd) ''nodeSelector''"
  shows "dec_Node (schedule_item r m) = Some (sched_node r nd)"
proof (cases "nd_NodeName nd = None \<and> nd_NodeSelector nd = []")
  case True
  with assms have "mget m ''nodeName'' = None" "mget m ''nodeSelector'' = None"
    by (simp_all add: enc_Node_def json_omit)
  with True show ?thesis
    by (simp add: schedule_item_def dec_Node_def dec_strptr_def dec_strmap_enc dec_strmap_null
        go_map sched_node_def split: option.splits)
next
  case False
  with assms have "schedule_item r m = m"
    by (auto simp: schedule_item_def enc_Node_def json_omit split: option.splits)
  moreover have "dec_Node m = dec_Node (enc_Node nd)"
    using assms by (simp add: dec_Node_def dec_strptr_def dec_strmap_def)
  ultimately show ?thesis using False by (auto simp: codec_simps sched_node_def)
qed

lemmas sched_codec = sched_doc_def codec_simps json_omit map_add_def as_obj_def

lemma sched_FileChange: "dec_FileChangeRule (sched_doc r (enc_FileChangeRule x)) = Some (fcr_Node_update (sched_node r) x)"
  by (cases x) (simp add: enc_FileChangeRule_def dec_FileChangeRule_def sched_codec
      dec_Node_schedule [of _ "fcr_Node x"])

lemma sched_SysRule: "dec_SysRule (sched_doc r (enc_SysRule x)) = Some (sr_Node_update (sched_node r) x)"
  by (cases x) (simp add: enc_SysRule_def dec_SysRule_def sched_codec
      dec_Node_schedule [of _ "sr_Node x"])

lemma sched_FileFilterRule: "dec_FileFilterRule (sched_doc r (enc_FileFilterRule x)) = Some (ffr_Node_update (sched_node r) x)"
  by (cases x) (simp add: enc_FileFilterRule_def dec_FileFilterRule_def sched_codec
      dec_Node_schedule [of _ "ffr_Node x"])

lemma sched_CustomCommandRule: "dec_CustomCommandRule (sched_doc r (enc_CustomCommandRule x)) = Some (ccr_Node_update (sched_node r) x)"
  by (cases x) (simp add: enc_CustomCommandRule_def dec_CustomCommandRule_def sched_codec
      dec_Node_schedule [of _ "ccr_Node x"])

lemma sched_NodeInfoRule: "dec_NodeInfoRule (sched_doc r (enc_NodeInfoRule x)) = Some (nir_Node_update (sched_node r) x)"
proof -
  let ?m = "enc_RuleItemBases (nir_Base x) @ enc_Node (nir_Node x) @
     omit_str ''resourcesType'' (nir_ResourcesType x) @ omit_str ''mount'' (nir_Mount x)"
  have "dec_Node (schedule_item r ?m) = Some (sched_node r (nir_Node x))"
    by (rule dec_Node_schedule) (simp_all add: map_add_def json_omit codec_simps split: option.splits)
  then show ?thesis
    by (cases x) (simp add: enc_NodeInfoRule_def dec_NodeInfoRule_def sched_codec)
qed

lemma sched_OpaRule: "dec_OpaRule (sched_doc r (enc_OpaRule x)) = Some x"
  by (cases x) (simp add: enc_OpaRule_def dec_OpaRule_def sched_codec)

lemma sched_PrometheusRule: "dec_PrometheusRule (sched_doc r (enc_PrometheusRule x)) = Some x"
  by (cases x) (simp add: enc_PrometheusRule_def dec_PrometheusRule_def sched_codec)

lemma sched_ServiceConnectRule: "dec_ServiceConnectRule (sched_doc r (enc_ServiceConnectRule x)) = Some x"
  by (cases x) (simp add: enc_ServiceConnectRule_def dec_ServiceConnectRule_def sched_codec)

lemmas sched_items = sched_FileChange sched_SysRule sched_FileFilterRule sched_CustomCommandRule
  sched_NodeInfoRule sched_OpaRule sched_PrometheusRule sched_ServiceConnectRule

lemma those_append: "those (xs @ ys) = do { a \<leftarrow> those xs; b \<leftarrow> those ys; Some (a @ b) }"
proof (induction xs)
  case Nil
  then show ?case by (cases "those ys") auto
next
  case (Cons x xs)
  then show ?case by (cases x; cases "those xs"; cases "those ys") auto
qed

definition sched_kv :: "InspectRuleNames \<Rightarrow> string \<times> json \<Rightarrow> (string \<times> json) option" where
  "sched_kv r = (\<lambda>(k, v). map_option (Pair k) (schedule_field r v))"

lemma sched_list:
  assumes "\<And>x. as_obj (enc x) \<noteq> None"
  shows "those (map (sched_kv r) (omit_list k enc xs)) = Some (omit_list k (sched_doc r \<circ> enc) xs)"
proof -
  have a: "those (map as_obj (map enc xs)) = Some (map (the \<circ> as_obj \<circ> enc) xs)"
  proof (induction xs)
    case (Cons x xs)
    with assms [of x] show ?case by (cases "as_obj (enc x)") auto
  qed simp
  have "schedule_field r (JArr (map enc xs)) = Some (JArr (map (sched_doc r \<circ> enc) xs))"
    unfolding schedule_field_def json.case a by (simp add: sched_doc_def)
  then show ?thesis by (simp add: omit_list_def sched_kv_def)
qed

lemma sched_list_str: "xs \<noteq> [] \<Longrightarrow> those (map (sched_kv r) (omit_list k JStr xs)) = None"
  by (cases xs) (simp_all add: omit_list_def sched_kv_def schedule_field_def as_obj_def)

lemma sched_ptr: "those (map (sched_kv r) (omit_ptr k enc_PrometheusConfig p)) = Some (omit_ptr k enc_PrometheusConfig p)"
  by (cases p) (simp_all add: omit_ptr_def sched_kv_def schedule_field_def enc_PrometheusConfig_def)

lemma enc_objects:
  "as_obj (enc_FileChangeRule a) \<noteq> None" "as_obj (enc_SysRule b) \<noteq> None"
  "as_obj (enc_FileFilterRule c) \<noteq> None" "as_obj (enc_CustomCommandRule d) \<noteq> None"
  "as_obj (enc_NodeInfoRule e) \<noteq> None" "as_obj (enc_OpaRule f) \<noteq> None"
  "as_obj (enc_PrometheusRule g) \<noteq> None" "as_obj (enc_ServiceConnectRule h) \<noteq> None"
  by (simp_all add: as_obj_def enc_FileChangeRule_def enc_SysRule_def enc_FileFilterRule_def
      enc_CustomCommandRule_def enc_NodeInfoRule_def enc_OpaRule_def enc_PrometheusRule_def
      enc_ServiceConnectRule_def)

lemma those_dec: "(\<And>x. dec (enc x) = Some (f x)) \<Longrightarrow> those (map dec (map enc xs)) = Some (map f xs)"
  by (induction xs) auto

lemma read_sched_list:
  assumes "\<And>x. dec (sched_doc r (enc x)) = Some (f x)"
  shows "mget ys k = None \<Longrightarrow> dec_list (omit_list k (sched_doc r \<circ> enc) xs @ ys) k dec = Some (map f xs)"
    and "dec_list (omit_list k (sched_doc r \<circ> enc) xs) k dec = Some (map f xs)"
  using those_dec [of dec "sched_doc r \<circ> enc" f xs] assms
  by (simp_all add: dec_list_def omit_list_def)

lemma dec_list_missing: "mget obj k = None \<Longrightarrow> dec_list obj k dec = Some []"
  by (simp add: dec_list_def)

definition sched_obj :: "InspectRuleNames \<Rightarrow> InspectRuleSpec \<Rightarrow> jobj" where
  "sched_obj r s = omit_list ''opas'' (sched_doc r \<circ> enc_OpaRule) (irs_Opas s)
     @ omit_ptr ''prometheus'' enc_PrometheusConfig (irs_Prometheus s)
     @ omit_list ''promQL'' (sched_doc r \<circ> enc_PrometheusRule) (irs_PromQL s)
     @ omit_list ''fileChange'' (sched_doc r \<circ> enc_FileChangeRule) (irs_FileChange s)
     @ omit_list ''sysctl'' (sched_doc r \<circ> enc_SysRule) (irs_Sysctl s)
     @ omit_list ''systemd'' (sched_doc r \<circ> enc_SysRule) (irs_Systemd s)
     @ omit_list ''fileFilter'' (sched_doc r \<circ> enc_FileFilterRule) (irs_FileFilter s)
     @ omit_list ''customCommand'' (sched_doc r \<circ> enc_CustomCommandRule) (irs_CustomCommand s)
     @ omit_list ''nodeInfo'' (sched_doc r \<circ> enc_NodeInfoRule) (irs_NodeInfo s)
     @ omit_list ''serviceConnect'' (sched_doc r \<circ> enc_ServiceConnectRule) (irs_ServiceConnect s)"

lemma dec_sched_obj:
  "irs_ComponentExclude s = [] \<Longrightarrow> dec_InspectRuleSpec (JObj (sched_obj r s)) = Some (sched_spec r s)"
  by (cases s) (simp add: dec_InspectRuleSpec_def sched_obj_def sched_spec_def codec_simps json_omit
      map_add_def read_sched_list [where f = "\<lambda>x. x"] read_sched_list sched_items
      dec_list_missing [of _ "''componentExclude''"] del: map_map)

lemma schedule_fields:
  assumes "irs_ComponentExclude s = []"
  shows "\<exists>m. enc_InspectRuleSpec s = JObj m \<and> those (map (sched_kv r) m) = Some (sched_obj r s)"
proof -
  have "omit_list ''componentExclude'' JStr (irs_ComponentExclude s) = []"
    using assms by (simp add: omit_list_def)
  then show ?thesis
    by (simp only: enc_InspectRuleSpec_def json.inject ex_simps simp_thms append_Nil those_append sched_list
        [OF enc_objects(1)] sched_list [OF enc_objects(2)] sched_list [OF enc_objects(3)]
        sched_list [OF enc_objects(4)] sched_list [OF enc_objects(5)] sched_list [OF enc_objects(6)]
        sched_list [OF enc_objects(7)] sched_list [OF enc_objects(8)] sched_ptr sched_obj_def
        Option.bind.bind_lunit Option.bind.simps map_append)
qed

lemma schedule_rule_eq:
  "schedule_rule r rule =
     (if \<not> blank (irn_NodeName r) \<or> irn_NodeSelector r \<noteq> None
      then (if irs_ComponentExclude (ir_Spec rule) = []
            then Some (rule\<lparr>ir_Spec := sched_spec r (ir_Spec rule)\<rparr>) else None)
      else Some rule)"
proof -
  obtain m where m: "enc_InspectRuleSpec (ir_Spec rule) = JObj m" by (simp add: enc_InspectRuleSpec_def)
  show ?thesis
  proof (cases "irs_ComponentExclude (ir_Spec rule) = []")
    case False
    then have "those (map (sched_kv r) m) = None"
      using m sched_list_str [OF False, of r] by (auto simp: enc_InspectRuleSpec_def those_append)
    with False m show ?thesis
      by (simp add: schedule_rule_def StructToMap_def flip: sched_kv_def)
  next
    case True
    with m schedule_fields [OF True, of r]
    have "those (map (sched_kv r) m) = Some (sched_obj r (ir_Spec rule))" by simp
    with True m show ?thesis
      by (simp add: schedule_rule_def StructToMap_def MapToStruct_single dec_sched_obj flip: sched_kv_def)
  qed
qed

definition chosen :: "InspectRuleNames list \<Rightarrow> InspectRule list \<Rightarrow> (InspectRuleNames \<times> InspectRule) list" where
  "chosen rs rules = List.map_filter
     (\<lambda>r. map_option (Pair r) (find (\<lambda>m. irn_Name r = om_Name (ir_Meta m)) rules)) rs"

definition has_choice :: "InspectRuleNames \<Rightarrow> bool" where
  "has_choice r \<longleftrightarrow> \<not> blank (irn_NodeName r) \<or> irn_NodeSelector r \<noteq> None"

definition sched_rule :: "InspectRuleNames \<Rightarrow> InspectRule \<Rightarrow> InspectRule" where
  "sched_rule r rule = (if has_choice r then rule\<lparr>ir_Spec := sched_spec r (ir_Spec rule)\<rparr> else rule)"

definition exclude_clash :: "InspectRuleNames \<times> InspectRule \<Rightarrow> bool" where
  "exclude_clash p \<longleftrightarrow> has_choice (fst p) \<and> irs_ComponentExclude (ir_Spec (snd p)) \<noteq> []"

lemma schedule_loop_eq:
  "schedule_loop rs rules =
     (if list_ex exclude_clash (chosen rs rules) then None
      else Some (map (\<lambda>(r, rule). sched_rule r rule) (chosen rs rules)))"
proof (induction rs)
  case Nil
  then show ?case by (simp add: chosen_def List.map_filter_def)
next
  case (Cons r rs)
  show ?case
  proof (cases "ArrayFinds rules (\<lambda>m. irn_Name r = om_Name (ir_Meta m))")
    case None
    then have "find (\<lambda>m. irn_Name r = om_Name (ir_Meta m)) rules = None"
      by (metis ArrayFinds_find option.map_disc_iff)
    with None Cons show ?thesis by (simp add: chosen_def List.map_filter_simps)
  next
    case (Some p)
    obtain i rule where p: "p = (i, rule)" by (cases p)
    with Some have "find (\<lambda>m. irn_Name r = om_Name (ir_Meta m)) rules = Some rule"
      by (metis ArrayFinds_find option.map(2) snd_conv)
    with Some p Cons show ?thesis
      by (auto simp: chosen_def List.map_filter_simps schedule_rule_eq exclude_clash_def has_choice_def
          sched_rule_def)
  qed
qed

section \<open>Deduplication\<close>

definition item_name :: "jobj \<Rightarrow> json" where
  "item_name m = sub_doc m ''name''"

lemma dedup_names_props:
  assumes "distinct (map item_name acc)"
  shows "distinct (map item_name (dedup_names ms acc))
     \<and> item_name ` set (dedup_names ms acc) = item_name ` set acc \<union> item_name ` set ms
     \<and> set (dedup_names ms acc) \<subseteq> set acc \<union> set ms \<and> prefix acc (dedup_names ms acc)"
  using assms
proof (induction ms arbitrary: acc)
  case Nil
  then show ?case by simp
next
  case (Cons m ms)
  show ?case
  proof (cases "ArrayFinds acc (\<lambda>m1. sub_doc m ''name'' = sub_doc m1 ''name'') = None")
    case True
    then have n: "item_name m \<notin> item_name ` set acc"
      by (auto simp: arr_find item_name_def)
    with Cons.prems have d: "distinct (map item_name (acc @ [m]))" by auto
    have p: "prefix acc (dedup_names ms (acc @ [m]))"
      using Cons.IH [OF d] append_prefixD by blast
    show ?thesis using True Cons.IH [OF d] p by auto
  next
    case False
    then have n: "item_name m \<in> item_name ` set acc"
      by (auto simp: arr_find item_name_def image_iff)
    show ?thesis using False Cons.IH [OF Cons.prems] n by auto
  qed
qed

lemma dedup_names_distinct: "distinct (map item_name (acc @ ms)) \<Longrightarrow> dedup_names ms acc = acc @ ms"
proof (induction ms arbitrary: acc)
  case (Cons m ms)
  then have "ArrayFinds acc (\<lambda>m1. sub_doc m ''name'' = sub_doc m1 ''name'') = None"
    by (auto simp: arr_find item_name_def)
  with Cons show ?case by simp
qed simp

lemma obj_of_objects: "those (map obj_of (map JObj ms)) = Some ms"
  by (induction ms) (auto simp: obj_of_def)

lemma RuleArrayDeduplication_objects:
  "RuleArrayDeduplication Some (map JObj ms) = map JObj (dedup_names ms [])"
proof -
  have "those (map (Some \<circ> JObj) xs) = Some (map JObj xs)" for xs :: "jobj list"
    by (induction xs) auto
  then show ?thesis
    using obj_of_objects [of ms]
    by (simp add: RuleArrayDeduplication_def ArrayStructToArrayMap_def unmarshal_list_def MapToStruct_def)
qed

lemma RuleArrayDeduplication_strings:
  "xs \<noteq> [] \<Longrightarrow> list_all (\<lambda>j. \<exists>s. j = JStr s) xs \<Longrightarrow> RuleArrayDeduplication Some xs = []"
  by (cases xs) (auto simp: RuleArrayDeduplication_def ArrayStructToArrayMap_def unmarshal_list_def obj_of_def)

section \<open>The invariant of MergeRule\<close>

definition rule_keys :: strmap where
  "rule_keys =
     [(''opas'', Opa), (''promQL'', PrometheusType), (''serviceConnect'', ServiceConnect),
      (''fileChange'', FileChange), (''sysctl'', Sysctl), (''systemd'', Systemd),
      (''fileFilter'', FileFilter), (''customCommand'', CustomCommand), (''nodeInfo'', NodeInfo)]"

lemma rule_keys_new [simp]: "er_clusterInspectRuleMap (NewExecuteRuleOptions task) = rule_keys"
  by (simp add: NewExecuteRuleOptions_def rule_keys_def)

lemma rule_keys_inj:
  assumes "mget rule_keys k = Some v" and "mget rule_keys k' = Some v"
  shows "k = k'"
proof -
  have "distinct (map snd rule_keys)" by (simp add: rule_keys_def)
  then have "inj_on snd (set rule_keys)" by (simp add: distinct_map)
  moreover have "(k, v) \<in> set rule_keys" "(k', v) \<in> set rule_keys"
    using assms by (auto dest: mget_in_set)
  ultimately have "(k, v) = (k', v)" using inj_onD [of snd "set rule_keys" "(k, v)" "(k', v)"] by simp
  then show ?thesis by simp
qed

text \<open>The fields of an encoded spec: objects under the keys of rules, strings under componentExclude.\<close>

definition field_ok :: "string \<times> json \<Rightarrow> bool" where
  "field_ok kv = (case snd kv of
       JArr js \<Rightarrow> js \<noteq> [] \<and>
         (if fst kv = ''componentExclude'' then list_all (\<lambda>j. \<exists>s. j = JStr s) js
          else mget rule_keys (fst kv) \<noteq> None \<and> list_all (\<lambda>j. \<exists>m. j = JObj m) js)
     | _ \<Rightarrow> True)"

definition entry_ok :: "(string, int) gomap \<Rightarrow> string \<Rightarrow> json list \<Rightarrow> bool" where
  "entry_ok tot k js \<longleftrightarrow> js \<noteq> [] \<and>
     (if k = ''componentExclude'' then list_all (\<lambda>j. \<exists>s. j = JStr s) js
      else (\<exists>ms. js = map JObj ms \<and> distinct (map item_name ms)) \<and>
           (\<exists>kind. mget rule_keys k = Some kind \<and> mget tot kind = Some (int (length js))))"

definition merged_ok :: "spec_map \<times> (string, int) gomap \<Rightarrow> bool" where
  "merged_ok st = (wf_map (fst st) \<and> (\<forall>k js. mget (fst st) k = Some js \<longrightarrow> entry_ok (snd st) k js))"

lemma entry_ok_mput:
  "entry_ok tot k js \<Longrightarrow> mget rule_keys k' = Some kind \<Longrightarrow> k \<noteq> k' \<Longrightarrow>
     entry_ok (mput tot kind n) k js"
  using rule_keys_inj by (fastforce simp: entry_ok_def go_map)

lemma merged_ok_get:
  "merged_ok (spec, tot) \<Longrightarrow> spec_get spec k \<noteq> [] \<Longrightarrow> entry_ok tot k (spec_get spec k)"
  by (auto simp: merged_ok_def spec_get_def split: option.splits)

definition spec_names :: "spec_map \<Rightarrow> string \<Rightarrow> json set" where
  "spec_names m k = (item_name \<circ> the \<circ> as_obj) ` set (spec_get m k)"

lemma list_all_objects: "list_all (\<lambda>j. \<exists>m. j = JObj m) js \<longleftrightarrow> (\<exists>ms. js = map JObj ms)"
  by (induction js) (auto simp: Cons_eq_map_conv)

lemma dedup_names_nonempty: "ms \<noteq> [] \<Longrightarrow> dedup_names ms [] \<noteq> []"
  using dedup_names_props [of "[]" ms] by auto

text \<open>One field merged in: the invariant is kept and the names of its kind grow by the new ones.\<close>

lemma merge_field_ok:
  assumes st: "merged_ok st" and kv: "field_ok kv" and e: "er_clusterInspectRuleMap e = rule_keys"
  shows "merged_ok (merge_field e kv st)"
proof -
  obtain k v spec tot where eqs: "kv = (k, v)" "st = (spec, tot)" by (cases kv; cases st) auto
  show ?thesis
  proof (cases v)
    case (JArr js)
    show ?thesis
    proof (cases "k = ''componentExclude''")
      case True
      with kv eqs JArr have js: "js \<noteq> []" "list_all (\<lambda>j. \<exists>s. j = JStr s) js"
        by (auto simp: field_ok_def)
      have old: "list_all (\<lambda>j. \<exists>s. j = JStr s) (spec_get spec k)"
        using merged_ok_get [of spec tot k] st True eqs by (cases "spec_get spec k = []") (auto simp: entry_ok_def)
      have "RuleArrayDeduplication Some (spec_get spec k @ js) = []"
        using js old by (intro RuleArrayDeduplication_strings) auto
      with eqs JArr have m: "merge_field e kv st = (mput spec k (spec_get spec k @ js), tot)"
        by (simp add: merge_field_def)
      show ?thesis
        using st True js old unfolding m by (auto simp: merged_ok_def eqs go_map entry_ok_def [of _ "''componentExclude''"])
    next
      case False
      with kv eqs JArr obtain kind ms where js: "js \<noteq> []" "mget rule_keys k = Some kind" "js = map JObj ms"
        by (auto simp: field_ok_def list_all_objects)
      obtain old where old: "spec_get spec k = map JObj old"
        using merged_ok_get [of spec tot k] st False eqs
        by (cases "spec_get spec k = []") (auto simp: entry_ok_def)
      have d: "RuleArrayDeduplication Some (spec_get spec k @ js) = map JObj (dedup_names (old @ ms) [])"
        using old js(3) RuleArrayDeduplication_objects [of "old @ ms"] by simp
      have ne: "dedup_names (old @ ms) [] \<noteq> []" using js by (intro dedup_names_nonempty) auto
      have m: "merge_field e kv st = (mput spec k (map JObj (dedup_names (old @ ms) [])),
          mput tot kind (int (length (dedup_names (old @ ms) []))))"
        using eqs JArr d ne js(2) e by (simp add: merge_field_def mget0_def)
      have dist: "distinct (map item_name (dedup_names (old @ ms) []))"
        using dedup_names_props [of "[]" "old @ ms"] by simp
      have "entry_ok (mput tot kind (int (length (dedup_names (old @ ms) [])))) k
          (map JObj (dedup_names (old @ ms) []))"
        using False ne dist js(2) by (auto simp: entry_ok_def go_map)
      then show ?thesis
        using st js(2) unfolding m by (auto simp: merged_ok_def eqs go_map intro: entry_ok_mput)
    qed
  qed (use st eqs in \<open>auto simp: merge_field_def\<close>)
qed

lemma merge_fields_ok:
  assumes "merged_ok st" and "list_all field_ok kvs" and "er_clusterInspectRuleMap e = rule_keys"
  shows "merged_ok (fold (merge_field e) kvs st)"
  using assms by (induction kvs arbitrary: st) (auto simp: merge_field_ok)

lemma enc_spec_fields: "\<exists>m. enc_InspectRuleSpec s = JObj m \<and> list_all field_ok m"
  by (auto simp: enc_InspectRuleSpec_def omit_list_def omit_ptr_def field_ok_def rule_keys_def
      list_all_iff enc_FileChangeRule_def enc_SysRule_def enc_FileFilterRule_def
      enc_CustomCommandRule_def enc_NodeInfoRule_def enc_OpaRule_def enc_PrometheusRule_def
      enc_PrometheusConfig_def enc_ServiceConnectRule_def split: option.splits)

lemma merge_rules_ok:
  assumes "merged_ok st" and "er_clusterInspectRuleMap e = rule_keys"
  shows "merged_ok (fold (merge_rule e) rules st)"
  using assms
proof (induction rules arbitrary: st)
  case (Cons r rules)
  obtain m where "enc_InspectRuleSpec (ir_Spec r) = JObj m" "list_all field_ok m"
    using enc_spec_fields by blast
  with Cons have "merged_ok (merge_rule e r st)"
    by (simp add: merge_rule_def StructToMap_def merge_fields_ok)
  with Cons show ?case by simp
qed simp

text \<open>
  C9. After the rules of a task are merged, every kind has at least one item, no two items of a kind
  have the same name, and the number reported for the kind is the number of its items.
\<close>

theorem MergeRule_counts:
  assumes "MergeRule (NewExecuteRuleOptions task) allRule = Some (e, spec)"
    and "mget rule_keys key = Some kind" and "mget spec key = Some js"
  shows "mget (GetRuleTotal e) kind = Some (int (length js)) \<and> js \<noteq> [] \<and>
    (\<exists>ms. js = map JObj ms \<and> distinct (map item_name ms))"
proof -
  have i: "merged_ok ([], [(Component, 1)])" by (simp add: merged_ok_def)
  have k: "key \<noteq> ''componentExclude''" using assms(2) by (auto simp: rule_keys_def)
  obtain rules where "e = NewExecuteRuleOptions task\<lparr>er_ruleTotal :=
        snd (fold (merge_rule (NewExecuteRuleOptions task)) rules ([], [(Component, 1)]))\<rparr>"
      "spec = fst (fold (merge_rule (NewExecuteRuleOptions task)) rules ([], [(Component, 1)]))"
    using assms(1) by (auto simp: MergeRule_def bind_eq_Some_conv case_prod_unfold Let_def)
  then have "merged_ok (spec, er_ruleTotal e)"
    using merge_rules_ok [OF i rule_keys_new, of task rules] by simp
  then have "entry_ok (er_ruleTotal e) key js" using assms(3) by (simp add: merged_ok_def)
  with assms(2) k show ?thesis by (simp add: entry_ok_def GetRuleTotal_def)
qed

section \<open>The order and the kinds of the jobs\<close>

lemma sortRuleOpaToAtLast_cases:
  obtains (none) "list_all (\<lambda>j. jr_RuleType j \<noteq> Opa) rule" "sortRuleOpaToAtLast rule = rule"
  | (some) xs r ys where "rule = xs @ r # ys" "list_all (\<lambda>j. jr_RuleType j \<noteq> Opa) xs"
      "jr_RuleType r = Opa" "sortRuleOpaToAtLast rule = xs @ ys @ [r]"
proof (cases "ArrayFinds rule (\<lambda>j. jr_RuleType j = Opa)")
  case None
  then have "sortRuleOpaToAtLast rule = rule"
    by (simp add: sortRuleOpaToAtLast_def del: Opa_def)
  moreover have "list_all (\<lambda>j. jr_RuleType j \<noteq> Opa) rule"
    using None by (simp add: arr_find list_all_iff)
  ultimately show ?thesis by (intro none)
next
  case (Some p)
  obtain i r where p: "p = (i, r)" by (cases p)
  with Some have "ArrayFinds rule (\<lambda>j. jr_RuleType j = Opa) = Some (i, r)" by (simp only:)
  then have i: "i < length rule" "r = rule ! i" "jr_RuleType r = Opa" "\<forall>j < i. jr_RuleType (rule ! j) \<noteq> Opa"
    unfolding ArrayFinds_Some by blast+
  then have "list_all (\<lambda>j. jr_RuleType j \<noteq> Opa) (take i rule)"
    by (auto simp: list_all_length)
  moreover have "rule = take i rule @ r # drop (Suc i) rule"
    using i id_take_nth_drop by blast
  ultimately show ?thesis
    using i Some p by (intro some [of "take i rule" r "drop (Suc i) rule"])
      (simp_all add: sortRuleOpaToAtLast_def del: Opa_def)
qed

lemma sortRuleOpaToAtLast_order:
  "mset (sortRuleOpaToAtLast rule) = mset rule \<and>
   (length (filter (\<lambda>j. jr_RuleType j = Opa) rule) \<le> 1 \<longrightarrow>
     sortRuleOpaToAtLast rule = filter (\<lambda>j. jr_RuleType j \<noteq> Opa) rule @ filter (\<lambda>j. jr_RuleType j = Opa) rule)"
proof (cases rule rule: sortRuleOpaToAtLast_cases)
  case none
  then show ?thesis by (simp add: list_all_iff filter_empty_conv filter_id_conv del: Opa_def)
next
  case (some xs r ys)
  then have x: "filter (\<lambda>j. jr_RuleType j = Opa) xs = []" "filter (\<lambda>j. jr_RuleType j \<noteq> Opa) xs = xs"
    by (simp_all add: list_all_iff filter_empty_conv filter_id_conv del: Opa_def)
  have "filter (\<lambda>j. jr_RuleType j \<noteq> Opa) ys = ys" if "filter (\<lambda>j. jr_RuleType j = Opa) ys = []"
    using that by (simp add: filter_empty_conv filter_id_conv)
  with some x show ?thesis by (auto simp del: Opa_def)
qed

lemma AllocationRule_kind:
  assumes "AllocationRule rnd rule taskName allNode kind = Some jobs" and "j \<in> set jobs"
  shows "jr_RuleType j = kind"
proof -
  obtain maps mm where
      "mergeNodeRule (filter has_node maps) allNode [] = Some mm" and
      "jobs = map2 (\<lambda>i (n, ms). node_job taskName kind (rnd i) ms) [0..<length mm] mm
           @ (if filter (\<lambda>m. \<not> has_node m) maps = [] then []
              else map2 (\<lambda>i item. node_job taskName kind (rnd (length mm + i))
                     (map (\<lambda>f. on_node f item) (filter (\<lambda>m. \<not> has_node m) maps)))
                     [0..<length allNode] allNode)"
    using assms(1) by (rule AllocationRule_cases)
  with assms(2) show ?thesis by (auto simp: node_job_def split: if_splits)
qed

lemma filter_none: "(\<And>x. x \<in> set xs \<Longrightarrow> \<not> P x) \<Longrightarrow> filter P xs = []"
  by (simp add: filter_empty_conv)

abbreviation opa_jobs :: "JobRule list \<Rightarrow> JobRule list" where
  "opa_jobs jobs \<equiv> filter (\<lambda>j. jr_RuleType j = Opa) jobs"

lemma rule_keys_opa: "mget rule_keys k = Some Opa \<longleftrightarrow> k = ''opas''"
  by (auto simp: rule_keys_def split: if_splits)

lemma generate_loop_opa:
  assumes "generate_loop rnd e nodes kvs jobs = Some jobs'"
    and "er_clusterInspectRuleMap e = rule_keys"
    and "er_clusterInspectRuleNames e = [Opa, PrometheusType, ServiceConnect]"
  shows "length (opa_jobs jobs') = length (opa_jobs jobs) + length (filter (\<lambda>(k, v). k = ''opas'') kvs)"
  using assms
proof (induction rnd e nodes kvs jobs rule: generate_loop.induct)
  case (1 rnd e nodes jobs)
  then show ?case by simp
next
  case (2 rnd e nodes key v rest jobs)
  show ?case
  proof (cases "mget rule_keys key")
    case None
    then have "key \<noteq> ''opas''" by (auto simp: rule_keys_def)
    with 2 None show ?thesis by (simp del: Opa_def)
  next
    case (Some kind)
    then have key: "kind = Opa \<longleftrightarrow> key = ''opas''" using rule_keys_opa [of key] by auto
    show ?thesis
    proof (cases "ArrayFind kind (er_clusterInspectRuleNames e) \<noteq> None")
      case True
      with 2 Some key show ?thesis by (simp add: Allocation_def del: Opa_def)
    next
      case False
      then have k: "kind \<noteq> Opa" using 2 by (auto simp: arr_find)
      from 2 Some False obtain a where
        a: "AllocationRule (\<lambda>i. rnd (length jobs + i)) v (om_Name (it_Meta (er_Task e))) nodes kind = Some a"
          "generate_loop rnd e nodes rest (jobs @ a) = Some jobs'"
        by (auto simp: bind_eq_Some_conv)
      have "opa_jobs a = []"
        using AllocationRule_kind [OF a(1)] k by (intro filter_none) auto
      with 2 Some False a k key show ?thesis by (simp del: Opa_def)
    qed
  qed
qed

text \<open>
  C11. Of the jobs generated for a task at most one is the OPA job, and the order in which they are
  stored is the generated one with that job moved to the end.
\<close>

theorem GenerateJob_opa_last:
  assumes "GenerateJob rnd (NewExecuteRuleOptions task) nodes spec = Some jobs" and "wf_map spec"
  shows "sortRuleOpaToAtLast jobs = filter (\<lambda>j. jr_RuleType j \<noteq> Opa) jobs @ opa_jobs jobs
    \<and> length (opa_jobs jobs) \<le> 1"
proof -
  obtain js c where g: "generate_loop rnd (NewExecuteRuleOptions task) nodes spec [] = Some js"
      "jobs = js @ [c]" "jr_RuleType c = Component"
    using assms(1) by (auto simp: GenerateJob_def bind_eq_Some_conv Allocation_def)
  have "length (filter (\<lambda>(k, v). k = ''opas'') spec) \<le> 1"
    using assms(2)
  proof (induction spec)
    case (Cons kv spec)
    then have "filter (\<lambda>(k, v). k = ''opas'') spec = []" if "fst kv = ''opas''"
      using that by (intro filter_none) (auto simp: wf_map_def image_iff)
    with Cons show ?case by (auto simp: wf_map_def)
  qed simp
  then have "length (opa_jobs jobs) \<le> 1"
    using generate_loop_opa [OF g(1)] g by (simp add: NewExecuteRuleOptions_def rule_keys_def)
  then show ?thesis using sortRuleOpaToAtLast_order [of jobs] by blast
qed

text \<open>
  C10. Putting the plan's node choice on the rules: every rule the task names and the cluster has
  comes out once, in the task's order, the items without a node of their own carrying the choice
  and the others unchanged, as if the typed fields had been set without the detour through JSON;
  and the detour panics as soon as a rule with a node choice excludes components.
\<close>

theorem SetRuleSchedule_typed:
  "SetRuleSchedule e rules =
     (let picked = chosen (its_RuleNames (it_Spec (er_Task e))) rules
      in if list_ex exclude_clash picked then None
         else Some (map (\<lambda>(r, rule). sched_rule r rule) picked))"
  by (simp add: SetRuleSchedule_def schedule_loop_eq)

section \<open>Concrete runs\<close>

definition two_nodes :: "K8sNode list" where
  "two_nodes = [mk_node ''n1'' [(''disk'', ''ssd'')], mk_node ''n2'' []]"

definition three_items :: "json list" where
  "three_items = [JObj [(''name'', JStr ''a'')],
     JObj [(''name'', JStr ''b''), (''nodeName'', JStr ''n2'')],
     JObj [(''name'', JStr ''c''), (''nodeSelector'', JObj [(''disk'', JStr ''ssd'')])]]"


definition demo_task :: InspectTask where
  "demo_task = \<lparr>it_Type = \<lparr>tm_Kind = ''InspectTask'', tm_APIVersion = ''v1''\<rparr>,
     it_Meta = empty_meta ''task'',
     it_Spec = \<lparr>its_ClusterName = None,
       its_RuleNames = [\<lparr>irn_Name = ''r1'', irn_NodeName = [], irn_NodeSelector = None\<rparr>,
                        \<lparr>irn_Name = ''r2'', irn_NodeName = ''n1'', irn_NodeSelector = None\<rparr>],
       its_Timeout = ''10m'', its_InspectPolicy = InspectTypeInstant\<rparr>,
     it_Status = zero_TaskStatus\<rparr>"

definition demo_sys :: "string \<Rightarrow> SysRule" where
  "demo_sys n = \<lparr>sr_Base = \<lparr>ri_Name = n, ri_Rule = ''active'', ri_Desc = [], ri_Level = WarningLevel\<rparr>,
     sr_Node = \<lparr>nd_NodeName = None, nd_NodeSelector = []\<rparr>\<rparr>"

definition demo_opa :: OpaRule where
  "demo_opa = \<lparr>opr_Base = \<lparr>ri_Name = ''o'', ri_Rule = [], ri_Desc = [], ri_Level = DangerLevel\<rparr>,
     opr_Module = ''package p''\<rparr>"

definition demo_rules :: "InspectRule list" where
  "demo_rules =
     [\<lparr>ir_Meta = empty_meta ''r1'', ir_Spec = zero_RuleSpec\<lparr>irs_Systemd := [demo_sys ''a'', demo_sys ''b''],
         irs_Opas := [demo_opa]\<rparr>, ir_Status = zero_RuleStatus\<rparr>,
      \<lparr>ir_Meta = empty_meta ''r2'', ir_Spec = zero_RuleSpec\<lparr>irs_Systemd := [demo_sys ''b'', demo_sys ''c'']\<rparr>,
         ir_Status = zero_RuleStatus\<rparr>]"

definition demo_merged :: "ExecuteRule \<times> spec_map" where
  "demo_merged = the (MergeRule (NewExecuteRuleOptions demo_task) demo_rules)"

lemma demo_merge: "MergeRule (NewExecuteRuleOptions demo_task) demo_rules = Some demo_merged"
  by code_simp

theorem MergeRule_counts_witness:
  "mget (GetRuleTotal (fst demo_merged)) ''systemd'' = Some 3"
proof -
  have a: "MergeRule (NewExecuteRuleOptions demo_task) demo_rules = Some (fst demo_merged, snd demo_merged)"
    using demo_merge by simp
  have b: "mget rule_keys ''systemd'' = Some ''systemd''" by code_simp
  have c: "mget (snd demo_merged) ''systemd'' = Some (spec_get (snd demo_merged) ''systemd'')" by code_simp
  have d: "length (spec_get (snd demo_merged) ''systemd'') = 3" by code_simp
  from MergeRule_counts [OF a b c] d show ?thesis by simp
qed

theorem GenerateJob_opa_last_witness:
  "length (opa_jobs (the (GenerateJob (\<lambda>i. itoa (int i)) (NewExecuteRuleOptions demo_task) two_nodes
     (snd demo_merged)))) \<le> 1"
proof -
  have "GenerateJob (\<lambda>i. itoa (int i)) (NewExecuteRuleOptions demo_task) two_nodes (snd demo_merged)
      = Some (the (GenerateJob (\<lambda>i. itoa (int i)) (NewExecuteRuleOptions demo_task) two_nodes (snd demo_merged)))"
    by code_simp
  moreover have "wf_map (snd demo_merged)" by code_simp
  ultimately show ?thesis using GenerateJob_opa_last by blast
qed

end
