(* ===== verification/Kube_Access.thy ===== *)
theory Kube_Access
  imports Kube_Types Constants
begin

text \<open>
  pkg/kube: how the program comes to its clients (kubeconfig.go), for its own cluster and for the
  clusters a task names, and the resources of a whole cluster (getresources.go).  client-go is a
  parameter: where it finds configurations, which bytes it takes for one, which clients it makes.
  Base64, in which the object of a cluster holds its kubeconfig, is written out.
\<close>

section \<open>Base64\<close>

definition b64_alphabet :: string where
  "b64_alphabet = ''ABCDEFGHIJKLMNOPQRSTUVWXYZabcdefghijklmnopqrstuvwxyz0123456789+/''"

definition b64_val :: "char \<Rightarrow> nat option" where
  "b64_val c = map_of (zip b64_alphabet [0..<64]) c"

definition b64_char :: "nat \<Rightarrow> char" where
  "b64_char n = b64_alphabet ! n"

fun b64_quanta :: "string \<Rightarrow> string option" where
  "b64_quanta [] = Some []"
| "b64_quanta (a # b # c # d # r) =
     (if c = CHR ''='' \<and> d = CHR ''='' \<and> r = [] then do {
        x \<leftarrow> b64_val a; y \<leftarrow> b64_val b;
        Some [char_of (x * 4 + y div 16)] }
      else if d = CHR ''='' \<and> r = [] then do {
        x \<leftarrow> b64_val a; y \<leftarrow> b64_val b; z \<leftarrow> b64_val c;
        Some [char_of (x * 4 + y div 16), char_of (y mod 16 * 16 + z div 4)] }
      else do {
        x \<leftarrow> b64_val a; y \<leftarrow> b64_val b; z \<leftarrow> b64_val c; u \<leftarrow> b64_val d;
        s \<leftarrow> b64_quanta r;
        Some (char_of (x * 4 + y div 16) # char_of (y mod 16 * 16 + z div 4) # char_of (z mod 4 * 64 + u) # s) })"
| "b64_quanta _ = None"

text \<open>Line breaks may stand anywhere.\<close>

definition DecodeString :: "string \<Rightarrow> string option" where
  "DecodeString s = b64_quanta (filter (\<lambda>c. c \<noteq> CHR 0x0A \<and> c \<noteq> CHR 0x0D) s)"

text \<open>The encoder of the other side, which wrote the kubeconfig into the object of the cluster.\<close>

fun b64_encode :: "string \<Rightarrow> string" where
  "b64_encode [] = []"
| "b64_encode [p] = [b64_char (of_char p div 4), b64_char (of_char p mod 4 * 16), CHR ''='', CHR ''='']"
| "b64_encode [p, q] = [b64_char (of_char p div 4), b64_char (of_char p mod 4 * 16 + of_char q div 16),
     b64_char (of_char q mod 16 * 4), CHR ''='']"
| "b64_encode (p # q # r # s) = b64_char (of_char p div 4) # b64_char (of_char p mod 4 * 16 + of_char q div 16)
     # b64_char (of_char q mod 16 * 4 + of_char r div 64) # b64_char (of_char r mod 64) # b64_encode s"

lemma b64_val_char: "n < 64 \<Longrightarrow> b64_val (b64_char n) = Some n"
proof -
  have "list_all (\<lambda>n. b64_val (b64_char n) = Some n) [0..<64]" by code_simp
  then show "n < 64 \<Longrightarrow> b64_val (b64_char n) = Some n" by (simp add: list_all_iff)
qed

lemma b64_char_plain: "n < 64 \<Longrightarrow> b64_char n \<noteq> CHR ''='' \<and> b64_char n \<noteq> CHR 0x0A \<and> b64_char n \<noteq> CHR 0x0D"
proof -
  have "list_all (\<lambda>n. b64_char n \<noteq> CHR ''='' \<and> b64_char n \<noteq> CHR 0x0A \<and> b64_char n \<noteq> CHR 0x0D) [0..<64]" by code_simp
  then show "n < 64 \<Longrightarrow> b64_char n \<noteq> CHR ''='' \<and> b64_char n \<noteq> CHR 0x0A \<and> b64_char n \<noteq> CHR 0x0D" by (simp add: list_all_iff)
qed

lemma char_bound: "(of_char c :: nat) < 256"
  by (rule nat_of_char_less_256)

lemma sextets:
  "(of_char p :: nat) div 4 < 64" "(of_char p :: nat) mod 4 * 16 < 64"
  "(of_char p :: nat) mod 4 * 16 + of_char q div 16 < 64" "(of_char q :: nat) mod 16 * 4 < 64"
  "(of_char q :: nat) mod 16 * 4 + of_char r div 64 < 64" "(of_char r :: nat) mod 64 < 64"
  using char_bound [of p] char_bound [of q] char_bound [of r] by linarith+

lemma split_sextet:
  fixes a b k m :: nat
  assumes "b < k"
  shows "(a * k + b) div k = a" "(a * k + b) mod k = b"
  using assms by simp_all

lemma octets:
  "(of_char p :: nat) div 4 * 4 + of_char p mod 4 * 16 div 16 = of_char p"
  "(of_char p :: nat) div 4 * 4 + (of_char p mod 4 * 16 + of_char q div 16) div 16 = of_char p"
  "((of_char p :: nat) mod 4 * 16 + of_char q div 16) mod 16 * 16 + of_char q mod 16 * 4 div 4 = of_char q"
  "((of_char p :: nat) mod 4 * 16 + of_char q div 16) mod 16 * 16 + (of_char q mod 16 * 4 + of_char r div 64) div 4 = of_char q"
  "((of_char q :: nat) mod 16 * 4 + of_char r div 64) mod 4 * 64 + of_char r mod 64 = of_char r"
proof -
  have "(of_char q :: nat) div 16 < 16" "(of_char r :: nat) div 64 < 4"
    using char_bound [of q] char_bound [of r] by linarith+
  note halves = split_sextet [OF this(1)] split_sextet [OF this(2)]
  have whole: "x * k div k = x" if "0 < k" for x k :: nat using that by simp
  show "(of_char p :: nat) div 4 * 4 + of_char p mod 4 * 16 div 16 = of_char p"
    "(of_char p :: nat) div 4 * 4 + (of_char p mod 4 * 16 + of_char q div 16) div 16 = of_char p"
    "((of_char p :: nat) mod 4 * 16 + of_char q div 16) mod 16 * 16 + of_char q mod 16 * 4 div 4 = of_char q"
    "((of_char p :: nat) mod 4 * 16 + of_char q div 16) mod 16 * 16 + (of_char q mod 16 * 4 + of_char r div 64) div 4 = of_char q"
    "((of_char q :: nat) mod 16 * 4 + of_char r div 64) mod 4 * 64 + of_char r mod 64 = of_char r"
    by (simp_all only: halves whole zero_less_numeral div_mult_mod_eq)
qed

lemmas b64_facts = sextets b64_val_char b64_char_plain

lemma b64_quanta_encode: "b64_quanta (b64_encode s) = Some s"
proof (induction s rule: b64_encode.induct)
  case (4 p q r s)
  show ?case by (simp only: b64_encode.simps b64_quanta.simps b64_facts octets 4 char_of_char bind.bind_lunit simp_thms if_False)
next
  case 1
  show ?case by simp
next
  case (2 p)
  show ?case by (simp only: b64_encode.simps b64_quanta.simps b64_facts octets char_of_char bind.bind_lunit simp_thms if_True)
next
  case (3 p q)
  show ?case by (simp only: b64_encode.simps b64_quanta.simps b64_facts octets char_of_char bind.bind_lunit simp_thms if_True if_False)
qed

lemma b64_encode_no_break: "filter (\<lambda>c. c \<noteq> CHR 0x0A \<and> c \<noteq> CHR 0x0D) (b64_encode s) = b64_encode s"
proof (induction s rule: b64_encode.induct)
  case (4 p q r s)
  show ?case by (simp only: b64_encode.simps filter.simps b64_facts 4 simp_thms if_True)
qed (simp_all add: b64_facts del: One_nat_def)

lemma DecodeString_encode: "DecodeString (b64_encode s) = Some s"
  by (simp add: DecodeString_def b64_encode_no_break b64_quanta_encode)

section \<open>Clients\<close>

record RestConfig =
  rcf_Host :: string

text \<open>
  client-go: the configuration of a file, the default one, the one of the pod; whether bytes are a
  kubeconfig (else the error) and the configuration they hold; the errors of making the three clients.
\<close>

record client_go =
  go_flags :: "string \<Rightarrow> string + RestConfig"
  go_default :: "string + RestConfig"
  go_incluster :: "string + RestConfig"
  go_bytes :: "string \<Rightarrow> string option"
  go_config :: "string \<Rightarrow> string + RestConfig"
  go_clientset :: "RestConfig \<Rightarrow> string option"
  go_dynamic :: "RestConfig \<Rightarrow> string option"
  go_versioned :: "RestConfig \<Rightarrow> string option"

text \<open>A client is known by the configuration it was made from.\<close>

record KubernetesClient =
  kcl_KubeConfig :: RestConfig
  kcl_ClientSet :: RestConfig
  kcl_VersionClientSet :: RestConfig
  kcl_DynamicClient :: RestConfig

definition wrap_err :: "string \<Rightarrow> string \<Rightarrow> string" where
  "wrap_err msg err = msg @ '': '' @ err"

definition GetKubeConfig :: "client_go \<Rightarrow> string \<Rightarrow> string + RestConfig" where
  "GetKubeConfig G kubeconfigPath =
     (if kubeconfigPath \<noteq> [] then
        (case go_flags G kubeconfigPath of
           Inr c \<Rightarrow> Inr c
         | Inl _ \<Rightarrow> (case go_default G of
             Inr c \<Rightarrow> Inr c
           | Inl err \<Rightarrow> Inl (wrap_err (''failed to load kubeconfig file from '' @ kubeconfigPath) err)))
      else (case go_default G of
           Inr c \<Rightarrow> Inr c
         | Inl _ \<Rightarrow> (case go_incluster G of
             Inr c \<Rightarrow> Inr c
           | Inl err \<Rightarrow> Inl (wrap_err ''failed to load kubeconfig file from $HOME/.kube/'' err))))"

definition GetKubeConfigInCluster :: "client_go \<Rightarrow> string + RestConfig" where
  "GetKubeConfigInCluster G = (case go_incluster G of Inr c \<Rightarrow> Inr c | Inl _ \<Rightarrow> go_default G)"

definition K8SClients :: "client_go \<Rightarrow> RestConfig \<Rightarrow> string + KubernetesClient" where
  "K8SClients G kubeConfig =
     (case go_clientset G kubeConfig of
        Some err \<Rightarrow> Inl (wrap_err ''failed to load clientSet'' err)
      | None \<Rightarrow>
     (case go_dynamic G kubeConfig of
        Some err \<Rightarrow> Inl (wrap_err ''failed to load dynamicClient'' err)
      | None \<Rightarrow>
     (case go_versioned G kubeConfig of
        Some err \<Rightarrow> Inl (wrap_err ''failed to load informersClient'' err)
      | None \<Rightarrow> Inr \<lparr>kcl_KubeConfig = kubeConfig, kcl_ClientSet = kubeConfig,
          kcl_VersionClientSet = kubeConfig, kcl_DynamicClient = kubeConfig\<rparr>)))"

definition GetK8SClients :: "client_go \<Rightarrow> string \<Rightarrow> string + KubernetesClient" where
  "GetK8SClients G kubeconfig =
     (case GetKubeConfig G kubeconfig of
        Inl err \<Rightarrow> Inl (wrap_err ''failed to load config file'' err)
      | Inr kubeConfig \<Rightarrow> K8SClients G kubeConfig)"

text \<open>
  The client of another cluster, from the answer to the request for the object of the cluster.  The
  kubeconfig is taken out of it by type assertions, which panic (None) where a field is missing.
\<close>

definition as_map :: "json \<Rightarrow> jobj option" where
  "as_map j = (case j of JObj m \<Rightarrow> Some m | _ \<Rightarrow> None)"

definition unmarshal_map :: "doc \<Rightarrow> jobj option" where
  "unmarshal_map d = (case d of Some (JObj m) \<Rightarrow> Some m | Some JNull \<Rightarrow> Some [] | _ \<Rightarrow> None)"

definition cluster_kubeconfig :: "jobj \<Rightarrow> string option" where
  "cluster_kubeconfig cluster = do {
     spec \<leftarrow> mget cluster ''spec''; spec' \<leftarrow> as_map spec;
     connection \<leftarrow> mget spec' ''connection''; connection' \<leftarrow> as_map connection;
     kubeConfig \<leftarrow> mget connection' ''kubeconfig'';
     (case kubeConfig of JStr s \<Rightarrow> Some s | _ \<Rightarrow> None) }"

definition GetMultiClusterClient :: "client_go \<Rightarrow> 'e + doc \<Rightarrow> (string + KubernetesClient) option" where
  "GetMultiClusterClient G answer =
     (case answer of
        Inl _ \<Rightarrow> Some (Inl ''failed to get cluster config'')
      | Inr raw \<Rightarrow>
          (case unmarshal_map raw of
             None \<Rightarrow> Some (Inl ''failed to unmarshal cluster config'')
           | Some cluster \<Rightarrow> do {
               kubeConfig \<leftarrow> cluster_kubeconfig cluster;
               Some (case DecodeString kubeConfig of
                  None \<Rightarrow> Inl ''failed to decode kubeconfig''
                | Some bytes \<Rightarrow>
                    (case go_bytes G bytes of
                       Some err \<Rightarrow> Inl err
                     | None \<Rightarrow>
                         (case go_config G bytes of
                            Inl err \<Rightarrow> Inl err
                          | Inr clientConfig \<Rightarrow> K8SClients G clientConfig))) }))"

text \<open>The configuration of the program, of the config map kubeeye-config; yaml is a parameter.\<close>

definition GetKubeEyeConfig :: "(string \<Rightarrow> string + KubeEyeConfig) \<Rightarrow> string + strmap \<Rightarrow> string + KubeEyeConfig" where
  "GetKubeEyeConfig yaml cm = (case cm of Inl err \<Rightarrow> Inl err | Inr data \<Rightarrow> yaml (mget0 data ''config''))"

section \<open>The resources of a cluster\<close>

text \<open>A list is nil (None) where it could not be read.\<close>

type_synonym ulist = "jobj list option"

record K8SResource =
  kr_ServerVersion :: string
  kr_CreationTime :: time
  kr_APIServerAddress :: string
  kr_Nodes :: ulist
  kr_NodesCount :: int
  kr_Namespaces :: ulist
  kr_NameSpacesCount :: int
  kr_NameSpacesList :: "string list"
  kr_Deployments :: ulist
  kr_Pods :: ulist
  kr_DaemonSets :: ulist
  kr_StatefulSets :: ulist
  kr_Jobs :: ulist
  kr_CronJobs :: ulist
  kr_WorkloadsCount :: int
  kr_Roles :: ulist
  kr_ClusterRoles :: ulist
  kr_Events :: ulist

text \<open>The dynamic client: the major and minor version, the lists by resource and group.\<close>

record kube_reads =
  kq_version :: "(string \<times> string) option"
  kq_list :: "string \<Rightarrow> string \<Rightarrow> string + jobj list"
  kq_now :: time

definition GetObjectCounts :: "kube_reads \<Rightarrow> string \<Rightarrow> string \<Rightarrow> ulist \<times> int \<times> string option" where
  "GetObjectCounts Q resource groups =
     (case kq_list Q resource groups of
        Inl err \<Rightarrow> (None, 0, Some err)
      | Inr items \<Rightarrow> (Some items, int (length items), None))"

definition item_GetName :: "jobj \<Rightarrow> string" where
  "item_GetName item =
     (case mget item ''metadata'' of
        Some (JObj m) \<Rightarrow> (case mget m ''name'' of Some (JStr s) \<Rightarrow> s | _ \<Rightarrow> [])
      | _ \<Rightarrow> [])"

definition GetK8SResources :: "kube_reads \<Rightarrow> RestConfig \<Rightarrow> K8SResource option" where
  "GetK8SResources Q kubeconfig =
     (let serverVersion = (case kq_version Q of None \<Rightarrow> [] | Some (major, minor) \<Rightarrow> major @ ''.'' @ minor);
          (nodes, nodesCount, _) = GetObjectCounts Q confNodes NoGroup;
          (namespaces, namespacesCount, _) = GetObjectCounts Q confNamespaces NoGroup
      in case namespaces of
           None \<Rightarrow> None
         | Some items \<Rightarrow>
             (let namespacesList = map item_GetName items;
                  (deployments, deploymentsCount, _) = GetObjectCounts Q confDeployments AppsGroup;
                  (pods, podsCount, _) = GetObjectCounts Q confPods NoGroup;
                  (daemonSets, daemonSetsCount, _) = GetObjectCounts Q confDaemonsets AppsGroup;
                  (statefulSets, statefulSetsCount, _) = GetObjectCounts Q confStatefulsets AppsGroup;
                  workloadsCount = deploymentsCount + daemonSetsCount + statefulSetsCount + podsCount;
                  (jobs, _, _) = GetObjectCounts Q confJobs BatchGroup;
                  (cronjobs, _, _) = GetObjectCounts Q confCronjobs BatchGroup;
                  (events, _, _) = GetObjectCounts Q confEvents NoGroup;
                  (roles, _, _) = GetObjectCounts Q confRoles RoleGroup;
                  (clusterRoles, _, _) = GetObjectCounts Q confClusterroles RoleGroup
              in Some \<lparr>kr_ServerVersion = serverVersion, kr_CreationTime = kq_now Q,
                   kr_APIServerAddress = rcf_Host kubeconfig, kr_Nodes = nodes, kr_NodesCount = nodesCount,
                   kr_Namespaces = namespaces, kr_NameSpacesCount = namespacesCount, kr_NameSpacesList = namespacesList,
                   kr_Deployments = deployments, kr_Pods = pods, kr_DaemonSets = daemonSets, kr_StatefulSets = statefulSets,
                   kr_Jobs = jobs, kr_CronJobs = cronjobs, kr_WorkloadsCount = workloadsCount, kr_Roles = roles,
                   kr_ClusterRoles = clusterRoles, kr_Events = events\<rparr>))"

section \<open>Informers\<close>

text \<open>
  pkg/informers: which resources the shared informers watch.  A factory is nil (None) or knows the
  resources asked of it; asking for a resource that its library does not know is an error, only logged.
\<close>

type_synonym gver = "string \<times> string"
type_synonym watched = "(gver \<times> string) list"

record informerFactory =
  if_kubeEye :: "watched option"
  if_kubernetes :: "watched option"

definition KeEyeGver :: "(gver, string list) gomap" where
  "KeEyeGver = [((''kubeeye.kubesphere.io'', ''v1alpha2''),
     [''inspectrules'', ''inspectplans'', ''inspecttasks'', ''inspectresults''])]"

definition K8sEyeGver :: "(gver, string list) gomap" where
  "K8sEyeGver = [(([], ''v1''), [''configmaps'', ''nodes'', ''pods'', ''services''])]"

definition NewInformerFactory :: "bool \<Rightarrow> bool \<Rightarrow> informerFactory" where
  "NewInformerFactory k8sClient kubeEyeClient =
     \<lparr>if_kubeEye = (if kubeEyeClient then Some [] else None), if_kubernetes = (if k8sClient then Some [] else None)\<rparr>"

definition watch_all :: "(gver \<times> string \<Rightarrow> bool) \<Rightarrow> (gver, string list) gomap \<Rightarrow> watched \<Rightarrow> watched" where
  "watch_all known gver ws = fold (\<lambda>(gv, resources) ws. fold (\<lambda>r ws. if known (gv, r) \<and> (gv, r) \<notin> set ws then ws @ [(gv, r)] else ws) resources ws) gver ws"

definition ForResources ::
    "(gver \<times> string \<Rightarrow> bool) \<Rightarrow> (gver, string list) gomap option \<Rightarrow> (gver, string list) gomap option
     \<Rightarrow> informerFactory \<Rightarrow> informerFactory" where
  "ForResources known keEyeGver k8sEyeGver i =
     (let watch = (\<lambda>gver f. case (gver, f) of (Some g, Some ws) \<Rightarrow> Some (watch_all known g ws) | _ \<Rightarrow> f)
      in i\<lparr>if_kubeEye := watch keEyeGver (if_kubeEye i), if_kubernetes := watch k8sEyeGver (if_kubernetes i)\<rparr>)"

text \<open>The watches that run once the factories are started, those of the cluster first.\<close>

definition Start_informers :: "informerFactory \<Rightarrow> watched" where
  "Start_informers i = (case if_kubernetes i of None \<Rightarrow> [] | Some ws \<Rightarrow> ws) @ (case if_kubeEye i of None \<Rightarrow> [] | Some ws \<Rightarrow> ws)"

lemma set_watch_all: "set (watch_all known gver ws) = set ws \<union> {(gv, r) | gv r. (\<exists>rs. (gv, rs) \<in> set gver \<and> r \<in> set rs) \<and> known (gv, r)}"
proof -
  have inner: "set (fold (\<lambda>r ws. if known (gv, r) \<and> (gv, r) \<notin> set ws then ws @ [(gv, r)] else ws) rs ws)
      = set ws \<union> {(gv, r) | r. r \<in> set rs \<and> known (gv, r)}" for gv rs ws
    by (induction rs arbitrary: ws) auto
  show ?thesis unfolding watch_all_def
    by (induction gver arbitrary: ws) (auto simp: inner)
qed

text \<open>The manager and the server watch the four resources of the program and the four it reads of the cluster.\<close>

lemma informers_cover:
  assumes "\<forall>gr. known gr"
  shows "set (Start_informers (ForResources known (Some KeEyeGver) (Some K8sEyeGver) (NewInformerFactory True True)))
    = {(gv, r) | gv r. \<exists>rs. ((gv, rs) \<in> set KeEyeGver \<or> (gv, rs) \<in> set K8sEyeGver) \<and> r \<in> set rs}"
  using assms by (auto simp: Start_informers_def ForResources_def NewInformerFactory_def Let_def set_watch_all)

section \<open>What the clients are\<close>

lemma K8SClients_same: "K8SClients G c = Inr k \<Longrightarrow> kcl_KubeConfig k = c \<and> kcl_ClientSet k = c
    \<and> kcl_VersionClientSet k = c \<and> kcl_DynamicClient k = c"
  by (auto simp: K8SClients_def split: option.splits)

text \<open>The object of a cluster as the multicluster controller keeps it, with the kubeconfig if it has one.\<close>

definition cluster_object :: "jobj \<Rightarrow> string option \<Rightarrow> json" where
  "cluster_object others kubeconfig = JObj ((''spec'', JObj [(''connection'', JObj
     (omit_ptr ''kubeconfig'' (JStr \<circ> b64_encode) kubeconfig))]) # others)"

lemma cluster_client_panics: "GetMultiClusterClient G (Inr (Some (cluster_object others None))) = None"
  by (simp add: GetMultiClusterClient_def unmarshal_map_def cluster_object_def cluster_kubeconfig_def as_map_def omit_ptr_def)

lemma cluster_client_config:
  assumes "go_bytes G bytes = None" and "go_config G bytes = Inr c"
  shows "GetMultiClusterClient G (Inr (Some (cluster_object others (Some bytes)))) = Some (K8SClients G c)"
  using assms
  by (simp add: GetMultiClusterClient_def unmarshal_map_def cluster_object_def cluster_kubeconfig_def as_map_def omit_ptr_def
      DecodeString_encode)

lemma GetK8SResources_lists:
  assumes "GetK8SResources Q c = Some k"
  shows "kr_Nodes k = fst (GetObjectCounts Q confNodes NoGroup)" "kr_Events k = fst (GetObjectCounts Q confEvents NoGroup)"
    "kr_Roles k = fst (GetObjectCounts Q confRoles RoleGroup)" "kr_ClusterRoles k = fst (GetObjectCounts Q confClusterroles RoleGroup)"
  using assms by (auto simp: GetK8SResources_def Let_def case_prod_unfold split: option.splits)

lemma GetK8SResources_panics: "GetK8SResources Q c = None \<longleftrightarrow> (\<exists>err. kq_list Q confNamespaces NoGroup = Inl err)"
  by (simp add: GetK8SResources_def Let_def case_prod_unfold split: option.split) (simp add: GetObjectCounts_def split: sum.split)

end
