(* ===== verification/Kube_Api.thy ===== *)
theory Kube_Api
  imports Rules Kube_Access
begin

text \<open>
  What the controllers see of the outside: the API server, the clock, the files of the results and
  the informer caches.  The API server is not modelled: an environment answers every request as a
  function of the requests made so far, so a statement for every environment holds for every server,
  every clock and every other client.  A run carries a world: the trace of its requests and the
  informer caches, whose objects the code gets as pointers and changes in place.
\<close>

datatype api_err = NotFound | AlreadyExists | ApiErr string

datatype kind = KPlan | KTask | KRule | KResult | KConfigMap | KJob | KNamespace | KClusterRole
  | KClusterRoleBinding | KServiceAccount | KNode | KPod | KSecret | KCluster

text \<open>A Job as the program creates it, with one container; the namespace is the program's own.\<close>

record VolumeMount =
  vm_Name :: string
  vm_ReadOnly :: bool
  vm_MountPath :: string
  vm_Propagation :: "string option"

record JobTemplate =
  jt_Name :: string
  jt_Owner :: OwnerReference
  jt_Labels :: strmap
  jt_BackoffLimit :: "int option"
  jt_TTL :: "int option"
  jt_PodName :: string
  jt_PodLabels :: strmap
  jt_PodAnnotations :: strmap
  jt_Container :: string
  jt_Image :: string
  jt_Command :: "string list"
  jt_Args :: "string list"
  jt_Env :: "(string \<times> string) list" \<comment> \<open>variable and field path\<close>
  jt_VolumeMounts :: "VolumeMount list"
  jt_ImagePullPolicy :: string
  jt_Resources :: string
  jt_HostNetwork :: bool
  jt_HostPID :: bool
  jt_DNSPolicy :: string
  jt_ServiceAccountName :: string
  jt_NodeName :: string
  jt_RestartPolicy :: string
  jt_Volumes :: "(string \<times> string) list" \<comment> \<open>name and host path\<close>

datatype obj = OPlan InspectPlan | OTask InspectTask | ORule InspectRule | OResult InspectResult
  | OConfigMap ConfigMap | OJob JobTemplate | ONamespace string | OClusterRole string
  | OClusterRoleBinding string | OServiceAccount string

text \<open>
  Requests, with the name of the cluster they go to (the empty name for the cluster of the
  program).  CRead stands for the reads: what is read, and the name or the selector.  CPatch is a merge patch, of
  the status if its flag is set.
\<close>

datatype call =
    CRead string kind string
  | CCreate string obj
  | CUpdate string obj
  | CUpdateStatus obj
  | CPatchStatus obj obj
  | CPatch kind string doc bool
  | CDelete string kind string
  | CDeleteAll string kind strmap
  | CNow
  | CFileRemove string
  | CFileWrite string InspectResult
  | CSleep int

type_synonym trace = "call list"

record env =
  ev_write :: "trace \<Rightarrow> call \<Rightarrow> api_err option"
  ev_plan :: "trace \<Rightarrow> string \<Rightarrow> api_err + InspectPlan"
  ev_task :: "trace \<Rightarrow> string \<Rightarrow> api_err + InspectTask"
  ev_rule :: "trace \<Rightarrow> string \<Rightarrow> api_err + InspectRule"
  ev_result :: "trace \<Rightarrow> string \<Rightarrow> api_err + InspectResult"
  ev_configmap :: "trace \<Rightarrow> string \<Rightarrow> string \<Rightarrow> api_err + ConfigMap"
  ev_configmaps :: "trace \<Rightarrow> string \<Rightarrow> strmap \<Rightarrow> api_err + ConfigMap list"
  ev_job :: "trace \<Rightarrow> string \<Rightarrow> string \<Rightarrow> api_err + K8sJob"
  ev_nodes :: "trace \<Rightarrow> string \<Rightarrow> api_err + K8sNode list"
  ev_pods :: "trace \<Rightarrow> string \<Rightarrow> strmap \<Rightarrow> api_err + K8sPod list"
  ev_namespace :: "trace \<Rightarrow> string \<Rightarrow> api_err option"
  ev_cluster :: "trace \<Rightarrow> string \<Rightarrow> api_err + doc"
  ev_go :: client_go
  ev_config :: "trace \<Rightarrow> api_err + KubeEyeConfig"
  ev_version :: "trace \<Rightarrow> (string \<times> string) option"
  ev_count :: "trace \<Rightarrow> kind \<Rightarrow> int"
  ev_tasks :: "trace \<Rightarrow> string \<Rightarrow> InspectTask list option"
  ev_file :: "trace \<Rightarrow> string \<Rightarrow> InspectResult option"
  ev_file_exists :: "trace \<Rightarrow> string \<Rightarrow> bool"
  ev_now :: "trace \<Rightarrow> time"
  ev_fmt :: "string \<Rightarrow> time \<Rightarrow> string"
  ev_parse :: "string \<Rightarrow> time option"
  ev_dur :: "int \<Rightarrow> string"
  ev_cron :: "string \<Rightarrow> (time \<Rightarrow> time) option"
  ev_rand :: "trace \<Rightarrow> nat \<Rightarrow> string"

record world =
  w_trace :: trace
  w_rules :: "(string, InspectRule) gomap"
  w_plans :: "(string, InspectPlan) gomap"
  w_tasks :: "(string, InspectTask) gomap"

definition log :: "call \<Rightarrow> world \<Rightarrow> world" where
  "log c w = w\<lparr>w_trace := w_trace w @ [c]\<rparr>"

definition submit :: "env \<Rightarrow> call \<Rightarrow> world \<Rightarrow> api_err option \<times> world" where
  "submit E c w = (ev_write E (w_trace w) c, log c w)"

definition now :: "env \<Rightarrow> world \<Rightarrow> time \<times> world" where
  "now E w = (ev_now E (w_trace w), log CNow w)"

definition read_plan :: "env \<Rightarrow> string \<Rightarrow> world \<Rightarrow> (api_err + InspectPlan) \<times> world" where
  "read_plan E n w = (ev_plan E (w_trace w) n, log (CRead [] KPlan n) w)"

definition read_task :: "env \<Rightarrow> string \<Rightarrow> world \<Rightarrow> (api_err + InspectTask) \<times> world" where
  "read_task E n w = (ev_task E (w_trace w) n, log (CRead [] KTask n) w)"

definition read_rule :: "env \<Rightarrow> string \<Rightarrow> world \<Rightarrow> (api_err + InspectRule) \<times> world" where
  "read_rule E n w = (ev_rule E (w_trace w) n, log (CRead [] KRule n) w)"

definition read_result :: "env \<Rightarrow> string \<Rightarrow> world \<Rightarrow> (api_err + InspectResult) \<times> world" where
  "read_result E n w = (ev_result E (w_trace w) n, log (CRead [] KResult n) w)"

text \<open>
  What a reconciler returns: an error, or the delay of RequeueAfter (0 for none).
\<close>

type_synonym reconciled = "api_err + int"

abbreviation finished :: reconciled where
  "finished \<equiv> Inr 0"

definition failed_or_done :: "api_err option \<Rightarrow> reconciled" where
  "failed_or_done e = (case e of None \<Rightarrow> finished | Some x \<Rightarrow> Inl x)"

section \<open>The requests a run adds\<close>

text \<open>The objects created, deleted and written so far, in order.\<close>

fun created :: "call \<Rightarrow> obj option" where
  "created (CCreate c x) = Some x"
| "created _ = None"

fun deleted :: "call \<Rightarrow> (kind \<times> string) option" where
  "deleted (CDelete c k n) = Some (k, n)"
| "deleted _ = None"

fun updated :: "call \<Rightarrow> obj option" where
  "updated (CUpdate c x) = Some x"
| "updated (CUpdateStatus x) = Some x"
| "updated (CPatchStatus x y) = Some x"
| "updated _ = None"

definition creations :: "world \<Rightarrow> obj list" where
  "creations w = List.map_filter created (w_trace w)"

definition deletions :: "world \<Rightarrow> (kind \<times> string) list" where
  "deletions w = List.map_filter deleted (w_trace w)"

definition updates :: "world \<Rightarrow> obj list" where
  "updates w = List.map_filter updated (w_trace w)"

named_theorems world_simps \<open>how the operations change the world\<close>

lemma map_filter_snoc: "List.map_filter f (xs @ [x]) = List.map_filter f xs @ (case f x of None \<Rightarrow> [] | Some y \<Rightarrow> [y])"
  by (simp add: List.map_filter_def split: option.splits)

lemma log_simps [world_simps]:
  "w_trace (log c w) = w_trace w @ [c]" "w_rules (log c w) = w_rules w"
  "w_plans (log c w) = w_plans w" "w_tasks (log c w) = w_tasks w"
  by (simp_all add: log_def)

lemma log_effects [world_simps]:
  "creations (log c w) = creations w @ (case created c of None \<Rightarrow> [] | Some x \<Rightarrow> [x])"
  "deletions (log c w) = deletions w @ (case deleted c of None \<Rightarrow> [] | Some x \<Rightarrow> [x])"
  "updates (log c w) = updates w @ (case updated c of None \<Rightarrow> [] | Some x \<Rightarrow> [x])"
  by (simp_all add: creations_def deletions_def updates_def log_simps map_filter_snoc)

lemma ops_simps [world_simps]:
  "submit E c w = (ev_write E (w_trace w) c, log c w)"
  "now E w = (ev_now E (w_trace w), log CNow w)"
  "read_plan E n w = (ev_plan E (w_trace w) n, log (CRead [] KPlan n) w)"
  "read_task E n w = (ev_task E (w_trace w) n, log (CRead [] KTask n) w)"
  "read_rule E n w = (ev_rule E (w_trace w) n, log (CRead [] KRule n) w)"
  "read_result E n w = (ev_result E (w_trace w) n, log (CRead [] KResult n) w)"
  by (simp_all add: submit_def now_def read_plan_def read_task_def read_rule_def read_result_def)

text \<open>Changing a cached object is no request.\<close>

lemma cache_effects [world_simps]:
  "creations (w\<lparr>w_rules := m\<rparr>) = creations w" "deletions (w\<lparr>w_rules := m\<rparr>) = deletions w"
  "updates (w\<lparr>w_rules := m\<rparr>) = updates w"
  "creations (w\<lparr>w_plans := p\<rparr>) = creations w" "deletions (w\<lparr>w_plans := p\<rparr>) = deletions w"
  "updates (w\<lparr>w_plans := p\<rparr>) = updates w"
  by (simp_all add: creations_def deletions_def updates_def)

section \<open>A quiet environment\<close>

text \<open>Every write is accepted, nothing is found, the clock stands: the start of concrete runs.\<close>

definition quiet_go :: client_go where
  "quiet_go = \<lparr>go_flags = (\<lambda>p. Inl ''no file''), go_default = Inl ''no file'', go_incluster = Inr \<lparr>rcf_Host = ''host''\<rparr>,
     go_bytes = (\<lambda>b. None), go_config = (\<lambda>b. Inr \<lparr>rcf_Host = b\<rparr>), go_clientset = (\<lambda>c. None),
     go_dynamic = (\<lambda>c. None), go_versioned = (\<lambda>c. None)\<rparr>"

definition quiet_env :: env where
  "quiet_env = \<lparr>ev_write = (\<lambda>tr c. None), ev_plan = (\<lambda>tr n. Inl NotFound), ev_task = (\<lambda>tr n. Inl NotFound),
     ev_rule = (\<lambda>tr n. Inl NotFound), ev_result = (\<lambda>tr n. Inl NotFound),
     ev_configmap = (\<lambda>tr c n. Inl NotFound), ev_configmaps = (\<lambda>tr c s. Inr []),
     ev_job = (\<lambda>tr c n. Inl NotFound), ev_nodes = (\<lambda>tr c. Inr []), ev_pods = (\<lambda>tr c s. Inr []),
     ev_namespace = (\<lambda>tr c. None), ev_cluster = (\<lambda>tr c. Inl NotFound), ev_go = quiet_go,
     ev_config = (\<lambda>tr. Inl NotFound), ev_version = (\<lambda>tr. None),
     ev_count = (\<lambda>tr k. 0), ev_tasks = (\<lambda>tr n. Some []), ev_file = (\<lambda>tr n. None),
     ev_file_exists = (\<lambda>tr n. False), ev_now = (\<lambda>tr. Time 0), ev_fmt = (\<lambda>l t. ''now''),
     ev_parse = (\<lambda>s. None), ev_dur = itoa, ev_cron = (\<lambda>s. None), ev_rand = (\<lambda>tr i. itoa (int i))\<rparr>"

definition empty_world :: world where
  "empty_world = \<lparr>w_trace = [], w_rules = [], w_plans = [], w_tasks = []\<rparr>"

section \<open>Finalizers\<close>

definition Finalizers :: string where
  [simp]: "Finalizers = ''kubeeye.finalizers.kubesphere.io''"

text \<open>
  The four resources are guarded by the same finalizer in the same way.  The interface is the
  metadata of an object and the update of its finalizer list.
\<close>

locale finalized =
  fixes meta :: "'o \<Rightarrow> ObjectMeta"
    and set_finalizers :: "string list \<Rightarrow> 'o \<Rightarrow> 'o"
  assumes finalizers_set: "om_Finalizers (meta (set_finalizers fs x)) = fs"
    and deletion_set: "om_DeletionTimestamp (meta (set_finalizers fs x)) = om_DeletionTimestamp (meta x)"
begin

definition live :: "'o \<Rightarrow> bool" where
  "live x \<longleftrightarrow> is_zero (om_DeletionTimestamp (meta x))"

definition guarded :: "'o \<Rightarrow> bool" where
  "guarded x \<longleftrightarrow> Finalizers \<in> set (om_Finalizers (meta x))"

definition guard :: "'o \<Rightarrow> 'o" where
  "guard x = set_finalizers (om_Finalizers (meta x) @ [Finalizers]) x"

definition release :: "'o \<Rightarrow> 'o" where
  "release x = set_finalizers (remove1 Finalizers (om_Finalizers (meta x))) x"

lemma guard_guarded: "guarded (guard x)"
  by (simp add: guarded_def guard_def finalizers_set)

lemma guard_live: "live (guard x) \<longleftrightarrow> live x"
  by (simp add: live_def guard_def deletion_set)

lemma release_guarded: "distinct (om_Finalizers (meta x)) \<Longrightarrow> \<not> guarded (release x)"
  by (simp add: guarded_def release_def finalizers_set)

lemma guard_distinct:
  "\<not> guarded x \<Longrightarrow> distinct (om_Finalizers (meta x)) \<Longrightarrow> distinct (om_Finalizers (meta (guard x)))"
  by (simp add: guarded_def guard_def finalizers_set)

lemma release_guard:
  "\<not> guarded x \<Longrightarrow> om_Finalizers (meta (release (guard x))) = om_Finalizers (meta x)"
  by (simp add: guarded_def release_def guard_def finalizers_set remove1_append)

end

definition with_finalizers :: "string list \<Rightarrow> ObjectMeta \<Rightarrow> ObjectMeta" where
  "with_finalizers fs m = m\<lparr>om_Finalizers := fs\<rparr>"

definition plan_finalizers :: "string list \<Rightarrow> InspectPlan \<Rightarrow> InspectPlan" where
  "plan_finalizers fs x = x\<lparr>ip_Meta := with_finalizers fs (ip_Meta x)\<rparr>"

definition task_finalizers :: "string list \<Rightarrow> InspectTask \<Rightarrow> InspectTask" where
  "task_finalizers fs x = x\<lparr>it_Meta := with_finalizers fs (it_Meta x)\<rparr>"

definition rule_finalizers :: "string list \<Rightarrow> InspectRule \<Rightarrow> InspectRule" where
  "rule_finalizers fs x = x\<lparr>ir_Meta := with_finalizers fs (ir_Meta x)\<rparr>"

definition result_finalizers :: "string list \<Rightarrow> InspectResult \<Rightarrow> InspectResult" where
  "result_finalizers fs x = x\<lparr>res_Meta := with_finalizers fs (res_Meta x)\<rparr>"

interpretation plan_fin: finalized ip_Meta plan_finalizers
  by unfold_locales (simp_all add: plan_finalizers_def with_finalizers_def)

interpretation task_fin: finalized it_Meta task_finalizers
  by unfold_locales (simp_all add: task_finalizers_def with_finalizers_def)

interpretation rule_fin: finalized ir_Meta rule_finalizers
  by unfold_locales (simp_all add: rule_finalizers_def with_finalizers_def)

interpretation result_fin: finalized res_Meta result_finalizers
  by unfold_locales (simp_all add: result_finalizers_def with_finalizers_def)

text \<open>The tests the reconcilers make, as the code writes them.\<close>

definition has_finalizer :: "ObjectMeta \<Rightarrow> bool" where
  "has_finalizer m \<longleftrightarrow> ArrayFind Finalizers (om_Finalizers m) \<noteq> None"

definition not_deleted :: "ObjectMeta \<Rightarrow> bool" where
  "not_deleted m \<longleftrightarrow> is_zero (om_DeletionTimestamp m)"

definition add_finalizer :: "ObjectMeta \<Rightarrow> string list" where
  "add_finalizer m = om_Finalizers m @ [Finalizers]"

definition drop_finalizer :: "ObjectMeta \<Rightarrow> string list" where
  "drop_finalizer m = the (SliceRemove Finalizers (StringSlice (om_Finalizers m)))"

lemma finalizer_tests:
  "has_finalizer (ip_Meta p) \<longleftrightarrow> plan_fin.guarded p" "not_deleted (ip_Meta p) \<longleftrightarrow> plan_fin.live p"
  "has_finalizer (it_Meta t) \<longleftrightarrow> task_fin.guarded t" "not_deleted (it_Meta t) \<longleftrightarrow> task_fin.live t"
  "has_finalizer (ir_Meta r) \<longleftrightarrow> rule_fin.guarded r" "not_deleted (ir_Meta r) \<longleftrightarrow> rule_fin.live r"
  "has_finalizer (res_Meta s) \<longleftrightarrow> result_fin.guarded s" "not_deleted (res_Meta s) \<longleftrightarrow> result_fin.live s"
  unfolding has_finalizer_def ArrayFind_not_None not_deleted_def
  by (simp_all add: plan_fin.guarded_def plan_fin.live_def task_fin.guarded_def task_fin.live_def
      rule_fin.guarded_def rule_fin.live_def result_fin.guarded_def result_fin.live_def)

lemma finalizer_updates:
  "plan_finalizers (add_finalizer (ip_Meta p)) p = plan_fin.guard p"
  "plan_finalizers (drop_finalizer (ip_Meta p)) p = plan_fin.release p"
  "task_finalizers (add_finalizer (it_Meta t)) t = task_fin.guard t"
  "task_finalizers (drop_finalizer (it_Meta t)) t = task_fin.release t"
  "rule_finalizers (add_finalizer (ir_Meta r)) r = rule_fin.guard r"
  "rule_finalizers (drop_finalizer (ir_Meta r)) r = rule_fin.release r"
  "result_finalizers (add_finalizer (res_Meta s)) s = result_fin.guard s"
  "result_finalizers (drop_finalizer (res_Meta s)) s = result_fin.release s"
  by (simp_all add: add_finalizer_def drop_finalizer_def plan_fin.guard_def plan_fin.release_def
      task_fin.guard_def task_fin.release_def rule_fin.guard_def rule_fin.release_def
      result_fin.guard_def result_fin.release_def)

end
