(* ===== verification/Task_Status.thy ===== *)
theory Task_Status
  imports Kube_Api
begin

text \<open>
  The functions of pkg/controllers/inspecttask_controller.go that only read their arguments: the
  status of a task, the number of jobs run side by side, the timeout, the node a job is meant for
  and whether it can be deployed.
\<close>

definition GetStatus :: "InspectTask \<Rightarrow> Phase" where
  "GetStatus task = (case itst_JobPhase (it_Status task) of
     None \<Rightarrow> PhaseFailed
   | Some ps \<Rightarrow> if ArrayFinds ps (\<lambda>m. IsFailed (jp_Phase m)) \<noteq> None then PhaseFailed else PhaseSucceeded)"

text \<open>
  The sum is rounded half away from zero in float64; the exact value is the same, since the float
  closest to 0.1 lies above it.
\<close>

definition computedDeployNum :: "nat \<Rightarrow> nat \<Rightarrow> nat" where
  "computedDeployNum nodeNum jobRulesNum =
     (let runNumber = nodeNum + (jobRulesNum + 5) div 10 in if 5 < runNumber then runNumber else 5)"

definition isTimeout :: "time \<Rightarrow> string \<Rightarrow> time \<Rightarrow> bool" where
  "isTimeout startTime t at =
     (let duration = (case ParseDuration t of None \<Rightarrow> DefaultTimeout | Some d \<Rightarrow> d)
      in time_add startTime duration < at)"

text \<open>None is a panic, Some None the error for empty rules.\<close>

definition GetDeploySchedule :: "doc \<Rightarrow> string option option" where
  "GetDeploySchedule r = (case unmarshal_list obj_of r of
     None \<Rightarrow> Some None
   | Some [] \<Rightarrow> Some None
   | Some (d # _) \<Rightarrow>
       (let v = sub_doc d ''nodeName'' in
        if \<not> IsEmptyValue (json_val v) then map_option Some (as_string v) else Some (Some [])))"

definition ready_names :: "K8sNode list \<Rightarrow> string list" where
  "ready_names allNode = map kn_Name (filter IsNodesReady allNode)"

definition checkJobIsDeploy :: "K8sNode list \<Rightarrow> K8sPod list \<Rightarrow> JobRule \<Rightarrow> bool option" where
  "checkJobIsDeploy allNode inComplete job =
     (if ready_names allNode = [] then Some False
      else do {
        ns \<leftarrow> GetDeploySchedule (jr_RunRule job);
        (case ns of
           None \<Rightarrow> Some True
         | Some nodeName \<Rightarrow>
             Some (if IsEmptyValue (VString nodeName) then True
                   else if nodeName \<notin> set (ready_names allNode) then False
                   else ArrayFinds inComplete (\<lambda>m. nodeName = kp_NodeName m) = None)) })"

lemma GetStatus_cases:
  "GetStatus task = PhaseSucceeded \<longleftrightarrow>
     (\<exists>ps. itst_JobPhase (it_Status task) = Some ps \<and> (\<forall>p \<in> set ps. jp_Phase p \<noteq> PhaseFailed))"
  "GetStatus task = PhaseSucceeded \<or> GetStatus task = PhaseFailed"
  by (auto simp: GetStatus_def arr_find split: option.splits)

lemma computedDeployNum_ge: "5 \<le> computedDeployNum n j \<and> n \<le> computedDeployNum n j"
  by (simp add: computedDeployNum_def Let_def)

text \<open>The job of a node kind is deployed on the node whose rules it holds.\<close>

lemma unmarshal_objects: "unmarshal_list obj_of (Some (JArr (map JObj xs))) = Some xs"
  using obj_of_objects [of xs] by (simp add: unmarshal_list_def)

lemma GetDeploySchedule_node:
  assumes "jr_RunRule j = Some (JArr (map JObj xs))" and "xs \<noteq> []" and "list_all (named_node n) xs"
  shows "GetDeploySchedule (jr_RunRule j) = Some (Some (if blank n then [] else n))"
proof -
  obtain x ys where "xs = x # ys" "mget x ''nodeName'' = Some (JStr n)"
    using assms by (cases xs) (auto simp: named_node_def)
  then show ?thesis
    using assms(1) unmarshal_objects [of xs] by (simp add: GetDeploySchedule_def sub_doc_def as_string_def)
qed

end
