(* ===== verification/Plan_Controller.thy ===== *)
theory Plan_Controller
  imports Task_Status
begin

text \<open>
  pkg/controllers/inspectplan_controller.go: the reconciler of an InspectPlan.  It guards the plan
  with the finalizer, keeps the reference counts on the rules the plan names, and starts an
  InspectTask when one is due.  Each call is a function from the world to its result and the next
  world, in the order the code makes them.
\<close>

section \<open>Reference counts on rules\<close>

definition plan_key :: "string \<Rightarrow> string" where
  "plan_key n = ''kubeeye.kubesphere.io/'' @ n"

definition refer_add :: "string \<Rightarrow> InspectRule \<Rightarrow> InspectRule" where
  "refer_add plan_name rule =
     (let m = ir_Meta rule;
          num = (case mget (om_Annotations m) AnnotationJoinPlanNum of
                   None \<Rightarrow> 1
                 | Some n \<Rightarrow> (case atoi n of (num, ok) \<Rightarrow> if ok then wrap64 (num + 1) else num))
      in rule\<lparr>ir_Meta := m\<lparr>om_Labels := MergeMap [om_Labels m, [(plan_key plan_name, plan_name)]],
            om_Annotations := MergeMap [om_Annotations m, [(AnnotationJoinPlanNum, itoa num)]]\<rparr>\<rparr>)"

definition refer_sub :: "string \<Rightarrow> InspectRule \<Rightarrow> InspectRule" where
  "refer_sub plan_name rule =
     (let m = ir_Meta rule;
          num = (case mget (om_Annotations m) AnnotationJoinPlanNum of
                   None \<Rightarrow> 1
                 | Some n \<Rightarrow> (let num = fst (atoi n) in if 0 < num then num - 1 else num))
      in rule\<lparr>ir_Meta := m\<lparr>om_Labels := mdel (om_Labels m) (plan_key plan_name),
            om_Annotations := MergeMap [om_Annotations m, [(AnnotationJoinPlanNum, itoa num)]]\<rparr>\<rparr>)"

text \<open>
  The lister hands out the cached object: both loops change it in place before they know whether
  the update is accepted.
\<close>

definition cache_rule :: "string \<Rightarrow> InspectRule \<Rightarrow> world \<Rightarrow> world" where
  "cache_rule n rule w = w\<lparr>w_rules := mput (w_rules w) n rule\<rparr>"

definition label_plan :: "string \<Rightarrow> InspectPlan \<Rightarrow> InspectPlan" where
  "label_plan rule_name plan =
     plan\<lparr>ip_Meta := (ip_Meta plan)\<lparr>om_Labels :=
       MergeMap [om_Labels (ip_Meta plan), [(plan_key rule_name, rule_name)]]\<rparr>\<rparr>"

fun updateAddRuleReferNum ::
    "env \<Rightarrow> InspectRuleNames list \<Rightarrow> InspectPlan \<Rightarrow> world \<Rightarrow> InspectPlan \<times> world" where
  "updateAddRuleReferNum E [] plan w = (plan, w)"
| "updateAddRuleReferNum E (v # vs) plan w =
     (case mget (w_rules w) (irn_Name v) of
        None \<Rightarrow> updateAddRuleReferNum E vs plan w
      | Some rule \<Rightarrow>
          (let rule' = refer_add (om_Name (ip_Meta plan)) rule;
               (err, w') = submit E (CUpdate [] (ORule rule')) (cache_rule (irn_Name v) rule' w)
           in updateAddRuleReferNum E vs (if err = None then label_plan (irn_Name v) plan else plan) w'))"

fun updateSubRuleReferNum ::
    "env \<Rightarrow> InspectRuleNames list \<Rightarrow> InspectPlan \<Rightarrow> world \<Rightarrow> world" where
  "updateSubRuleReferNum E [] plan w = w"
| "updateSubRuleReferNum E (v # vs) plan w =
     (case mget (w_rules w) (irn_Name v) of
        None \<Rightarrow> updateSubRuleReferNum E vs plan w
      | Some rule \<Rightarrow>
          (let rule' = refer_sub (om_Name (ip_Meta plan)) rule;
               (err, w') = submit E (CUpdate [] (ORule rule')) (cache_rule (irn_Name v) rule' w)
           in updateSubRuleReferNum E vs plan w'))"

text \<open>
  GetUpdatePlanRule compares the rules of the plan with its labels.  A rule met while labels are
  left only crosses its label out; a rule met afterwards counts as new.
\<close>

definition only_name :: "string \<Rightarrow> InspectRuleNames" where
  "only_name n = \<lparr>irn_Name = n, irn_NodeName = [], irn_NodeSelector = None\<rparr>"

fun cross_out :: "InspectRuleNames list \<Rightarrow> strmap \<Rightarrow> InspectRuleNames list \<Rightarrow> strmap \<times> InspectRuleNames list" where
  "cross_out [] newLabel newRules = (newLabel, newRules)"
| "cross_out (n # ns) newLabel newRules =
     (if newLabel \<noteq> [] then cross_out ns (mdel newLabel (plan_key (irn_Name n))) newRules
      else cross_out ns newLabel (newRules @ [only_name (irn_Name n)]))"

definition plan_labels :: "InspectPlan \<Rightarrow> strmap" where
  "plan_labels plan =
     filter (\<lambda>(k, v). str_has_prefix k ''kubeeye.kubesphere.io/'') (om_Labels (ip_Meta plan))"

definition GetUpdatePlanRule :: "InspectPlan \<Rightarrow> InspectRuleNames list \<times> bool" where
  "GetUpdatePlanRule plan =
     (let (newLabel, newRules) = cross_out (ips_RuleNames (ip_Spec plan)) (plan_labels plan) []
      in if newLabel \<noteq> [] then (newRules @ map (\<lambda>(k, v). only_name v) newLabel, False)
         else (newRules, True))"

section \<open>The tasks of a plan\<close>

definition new_task :: "InspectPlan \<Rightarrow> string \<Rightarrow> InspectTask" where
  "new_task plan inspectTaskName =
     \<lparr>it_Type = \<lparr>tm_Kind = [], tm_APIVersion = []\<rparr>,
      it_Meta = (empty_meta inspectTaskName)\<lparr>
        om_Labels := [(LabelPlanName, om_Name (ip_Meta plan))],
        om_Annotations := [(AnnotationInspectType,
           if ips_Schedule (ip_Spec plan) = None then InspectTypeInstant else InspectTypeTiming)],
        om_OwnerReferences :=
          [\<lparr>or_APIVersion = tm_APIVersion (ip_Type plan), or_Kind = tm_Kind (ip_Type plan),
            or_Name = om_Name (ip_Meta plan), or_UID = om_UID (ip_Meta plan),
            or_Controller = True, or_BlockOwnerDeletion = True\<rparr>]\<rparr>,
      it_Spec = \<lparr>its_ClusterName = ips_ClusterName (ip_Spec plan),
        its_RuleNames = ips_RuleNames (ip_Spec plan),
        its_Timeout = (if ips_Timeout (ip_Spec plan) = [] then ''10m'' else ips_Timeout (ip_Spec plan)),
        its_InspectPolicy = (if ips_Once (ip_Spec plan) = None \<and> ips_Schedule (ip_Spec plan) \<noteq> None
           then CyclePolicy else SinglePolicy)\<rparr>,
      it_Status = zero_TaskStatus\<rparr>"

definition createInspectTask ::
    "env \<Rightarrow> InspectPlan \<Rightarrow> world \<Rightarrow> (api_err + string \<times> Phase) \<times> world" where
  "createInspectTask E plan w =
     (let (t, w1) = now E w;
          inspectTaskName = om_Name (ip_Meta plan) @ ''-'' @ ev_fmt E ''20060102-15-04'' t;
          (found, w2) = read_task E inspectTaskName w1
      in case found of
           Inr existingTask \<Rightarrow> (Inr (inspectTaskName, GetStatus existingTask), w2)
         | Inl _ \<Rightarrow>
             (let (err, w3) = submit E (CCreate [] (OTask (new_task plan inspectTaskName))) w2
              in case err of
                   Some e \<Rightarrow> (Inl e, w3)
                 | None \<Rightarrow> (Inr (inspectTaskName, PhasePending), w3)))"

text \<open>None: the cache did not sync.  sort.Slice orders the list by the time of creation.\<close>

definition getInspectTaskForLabel :: "env \<Rightarrow> string \<Rightarrow> world \<Rightarrow> InspectTask list option" where
  "getInspectTaskForLabel E planName w =
     map_option (sort_slice (\<lambda>a b. om_CreationTimestamp (it_Meta a) < om_CreationTimestamp (it_Meta b)))
       (ev_tasks E (w_trace w) planName)"

definition ConvertTaskStatus :: "InspectTask list \<Rightarrow> TaskNames list" where
  "ConvertTaskStatus tasks = map (\<lambda>t.
     \<lparr>tn_Name = om_Name (it_Meta t),
      tn_TaskStatus = (if is_zero (itst_EndTimestamp (it_Status t)) then PhasePending else GetStatus t)\<rparr>) tasks"

fun delete_tasks :: "env \<Rightarrow> InspectTask list \<Rightarrow> world \<Rightarrow> world" where
  "delete_tasks E [] w = w"
| "delete_tasks E (t # ts) w =
     (let (err, w') = submit E (CDelete [] KTask (om_Name (it_Meta t))) w in delete_tasks E ts w')"

definition set_task_names :: "TaskNames list \<Rightarrow> InspectPlan \<Rightarrow> InspectPlan" where
  "set_task_names ns plan = plan\<lparr>ip_Status := (ip_Status plan)\<lparr>ipst_TaskNames := ns\<rparr>\<rparr>"

definition cleanTask :: "env \<Rightarrow> InspectPlan \<Rightarrow> world \<Rightarrow> InspectPlan \<times> world" where
  "cleanTask E plan w =
     (if 0 < ips_MaxTasks (ip_Spec plan) then
        (let tasks = (case getInspectTaskForLabel E (om_Name (ip_Meta plan)) w of None \<Rightarrow> [] | Some ts \<Rightarrow> ts);
             keep = ips_MaxTasks (ip_Spec plan)
         in if keep \<le> int (length tasks)
            then (let old = length tasks - nat keep;
                      w' = delete_tasks E (take old tasks) w
                  in (set_task_names (ConvertTaskStatus (drop old tasks)) plan, w'))
            else (plan, w))
      else (plan, w))"

fun set_status :: "TaskNames list \<Rightarrow> string \<Rightarrow> Phase \<Rightarrow> TaskNames list option" where
  "set_status [] n p = None"
| "set_status (t # ts) n p =
     (if tn_Name t = n then Some (t\<lparr>tn_TaskStatus := p\<rparr> # ts)
      else map_option (\<lambda>ts'. t # ts') (set_status ts n p))"

definition addTaskName :: "TaskNames list \<Rightarrow> string \<Rightarrow> Phase \<Rightarrow> TaskNames list" where
  "addTaskName ts taskName status = (case set_status ts taskName status of
     Some ts' \<Rightarrow> ts'
   | None \<Rightarrow> ts @ [\<lparr>tn_Name = taskName, tn_TaskStatus = status\<rparr>])"

definition updateStatus ::
    "env \<Rightarrow> InspectPlan \<Rightarrow> time \<Rightarrow> string \<Rightarrow> Phase \<Rightarrow> world \<Rightarrow> api_err option \<times> world" where
  "updateStatus E plan t taskName phase w =
     (let st = (ip_Status plan)\<lparr>ipst_LastScheduleTime := Some t, ipst_LastTaskName := taskName,
            ipst_LastTaskStatus := phase,
            ipst_TaskNames := addTaskName (ipst_TaskNames (ip_Status plan)) taskName phase\<rparr>
      in submit E (CUpdateStatus (OPlan (plan\<lparr>ip_Status := st\<rparr>))) w)"

definition nextScheduledTimeDuration :: "(time \<Rightarrow> time) \<Rightarrow> time option \<Rightarrow> int" where
  "nextScheduledTimeDuration sched t =
     (let last = (case t of None \<Rightarrow> time_zero | Some u \<Rightarrow> u)
      in time_sub (time_add (sched last) (100 * millisecond)) last)"

section \<open>Reconcile\<close>

text \<open>A task started now, and the status of the plan after it.\<close>

definition start_once :: "env \<Rightarrow> InspectPlan \<Rightarrow> world \<Rightarrow> reconciled \<times> world" where
  "start_once E plan w =
     (let (r, w1) = createInspectTask E plan w
      in case r of
           Inl e \<Rightarrow> (Inl e, w1)
         | Inr (taskName, phase) \<Rightarrow>
             (let (t, w2) = now E w1;
                  (err, w3) = updateStatus E plan t taskName phase w2
              in (failed_or_done err, w3)))"

definition start_cycle :: "env \<Rightarrow> (time \<Rightarrow> time) \<Rightarrow> time \<Rightarrow> InspectPlan \<Rightarrow> world \<Rightarrow> reconciled \<times> world" where
  "start_cycle E schedule t plan w =
     (let (r, w1) = createInspectTask E plan w
      in case r of
           Inl e \<Rightarrow> (Inl e, w1)
         | Inr (taskName, phase) \<Rightarrow>
             (let plan1 = set_task_names (ipst_TaskNames (ip_Status plan)
                            @ [\<lparr>tn_Name = taskName, tn_TaskStatus = phase\<rparr>]) plan;
                  (plan2, w2) = cleanTask E plan1 w1;
                  plan3 = plan2\<lparr>ip_Status := (ip_Status plan2)\<lparr>ipst_NextScheduleTime := Some (schedule t),
                     ipst_LastScheduleTime := Some t, ipst_LastTaskName := taskName,
                     ipst_LastTaskStatus := PhasePending\<rparr>\<rparr>;
                  (err, w3) = submit E (CPatchStatus (OPlan plan3) (OPlan plan)) w2
              in (case err of Some e \<Rightarrow> Inl e | None \<Rightarrow> Inr (3 * second), w3)))"

text \<open>What is due, once the plan is guarded and its references are up to date.\<close>

definition plan_schedule :: "env \<Rightarrow> InspectPlan \<Rightarrow> world \<Rightarrow> reconciled \<times> world" where
  "plan_schedule E plan w =
     (if IsEmpty (ipst_LastTaskStatus (ip_Status plan)) then
        (let (err, w1) = submit E (CUpdateStatus (OPlan
               (plan\<lparr>ip_Status := (ip_Status plan)\<lparr>ipst_LastTaskStatus := PhasePending\<rparr>\<rparr>))) w
         in (failed_or_done err, w1))
      else if ips_Suspend (ip_Spec plan) then (finished, w)
      else case ips_Once (ip_Spec plan) of
        Some once \<Rightarrow>
          (if \<not> IsEmptyValue (VString (ipst_LastTaskName (ip_Status plan))) then (finished, w)
           else (let (t, w1) = now E w
                 in if \<not> t < once then start_once E plan w1
                    else (let (t', w2) = now E w1 in (Inr (time_sub once t'), w2))))
      | None \<Rightarrow>
          (case ips_Schedule (ip_Spec plan) of
             None \<Rightarrow>
               (if \<not> IsEmptyValue (VString (ipst_LastTaskName (ip_Status plan))) then (finished, w)
                else start_once E plan w)
           | Some spec \<Rightarrow>
               (case ev_cron E spec of
                  None \<Rightarrow> (finished, w)
                | Some schedule \<Rightarrow>
                    (let (t, w1) = now E w;
                         last = ipst_LastScheduleTime (ip_Status plan);
                         d = nextScheduledTimeDuration schedule last
                     in if (case last of None \<Rightarrow> True | Some u \<Rightarrow> time_add u d < t)
                        then start_cycle E schedule t plan w1
                        else (Inr (nextScheduledTimeDuration schedule (Some t)), w1)))))"

definition join_num :: "InspectPlan \<Rightarrow> InspectPlan" where
  "join_num plan = plan\<lparr>ip_Meta := (ip_Meta plan)\<lparr>om_Annotations :=
     MergeMap [om_Annotations (ip_Meta plan),
       [(AnnotationJoinRuleNum, itoa (int (length (ips_RuleNames (ip_Spec plan)))))]]\<rparr>\<rparr>"

definition plan_references :: "env \<Rightarrow> InspectRuleNames list \<Rightarrow> bool \<Rightarrow> InspectPlan \<Rightarrow> world \<Rightarrow> reconciled \<times> world" where
  "plan_references E d action plan w =
     (let (plan', w1) = (if action then updateAddRuleReferNum E d (join_num plan) w
                         else (join_num plan, updateSubRuleReferNum E d (join_num plan) w));
          (err, w2) = submit E (CUpdate [] (OPlan plan')) w1
      in (failed_or_done err, w2))"

definition plan_Reconcile :: "env \<Rightarrow> string \<Rightarrow> world \<Rightarrow> reconciled \<times> world" where
  "plan_Reconcile E req w =
     (let (r, w1) = read_plan E req w
      in case r of
           Inl e \<Rightarrow> (if e = NotFound then finished else Inl e, w1)
         | Inr plan \<Rightarrow>
             (if not_deleted (ip_Meta plan) then
                (if \<not> has_finalizer (ip_Meta plan) then
                   (let (err, w2) = submit E (CUpdate [] (OPlan (plan_finalizers (add_finalizer (ip_Meta plan)) plan))) w1
                    in (failed_or_done err, w2))
                 else (let (d, action) = GetUpdatePlanRule plan
                       in if d \<noteq> [] then plan_references E d action plan w1
                          else plan_schedule E plan w1))
              else
                (let plan' = plan_finalizers (drop_finalizer (ip_Meta plan)) plan;
                     w2 = updateSubRuleReferNum E (ips_RuleNames (ip_Spec plan)) plan' w1;
                     (err, w3) = submit E (CUpdate [] (OPlan plan')) w2
                 in (failed_or_done err, w3))))"

section \<open>What the parts of a reconcile ask of the server\<close>

lemma updateAdd_effects [world_simps]:
  "creations (snd (updateAddRuleReferNum E vs plan w)) = creations w"
  "deletions (snd (updateAddRuleReferNum E vs plan w)) = deletions w"
  by (induction E vs plan w rule: updateAddRuleReferNum.induct)
     (simp_all add: world_simps cache_rule_def Let_def split: option.splits)

lemma updateSub_effects [world_simps]:
  "creations (updateSubRuleReferNum E vs plan w) = creations w"
  "deletions (updateSubRuleReferNum E vs plan w) = deletions w"
  by (induction E vs plan w rule: updateSubRuleReferNum.induct)
     (simp_all add: world_simps cache_rule_def Let_def split: option.splits)

fun plan_of :: "obj \<Rightarrow> InspectPlan option" where
  "plan_of (OPlan p) = Some p"
| "plan_of _ = None"

text \<open>The plans written so far.\<close>

definition plan_writes :: "world \<Rightarrow> InspectPlan list" where
  "plan_writes w = List.map_filter plan_of (updates w)"

lemma plan_writes_log [world_simps]:
  "plan_writes (log c w) = plan_writes w @ (case Option.bind (updated c) plan_of of None \<Rightarrow> [] | Some p \<Rightarrow> [p])"
  by (simp add: plan_writes_def log_effects map_filter_snoc List.map_filter_simps split: option.splits)

lemma plan_writes_cache [world_simps]: "plan_writes (w\<lparr>w_rules := m\<rparr>) = plan_writes w"
  by (simp add: plan_writes_def world_simps)

lemma updateAdd_plan_writes [world_simps]:
  "plan_writes (snd (updateAddRuleReferNum E vs plan w)) = plan_writes w"
  by (induction E vs plan w rule: updateAddRuleReferNum.induct)
     (simp_all add: world_simps cache_rule_def Let_def split: option.splits)

lemma updateSub_plan_writes [world_simps]:
  "plan_writes (updateSubRuleReferNum E vs plan w) = plan_writes w"
  by (induction E vs plan w rule: updateSubRuleReferNum.induct)
     (simp_all add: world_simps cache_rule_def Let_def split: option.splits)

lemma delete_tasks_effects [world_simps]:
  "creations (delete_tasks E ts w) = creations w"
  "deletions (delete_tasks E ts w) = deletions w @ map (\<lambda>t. (KTask, om_Name (it_Meta t))) ts"
  "plan_writes (delete_tasks E ts w) = plan_writes w"
  by (induction E ts w rule: delete_tasks.induct) (simp_all add: world_simps Let_def)

lemma cleanTask_effects [world_simps]:
  "creations (snd (cleanTask E plan w)) = creations w"
  "plan_writes (snd (cleanTask E plan w)) = plan_writes w"
  by (simp_all add: cleanTask_def Let_def world_simps)

lemma createInspectTask_effects:
  "\<exists>n. creations (snd (createInspectTask E plan w)) = creations w
     \<or> creations (snd (createInspectTask E plan w)) = creations w @ [OTask (new_task plan n)]"
  "plan_writes (snd (createInspectTask E plan w)) = plan_writes w"
  by (auto simp: createInspectTask_def world_simps Let_def split: sum.splits option.splits)

text \<open>Whether a task of the plan is due at an instant.\<close>

definition due :: "env \<Rightarrow> InspectPlan \<Rightarrow> time \<Rightarrow> bool" where
  "due E plan t =
     (case ips_Once (ip_Spec plan) of
        Some once \<Rightarrow> blank (ipst_LastTaskName (ip_Status plan)) \<and> once \<le> t
      | None \<Rightarrow>
          (case ips_Schedule (ip_Spec plan) of
             None \<Rightarrow> blank (ipst_LastTaskName (ip_Status plan))
           | Some spec \<Rightarrow>
               (case ev_cron E spec of
                  None \<Rightarrow> False
                | Some schedule \<Rightarrow>
                    (case ipst_LastScheduleTime (ip_Status plan) of
                       None \<Rightarrow> True
                     | Some u \<Rightarrow> time_add u (nextScheduledTimeDuration schedule (Some u)) < t))))"

definition startable :: "InspectPlan \<Rightarrow> bool" where
  "startable plan \<longleftrightarrow> plan_fin.live plan \<and> plan_fin.guarded plan \<and> fst (GetUpdatePlanRule plan) = []
     \<and> \<not> IsEmpty (ipst_LastTaskStatus (ip_Status plan)) \<and> \<not> ips_Suspend (ip_Spec plan)"

lemma start_once_creations:
  "\<exists>n. creations (snd (start_once E plan w)) = creations w
     \<or> creations (snd (start_once E plan w)) = creations w @ [OTask (new_task plan n)]"
  using createInspectTask_effects(1) [of E plan w]
  by (auto simp: start_once_def updateStatus_def world_simps Let_def case_prod_unfold split: sum.splits)

lemma start_cycle_creations:
  "\<exists>n. creations (snd (start_cycle E s t plan w)) = creations w
     \<or> creations (snd (start_cycle E s t plan w)) = creations w @ [OTask (new_task plan n)]"
  using createInspectTask_effects(1) [of E plan w]
  by (auto simp: start_cycle_def world_simps Let_def case_prod_unfold split: sum.splits)

lemma start_plan_writes:
  "length (plan_writes (snd (start_once E plan w))) \<le> Suc (length (plan_writes w))"
  "length (plan_writes (snd (start_cycle E s t plan w))) \<le> Suc (length (plan_writes w))"
  by (auto simp: start_once_def start_cycle_def updateStatus_def world_simps createInspectTask_effects
      Let_def case_prod_unfold split: sum.splits)

text \<open>The paths through Reconcile, each with what is known of the plan on it.\<close>

lemma plan_Reconcile_cases:
  obtains (unread) e where "ev_plan E (w_trace w) req = Inl e"
      "plan_Reconcile E req w = (if e = NotFound then finished else Inl e, log (CRead [] KPlan req) w)"
  | (guard) plan where "ev_plan E (w_trace w) req = Inr plan" "plan_fin.live plan" "\<not> plan_fin.guarded plan"
      "snd (plan_Reconcile E req w)
         = log (CUpdate [] (OPlan (plan_fin.guard plan))) (log (CRead [] KPlan req) w)"
  | (refer) plan d action where "ev_plan E (w_trace w) req = Inr plan" "plan_fin.live plan"
      "plan_fin.guarded plan" "GetUpdatePlanRule plan = (d, action)" "d \<noteq> []"
      "plan_Reconcile E req w = plan_references E d action plan (log (CRead [] KPlan req) w)"
  | (schedule) plan action where "ev_plan E (w_trace w) req = Inr plan" "plan_fin.live plan"
      "plan_fin.guarded plan" "GetUpdatePlanRule plan = ([], action)"
      "plan_Reconcile E req w = plan_schedule E plan (log (CRead [] KPlan req) w)"
  | (release) plan where "ev_plan E (w_trace w) req = Inr plan" "\<not> plan_fin.live plan"
      "snd (plan_Reconcile E req w) = log (CUpdate [] (OPlan (plan_fin.release plan)))
         (updateSubRuleReferNum E (ips_RuleNames (ip_Spec plan)) (plan_fin.release plan)
           (log (CRead [] KPlan req) w))"
proof (cases "ev_plan E (w_trace w) req")
  case (Inl e)
  then show ?thesis by (intro unread) (simp_all add: plan_Reconcile_def world_simps)
next
  case (Inr plan)
  obtain d action where d: "GetUpdatePlanRule plan = (d, action)" by (cases "GetUpdatePlanRule plan")
  consider "\<not> plan_fin.live plan" | "plan_fin.live plan" "\<not> plan_fin.guarded plan"
    | "plan_fin.live plan" "plan_fin.guarded plan" "d \<noteq> []" | "plan_fin.live plan" "plan_fin.guarded plan" "d = []"
    by blast
  then show ?thesis
  proof cases
    case 1
    with Inr show ?thesis
      by (intro release) (simp_all add: plan_Reconcile_def world_simps finalizer_tests finalizer_updates Let_def)
  next
    case 2
    with Inr show ?thesis
      by (intro guard) (simp_all add: plan_Reconcile_def world_simps finalizer_tests finalizer_updates Let_def)
  next
    case 3
    with Inr d show ?thesis
      by (intro refer) (simp_all add: plan_Reconcile_def world_simps finalizer_tests)
  next
    case 4
    with Inr d show ?thesis
      by (intro schedule) (simp_all add: plan_Reconcile_def world_simps finalizer_tests)
  qed
qed

lemma plan_schedule_once_cases:
  assumes "\<not> IsEmpty (ipst_LastTaskStatus (ip_Status plan))" and "\<not> ips_Suspend (ip_Spec plan)"
    and "ips_Once (ip_Spec plan) = Some u"
  obtains (idle) cs where "snd (plan_schedule E plan w) = fold log cs w" "set cs \<subseteq> {CNow}"
  | (once) "due E plan (ev_now E (w_trace w))" "snd (plan_schedule E plan w) = snd (start_once E plan (log CNow w))"
proof -
  note defs = plan_schedule_def world_simps Let_def
  consider "\<not> blank (ipst_LastTaskName (ip_Status plan))"
    | "blank (ipst_LastTaskName (ip_Status plan))" "ev_now E (w_trace w) < u"
    | "blank (ipst_LastTaskName (ip_Status plan))" "\<not> ev_now E (w_trace w) < u" by blast
  then show ?thesis
  proof cases
    case 1
    with assms show ?thesis by (intro idle [of "[]"]) (simp_all add: defs)
  next
    case 2
    with assms show ?thesis by (intro idle [of "[CNow, CNow]"]) (simp_all add: defs)
  next
    case 3
    with assms show ?thesis by (intro once) (simp_all add: defs due_def)
  qed
qed

lemma plan_schedule_cron_cases:
  assumes "\<not> IsEmpty (ipst_LastTaskStatus (ip_Status plan))" and "\<not> ips_Suspend (ip_Spec plan)"
    and "ips_Once (ip_Spec plan) = None" and "ips_Schedule (ip_Spec plan) = Some c"
  obtains (idle) cs where "snd (plan_schedule E plan w) = fold log cs w" "set cs \<subseteq> {CNow}"
  | (cycle) s where "due E plan (ev_now E (w_trace w))"
      "plan_schedule E plan w = start_cycle E s (ev_now E (w_trace w)) plan (log CNow w)"
proof (cases "ev_cron E c")
  case None
  with assms show ?thesis by (intro idle [of "[]"]) (simp_all add: plan_schedule_def)
next
  case (Some s)
  note defs = plan_schedule_def world_simps due_def Let_def
  show ?thesis
  proof (cases "due E plan (ev_now E (w_trace w))")
    case True
    with assms Some show ?thesis by (intro cycle [of s]) (auto simp: defs split: option.splits)
  next
    case False
    with assms Some show ?thesis by (intro idle [of "[CNow]"]) (auto simp: defs split: option.splits)
  qed
qed

lemma plan_schedule_cases:
  obtains (pending) "IsEmpty (ipst_LastTaskStatus (ip_Status plan))"
      "snd (plan_schedule E plan w) = log (CUpdateStatus (OPlan
         (plan\<lparr>ip_Status := (ip_Status plan)\<lparr>ipst_LastTaskStatus := PhasePending\<rparr>\<rparr>))) w"
  | (idle) cs where "snd (plan_schedule E plan w) = fold log cs w" "set cs \<subseteq> {CNow}"
  | (once) t cs where "\<not> IsEmpty (ipst_LastTaskStatus (ip_Status plan))" "\<not> ips_Suspend (ip_Spec plan)"
      "due E plan t" "snd (plan_schedule E plan w) = snd (start_once E plan (fold log cs w))" "set cs \<subseteq> {CNow}"
  | (cycle) t s where "\<not> IsEmpty (ipst_LastTaskStatus (ip_Status plan))" "\<not> ips_Suspend (ip_Spec plan)"
      "due E plan t" "plan_schedule E plan w = start_cycle E s t plan (log CNow w)"
proof (cases "IsEmpty (ipst_LastTaskStatus (ip_Status plan)) \<or> ips_Suspend (ip_Spec plan)")
  case True
  then show ?thesis
    using pending idle [of "[]"] by (cases "IsEmpty (ipst_LastTaskStatus (ip_Status plan))") (simp_all add: plan_schedule_def world_simps Let_def)
next
  case False
  then have live: "\<not> IsEmpty (ipst_LastTaskStatus (ip_Status plan))" "\<not> ips_Suspend (ip_Spec plan)" by simp_all
  consider u where "ips_Once (ip_Spec plan) = Some u" | c where "ips_Once (ip_Spec plan) = None" "ips_Schedule (ip_Spec plan) = Some c"
    | "ips_Once (ip_Spec plan) = None" "ips_Schedule (ip_Spec plan) = None" by fastforce
  then show ?thesis
  proof cases
    case 1
    show ?thesis
      by (rule plan_schedule_once_cases [OF live 1, of E w]) (use idle once [OF live, of _ "[CNow]"] in simp_all)
  next
    case 2
    show ?thesis by (rule plan_schedule_cron_cases [OF live 2, of E w]) (use idle cycle [OF live] in simp_all)
  next
    case 3
    with live show ?thesis
      using idle [of "[]"] once [OF live, of "ev_now E (w_trace w)" "[]"]
      by (cases "blank (ipst_LastTaskName (ip_Status plan))") (simp_all add: plan_schedule_def due_def)
  qed
qed

lemma clock_effects [world_simps]:
  assumes "set cs \<subseteq> {CNow}"
  shows "creations (fold log cs w) = creations w" "plan_writes (fold log cs w) = plan_writes w"
  using assms by (induction cs arbitrary: w) (simp_all add: world_simps)

lemma plan_schedule_writes:
  "length (plan_writes (snd (plan_schedule E plan w))) \<le> Suc (length (plan_writes w))"
proof (cases rule: plan_schedule_cases [where E = E and plan = plan and w = w])
  case (once t cs)
  then show ?thesis using start_plan_writes(1) [of E plan "fold log cs w"] by (simp add: clock_effects)
next
  case (cycle t s)
  then show ?thesis using start_plan_writes(2) [of E s t plan "log CNow w"] by (simp add: world_simps)
qed (simp_all add: world_simps)

text \<open>
  One reconcile writes the plan at most once, whatever the server answers.
\<close>

theorem plan_Reconcile_one_write:
  "length (plan_writes (snd (plan_Reconcile E req w))) \<le> Suc (length (plan_writes w))"
proof (cases rule: plan_Reconcile_cases [where E = E and w = w and req = req])
  case (refer plan d action)
  then show ?thesis by (simp add: plan_references_def world_simps Let_def case_prod_unfold)
next
  case (schedule plan action)
  then show ?thesis
    using plan_schedule_writes [of E plan "log (CRead [] KPlan req) w"] by (simp add: world_simps)
qed (simp_all add: world_simps)

lemma plan_starts:
  assumes "creations (snd (plan_Reconcile E req w)) \<noteq> creations w"
  shows "\<exists>plan n t. ev_plan E (w_trace w) req = Inr plan \<and> startable plan \<and> due E plan t
     \<and> creations (snd (plan_Reconcile E req w)) = creations w @ [OTask (new_task plan n)]"
  using assms
proof (cases rule: plan_Reconcile_cases [where E = E and w = w and req = req])
  case (schedule plan action)
  let ?w = "log (CRead [] KPlan req) w"
  show ?thesis
  proof (cases rule: plan_schedule_cases [where E = E and plan = plan and w = ?w])
    case (once t cs)
    then show ?thesis
      using schedule assms start_once_creations [of E plan "fold log cs ?w"]
      by (auto simp: world_simps startable_def clock_effects)
  next
    case (cycle t s)
    then show ?thesis
      using schedule assms start_cycle_creations [of E s t plan "log CNow ?w"]
      by (auto simp: world_simps startable_def)
  qed (use schedule assms in \<open>simp_all add: world_simps\<close>)
qed (simp_all add: world_simps plan_references_def Let_def case_prod_unfold split: if_splits)


section \<open>Stale labels\<close>

lemma cross_out_stale:
  assumes "(k, v) \<in> set newLabel" and "\<forall>n \<in> set ns. plan_key (irn_Name n) \<noteq> k"
  shows "\<exists>l. cross_out ns newLabel newRules = (l, newRules) \<and> (k, v) \<in> set l \<and> set l \<subseteq> set newLabel"
  using assms
proof (induction ns arbitrary: newLabel)
  case Nil
  then show ?case by auto
next
  case (Cons n ns)
  let ?l = "mdel newLabel (plan_key (irn_Name n))"
  have "(k, v) \<in> set ?l" using Cons.prems by (auto simp: set_mdel)
  with Cons.IH [of ?l] Cons.prems obtain l where
    "cross_out ns ?l newRules = (l, newRules)" "(k, v) \<in> set l" "set l \<subseteq> set ?l" by auto
  moreover have "set ?l \<subseteq> set newLabel" by (auto simp: set_mdel)
  ultimately show ?case using Cons.prems by auto
qed

definition stale_label :: "InspectPlan \<Rightarrow> string \<Rightarrow> string \<Rightarrow> bool" where
  "stale_label plan k v \<longleftrightarrow> (k, v) \<in> set (om_Labels (ip_Meta plan)) \<and> prefix ''kubeeye.kubesphere.io/'' k
     \<and> (\<forall>n \<in> set (ips_RuleNames (ip_Spec plan)). plan_key (irn_Name n) \<noteq> k)"

lemma GetUpdatePlanRule_stale:
  assumes "stale_label plan k v"
  obtains d where "GetUpdatePlanRule plan = (d, False)" "only_name v \<in> set d" "d \<noteq> []"
proof -
  have "(k, v) \<in> set (plan_labels plan)"
    using assms by (auto simp: stale_label_def plan_labels_def str_has_prefix_def)
  then obtain l where l: "cross_out (ips_RuleNames (ip_Spec plan)) (plan_labels plan) [] = (l, [])" "(k, v) \<in> set l"
    using cross_out_stale [of k v "plan_labels plan" "ips_RuleNames (ip_Spec plan)" "[]"] assms
    by (auto simp: stale_label_def)
  then have "l \<noteq> []" and "only_name v \<in> (\<lambda>(k, v). only_name v) ` set l" by auto
  then show ?thesis
    using l by (intro that [of "map (\<lambda>(k, v). only_name v) l"]) (auto simp: GetUpdatePlanRule_def)
qed

lemma stale_label_join_num: "stale_label (join_num plan) k v \<longleftrightarrow> stale_label plan k v"
  by (simp add: stale_label_def join_num_def)

text \<open>
  C26. A plan with the label of a rule it no longer names never starts a task: the reconcile only writes
  the plan back with the same spec and the same label, so the next one finds the same state.
\<close>

theorem stale_label_blocks:
  assumes "ev_plan E (w_trace w) req = Inr plan" and "plan_fin.live plan" and "plan_fin.guarded plan"
    and "stale_label plan k v"
  shows "\<exists>plan'. plan_writes (snd (plan_Reconcile E req w)) = plan_writes w @ [plan']
     \<and> stale_label plan' k v \<and> ip_Spec plan' = ip_Spec plan
     \<and> creations (snd (plan_Reconcile E req w)) = creations w"
proof -
  obtain d where d: "GetUpdatePlanRule plan = (d, False)" "d \<noteq> []"
    using GetUpdatePlanRule_stale [OF assms(4)] by metis
  have "plan_Reconcile E req w = plan_references E d False plan (log (CRead [] KPlan req) w)"
    by (rule plan_Reconcile_cases [where E = E and w = w and req = req]) (use assms(1-3) d in auto)
  moreover have "ip_Spec (join_num plan) = ip_Spec plan" by (simp add: join_num_def)
  ultimately show ?thesis
    using assms(4) by (simp add: plan_references_def world_simps Let_def stale_label_join_num)
qed

section \<open>Reference counts\<close>

definition refer_count :: "InspectRule \<Rightarrow> string option" where
  "refer_count rule = mget (om_Annotations (ir_Meta rule)) AnnotationJoinPlanNum"

definition refers :: "string \<Rightarrow> InspectRule \<Rightarrow> bool" where
  "refers plan_name rule \<longleftrightarrow> mget (om_Labels (ir_Meta rule)) (plan_key plan_name) \<noteq> None"

definition rule_wf :: "InspectRule \<Rightarrow> bool" where
  "rule_wf rule \<longleftrightarrow> wf_map (om_Labels (ir_Meta rule)) \<and> wf_map (om_Annotations (ir_Meta rule))"

lemma refer_add_wf: "rule_wf (refer_add p rule)"
  by (simp add: rule_wf_def refer_add_def Let_def)

lemma refer_add_count:
  assumes "rule_wf rule" and "refer_count rule = Some (itoa n)" and "min_int64 \<le> n" and "n < max_int64"
  shows "refer_count (refer_add p rule) = Some (itoa (n + 1))"
  using assms wrap64_id [of "n + 1"]
  by (simp add: refer_count_def refer_add_def rule_wf_def Let_def go_map go_str)

lemma refer_add_first:
  "rule_wf rule \<Longrightarrow> refer_count rule = None \<Longrightarrow> refer_count (refer_add p rule) = Some (itoa 1)"
  by (simp add: refer_count_def refer_add_def rule_wf_def Let_def go_map)

lemma refer_sub_count:
  assumes "rule_wf rule" and "refer_count rule = Some (itoa n)" and "0 < n" and "n \<le> max_int64"
  shows "refer_count (refer_sub p rule) = Some (itoa (n - 1))"
  using assms by (simp add: refer_count_def refer_sub_def rule_wf_def Let_def go_map go_str min_int64_def)

lemma refer_add_refers: "rule_wf rule \<Longrightarrow> refers q (refer_add p rule) \<longleftrightarrow> q = p \<or> refers q rule"
  by (auto simp: refers_def refer_add_def rule_wf_def Let_def go_map plan_key_def)

lemma refer_sub_refers: "refers q (refer_sub p rule) \<longleftrightarrow> q \<noteq> p \<and> refers q rule"
  by (auto simp: refers_def refer_sub_def Let_def go_map plan_key_def)

text \<open>
  C24. Adding a plan's reference to a rule and removing it again restores the count in the annotation
  and the set of plans the rule is labelled with.
\<close>

theorem refer_add_sub:
  assumes "rule_wf rule" and "refer_count rule = Some (itoa n)" and "0 \<le> n" and "n < max_int64"
    and "\<not> refers p rule"
  shows "refer_count (refer_sub p (refer_add p rule)) = refer_count rule
     \<and> (\<forall>q. refers q (refer_sub p (refer_add p rule)) = refers q rule)"
proof -
  have "refer_count (refer_add p rule) = Some (itoa (n + 1))"
    using assms by (intro refer_add_count) (simp_all add: min_int64_def)
  then have "refer_count (refer_sub p (refer_add p rule)) = Some (itoa n)"
    using refer_sub_count [OF refer_add_wf, of _ _ "n + 1"] assms(3,4) by simp
  then show ?thesis
    using assms by (auto simp: refer_sub_refers refer_add_refers)
qed

text \<open>
  C25. Counting a plan's rules: every cached rule the plan names gets one more reference, whatever
  the server answers to the update, and no other cached rule changes.  An update that is refused
  and tried again therefore counts twice.
\<close>

theorem updateAdd_counts_refused:
  assumes "distinct (map irn_Name vs)"
  shows "mget (w_rules (snd (updateAddRuleReferNum E vs plan w))) n =
     (if n \<in> irn_Name ` set vs then map_option (refer_add (om_Name (ip_Meta plan))) (mget (w_rules w) n)
      else mget (w_rules w) n)"
  using assms
proof (induction E vs plan w rule: updateAddRuleReferNum.induct)
  case (1 E plan w)
  then show ?case by simp
next
  case (2 E v vs plan w)
  show ?case
  proof (cases "mget (w_rules w) (irn_Name v)")
    case None
    with 2 show ?thesis by auto
  next
    case (Some rule)
    have l: "om_Name (ip_Meta (label_plan m p)) = om_Name (ip_Meta p)" for m p by (simp add: label_plan_def)
    from 2 Some show ?thesis
      by (auto simp: world_simps cache_rule_def Let_def go_map l)
  qed
qed

section \<open>Cleaning up\<close>

text \<open>
  C23. When a plan has at least as many tasks as it may keep, cleaning up deletes the oldest ones down to
  that number, by time of creation, and the status of the plan names exactly the tasks kept.
\<close>

theorem cleanTask_keeps_newest:
  assumes "ev_tasks E (w_trace w) (om_Name (ip_Meta plan)) = Some ts"
    and "0 < ips_MaxTasks (ip_Spec plan)" and "ips_MaxTasks (ip_Spec plan) \<le> int (length ts)"
  shows "\<exists>old new. mset (old @ new) = mset ts \<and> int (length new) = ips_MaxTasks (ip_Spec plan)
     \<and> (\<forall>a \<in> set old. \<forall>b \<in> set new.
          om_CreationTimestamp (it_Meta a) \<le> om_CreationTimestamp (it_Meta b))
     \<and> deletions (snd (cleanTask E plan w)) = deletions w @ map (\<lambda>t. (KTask, om_Name (it_Meta t))) old
     \<and> map tn_Name (ipst_TaskNames (ip_Status (fst (cleanTask E plan w)))) = map (om_Name \<circ> it_Meta) new"
proof -
  let ?s = "sort_slice (\<lambda>a b. om_CreationTimestamp (it_Meta a) < om_CreationTimestamp (it_Meta b)) ts"
  let ?k = "length ts - nat (ips_MaxTasks (ip_Spec plan))"
  have "sorted_wrt (\<lambda>a b. \<not> om_CreationTimestamp (it_Meta b) < om_CreationTimestamp (it_Meta a)) ?s"
    by (rule sorted_sort_slice) (rule weak_order_key)
  then have "sorted_wrt (\<lambda>a b. om_CreationTimestamp (it_Meta a) \<le> om_CreationTimestamp (it_Meta b))
      (take ?k ?s @ drop ?k ?s)"
    by (simp add: not_less)
  then have "\<forall>a \<in> set (take ?k ?s). \<forall>b \<in> set (drop ?k ?s).
      om_CreationTimestamp (it_Meta a) \<le> om_CreationTimestamp (it_Meta b)"
    unfolding sorted_wrt_append by blast
  moreover have "mset (take ?k ?s @ drop ?k ?s) = mset ts" by simp
  moreover have "int (length (drop ?k ?s)) = ips_MaxTasks (ip_Spec plan)" using assms(2,3) by simp
  moreover have "deletions (snd (cleanTask E plan w)) = deletions w @ map (\<lambda>t. (KTask, om_Name (it_Meta t))) (take ?k ?s)"
    using assms by (simp add: cleanTask_def getInspectTaskForLabel_def world_simps Let_def)
  moreover have "map tn_Name (ipst_TaskNames (ip_Status (fst (cleanTask E plan w)))) = map (om_Name \<circ> it_Meta) (drop ?k ?s)"
    using assms by (simp add: cleanTask_def getInspectTaskForLabel_def Let_def set_task_names_def
        ConvertTaskStatus_def comp_def)
  ultimately show ?thesis by (intro exI [of _ "take ?k ?s"] exI [of _ "drop ?k ?s"] conjI)
qed

section \<open>The names of the tasks in the status\<close>

lemma set_status_names: "set_status ts n p = Some ts' \<Longrightarrow> map tn_Name ts' = map tn_Name ts \<and> n \<in> tn_Name ` set ts"
  by (induction ts arbitrary: ts') (auto split: if_splits)

lemma set_status_None: "set_status ts n p = None \<longleftrightarrow> n \<notin> tn_Name ` set ts"
  by (induction ts) auto

lemma set_status_phase: "set_status ts n p = Some ts' \<Longrightarrow> \<exists>t \<in> set ts'. tn_Name t = n \<and> tn_TaskStatus t = p"
  by (induction ts arbitrary: ts') (auto split: if_splits)

text \<open>
  Recording a task in the status of a plan gives the task the phase, adds no other name and keeps
  the names distinct.
\<close>

theorem addTaskName_names:
  "(\<exists>t \<in> set (addTaskName ts n p). tn_Name t = n \<and> tn_TaskStatus t = p)
   \<and> (distinct (map tn_Name ts) \<longrightarrow> distinct (map tn_Name (addTaskName ts n p)))
   \<and> tn_Name ` set (addTaskName ts n p) = insert n (tn_Name ` set ts)"
proof (cases "set_status ts n p")
  case None
  then have "addTaskName ts n p = ts @ [\<lparr>tn_Name = n, tn_TaskStatus = p\<rparr>]" by (simp add: addTaskName_def)
  moreover have "n \<notin> tn_Name ` set ts" using None by (simp add: set_status_None)
  ultimately show ?thesis by auto
next
  case (Some ts')
  then have m: "map tn_Name ts' = map tn_Name ts" "n \<in> tn_Name ` set ts"
    by (auto dest: set_status_names)
  then have "tn_Name ` set ts' = tn_Name ` set ts" by (metis list.set_map)
  with Some m show ?thesis using set_status_phase [OF Some] by (auto simp: addTaskName_def insert_absorb)
qed

section \<open>Concrete runs\<close>

definition demo_plan :: "strmap \<Rightarrow> InspectPlan" where
  "demo_plan labels = \<lparr>ip_Type = \<lparr>tm_Kind = ''InspectPlan'', tm_APIVersion = ''v1''\<rparr>,
     ip_Meta = (empty_meta ''plan'')\<lparr>om_Labels := labels, om_Finalizers := [Finalizers]\<rparr>,
     ip_Spec = \<lparr>ips_Schedule = None, ips_Suspend = False, ips_Timeout = [], ips_RuleNames = [only_name ''r''],
       ips_MaxTasks = 1, ips_ClusterName = None, ips_KubeConfig = [], ips_Once = None\<rparr>,
     ip_Status = zero_PlanStatus\<lparr>ipst_LastTaskStatus := PhasePending\<rparr>\<rparr>"

definition plan_env :: "strmap \<Rightarrow> env" where
  "plan_env labels = quiet_env\<lparr>ev_plan := \<lambda>tr n. Inr (demo_plan labels)\<rparr>"

lemma creations_empty: "creations empty_world = []" "plan_writes empty_world = []" "deletions empty_world = []"
  by (simp_all add: creations_def deletions_def plan_writes_def updates_def empty_world_def List.map_filter_simps)


theorem stale_label_blocks_witness:
  "creations (snd (plan_Reconcile (plan_env [(plan_key ''gone'', ''gone'')]) ''plan'' empty_world)) = []"
proof -
  have "ev_plan (plan_env [(plan_key ''gone'', ''gone'')]) (w_trace empty_world) ''plan''
      = Inr (demo_plan [(plan_key ''gone'', ''gone'')])"
    by (simp add: plan_env_def)
  moreover have "plan_fin.live (demo_plan [(plan_key ''gone'', ''gone'')])"
    and "plan_fin.guarded (demo_plan [(plan_key ''gone'', ''gone'')])"
    and "stale_label (demo_plan [(plan_key ''gone'', ''gone'')]) (plan_key ''gone'') ''gone''"
    by (simp_all add: plan_fin.live_def plan_fin.guarded_def stale_label_def demo_plan_def empty_meta_def
        is_zero_def plan_key_def only_name_def)
  ultimately show ?thesis
    using stale_label_blocks [of "plan_env [(plan_key ''gone'', ''gone'')]" empty_world "''plan''"]
    by (auto simp: creations_empty)
qed

definition demo_rule :: "string \<Rightarrow> InspectRule" where
  "demo_rule cnt = \<lparr>ir_Meta = (empty_meta ''r'')\<lparr>om_Annotations := [(AnnotationJoinPlanNum, cnt)]\<rparr>,
     ir_Spec = zero_RuleSpec, ir_Status = zero_RuleStatus\<rparr>"

theorem refer_add_sub_witness:
  "refer_count (refer_sub ''plan'' (refer_add ''plan'' (demo_rule ''4''))) = Some ''4''"
proof -
  have "rule_wf (demo_rule ''4'')" by (simp add: rule_wf_def demo_rule_def empty_meta_def)
  moreover have "refer_count (demo_rule ''4'') = Some (itoa 4)" by code_simp
  moreover have "\<not> refers ''plan'' (demo_rule ''4'')" by (simp add: refers_def demo_rule_def empty_meta_def)
  moreover have "itoa 4 = ''4''" by code_simp
  ultimately show ?thesis using refer_add_sub [of "demo_rule ''4''" 4 "''plan''"] by (simp add: max_int64_def)
qed

theorem updateAdd_counts_refused_witness:
  "mget (w_rules (snd (updateAddRuleReferNum (quiet_env\<lparr>ev_write := \<lambda>tr c. Some (ApiErr ''conflict'')\<rparr>)
      [only_name ''r''] (demo_plan []) (empty_world\<lparr>w_rules := [(''r'', demo_rule ''4'')]\<rparr>)))) ''r''
   = Some (refer_add ''plan'' (demo_rule ''4''))"
proof -
  have "distinct (map irn_Name [only_name ''r''])" by simp
  from updateAdd_counts_refused [OF this, of "quiet_env\<lparr>ev_write := \<lambda>tr c. Some (ApiErr ''conflict'')\<rparr>"
      "demo_plan []" "empty_world\<lparr>w_rules := [(''r'', demo_rule ''4'')]\<rparr>" "''r''"]
  show ?thesis by (simp add: only_name_def demo_plan_def empty_meta_def)
qed

definition dated_task :: "string \<Rightarrow> int \<Rightarrow> InspectTask" where
  "dated_task n t = \<lparr>it_Type = \<lparr>tm_Kind = [], tm_APIVersion = []\<rparr>,
     it_Meta = (empty_meta n)\<lparr>om_CreationTimestamp := Time t\<rparr>,
     it_Spec = \<lparr>its_ClusterName = None, its_RuleNames = [], its_Timeout = [], its_InspectPolicy = CyclePolicy\<rparr>,
     it_Status = zero_TaskStatus\<rparr>"

theorem cleanTask_keeps_newest_witness:
  "\<exists>old new. mset (old @ new) = {#dated_task ''b'' 2, dated_task ''a'' 1#} \<and> length new = 1
     \<and> deletions (snd (cleanTask (quiet_env\<lparr>ev_tasks := \<lambda>tr n. Some [dated_task ''b'' 2, dated_task ''a'' 1]\<rparr>)
          (demo_plan []) empty_world)) = map (\<lambda>t. (KTask, om_Name (it_Meta t))) old"
proof -
  let ?E = "quiet_env\<lparr>ev_tasks := \<lambda>tr n. Some [dated_task ''b'' 2, dated_task ''a'' 1]\<rparr>"
  have "ev_tasks ?E (w_trace empty_world) (om_Name (ip_Meta (demo_plan []))) = Some [dated_task ''b'' 2, dated_task ''a'' 1]"
    by simp
  moreover have "0 < ips_MaxTasks (ip_Spec (demo_plan []))"
    and "ips_MaxTasks (ip_Spec (demo_plan [])) \<le> int (length [dated_task ''b'' 2, dated_task ''a'' 1])"
    by (simp_all add: demo_plan_def)
  ultimately obtain old new where o: "mset (old @ new) = mset [dated_task ''b'' 2, dated_task ''a'' 1]"
      "int (length new) = ips_MaxTasks (ip_Spec (demo_plan []))"
      "deletions (snd (cleanTask ?E (demo_plan []) empty_world))
         = deletions empty_world @ map (\<lambda>t. (KTask, om_Name (it_Meta t))) old"
    using cleanTask_keeps_newest [of ?E empty_world "demo_plan []"] by blast
  have "ips_MaxTasks (ip_Spec (demo_plan [])) = 1" by (simp add: demo_plan_def)
  with o show ?thesis by (intro exI [of _ old] exI [of _ new]) (simp add: creations_empty)
qed

theorem addTaskName_names_witness:
  "distinct (map tn_Name (addTaskName [\<lparr>tn_Name = ''a'', tn_TaskStatus = PhasePending\<rparr>] ''b'' PhaseRunning))"
  using addTaskName_names [of "[\<lparr>tn_Name = ''a'', tn_TaskStatus = PhasePending\<rparr>]" "''b''" PhaseRunning] by simp

end
