(* ===== verification/Templates.thy ===== *)
theory Templates
  imports Kube_Api
begin

text \<open>
  pkg/template: the objects the controller creates for an inspection: the job, the immutable config
  maps, the role of the jobs with its binding and account.
\<close>

record JobTemplateOptions =
  jo_JobConfig :: "JobConfig option"
  jo_JobName :: string
  jo_Task :: InspectTask
  jo_NodeName :: string
  jo_RuleType :: string

definition task_owner :: "InspectTask \<Rightarrow> OwnerReference" where
  "task_owner task = \<lparr>or_APIVersion = tm_APIVersion (it_Type task), or_Kind = tm_Kind (it_Type task),
     or_Name = om_Name (it_Meta task), or_UID = om_UID (it_Meta task),
     or_Controller = True, or_BlockOwnerDeletion = True\<rparr>"

text \<open>None is the panic on a nil job configuration.\<close>

definition read_only :: "string \<Rightarrow> string \<Rightarrow> string option \<Rightarrow> VolumeMount" where
  "read_only n p prop = \<lparr>vm_Name = n, vm_ReadOnly = True, vm_MountPath = p, vm_Propagation = prop\<rparr>"

definition GeneratorJobTemplate :: "JobTemplateOptions \<Rightarrow> JobTemplate option" where
  "GeneratorJobTemplate Job = map_option (\<lambda>config.
     (let plan = mget0 (om_Labels (it_Meta (jo_Task Job))) LabelPlanName in
      \<lparr>jt_Name = jo_JobName Job, jt_Owner = task_owner (jo_Task Job),
       jt_Labels = [(LabelRuleType, jo_RuleType Job), (LabelPlanName, plan)],
       jt_BackoffLimit = jc_BackLimit config, jt_TTL = jc_AutoDelTime config,
       jt_PodName = ''inspect-job-pod'', jt_PodLabels = [(LabelPlanName, plan)],
       jt_PodAnnotations = [(''container.apparmor.security.beta.kubernetes.io/inspect-task-kubeeye'', ''unconfined'')],
       jt_Container = ''inspect-task-kubeeye'', jt_Image = ic_Image config, jt_Command = [''ke''],
       jt_Args = [''create'', ''job'', ''--job-type'', jo_RuleType Job, ''--task-name'',
         om_Name (it_Meta (jo_Task Job)), ''--result-name'', jo_JobName Job],
       jt_Env = [(''KUBERNETES_POD_NAMESPACE'', ''metadata.namespace'')],
       jt_VolumeMounts = [read_only ''proc'' ''/hosts/proc'' None, read_only ''sys'' ''/hosts/sys'' None,
         read_only ''root'' RootPathPrefix (Some ''HostToContainer''),
         read_only ''system-socket'' ''/var/run/dbus/system_bus_socket'' None],
       jt_ImagePullPolicy = ic_ImagePullPolicy config, jt_Resources = jc_Resources config,
       jt_HostNetwork = True, jt_HostPID = True, jt_DNSPolicy = ''ClusterFirstWithHostNet'',
       jt_ServiceAccountName = ''kubeeye-inspect-job'', jt_NodeName = jo_NodeName Job, jt_RestartPolicy = ''Never'',
       jt_Volumes = [(''root'', ''/''), (''proc'', ''/proc''), (''sys'', ''/sys''),
         (''system-socket'', ''/run/dbus/system_bus_socket'')]\<rparr>)) (jo_JobConfig Job)"

definition BinaryConfigMapTemplate :: "string \<Rightarrow> doc \<Rightarrow> strmap \<Rightarrow> ConfigMap" where
  "BinaryConfigMapTemplate name binaryData labels =
     \<lparr>cm_Name = to_lower name, cm_Labels = labels, cm_BinaryData = [(constData, binaryData)]\<rparr>"

definition BinaryFileConfigMapTemplate :: "string \<Rightarrow> doc \<Rightarrow> ConfigMap" where
  "BinaryFileConfigMapTemplate name binaryData =
     BinaryConfigMapTemplate name binaryData [(LabelConfigType, BaseFile)]"

record PolicyRule =
  po_APIGroups :: "string list"
  po_Resources :: "string list"
  po_Verbs :: "string list"

record ClusterRole =
  cro_Name :: string
  cro_Rules :: "PolicyRule list"

definition GetClusterRoleTemplate :: ClusterRole where
  "GetClusterRoleTemplate = \<lparr>cro_Name = ''kubeeye-inspect-role'', cro_Rules =
     [\<lparr>po_APIGroups = [[]], po_Resources = [''*''], po_Verbs = [''list'', ''get'', ''watch'']\<rparr>,
      \<lparr>po_APIGroups = [[]], po_Resources = [''configmaps''], po_Verbs = [''create'']\<rparr>,
      \<lparr>po_APIGroups = [''apps''], po_Resources = [''deployments'', ''daemonsets'', ''statefulsets''],
        po_Verbs = [''list'', ''get'', ''watch'']\<rparr>,
      \<lparr>po_APIGroups = [''batch''], po_Resources = [''jobs'', ''cronjobs''], po_Verbs = [''list'', ''get'', ''watch'']\<rparr>,
      \<lparr>po_APIGroups = [''rbac.authorization.k8s.io''],
        po_Resources = [''roles'', ''clusterroles'', ''rolebindings'', ''clusterrolebindings''],
        po_Verbs = [''list'', ''get'', ''watch'']\<rparr>]\<rparr>"

record ClusterRoleBinding =
  crb_Name :: string
  crb_Subjects :: "(string \<times> string \<times> string) list" \<comment> \<open>kind, name, namespace\<close>
  crb_RoleRef :: "string \<times> string \<times> string" \<comment> \<open>API grp, kind, name\<close>

definition GetClusterRoleBindingTemplate :: "string \<Rightarrow> ClusterRoleBinding" where
  "GetClusterRoleBindingTemplate namespace = \<lparr>crb_Name = ''kubeeye-inspect-rolebinding'',
     crb_Subjects = [(''ServiceAccount'', ''kubeeye-inspect-job'', namespace)],
     crb_RoleRef = (''rbac.authorization.k8s.io'', ''ClusterRole'', ''kubeeye-inspect-role'')\<rparr>"

definition GetServiceAccountTemplate :: string where
  "GetServiceAccountTemplate = ''kubeeye-inspect-job''"

text \<open>How the API server reads a role and a label selector.\<close>

definition role_allows :: "ClusterRole \<Rightarrow> string \<Rightarrow> string \<Rightarrow> string \<Rightarrow> bool" where
  "role_allows role grp resource verb \<longleftrightarrow> list_ex (\<lambda>p. grp \<in> set (po_APIGroups p)
     \<and> (''*'' \<in> set (po_Resources p) \<or> resource \<in> set (po_Resources p)) \<and> verb \<in> set (po_Verbs p)) (cro_Rules role)"

definition selects :: "strmap \<Rightarrow> strmap \<Rightarrow> bool" where
  "selects selector labels \<longleftrightarrow> list_all (\<lambda>(k, v). mget labels k = Some v) selector"

text \<open>The selector by which getIncompleteJob looks for the pods of unfinished jobs of a kind.\<close>

definition incomplete_selector :: "InspectTask \<Rightarrow> string \<Rightarrow> strmap" where
  "incomplete_selector task ruleType =
     [(LabelPlanName, mget0 (om_Labels (it_Meta task)) LabelPlanName), (LabelRuleType, ruleType)]"

text \<open>
  The role of the inspection jobs allows reading only, apart from the creation of config maps,
  and its binding gives it to the account the jobs run under.
\<close>

theorem inspect_role_reads_only:
  "role_allows GetClusterRoleTemplate grp resource verb =
     (verb \<in> {''list'', ''get'', ''watch''} \<and>
        (grp = [] \<or> grp = ''apps'' \<and> resource \<in> {''deployments'', ''daemonsets'', ''statefulsets''}
         \<or> grp = ''batch'' \<and> resource \<in> {''jobs'', ''cronjobs''}
         \<or> grp = ''rbac.authorization.k8s.io''
           \<and> resource \<in> {''roles'', ''clusterroles'', ''rolebindings'', ''clusterrolebindings''})
      \<or> verb = ''create'' \<and> grp = [] \<and> resource = ''configmaps'')
   \<and> crb_RoleRef (GetClusterRoleBindingTemplate ns)
       = (''rbac.authorization.k8s.io'', ''ClusterRole'', cro_Name GetClusterRoleTemplate)
   \<and> map (fst \<circ> snd) (crb_Subjects (GetClusterRoleBindingTemplate ns)) = [GetServiceAccountTemplate]"
  by (auto simp: role_allows_def GetClusterRoleTemplate_def GetClusterRoleBindingTemplate_def
      GetServiceAccountTemplate_def)

text \<open>
  The pods of an inspection job are not found by the selector that looks for unfinished jobs:
  the job carries the label of its rule kind, its pods do not.
\<close>

theorem incomplete_jobs_not_found:
  "(case GeneratorJobTemplate o1 of
      None \<Rightarrow> jo_JobConfig o1 = None
    | Some job \<Rightarrow> selects (incomplete_selector (jo_Task o1) (jo_RuleType o1)) (jt_Labels job)
        \<and> \<not> selects (incomplete_selector task ruleType) (jt_PodLabels job))"
  by (cases "jo_JobConfig o1") (simp_all add: GeneratorJobTemplate_def selects_def incomplete_selector_def Let_def)

text \<open>
  An inspection job mounts the host read-only: every mount is read-only and names a volume of the
  job, and the root of the host is there, under the prefix the inspectors read below.
\<close>

theorem job_mounts_read_only:
  "(case GeneratorJobTemplate o1 of
      None \<Rightarrow> jo_JobConfig o1 = None
    | Some job \<Rightarrow> list_all (\<lambda>m. vm_ReadOnly m \<and> (\<exists>path. mget (jt_Volumes job) (vm_Name m) = Some path)) (jt_VolumeMounts job)
        \<and> (\<exists>m \<in> set (jt_VolumeMounts job). vm_MountPath m = RootPathPrefix \<and> mget (jt_Volumes job) (vm_Name m) = Some ''/'')
        \<and> jt_ServiceAccountName job = GetServiceAccountTemplate)"
  by (cases "jo_JobConfig o1") (simp_all add: GeneratorJobTemplate_def read_only_def GetServiceAccountTemplate_def Let_def)

end
