(* ===== verification/Opa_Collector.thy ===== *)
theory Opa_Collector
  imports Kube_Types
begin

text \<open>
  pkg/collectors/opa: the rego rules grouped by the resource they are about, the resources
  collected for each group, and the checker that runs every rule of a group on every resource of it
  in batches, by a pool of workers.  The rego evaluator, the discovery of API resources and the API
  server are parameters; the regular expressions are written out.
\<close>

section \<open>The resource a rule is about\<close>

text \<open>The class of white space of the regexp package.\<close>

definition re_space :: "char \<Rightarrow> bool" where
  "re_space c = (let n = of_char c :: nat in n = 9 \<or> n = 10 \<or> n = 12 \<or> n = 13 \<or> n = 32)"

definition strip_prefix :: "string \<Rightarrow> string \<Rightarrow> string option" where
  "strip_prefix p s = (if prefix p s then Some (drop (length p) s) else None)"

text \<open>
  The match of head, white space, two equal signs, white space and a quoted nonempty text at the start
  of a string: the quoted text.
\<close>

definition match_here :: "string \<Rightarrow> string \<Rightarrow> string option" where
  "match_here pat s = do {
     r1 \<leftarrow> strip_prefix pat s;
     r2 \<leftarrow> strip_prefix ''=='' (dropWhile re_space r1);
     r3 \<leftarrow> strip_prefix [CHR 0x22] (dropWhile re_space r2);
     let q = takeWhile (\<lambda>c. c \<noteq> CHR 0x22) r3;
     if q \<noteq> [] \<and> length q < length r3 then Some q else None }"

fun match_first :: "string \<Rightarrow> string \<Rightarrow> string option" where
  "match_first pat [] = match_here pat []"
| "match_first pat (c # cs) = (case match_here pat (c # cs) of Some q \<Rightarrow> Some q | None \<Rightarrow> match_first pat cs)"

definition parseResourceInfo :: "string \<Rightarrow> (string \<times> string) option" where
  "parseResourceInfo regoContent =
     (if str_contains regoContent ''package inspect.kubeeye.nodeStatsSummary'' then Some (NodeStatsSummary, ''v1'')
      else (case (match_first ''input.kind'' regoContent, match_first ''input.apiVersion'' regoContent) of
          (Some k, Some v) \<Rightarrow> Some (k, v)
        | _ \<Rightarrow> None))"

type_synonym RulesManager = "(string, OpaRule list) gomap"

definition group_get :: "(string, 'a list) gomap \<Rightarrow> string \<Rightarrow> 'a list" where
  "group_get m k = (case mget m k of None \<Rightarrow> [] | Some xs \<Rightarrow> xs)"

definition AddRule :: "OpaRule \<Rightarrow> RulesManager \<Rightarrow> RulesManager option" where
  "AddRule rule rm = (case parseResourceInfo (ri_Rule (opr_Base rule)) of
     None \<Rightarrow> None
   | Some (resourceKind, apiVersion) \<Rightarrow>
       (let key = resourceKind @ ''.'' @ apiVersion in Some (mput rm key (group_get rm key @ [rule]))))"

fun add_rules :: "OpaRule list \<Rightarrow> RulesManager \<Rightarrow> RulesManager option" where
  "add_rules [] rm = Some rm"
| "add_rules (r # rs) rm = do { rm' \<leftarrow> AddRule r rm; add_rules rs rm' }"

section \<open>Resources\<close>

text \<open>An object to check: its namespace and name, and the document the rules are evaluated on.\<close>

record Resource =
  rsc_Namespace :: string
  rsc_Name :: string
  rsc_Object :: json

text \<open>
  The clients: discovery gives the mapping of a group, kind and version (namespaced or not, and the
  resource), and lists are filtered by a label and a field selector.
\<close>

record ResourceCollector =
  rc_mapping :: "string \<Rightarrow> string \<Rightarrow> string \<Rightarrow> (bool \<times> string) option"
  rc_namespaces :: "string list option"
  rc_list :: "string \<Rightarrow> string option \<Rightarrow> string \<times> string \<Rightarrow> Resource list option"
  rc_nodes :: "K8sNode list option"
  rc_stats :: "string \<Rightarrow> doc option"

record ResourcesManager =
  rm_Resources :: "(string, Resource list) gomap"
  rm_StatsSummary :: "(string, Resource list) gomap"

definition CollectNodeStatsSummary :: "ResourceCollector \<Rightarrow> Resource list option" where
  "CollectNodeStatsSummary rc = map_option
     (\<lambda>nodes. List.map_filter (\<lambda>node.
        if \<not> isNodeReady node then None
        else (case rc_stats rc (kn_Name node) of
           None \<Rightarrow> None
         | Some d \<Rightarrow> map_option (\<lambda>j. \<lparr>rsc_Namespace = [], rsc_Name = kn_Name node, rsc_Object = j\<rparr>) d)) nodes)
     (rc_nodes rc)"

text \<open>strings.Split on a slash gives the parts between slashes.\<close>

definition group_version :: "string \<Rightarrow> string \<times> string" where
  "group_version version =
     (if str_contains version ''/'' then
        (let g = takeWhile (\<lambda>c. c \<noteq> CHR ''/'') version;
             r = tl (dropWhile (\<lambda>c. c \<noteq> CHR ''/'') version)
         in (g, takeWhile (\<lambda>c. c \<noteq> CHR ''/'') r))
      else ([], version))"

definition list_all_namespaces ::
    "ResourceCollector \<Rightarrow> string \<Rightarrow> string \<times> string \<Rightarrow> string list \<Rightarrow> Resource list" where
  "list_all_namespaces rc res sel nss =
     concat (map (\<lambda>ns. case rc_list rc res (Some ns) sel of None \<Rightarrow> [] | Some xs \<Rightarrow> xs) nss)"

definition CollectResources :: "ResourceCollector \<Rightarrow> string \<Rightarrow> string \<Rightarrow> Resource list option" where
  "CollectResources rc kind version =
     (let (group, version) = group_version version in
      case rc_mapping rc group kind version of
        None \<Rightarrow> None
      | Some (namespaced, res) \<Rightarrow>
          if namespaced then map_option (list_all_namespaces rc res ([], [])) (rc_namespaces rc)
          else rc_list rc res None ([], []))"

fun collect_multiple ::
    "ResourceCollector \<Rightarrow> (string \<times> string) list \<Rightarrow> (string, Resource list) gomap \<Rightarrow> (string, Resource list) gomap option" where
  "collect_multiple rc [] result = Some result"
| "collect_multiple rc ((k, v) # rest) result = do {
     items \<leftarrow> CollectResources rc k v;
     collect_multiple rc rest (mput result (k @ ''.'' @ v) items) }"

definition CollectMultipleResources :: "ResourceCollector \<Rightarrow> (string \<times> string) list \<Rightarrow> (string, Resource list) gomap option" where
  "CollectMultipleResources rc resources = collect_multiple rc resources []"

record ResourceFilter =
  rf_NamespaceSelector :: "string list"
  rf_LabelSelector :: string
  rf_FieldSelector :: string
  rf_Names :: "string list"
  rf_ExcludeNames :: "string list"

definition filter_names :: "ResourceFilter \<Rightarrow> Resource list \<Rightarrow> Resource list" where
  "filter_names f items =
     (if rf_Names f \<noteq> [] \<or> rf_ExcludeNames f \<noteq> [] then
        filter (\<lambda>i. \<not> list_ex (\<lambda>e. rsc_Name i = e) (rf_ExcludeNames f)
          \<and> (rf_Names f \<noteq> [] \<longrightarrow> list_ex (\<lambda>n. rsc_Name i = n) (rf_Names f))) items
      else items)"

definition CollectResourcesWithFilter ::
    "ResourceCollector \<Rightarrow> string \<Rightarrow> string \<Rightarrow> ResourceFilter \<Rightarrow> Resource list option" where
  "CollectResourcesWithFilter rc kind version f =
     (let (group, version) = group_version version; sel = (rf_LabelSelector f, rf_FieldSelector f) in
      case rc_mapping rc group kind version of
        None \<Rightarrow> None
      | Some (namespaced, res) \<Rightarrow>
          (if namespaced then
             (case (if rf_NamespaceSelector f \<noteq> [] then Some (rf_NamespaceSelector f) else rc_namespaces rc) of
                None \<Rightarrow> None
              | Some nss \<Rightarrow> Some (filter_names f (list_all_namespaces rc res sel nss)))
           else map_option (filter_names f) (rc_list rc res None sel)))"

text \<open>strings.SplitN at the first dot; fewer than two parts is an error.\<close>

definition split_dot :: "string \<Rightarrow> (string \<times> string) option" where
  "split_dot s = (let k = takeWhile (\<lambda>c. c \<noteq> CHR ''.'') s in
     if length k < length s then Some (k, drop (Suc (length k)) s) else None)"

definition AddResource :: "ResourceCollector \<Rightarrow> string \<Rightarrow> ResourcesManager \<Rightarrow> ResourcesManager option" where
  "AddResource rc resource rm = (case split_dot resource of
     None \<Rightarrow> None
   | Some (kind, version) \<Rightarrow>
       if kind = NodeStatsSummary
       then map_option (\<lambda>xs. rm\<lparr>rm_StatsSummary := mput (rm_StatsSummary rm) resource xs\<rparr>)
              (CollectNodeStatsSummary rc)
       else map_option (\<lambda>xs. rm\<lparr>rm_Resources := mput (rm_Resources rm) resource xs\<rparr>)
              (CollectResources rc kind version))"

fun add_resources :: "ResourceCollector \<Rightarrow> string list \<Rightarrow> ResourcesManager \<Rightarrow> ResourcesManager option" where
  "add_resources rc [] rm = Some rm"
| "add_resources rc (k # ks) rm = do { rm' \<leftarrow> AddResource rc k rm; add_resources rc ks rm' }"

section \<open>The checker\<close>

text \<open>
  The evaluator: preparing a query for a module (the error text, if any), evaluating it on an input
  (an error text, or the values of the expressions of each result), and how fmt.Sprint writes an
  array or an object.
\<close>

record rego =
  rg_prepare :: "string \<Rightarrow> string \<Rightarrow> string option"
  rg_eval :: "string \<Rightarrow> string \<Rightarrow> json \<Rightarrow> string + json list list"
  rg_print :: "json \<Rightarrow> string"

fun sprint :: "rego \<Rightarrow> json \<Rightarrow> string" where
  "sprint R JNull = ''<nil>''"
| "sprint R (JBool b) = BoolToString b"
| "sprint R (JNum n) = itoa n"
| "sprint R (JStr s) = s"
| "sprint R j = rg_print R j"

definition violation_item :: "rego \<Rightarrow> json \<Rightarrow> ResultItem option" where
  "violation_item R v = (case v of
     JObj violation \<Rightarrow> Some \<lparr>rit_Level = sprint R (sub_doc violation ''Level''),
       rit_Message = sprint R (sub_doc violation ''Message''), rit_Reason = sprint R (sub_doc violation ''Reason'')\<rparr>
   | _ \<Rightarrow> None)"

definition rule_items :: "rego \<Rightarrow> string \<Rightarrow> json \<Rightarrow> OpaRule \<Rightarrow> ResultItem list" where
  "rule_items R query input rule =
     (let b = opr_Base rule in
      case rg_prepare R query (ri_Rule b) of
        Some err \<Rightarrow> [\<lparr>rit_Level = ri_Level b,
            rit_Message = ''prepare rule '' @ ri_Name b @ '' failed: '' @ err, rit_Reason = ''PrepareRuleFailed''\<rparr>]
      | None \<Rightarrow>
          (case rg_eval R query (ri_Rule b) input of
             Inl err \<Rightarrow> [\<lparr>rit_Level = ri_Level b,
                 rit_Message = ''eval rule '' @ ri_Name b @ '' failed: '' @ err, rit_Reason = ''EvalRuleFailed''\<rparr>]
           | Inr ((JArr violations # _) # _) \<Rightarrow> List.map_filter (violation_item R) violations
           | Inr _ \<Rightarrow> []))"

text \<open>A task: a batch of resources of one type and the rules for it.\<close>

record opa_task =
  ot_Resources :: "Resource list"
  ot_Stats :: "Resource list"
  ot_Rules :: "OpaRule list"
  ot_Type :: string

definition check_one :: "rego \<Rightarrow> string \<Rightarrow> string \<Rightarrow> OpaRule list \<Rightarrow> string \<Rightarrow> Resource \<Rightarrow> ResourceResult" where
  "check_one R query typ rules ns r =
     \<lparr>rr_NameSpace = ns, rr_ResourceType = typ, rr_Name = rsc_Name r,
      rr_ResultItems = concat (map (rule_items R query (rsc_Object r)) rules)\<rparr>"

text \<open>What the two checks send: the results with at least one item.\<close>

definition checkResource :: "rego \<Rightarrow> opa_task \<Rightarrow> ResourceResult list" where
  "checkResource R t = filter (\<lambda>r. rr_ResultItems r \<noteq> [])
     (map (\<lambda>r. check_one R ''data.inspect.kubeeye.deny'' (ot_Type t) (ot_Rules t) (rsc_Namespace r) r) (ot_Resources t))"

definition checkNodeStatsSummary :: "rego \<Rightarrow> opa_task \<Rightarrow> ResourceResult list" where
  "checkNodeStatsSummary R t = filter (\<lambda>r. rr_ResultItems r \<noteq> [])
     (map (\<lambda>r. check_one R ''data.inspect.kubeeye.nodeStatsSummary.deny'' (ot_Type t) (ot_Rules t) [] r) (ot_Stats t))"

definition worker_results :: "rego \<Rightarrow> opa_task \<Rightarrow> ResourceResult list" where
  "worker_results R t = (if ot_Type t = NodeStatsSummary @ ''.v1'' then checkNodeStatsSummary R t else checkResource R t)"

text \<open>The batches from index i on; a batch bsize of zero never advances.\<close>

partial_function (option) batch_loop :: "nat \<Rightarrow> 'a list \<Rightarrow> nat \<Rightarrow> 'a list list option" where
  "batch_loop bsize xs i =
     (if i < length xs then
        (let e = (if length xs < i + bsize then length xs else i + bsize)
         in Option.bind (batch_loop bsize xs (i + bsize)) (\<lambda>rest. Some (take (e - i) (drop i xs) # rest)))
      else Some [])"

declare batch_loop.simps [code]

definition type_tasks ::
    "nat \<Rightarrow> RulesManager \<Rightarrow> (Resource list \<Rightarrow> OpaRule list \<Rightarrow> string \<Rightarrow> opa_task)
     \<Rightarrow> (string \<times> Resource list) \<Rightarrow> opa_task list option" where
  "type_tasks bsize rules mk kr = (case kr of (resourceType, resources) \<Rightarrow>
     (case mget rules resourceType of
        None \<Rightarrow> Some []
      | Some rs \<Rightarrow> map_option (map (\<lambda>b. mk b rs resourceType)) (batch_loop bsize resources 0)))"

definition all_tasks :: "nat \<Rightarrow> RulesManager \<Rightarrow> ResourcesManager \<Rightarrow> opa_task list option" where
  "all_tasks bsize rules rm = do {
     a \<leftarrow> those (map (type_tasks bsize rules
            (\<lambda>b rs t. \<lparr>ot_Resources = b, ot_Stats = [], ot_Rules = rs, ot_Type = t\<rparr>)) (rm_Resources rm));
     b \<leftarrow> those (map (type_tasks bsize rules
            (\<lambda>b rs t. \<lparr>ot_Resources = [], ot_Stats = b, ot_Rules = rs, ot_Type = t\<rparr>)) (rm_StatsSummary rm));
     Some (concat a @ concat b) }"

section \<open>The pool of workers\<close>

text \<open>
  The tasks not yet received, what each busy worker has still to send, and what the collector has
  got.  A step is a worker receiving the next task, a worker sending its next result, or a worker
  done with its task; the steps of the workers interleave freely.
\<close>

record pool =
  pl_queue :: "opa_task list"
  pl_busy :: "ResourceResult list list"
  pl_results :: "ResourceResult list"

inductive pool_step :: "rego \<Rightarrow> nat \<Rightarrow> pool \<Rightarrow> pool \<Rightarrow> bool" for R workers where
  receive: "pl_queue p = t # q \<Longrightarrow> length (pl_busy p) < workers \<Longrightarrow>
     pool_step R workers p (p\<lparr>pl_queue := q, pl_busy := pl_busy p @ [worker_results R t]\<rparr>)"
| send: "pl_busy p = xs @ (r # rs) # ys \<Longrightarrow>
     pool_step R workers p (p\<lparr>pl_busy := xs @ rs # ys, pl_results := pl_results p @ [r]\<rparr>)"
| finish: "pl_busy p = xs @ [] # ys \<Longrightarrow> pool_step R workers p (p\<lparr>pl_busy := xs @ ys\<rparr>)"

definition pool_start :: "opa_task list \<Rightarrow> pool" where
  "pool_start ts = \<lparr>pl_queue = ts, pl_busy = [], pl_results = []\<rparr>"

definition pool_done :: "pool \<Rightarrow> bool" where
  "pool_done p \<longleftrightarrow> pl_queue p = [] \<and> pl_busy p = []"

text \<open>A run with one worker, the order the results have without interleaving.\<close>

definition sequential_results :: "rego \<Rightarrow> opa_task list \<Rightarrow> ResourceResult list" where
  "sequential_results R ts = concat (map (worker_results R) ts)"

text \<open>
  What a run may return: the results of a pool that has come to rest, in the order they arrived.
\<close>

definition VailOpaRulesResult ::
    "rego \<Rightarrow> nat \<Rightarrow> nat \<Rightarrow> RulesManager \<Rightarrow> ResourcesManager \<Rightarrow> KubeeyeOpaResult \<Rightarrow> bool" where
  "VailOpaRulesResult R batchSize workers rules rm result \<longleftrightarrow>
     (\<exists>ts p. all_tasks batchSize rules rm = Some ts \<and> (pool_step R workers)\<^sup>*\<^sup>* (pool_start ts) p
        \<and> pool_done p \<and> result = zero_OpaResult\<lparr>kor_ResourceResults := pl_results p\<rparr>)"

section \<open>Batches\<close>

lemma batch_loop_spec:
  assumes "0 < bsize"
  shows "\<exists>bs. batch_loop bsize xs i = Some bs \<and> concat bs = drop i xs
     \<and> (\<forall>b \<in> set bs. b \<noteq> [] \<and> length b \<le> bsize)"
proof (induction "length xs - i" arbitrary: i rule: less_induct)
  case less
  show ?case
  proof (cases "i < length xs")
    case False
    then show ?thesis by (simp add: batch_loop.simps)
  next
    case True
    with assms have "length xs - (i + bsize) < length xs - i" by linarith
    from less [OF this] obtain bs where bs: "batch_loop bsize xs (i + bsize) = Some bs"
        "concat bs = drop (i + bsize) xs" "\<forall>b \<in> set bs. b \<noteq> [] \<and> length b \<le> bsize" by blast
    let ?e = "if length xs < i + bsize then length xs else i + bsize"
    have l: "batch_loop bsize xs i = Some (take (?e - i) (drop i xs) # bs)"
      using True bs(1) by (subst batch_loop.simps) (simp add: Let_def)
    have "take (?e - i) (drop i xs) @ drop (i + bsize) xs = drop i xs"
      using True by (auto simp: add.commute simp flip: drop_drop)
    moreover have "take (?e - i) (drop i xs) \<noteq> []" "length (take (?e - i) (drop i xs)) \<le> bsize"
      using True assms by auto
    ultimately show ?thesis using l bs by auto
  qed
qed

section \<open>Every schedule gives the same results\<close>

definition pending :: "rego \<Rightarrow> pool \<Rightarrow> ResourceResult multiset" where
  "pending R p = mset (pl_results p) + mset (concat (pl_busy p)) + mset (concat (map (worker_results R) (pl_queue p)))"

lemma pool_step_pending: "pool_step R n p q \<Longrightarrow> pending R q = pending R p"
  by (induction rule: pool_step.induct) (auto simp: pending_def)

lemma pool_steps_pending: "(pool_step R n)\<^sup>*\<^sup>* p q \<Longrightarrow> pending R q = pending R p"
  by (induction rule: rtranclp_induct) (auto dest: pool_step_pending)

lemma pool_step_busy: "pool_step R n p q \<Longrightarrow> length (pl_busy p) \<le> n \<Longrightarrow> length (pl_busy q) \<le> n"
  by (induction rule: pool_step.induct) auto

text \<open>A pool that is not at rest can move, if it has a worker, and every move brings it nearer to rest.\<close>

lemma pool_progress:
  assumes "0 < n" and "\<not> pool_done p"
  shows "\<exists>q. pool_step R n p q"
proof (cases "pl_busy p")
  case Nil
  with assms obtain t ts where "pl_queue p = t # ts" by (auto simp: pool_done_def neq_Nil_conv)
  with assms Nil show ?thesis using receive [of p t ts n R] by auto
next
  case (Cons b bs)
  show ?thesis
  proof (cases b)
    case Nil
    with Cons show ?thesis using finish [of p "[]" bs R n] by auto
  next
    case (Cons r rs)
    with \<open>pl_busy p = b # bs\<close> show ?thesis using send [of p "[]" r rs bs R n] by auto
  qed
qed

definition pool_measure :: "rego \<Rightarrow> pool \<Rightarrow> nat" where
  "pool_measure R p = (\<Sum>t\<leftarrow>pl_queue p. length (worker_results R t) + 2) + (\<Sum>b\<leftarrow>pl_busy p. length b + 1)"

lemma pool_step_measure: "pool_step R n p q \<Longrightarrow> pool_measure R q < pool_measure R p"
  by (induction rule: pool_step.induct) (auto simp: pool_measure_def)

lemma pool_terminates:
  assumes "0 < n"
  shows "\<exists>q. (pool_step R n)\<^sup>*\<^sup>* p q \<and> pool_done q"
proof (induction "pool_measure R p" arbitrary: p rule: less_induct)
  case less
  show ?case
  proof (cases "pool_done p")
    case True
    then show ?thesis by blast
  next
    case False
    then obtain q where q: "pool_step R n p q" using pool_progress assms by blast
    then show ?thesis
      using less [OF pool_step_measure [OF q]] by (meson converse_rtranclp_into_rtranclp)
  qed
qed

lemma pool_outcome:
  assumes "(pool_step R n)\<^sup>*\<^sup>* (pool_start ts) p" and "pool_done p"
  shows "mset (pl_results p) = mset (sequential_results R ts)"
  using pool_steps_pending [OF assms(1)] assms(2)
  by (simp add: pending_def pool_start_def pool_done_def sequential_results_def)

text \<open>
  C17. Whatever the interleaving of the workers, the checker returns the results of running the tasks
  one after the other, up to order, and with at least one worker and a positive batch bsize there is
  a run that returns.
\<close>

theorem VailOpaRulesResult_schedule_free:
  assumes "0 < batchSize" and "0 < workers"
  shows "\<exists>ts. all_tasks batchSize rules rm = Some ts
     \<and> (\<exists>result. VailOpaRulesResult R batchSize workers rules rm result)
     \<and> (\<forall>result. VailOpaRulesResult R batchSize workers rules rm result \<longrightarrow>
          mset (kor_ResourceResults result) = mset (sequential_results R ts))"
proof -
  have t: "\<exists>ts. type_tasks batchSize rules mk kr = Some ts" for mk kr
    using batch_loop_spec [OF assms(1), of "snd kr" 0]
    by (auto simp: type_tasks_def case_prod_unfold split: option.splits)
  have s: "\<exists>tss. those (map (type_tasks batchSize rules mk) krs) = Some tss" for mk krs
    using t by (metis (no_types, lifting) imageE list.set_map not_Some_eq those_None_iff)
  obtain a where a: "those (map (type_tasks batchSize rules
      (\<lambda>b rs t. \<lparr>ot_Resources = b, ot_Stats = [], ot_Rules = rs, ot_Type = t\<rparr>)) (rm_Resources rm)) = Some a"
    using s by blast
  obtain b where b: "those (map (type_tasks batchSize rules
      (\<lambda>b rs t. \<lparr>ot_Resources = [], ot_Stats = b, ot_Rules = rs, ot_Type = t\<rparr>)) (rm_StatsSummary rm)) = Some b"
    using s by blast
  obtain ts where ts: "all_tasks batchSize rules rm = Some ts"
    using a b by (simp add: all_tasks_def)
  obtain p where "(pool_step R workers)\<^sup>*\<^sup>* (pool_start ts) p" "pool_done p"
    using pool_terminates [OF assms(2)] by blast
  then have "\<exists>result. VailOpaRulesResult R batchSize workers rules rm result"
    using ts by (auto simp: VailOpaRulesResult_def)
  moreover have "mset (kor_ResourceResults result) = mset (sequential_results R ts)"
    if "VailOpaRulesResult R batchSize workers rules rm result" for result
    using that ts pool_outcome by (auto simp: VailOpaRulesResult_def)
  ultimately show ?thesis using ts by blast
qed

definition demo_pod :: "string \<Rightarrow> Resource" where
  "demo_pod n = \<lparr>rsc_Namespace = ''ns'', rsc_Name = n, rsc_Object = JObj []\<rparr>"

definition demo_rego :: OpaRule where
  "demo_rego = \<lparr>opr_Base = \<lparr>ri_Name = ''o'', ri_Rule = [], ri_Desc = [], ri_Level = DangerLevel\<rparr>, opr_Module = []\<rparr>"

theorem VailOpaRulesResult_schedule_free_witness:
  "\<exists>result. VailOpaRulesResult \<lparr>rg_prepare = (\<lambda>q r. Some ''bad''), rg_eval = (\<lambda>q r i. Inl []), rg_print = (\<lambda>j. [])\<rparr>
     1 2 [(''Pod.v1'', [demo_rego])] \<lparr>rm_Resources = [(''Pod.v1'', [demo_pod ''a'', demo_pod ''b''])], rm_StatsSummary = []\<rparr> result
     \<and> length (kor_ResourceResults result) = 2"
proof -
  let ?R = "\<lparr>rg_prepare = (\<lambda>q r. Some ''bad''), rg_eval = (\<lambda>q r i. Inl []), rg_print = (\<lambda>j. [])\<rparr>"
  let ?m = "\<lparr>rm_Resources = [(''Pod.v1'', [demo_pod ''a'', demo_pod ''b''])], rm_StatsSummary = []\<rparr>"
  obtain ts result where ts: "all_tasks 1 [(''Pod.v1'', [demo_rego])] ?m = Some ts"
      "VailOpaRulesResult ?R 1 2 [(''Pod.v1'', [demo_rego])] ?m result"
      "mset (kor_ResourceResults result) = mset (sequential_results ?R ts)"
    using VailOpaRulesResult_schedule_free [of 1 2 "[(''Pod.v1'', [demo_rego])]" ?m ?R] by auto
  have "length (sequential_results ?R (the (all_tasks 1 [(''Pod.v1'', [demo_rego])] ?m))) = 2" by code_simp
  then have "length (kor_ResourceResults result) = 2" using ts by (metis option.sel size_mset)
  with ts show ?thesis by blast
qed

text \<open>
  A resource filter keeps exactly the resources that no exclusion names and that the list of
  names, if there is one, contains, in their order.
\<close>

theorem filter_names_exact:
  "filter_names f items = filter (\<lambda>i. rsc_Name i \<notin> set (rf_ExcludeNames f)
     \<and> (rf_Names f = [] \<or> rsc_Name i \<in> set (rf_Names f))) items"
  by (auto simp: filter_names_def list_ex_iff intro!: filter_cong)

end
