(* ===== verification/Inspectors.thy ===== *)
theory Inspectors
  imports Opa_Collector Rules "HOL-Library.Word"
begin

text \<open>
  pkg/inspect: the ten inspectors.  RunInspect runs in the job on a node: it finds the rules of its
  job, evaluates them against the host and returns the results as JSON.  GetResult runs in the
  controller: it puts the results of a config map into the InspectResult, with the node they came
  from.  The host (files, /proc, systemd, commands, sockets), the cluster seen from the job, the rule
  evaluator of event-rule-engine and the text diff are parameters.

  Percentages are kept as ratios of integers where Go has float64.
\<close>

section \<open>The host and the cluster as a job sees them\<close>

text \<open>A value handed to the evaluator: a string, a ratio, or a float that is no number.\<close>

datatype eval_val = EStr string | ERatio int int | ENaN

record meminfo =
  mi_Total :: "64 word"
  mi_Free :: "64 word"
  mi_Buffers :: "64 word"
  mi_Cached :: "64 word"

record statfs =
  sf_Blocks :: int
  sf_Bsize :: int
  sf_Bavail :: int
  sf_Files :: "64 word"
  sf_Ffree :: "64 word"

record host =
  h_exec :: "string \<Rightarrow> string + string"
  h_eval :: "(string \<times> eval_val) list \<Rightarrow> string \<Rightarrow> string + bool"
  h_file :: "string \<Rightarrow> string option"
  h_diff :: "string \<Rightarrow> string \<Rightarrow> string"
  h_base_err :: "string \<Rightarrow> bool"
  h_base_create :: "string \<Rightarrow> bool"
  h_regex :: "string \<Rightarrow> string \<Rightarrow> bool option"
  h_procfs :: bool
  h_sysctl :: "string \<Rightarrow> string list option"
  h_units :: "(string \<times> string) list option"
  h_cpu :: "(nat \<times> nat \<times> nat \<times> nat) list option"
  h_mem :: "meminfo option"
  h_load :: "(int \<times> int \<times> int) option"
  h_statfs :: "string \<Rightarrow> statfs option"
  h_dial :: "string \<Rightarrow> bool"
  h_services :: "string \<Rightarrow> K8sService list option"
  h_all_services :: "K8sService list option"
  h_pods :: "string \<Rightarrow> strmap \<Rightarrow> K8sPod list option"
  h_workspace :: "string \<Rightarrow> string list option"

section \<open>The rules of a job\<close>

definition job_rule :: "JobRule list \<Rightarrow> string \<Rightarrow> JobRule option" where
  "job_rule rules currentJobName =
     map_option snd (ArrayFinds rules (\<lambda>m. jr_JobName m = currentJobName))"

text \<open>
  A nil slice is written as null.  The outer sum of a run: the error; None is a panic.
\<close>

definition marshal_items :: "('a \<Rightarrow> json) \<Rightarrow> 'a list \<Rightarrow> doc" where
  "marshal_items enc xs = Some (if xs = [] then JNull else JArr (map enc xs))"

type_synonym run_result = "(string + doc) option"

definition failed :: "Level \<Rightarrow> string \<Rightarrow> BaseResult" where
  "failed l n = \<lparr>br_Name = n, br_Assert = True, br_Level = l\<rparr>"

definition passed :: "string \<Rightarrow> BaseResult" where
  "passed n = \<lparr>br_Name = n, br_Assert = False, br_Level = []\<rparr>"

section \<open>Custom commands\<close>

text \<open>A command that fails is skipped before its result is appended.\<close>

definition command_item :: "host \<Rightarrow> CustomCommandRule \<Rightarrow> CommandResultItem option" where
  "command_item h r =
     (let b = ccr_Base r in
      case h_exec h (ccr_Command r) of
        Inl e \<Rightarrow> None
      | Inr out \<Rightarrow>
          (case h_eval h [(''result'', EStr out)] (ri_Rule b) of
             Inl err \<Rightarrow> Some \<lparr>cmi_Base = failed (ri_Level b) (ri_Name b), cmi_Command = ccr_Command r,
                 cmi_Value = ''rule evaluate failed err:'' @ err, cmi_NodeName = []\<rparr>
           | Inr res \<Rightarrow> Some \<lparr>cmi_Base = (if res then failed (ri_Level b) (ri_Name b) else passed (ri_Name b)),
                 cmi_Command = ccr_Command r, cmi_Value = [], cmi_NodeName = []\<rparr>))"

definition command_run :: "host \<Rightarrow> JobRule list \<Rightarrow> string \<Rightarrow> run_result" where
  "command_run h rules job = (case job_rule rules job of
     None \<Rightarrow> Some (Inr (marshal_items enc_CommandResultItem []))
   | Some phase \<Rightarrow>
       (case unmarshal_list dec_CustomCommandRule (jr_RunRule phase) of
          None \<Rightarrow> Some (Inl ''unmarshal'')
        | Some rs \<Rightarrow> Some (Inr (marshal_items enc_CommandResultItem (List.map_filter (command_item h) rs)))))"


section \<open>Systemd units and kernel parameters\<close>

definition does_not_exist :: "string \<Rightarrow> string" where
  "does_not_exist n = ''name:'' @ n @ '' to does not exist''"

definition metric :: "BaseResult \<Rightarrow> string option \<Rightarrow> NodeMetricsResultItem" where
  "metric b v = \<lparr>nmi_Base = b, nmi_Value = v, nmi_NodeName = []\<rparr>"

definition systemd_item :: "host \<Rightarrow> (string \<times> string) list \<Rightarrow> SysRule \<Rightarrow> NodeMetricsResultItem" where
  "systemd_item h units r =
     (let b = sr_Base r in
      case ArrayFinds units (\<lambda>(n, st). n = ri_Name b @ ''.service'') of
        None \<Rightarrow> metric (failed (ri_Level b) (ri_Name b)) (Some (does_not_exist (ri_Name b)))
      | Some (_, _, activeState) \<Rightarrow>
          if IsEmptyValue (VString (ri_Rule b)) then metric (passed (ri_Name b)) (Some activeState)
          else (case h_eval h [(ri_Name b, EStr activeState)] (ri_Rule b) of
             Inl err \<Rightarrow> metric (failed (ri_Level b) (ri_Name b)) (Some (''err:'' @ err))
           | Inr res \<Rightarrow> metric (if res then passed (ri_Name b) else failed (ri_Level b) (ri_Name b)) (Some activeState)))"

definition systemd_run :: "host \<Rightarrow> JobRule list \<Rightarrow> string \<Rightarrow> run_result" where
  "systemd_run h rules job = (case job_rule rules job of
     None \<Rightarrow> Some (Inr (marshal_items enc_NodeMetricsResultItem []))
   | Some phase \<Rightarrow>
       (case unmarshal_list dec_SysRule (jr_RunRule phase) of
          None \<Rightarrow> Some (Inl ''unmarshal'')
        | Some rs \<Rightarrow>
            (case h_units h of
               None \<Rightarrow> Some (Inl ''dbus'')
             | Some units \<Rightarrow> Some (Inr (marshal_items enc_NodeMetricsResultItem (map (systemd_item h units) rs))))))"

definition parseSysctlVal :: "string list \<Rightarrow> string" where
  "parseSysctlVal val = (case val of [] \<Rightarrow> [] | v # _ \<Rightarrow> v)"

definition sysctl_item :: "host \<Rightarrow> SysRule \<Rightarrow> NodeMetricsResultItem" where
  "sysctl_item h r =
     (let b = sr_Base r in
      case h_sysctl h (ri_Name b) of
        None \<Rightarrow> metric (failed (ri_Level b) (ri_Name b)) (Some (does_not_exist (ri_Name b)))
      | Some ctlRule \<Rightarrow>
          (let val = parseSysctlVal ctlRule in
           if IsEmptyValue (VString (ri_Rule b)) then metric (passed (ri_Name b)) (Some val)
           else (case h_eval h [(ri_Name b, EStr val)] (ri_Rule b) of
              Inl err \<Rightarrow> metric (failed (ri_Level b) (ri_Name b)) (Some (''event rule evaluate to failed err:'' @ err))
            | Inr res \<Rightarrow> metric (if res then passed (ri_Name b) else failed (ri_Level b) (ri_Name b)) (Some val))))"

definition sysctl_run :: "host \<Rightarrow> JobRule list \<Rightarrow> string \<Rightarrow> run_result" where
  "sysctl_run h rules job =
     (if \<not> h_procfs h then Some (Inl ''procfs'')
      else case job_rule rules job of
        None \<Rightarrow> Some (Inr (marshal_items enc_NodeMetricsResultItem []))
      | Some phase \<Rightarrow>
          (case unmarshal_list dec_SysRule (jr_RunRule phase) of
             None \<Rightarrow> Some (Inl ''unmarshal'')
           | Some rs \<Rightarrow> Some (Inr (marshal_items enc_NodeMetricsResultItem (map (sysctl_item h) rs)))))"

section \<open>Node information\<close>

type_synonym sample_map = "(string \<times> eval_val) list"

text \<open>The ratio in percent; a zero denominator is no number.\<close>

definition percent :: "int \<Rightarrow> int \<Rightarrow> eval_val" where
  "percent n d = (if d = 0 then ENaN else ERatio (100 * n) d)"

definition GetCpu :: "host \<Rightarrow> sample_map" where
  "GetCpu h = (case h_cpu h of
     None \<Rightarrow> []
   | Some cpus \<Rightarrow>
       (let totalUsage = int (\<Sum>(system, user, nice, idle)\<leftarrow>cpus. system + user + nice);
            totalIdle = int (\<Sum>(system, user, nice, idle)\<leftarrow>cpus. idle)
        in [(Cpu, percent totalUsage (totalUsage + totalIdle))]))"

text \<open>The subtraction of uint64 values wraps around.\<close>

definition GetMemory :: "host \<Rightarrow> sample_map" where
  "GetMemory h = (case h_mem h of
     None \<Rightarrow> []
   | Some m \<Rightarrow>
       (let freeMemory = mi_Free m + mi_Buffers m + mi_Cached m;
            usedMemory = mi_Total m - freeMemory
        in [(Memory, percent (uint usedMemory) (uint (mi_Total m)))]))"

text \<open>The load averages, in hundredths as /proc/loadavg writes them.\<close>

definition GetLoadAvg :: "host \<Rightarrow> sample_map" where
  "GetLoadAvg h = (case h_load h of
     None \<Rightarrow> []
   | Some (l1, l5, l15) \<Rightarrow> [(''load1'', ERatio l1 100), (''load5'', ERatio l5 100), (''load15'', ERatio l15 100)])"

definition GetFileSystem :: "host \<Rightarrow> string \<Rightarrow> sample_map" where
  "GetFileSystem h p = (case h_statfs h p of
     None \<Rightarrow> []
   | Some u \<Rightarrow>
       (let tot = sf_Blocks u * sf_Bsize u; useBy = sf_Bavail u * sf_Bsize u
        in [(Filesystem, percent (tot - useBy) tot)]))"

definition GetInodes :: "host \<Rightarrow> string \<Rightarrow> sample_map" where
  "GetInodes h p = (case h_statfs h p of
     None \<Rightarrow> []
   | Some u \<Rightarrow> [(Inode, percent (uint (sf_Files u - sf_Ffree u)) (uint (sf_Files u)))])"

text \<open>The verb .0f: round half to even; a nil interface has no float.\<close>

definition round_even :: "int \<Rightarrow> int \<Rightarrow> int" where
  "round_even n d =
     (let q = n div d; r = 2 * (n mod d)
      in if r < d then q else if d < r then q + 1 else if even q then q else q + 1)"

fun fmt0 :: "eval_val option \<Rightarrow> string" where
  "fmt0 None = ''%!f(<nil>)''"
| "fmt0 (Some (ERatio n d)) = itoa (round_even n d)"
| "fmt0 (Some ENaN) = ''NaN''"
| "fmt0 (Some (EStr s)) = ''%!f(string='' @ s @ '')''"

definition or_root :: "string \<Rightarrow> string" where
  "or_root mount = (if IsEmptyValue (VString mount) then ''/'' else mount)"

text \<open>The data, the value shown and the resource type of one rule, by its type.\<close>

definition node_data :: "host \<Rightarrow> NodeInfoRule \<Rightarrow> (sample_map \<times> string \<times> ResourcesType) option" where
  "node_data h info =
     (let t = to_lower (nir_ResourcesType info); m = or_root (nir_Mount info) in
      if t = Cpu then Some (GetCpu h, fmt0 (mget (GetCpu h) Cpu) @ ''%'', \<lparr>rt_Mount = [], rt_Type = Cpu\<rparr>)
      else if t = Memory then
        Some (GetMemory h, fmt0 (mget (GetMemory h) Memory) @ ''%'', \<lparr>rt_Mount = [], rt_Type = Memory\<rparr>)
      else if t = Filesystem then
        Some (GetFileSystem h m, fmt0 (mget (GetFileSystem h m) Filesystem) @ ''%'', \<lparr>rt_Mount = m, rt_Type = Filesystem\<rparr>)
      else if t = Inode then
        Some (GetInodes h m, fmt0 (mget (GetInodes h m) Inode) @ ''%'', \<lparr>rt_Mount = m, rt_Type = Inode\<rparr>)
      else if t = LoadAvg then
        Some (GetLoadAvg h,
          ''load1:'' @ fmt0 (mget (GetLoadAvg h) ''load1'') @ '',load5:'' @ fmt0 (mget (GetLoadAvg h) ''load5'')
            @ '',load15:'' @ fmt0 (mget (GetLoadAvg h) ''load15''), \<lparr>rt_Mount = [], rt_Type = []\<rparr>)
      else None)"

definition nodeinfo_item :: "host \<Rightarrow> NodeInfoRule \<Rightarrow> NodeInfoResultItem" where
  "nodeinfo_item h info =
     (let b = nir_Base info in
      case node_data h info of
        None \<Rightarrow> \<lparr>nri_Base = passed (ri_Name b), nri_ResourcesType = \<lparr>rt_Mount = [], rt_Type = []\<rparr>,
            nri_Value = [], nri_NodeName = []\<rparr>
      | Some (data, value, rt) \<Rightarrow>
          (case h_eval h data (ri_Rule b) of
             Inl err \<Rightarrow> \<lparr>nri_Base = failed (ri_Level b) (ri_Name b), nri_ResourcesType = rt, nri_Value = err, nri_NodeName = []\<rparr>
           | Inr ok \<Rightarrow> \<lparr>nri_Base = (if ok then failed (ri_Level b) (ri_Name b) else passed (ri_Name b)),
               nri_ResourcesType = rt, nri_Value = value, nri_NodeName = []\<rparr>))"

definition nodeinfo_run :: "host \<Rightarrow> JobRule list \<Rightarrow> string \<Rightarrow> run_result" where
  "nodeinfo_run h rules job = (case job_rule rules job of
     None \<Rightarrow> Some (Inr (marshal_items enc_NodeInfoResultItem []))
   | Some phase \<Rightarrow>
       if \<not> h_procfs h then Some (Inl ''procfs'')
       else (case unmarshal_list dec_NodeInfoRule (jr_RunRule phase) of
          None \<Rightarrow> Some (Inl ''unmarshal'')
        | Some rs \<Rightarrow> Some (Inr (marshal_items enc_NodeInfoResultItem (map (nodeinfo_item h) rs)))))"

section \<open>Files\<close>

text \<open>
  The lines bufio.Scanner gives: the text between newlines without a trailing carriage return, no
  empty line at the end, and nothing from the first line on that does not fit its buffer.
\<close>

fun raw_lines :: "string \<Rightarrow> string \<Rightarrow> string list" where
  "raw_lines acc [] = (if acc = [] then [] else [rev acc])"
| "raw_lines acc (c # cs) = (if c = CHR 0x0A then rev acc # raw_lines [] cs else raw_lines (c # acc) cs)"

definition drop_cr :: "string \<Rightarrow> string" where
  "drop_cr l = (if l \<noteq> [] \<and> last l = CHR 0x0D then butlast l else l)"

definition scan_lines :: "string \<Rightarrow> string list" where
  "scan_lines s = map drop_cr (takeWhile (\<lambda>l. length l < 65536) (raw_lines [] s))"

definition file_item :: "BaseResult \<Rightarrow> string list \<Rightarrow> string \<Rightarrow> FileChangeResultItem" where
  "file_item b issues path = \<lparr>fri_Base = b, fri_Issues = issues, fri_Path = path, fri_NodeName = []\<rparr>"

fun filter_lines :: "host \<Rightarrow> string \<Rightarrow> string list \<Rightarrow> string list \<Rightarrow> string list" where
  "filter_lines h rule [] issues = issues"
| "filter_lines h rule (l # ls) issues =
     (case h_regex h (''.'' @ rule @ ''.'') l of
        None \<Rightarrow> issues @ [''Failed to match regex for '' @ rule @ ''.'']
      | Some matched \<Rightarrow> filter_lines h rule ls
          (if matched \<and> length issues < 1000 then issues @ [l] else issues))"

definition filter_item :: "host \<Rightarrow> FileFilterRule \<Rightarrow> FileChangeResultItem" where
  "filter_item h r =
     (let b = ffr_Base r in
      case h_file h (ffr_Path r) of
        None \<Rightarrow> file_item (failed (ri_Level b) (ri_Name b)) [''Failed to open file for '' @ ri_Name b @ ''.''] (ffr_Path r)
      | Some content \<Rightarrow>
          (let issues = filter_lines h (ri_Rule b) (scan_lines content) []
           in file_item (if issues \<noteq> [] then failed (ri_Level b) (ri_Name b) else passed (ri_Name b)) issues (ffr_Path r)))"

definition filter_run :: "host \<Rightarrow> JobRule list \<Rightarrow> string \<Rightarrow> run_result" where
  "filter_run h rules job = (case job_rule rules job of
     None \<Rightarrow> Some (Inr (marshal_items enc_FileChangeResultItem []))
   | Some phase \<Rightarrow>
       (case unmarshal_list dec_FileFilterRule (jr_RunRule phase) of
          None \<Rightarrow> Some (Inl ''unmarshal'')
        | Some rs \<Rightarrow> Some (Inr (marshal_items enc_FileChangeResultItem (map (filter_item h) rs)))))"

text \<open>strings.ReplaceAll with the empty string.\<close>

function remove_all :: "string \<Rightarrow> string \<Rightarrow> string" where
  "remove_all p s =
     (if s = [] then []
      else if p \<noteq> [] \<and> prefix p s then remove_all p (drop (length p) s)
      else hd s # remove_all p (tl s))"
  by pat_completeness auto
termination by (relation "measure (\<lambda>(p, s). length s)") auto

declare remove_all.simps [simp del]

definition esc :: "string \<Rightarrow> string" where
  "esc s = CHR 0x1B # s"

definition line_sign :: string where
  "line_sign = [CHR 0xE8, CHR 0xA1, CHR 0x8C, CHR '' '']"

definition diffString :: "host \<Rightarrow> string \<Rightarrow> string \<Rightarrow> string list" where
  "diffString h base1 base2 =
     map (\<lambda>(i, l). itoa (int i) @ line_sign @ l @ [CHR 0x0A])
       (filter (\<lambda>(i, l). str_contains l (esc ''[3'')) (enumerate 1 (scan_lines (h_diff h base1 base2))))"

definition uncolour :: "string \<Rightarrow> string" where
  "uncolour s = remove_all (esc ''[0m'') (remove_all (esc ''[31m'') (remove_all (esc ''[32m'') s))"

text \<open>
  One rule, with the base files stored so far (by name of their config map): the item, if one is
  appended, and the base files afterwards.  None is the panic of err.Error() on a nil error, when
  the config map of the base file cannot be created.  The map is stored under the lower-case name
  but looked up under the name as it is.
\<close>

definition change_item ::
    "host \<Rightarrow> FileChangeRule \<Rightarrow> strmap \<Rightarrow> (FileChangeResultItem option \<times> strmap) option" where
  "change_item h r bases =
     (let b = fcr_Base r in
      case h_file h (fcr_Path r) of
        None \<Rightarrow> Some (Some (file_item (failed (ri_Level b) (ri_Name b))
                  [ri_Name b @ '':The file does not exist''] (fcr_Path r)), bases)
      | Some baseFile \<Rightarrow>
          (let baseFileName = BaseFilePrefix @ ''-'' @ ri_Name b;
               compare = (\<lambda>baseContent.
                 (let issues = map uncolour (diffString h baseContent baseFile)
                  in Some (Some (file_item (if issues \<noteq> [] then failed (ri_Level b) (ri_Name b) else passed (ri_Name b))
                        issues (fcr_Path r)), bases)))
           in if h_base_err h baseFileName then compare []
              else (case mget bases baseFileName of
                 Some content \<Rightarrow> compare content
               | None \<Rightarrow>
                   if h_base_create h (to_lower baseFileName) \<and> mget bases (to_lower baseFileName) = None
                   then Some (None, mput bases (to_lower baseFileName) baseFile) else None)))"

fun change_items ::
    "host \<Rightarrow> FileChangeRule list \<Rightarrow> strmap \<Rightarrow> (FileChangeResultItem list \<times> strmap) option" where
  "change_items h [] bases = Some ([], bases)"
| "change_items h (r # rs) bases = do {
     (i, bases') \<leftarrow> change_item h r bases;
     (is, bases'') \<leftarrow> change_items h rs bases';
     Some ((case i of None \<Rightarrow> is | Some x \<Rightarrow> x # is), bases'') }"

definition change_run :: "strmap \<Rightarrow> host \<Rightarrow> JobRule list \<Rightarrow> string \<Rightarrow> run_result" where
  "change_run bases h rules job = (case job_rule rules job of
     None \<Rightarrow> Some (Inl ''rule not exist'')
   | Some phase \<Rightarrow>
       (case unmarshal_list dec_FileChangeRule (jr_RunRule phase) of
          None \<Rightarrow> Some (Inl ''unmarshal'')
        | Some rs \<Rightarrow> map_option (\<lambda>(is, _). Inr (marshal_items enc_FileChangeResultItem is)) (change_items h rs bases)))"


section \<open>Components and services\<close>

definition pod_bad :: "K8sPod \<Rightarrow> bool" where
  "pod_bad pod \<longleftrightarrow> (kp_Phase pod \<noteq> ''Running'' \<or> \<not> isAllContainersReady pod)
     \<and> mget (kp_Annotations pod) AnnotationInspectIgnore = None"

definition component_item :: "host \<Rightarrow> string list \<Rightarrow> string \<Rightarrow> K8sService \<Rightarrow> ComponentResultItem option" where
  "component_item h exclude namespace service =
     (if ks_Name service \<notin> set exclude \<and> mget (ks_Annotations service) AnnotationInspectIgnore = None
           \<and> ks_Selector service \<noteq> [] then
        (let bad = (case h_pods h namespace (ks_Selector service) of
              None \<Rightarrow> True | Some pods \<Rightarrow> list_ex pod_bad pods)
         in Some \<lparr>cri_Base = (if bad then failed DangerLevel (ks_Name service) else passed (ks_Name service))\<rparr>)
      else None)"

definition component_run :: "host \<Rightarrow> JobRule list \<Rightarrow> string \<Rightarrow> run_result" where
  "component_run h rules job =
     (case (case job_rule rules job of None \<Rightarrow> Some [] | Some rule \<Rightarrow> unmarshal_list dec_string (jr_RunRule rule)) of
        None \<Rightarrow> Some (Inl ''decode'')
      | Some exclude \<Rightarrow> Some (Inr (marshal_items enc_ComponentResultItem
          (concat (map (\<lambda>ns. case h_services h ns of None \<Rightarrow> []
                | Some ss \<Rightarrow> List.map_filter (component_item h exclude ns) ss) SystemNamespaces)))))"

definition connectable :: "K8sService \<Rightarrow> bool" where
  "connectable v \<longleftrightarrow> ks_Type v \<noteq> ''ExternalName'' \<and> ks_ClusterIP v \<noteq> ''None''"

definition GetServicesForNameSpace :: "K8sService list \<Rightarrow> string \<Rightarrow> K8sService list" where
  "GetServicesForNameSpace services namespace =
     fst (ArrayFilter services (\<lambda>v. namespace = ks_Namespace v \<and> connectable v))"

text \<open>The name asked for is compared with the namespace of the service.\<close>

definition GetServices :: "K8sService list \<Rightarrow> string \<Rightarrow> K8sService option" where
  "GetServices services name =
     map_option snd (ArrayFinds services (\<lambda>v. name = ks_Namespace v \<and> connectable v))"

text \<open>None: the service has no port, and the index panics.\<close>

definition connect_rule :: "ServiceConnectRule \<Rightarrow> K8sService \<Rightarrow> (string \<times> ServiceConnectRule) option" where
  "connect_rule r s = (case ks_Ports s of
     [] \<Rightarrow> None
   | p # _ \<Rightarrow> Some (ks_Name s @ ''/'' @ ks_Namespace s,
       \<lparr>scr_Base = \<lparr>ri_Name = ks_Name s,
          ri_Rule = ks_Name s @ ''.'' @ ks_Namespace s @ ''.svc.cluster.local:'' @ itoa p,
          ri_Desc = [], ri_Level = ri_Level (scr_Base r)\<rparr>, scr_Namespace = [], scr_Workspace = []\<rparr>))"

definition services_of :: "host \<Rightarrow> K8sService list \<Rightarrow> ServiceConnectRule \<Rightarrow> K8sService list" where
  "services_of h services r =
     (if \<not> IsEmptyValue (VString (scr_Workspace r)) then
        concat (map (GetServicesForNameSpace services)
          (case h_workspace h (scr_Workspace r) of None \<Rightarrow> [] | Some nss \<Rightarrow> nss))
      else if \<not> IsEmptyValue (VString (scr_Namespace r)) then GetServicesForNameSpace services (scr_Namespace r)
      else (case GetServices services (ri_Name (scr_Base r)) of None \<Rightarrow> [] | Some s \<Rightarrow> [s]))"

fun put_services ::
    "ServiceConnectRule \<Rightarrow> K8sService list \<Rightarrow> (string, ServiceConnectRule) gomap \<Rightarrow> (string, ServiceConnectRule) gomap option" where
  "put_services r [] m = Some m"
| "put_services r (s # ss) m = do { (k, v) \<leftarrow> connect_rule r s; put_services r ss (mput m k v) }"

fun inspect_services ::
    "host \<Rightarrow> K8sService list \<Rightarrow> ServiceConnectRule list \<Rightarrow> (string, ServiceConnectRule) gomap \<Rightarrow> (string, ServiceConnectRule) gomap option" where
  "inspect_services h services [] m = Some m"
| "inspect_services h services (r # rs) m = do {
     m' \<leftarrow> put_services r (services_of h services r) m;
     inspect_services h services rs m' }"

definition GetInspectComponent ::
    "host \<Rightarrow> ServiceConnectRule list \<Rightarrow> (string + (string, ServiceConnectRule) gomap) option" where
  "GetInspectComponent h rules = (case h_all_services h of
     None \<Rightarrow> Some (Inl ''list services'')
   | Some services \<Rightarrow> map_option Inr (inspect_services h services rules []))"

definition service_item :: "host \<Rightarrow> ServiceConnectRule \<Rightarrow> ServiceConnectResultItem" where
  "service_item h item =
     (let b = scr_Base item; isConnected = h_dial h (ri_Rule b)
      in \<lparr>sci_Base = (if isConnected then passed (ri_Name b) else failed (ri_Level b) (ri_Name b)),
          sci_Namespace = [], sci_Endpoint = ri_Rule b\<rparr>)"

text \<open>Without a rule the result is the nil slice of bytes, which is no JSON.\<close>

definition service_run :: "host \<Rightarrow> JobRule list \<Rightarrow> string \<Rightarrow> run_result" where
  "service_run h rules job = (case job_rule rules job of
     None \<Rightarrow> Some (Inr None)
   | Some phase \<Rightarrow>
       (case unmarshal_list dec_ServiceConnectRule (jr_RunRule phase) of
          None \<Rightarrow> Some (Inl ''unmarshal'')
        | Some rs \<Rightarrow>
            (case GetInspectComponent h rs of
               None \<Rightarrow> None
             | Some (Inl e) \<Rightarrow> Some (Inl e)
             | Some (Inr component) \<Rightarrow>
                 Some (Inr (marshal_items enc_ServiceConnectResultItem (map (service_item h \<circ> snd) component))))))"

section \<open>Prometheus\<close>

text \<open>The HTTP settings built from the configuration: the header, the bearer token, the TLS flag.\<close>

record http_config =
  hc_Authorization :: "string option"
  hc_BearerToken :: string
  hc_InsecureSkipVerify :: "bool option"

definition NewPrometheusAPI :: "PrometheusConfig \<Rightarrow> http_config option" where
  "NewPrometheusAPI p =
     (if pc_Endpoint p = [] then None
      else Some \<lparr>hc_Authorization = (if GetBasicToken p \<noteq> [] then Some (''Basic '' @ GetBasicToken p) else None),
                 hc_BearerToken = GetBearerToken p,
                 hc_InsecureSkipVerify = pc_InsecureSkipVerify p\<rparr>)"

record sample =
  sm_Metric :: strmap
  sm_Value :: string
  sm_Timestamp :: string

text \<open>strconv.Quote, on the bytes of ASCII text.\<close>

definition hex_char :: "nat \<Rightarrow> char" where
  "hex_char d = (if d < 10 then char_of (48 + d) else char_of (87 + d))"

definition quote_char :: "char \<Rightarrow> string" where
  "quote_char c =
     (let n = of_char c :: nat; b = CHR 0x5C in
      if n = 34 \<or> n = 92 then [b, c]
      else if n = 7 then [b, CHR ''a''] else if n = 8 then [b, CHR ''b''] else if n = 9 then [b, CHR ''t'']
      else if n = 10 then [b, CHR ''n''] else if n = 11 then [b, CHR ''v''] else if n = 12 then [b, CHR ''f'']
      else if n = 13 then [b, CHR ''r'']
      else if n < 32 \<or> n = 127 then [b, CHR ''x'', hex_char (n div 16), hex_char (n mod 16)]
      else [c])"

definition go_quote :: "string \<Rightarrow> string" where
  "go_quote s = CHR 0x22 # concat (map quote_char s) @ [CHR 0x22]"

definition label_string :: "string \<Rightarrow> string \<Rightarrow> string" where
  "label_string k v = go_quote k @ ''='' @ go_quote v"

fun join :: "string \<Rightarrow> string list \<Rightarrow> string" where
  "join sep [] = []"
| "join sep [x] = x"
| "join sep (x # y # ys) = x @ sep @ join sep (y # ys)"

definition toString :: "sample option \<Rightarrow> string" where
  "toString val = (case val of
     None \<Rightarrow> ''{}''
   | Some s \<Rightarrow>
       (let others = map (\<lambda>(k, v). label_string k v) (filter (\<lambda>(k, v). k \<noteq> ''__name__'') (sm_Metric s));
            labelStrings = others @ [label_string ''value'' (sm_Value s), label_string ''timestamp'' (sm_Timestamp s),
              label_string ''metricName'' (mget0 (sm_Metric s) ''__name__'')]
        in ''{'' @ join '', '' (sort labelStrings) @ ''}''))"

text \<open>The answer to a query: an error, something that is no list of samples, or samples.\<close>

datatype prom_answer = QueryError | NotSamples | Samples "sample option list"

definition prom_items :: "PrometheusRule \<Rightarrow> sample option list \<Rightarrow> PrometheusResult list" where
  "prom_items r samples = map (\<lambda>s.
     \<lparr>pmr_Base = \<lparr>br_Name = ri_Name (pr_Base r), br_Assert = True, br_Level = ri_Level (pr_Base r)\<rparr>,
      pmr_Result = toString s, pmr_RawDataEnabled = pr_RawDataEnabled r, pmr_Rule = ri_Rule (pr_Base r)\<rparr>) samples"

text \<open>
  The rules in turn.  A rule without configuration ends the run with no bytes and no error; an
  empty endpoint or a failing query ends it with an error.
\<close>

fun prom_rules ::
    "(http_config \<Rightarrow> string \<Rightarrow> string \<Rightarrow> prom_answer) \<Rightarrow> PrometheusRule list \<Rightarrow> PrometheusResult list \<Rightarrow> string + doc" where
  "prom_rules query [] acc = Inr (marshal_items enc_PrometheusResult acc)"
| "prom_rules query (r # rs) acc =
     (case pr_Prometheus r of
        None \<Rightarrow> Inr None
      | Some c \<Rightarrow>
          (case NewPrometheusAPI c of
             None \<Rightarrow> Inl ''api''
           | Some http \<Rightarrow>
               (case query http (pc_Endpoint c) (ri_Rule (pr_Base r)) of
                  QueryError \<Rightarrow> Inl ''query''
                | NotSamples \<Rightarrow> prom_rules query rs acc
                | Samples ss \<Rightarrow> prom_rules query rs (acc @ prom_items r ss))))"

definition prometheus_run ::
    "(http_config \<Rightarrow> string \<Rightarrow> string \<Rightarrow> prom_answer) \<Rightarrow> JobRule list \<Rightarrow> string \<Rightarrow> run_result" where
  "prometheus_run query rules job = (case job_rule rules job of
     None \<Rightarrow> Some (Inr None)
   | Some phase \<Rightarrow>
       (case unmarshal_list dec_PrometheusRule (jr_RunRule phase) of
          None \<Rightarrow> Some (Inl ''unmarshal'')
        | Some rs \<Rightarrow> Some (prom_rules query rs [])))"

section \<open>OPA\<close>

text \<open>
  The checker's run in task order; by VailOpaRulesResult_schedule_free every other run returns the
  same results up to order.
\<close>

definition opa_run ::
    "rego \<Rightarrow> ResourceCollector option \<Rightarrow> JobRule list \<Rightarrow> string \<Rightarrow> run_result" where
  "opa_run R collector rules job = (case job_rule rules job of
     None \<Rightarrow> Some (Inr None)
   | Some phase \<Rightarrow>
       (case unmarshal_list dec_OpaRule (jr_RunRule phase) of
          None \<Rightarrow> Some (Inl ''unmarshal'')
        | Some opaRules \<Rightarrow>
            (case add_rules opaRules [] of
               None \<Rightarrow> Some (Inl ''add rule'')
             | Some rm \<Rightarrow>
                 (case collector of
                    None \<Rightarrow> Some (Inl ''collector'')
                  | Some rc \<Rightarrow>
                      (case add_resources rc (map fst rm) \<lparr>rm_Resources = [], rm_StatsSummary = []\<rparr> of
                         None \<Rightarrow> Some (Inl ''add resource'')
                       | Some res \<Rightarrow>
                           map_option (\<lambda>ts. Inr (Some (enc_KubeeyeOpaResult
                               (zero_OpaResult\<lparr>kor_ResourceResults := sequential_results R ts\<rparr>))))
                             (all_tasks 1000 rm res))))))"

section \<open>GetResult\<close>

text \<open>None is an error; the InspectResult is then unchanged.\<close>

definition command_get :: "string \<Rightarrow> ConfigMap \<Rightarrow> InspectResult \<Rightarrow> InspectResult option" where
  "command_get node cm cr = map_option
     (\<lambda>xs. cr\<lparr>res_Spec := (res_Spec cr)\<lparr>rs_CommandResult :=
        rs_CommandResult (res_Spec cr) @ map (cmi_NodeName_update (\<lambda>_. node)) xs\<rparr>\<rparr>)
     (unmarshal_list dec_CommandResultItem (cm_doc cm constData))"

definition systemd_get :: "string \<Rightarrow> ConfigMap \<Rightarrow> InspectResult \<Rightarrow> InspectResult option" where
  "systemd_get node cm cr = map_option
     (\<lambda>xs. cr\<lparr>res_Spec := (res_Spec cr)\<lparr>rs_SystemdResult :=
        rs_SystemdResult (res_Spec cr) @ map (nmi_NodeName_update (\<lambda>_. node)) xs\<rparr>\<rparr>)
     (unmarshal_list dec_NodeMetricsResultItem (cm_doc cm constData))"

definition sysctl_get :: "string \<Rightarrow> ConfigMap \<Rightarrow> InspectResult \<Rightarrow> InspectResult option" where
  "sysctl_get node cm cr = map_option
     (\<lambda>xs. cr\<lparr>res_Spec := (res_Spec cr)\<lparr>rs_SysctlResult :=
        rs_SysctlResult (res_Spec cr) @ map (nmi_NodeName_update (\<lambda>_. node)) xs\<rparr>\<rparr>)
     (unmarshal_list dec_NodeMetricsResultItem (cm_doc cm constData))"

definition nodeinfo_get :: "string \<Rightarrow> ConfigMap \<Rightarrow> InspectResult \<Rightarrow> InspectResult option" where
  "nodeinfo_get node cm cr = map_option
     (\<lambda>xs. cr\<lparr>res_Spec := (res_Spec cr)\<lparr>rs_NodeInfo :=
        rs_NodeInfo (res_Spec cr) @ map (nri_NodeName_update (\<lambda>_. node)) xs\<rparr>\<rparr>)
     (unmarshal_list dec_NodeInfoResultItem (cm_doc cm constData))"

definition filter_get :: "string \<Rightarrow> ConfigMap \<Rightarrow> InspectResult \<Rightarrow> InspectResult option" where
  "filter_get node cm cr = map_option
     (\<lambda>xs. cr\<lparr>res_Spec := (res_Spec cr)\<lparr>rs_FileFilterResult :=
        rs_FileFilterResult (res_Spec cr) @ map (fri_NodeName_update (\<lambda>_. node)) xs\<rparr>\<rparr>)
     (unmarshal_list dec_FileChangeResultItem (cm_doc cm constData))"

definition change_get :: "string \<Rightarrow> ConfigMap \<Rightarrow> InspectResult \<Rightarrow> InspectResult option" where
  "change_get node cm cr = map_option
     (\<lambda>xs. cr\<lparr>res_Spec := (res_Spec cr)\<lparr>rs_FileChangeResult :=
        rs_FileChangeResult (res_Spec cr) @ map (fri_NodeName_update (\<lambda>_. node)) xs\<rparr>\<rparr>)
     (unmarshal_list dec_FileChangeResultItem (cm_doc cm constData))"

definition component_get :: "string \<Rightarrow> ConfigMap \<Rightarrow> InspectResult \<Rightarrow> InspectResult option" where
  "component_get node cm cr = map_option
     (\<lambda>xs. cr\<lparr>res_Spec := (res_Spec cr)\<lparr>rs_ComponentResult := xs\<rparr>\<rparr>)
     (unmarshal_list dec_ComponentResultItem (cm_doc cm constData))"

text \<open>A null document leaves a nil slice, the result of a decoding without items: nothing is replaced.\<close>

definition service_get :: "string \<Rightarrow> ConfigMap \<Rightarrow> InspectResult \<Rightarrow> InspectResult option" where
  "service_get node cm cr =
     (case unmarshal_list dec_ServiceConnectResultItem (cm_doc cm constData) of
        None \<Rightarrow> None
      | Some xs \<Rightarrow> if cm_doc cm constData = Some JNull then Some cr
          else Some (cr\<lparr>res_Spec := (res_Spec cr)\<lparr>rs_ServiceConnectResult := xs\<rparr>\<rparr>))"

text \<open>
  The error of the decoding is not looked at.  (Documents the run writes decode as a whole; the part
  of a mismatching array that encoding/json would keep is not modelled.)
\<close>

definition prometheus_get :: "string \<Rightarrow> ConfigMap \<Rightarrow> InspectResult \<Rightarrow> InspectResult option" where
  "prometheus_get node cm cr =
     (case unmarshal_list dec_PrometheusResult (cm_doc cm constData) of
        None \<Rightarrow> Some cr
      | Some xs \<Rightarrow> if cm_doc cm constData = Some JNull then Some cr
          else Some (cr\<lparr>res_Spec := (res_Spec cr)\<lparr>rs_PrometheusResult := xs\<rparr>\<rparr>))"

definition opa_get :: "string \<Rightarrow> ConfigMap \<Rightarrow> InspectResult \<Rightarrow> InspectResult option" where
  "opa_get node cm cr = map_option
     (\<lambda>x. cr\<lparr>res_Spec := (res_Spec cr)\<lparr>rs_OpaResult := x\<rparr>\<rparr>)
     (Option.bind (cm_doc cm constData) dec_KubeeyeOpaResult)"

text \<open>The registered inspectors.\<close>

definition GetResult :: "string \<Rightarrow> (string \<Rightarrow> ConfigMap \<Rightarrow> InspectResult \<Rightarrow> InspectResult option) option" where
  "GetResult ruleType = mget
     [(CustomCommand, command_get), (Component, component_get), (FileChange, change_get),
      (FileFilter, filter_get), (NodeInfo, nodeinfo_get), (Opa, opa_get), (PrometheusType, prometheus_get),
      (ServiceConnect, service_get), (Sysctl, sysctl_get), (Systemd, systemd_get)] ruleType"


section \<open>The interface of the inspectors of nodes\<close>

text \<open>
  GetResult of an inspector that runs on nodes: it decodes the items of a config map and appends
  them, with the node they came from, to its own list of the result.
\<close>

locale node_inspector =
  fixes dec :: "json \<Rightarrow> 'i option"
    and on_node :: "string \<Rightarrow> 'i \<Rightarrow> 'i"
    and items :: "InspectResult \<Rightarrow> 'i list"
    and get_result :: "string \<Rightarrow> ConfigMap \<Rightarrow> InspectResult \<Rightarrow> InspectResult option"
  assumes get_ok: "unmarshal_list dec (cm_doc cm constData) = Some xs \<Longrightarrow>
      \<exists>cr'. get_result n cm cr = Some cr' \<and> items cr' = items cr @ map (on_node n) xs"
    and get_bad: "unmarshal_list dec (cm_doc cm constData) = None \<Longrightarrow> get_result n cm cr = None"
begin

definition found :: "string \<times> ConfigMap \<Rightarrow> 'i list" where
  "found p = (case unmarshal_list dec (cm_doc (snd p) constData) of
     None \<Rightarrow> [] | Some xs \<Rightarrow> map (on_node (fst p)) xs)"

text \<open>The controller collects config map after config map; one that does not decode is skipped.\<close>

fun collect :: "(string \<times> ConfigMap) list \<Rightarrow> InspectResult \<Rightarrow> InspectResult" where
  "collect [] cr = cr"
| "collect (p # ps) cr =
     collect ps (case get_result (fst p) (snd p) cr of None \<Rightarrow> cr | Some cr' \<Rightarrow> cr')"

lemma items_collect: "items (collect ps cr) = items cr @ concat (map found ps)"
proof (induction ps arbitrary: cr)
  case Nil
  then show ?case by simp
next
  case (Cons p ps)
  show ?case
  proof (cases "unmarshal_list dec (cm_doc (snd p) constData)")
    case None
    with Cons get_bad show ?thesis by (simp add: found_def)
  next
    case (Some xs)
    then obtain cr' where "get_result (fst p) (snd p) cr = Some cr'" "items cr' = items cr @ map (on_node (fst p)) xs"
      using get_ok by blast
    with Cons Some show ?thesis by (simp add: found_def)
  qed
qed

lemma mset_concat_map: "mset ps = mset qs \<Longrightarrow> mset (concat (map f ps)) = mset (concat (map f qs))"
  by (metis (no_types, lifting) mset_concat mset_map sum_mset_sum_list)

lemma collect_any_order:
  assumes "mset ps = mset qs"
  shows "mset (items (collect ps cr)) = mset (items (collect qs cr))"
  using mset_concat_map [OF assms, of found] by (simp add: items_collect)

end

text \<open>With the encoder of the run at the other end nothing is lost on the way through the config map.\<close>

locale node_inspector_codec = node_inspector dec on_node items get_result
  for dec :: "json \<Rightarrow> 'i option" and on_node items get_result +
  fixes enc :: "'i \<Rightarrow> json"
  assumes dec_enc: "dec (enc x) = Some x"
begin

lemma unmarshal_marshal: "unmarshal_list dec (marshal_items enc xs) = Some xs"
  using those_inverse [of dec enc xs] dec_enc by (simp add: unmarshal_list_def marshal_items_def)

lemma through_config_map:
  assumes "cm_doc cm constData = marshal_items enc xs"
  shows "\<exists>cr'. get_result n cm cr = Some cr' \<and> items cr' = items cr @ map (on_node n) xs"
  using get_ok unmarshal_marshal assms by metis

end

interpretation command_i: node_inspector_codec dec_CommandResultItem "\<lambda>n. cmi_NodeName_update (\<lambda>_. n)"
    "rs_CommandResult \<circ> res_Spec" command_get enc_CommandResultItem
  by unfold_locales (auto simp: command_get_def roundtrips)

interpretation systemd_i: node_inspector_codec dec_NodeMetricsResultItem "\<lambda>n. nmi_NodeName_update (\<lambda>_. n)"
    "rs_SystemdResult \<circ> res_Spec" systemd_get enc_NodeMetricsResultItem
  by unfold_locales (auto simp: systemd_get_def roundtrips)

interpretation sysctl_i: node_inspector_codec dec_NodeMetricsResultItem "\<lambda>n. nmi_NodeName_update (\<lambda>_. n)"
    "rs_SysctlResult \<circ> res_Spec" sysctl_get enc_NodeMetricsResultItem
  by unfold_locales (auto simp: sysctl_get_def roundtrips)

interpretation nodeinfo_i: node_inspector_codec dec_NodeInfoResultItem "\<lambda>n. nri_NodeName_update (\<lambda>_. n)"
    "rs_NodeInfo \<circ> res_Spec" nodeinfo_get enc_NodeInfoResultItem
  by unfold_locales (auto simp: nodeinfo_get_def roundtrips)

interpretation filter_i: node_inspector_codec dec_FileChangeResultItem "\<lambda>n. fri_NodeName_update (\<lambda>_. n)"
    "rs_FileFilterResult \<circ> res_Spec" filter_get enc_FileChangeResultItem
  by unfold_locales (auto simp: filter_get_def roundtrips)

interpretation change_i: node_inspector_codec dec_FileChangeResultItem "\<lambda>n. fri_NodeName_update (\<lambda>_. n)"
    "rs_FileChangeResult \<circ> res_Spec" change_get enc_FileChangeResultItem
  by unfold_locales (auto simp: change_get_def roundtrips)

section \<open>What the inspectors report\<close>

text \<open>A result is well formed for a rule: its name, and the level of the rule exactly when asserted.\<close>

definition reports :: "RuleItemBases \<Rightarrow> BaseResult \<Rightarrow> bool" where
  "reports r b \<longleftrightarrow> br_Name b = ri_Name r \<and> br_Level b = (if br_Assert b then ri_Level r else [])"

lemma reports_simps [simp]: "reports r (failed (ri_Level r) (ri_Name r))" "reports r (passed (ri_Name r))"
  by (simp_all add: reports_def failed_def passed_def)

lemma assert_simps [simp]: "br_Assert (failed l n)" "\<not> br_Assert (passed n)"
  by (simp_all add: failed_def passed_def)

lemma systemd_item_reports: "reports (sr_Base r) (nmi_Base (systemd_item h us r)) \<and> nmi_Value (systemd_item h us r) \<noteq> None"
  by (auto simp: systemd_item_def metric_def Let_def split: option.splits sum.splits)

lemma sysctl_item_reports: "reports (sr_Base r) (nmi_Base (sysctl_item h r)) \<and> nmi_Value (sysctl_item h r) \<noteq> None"
  by (auto simp: sysctl_item_def metric_def Let_def split: option.splits sum.splits)

lemma nodeinfo_item_reports: "reports (nir_Base r) (nri_Base (nodeinfo_item h r))"
  by (auto simp: nodeinfo_item_def Let_def split: option.splits sum.splits)

lemma filter_item_reports:
  "reports (ffr_Base r) (fri_Base (filter_item h r))
   \<and> (br_Assert (fri_Base (filter_item h r)) \<longleftrightarrow> fri_Issues (filter_item h r) \<noteq> [])"
  by (auto simp: filter_item_def file_item_def Let_def split: option.splits)

lemma job_rule_found: "job_rule rules job = Some p \<Longrightarrow> p \<in> set rules \<and> jr_JobName p = job"
  by (auto simp: job_rule_def ArrayFinds_Some)


text \<open>Collecting the results of the nodes in another order gives the same items.\<close>

lemma filter_collect_any_order:
  assumes "mset ps = mset qs"
  shows "mset (rs_FileFilterResult (res_Spec (filter_i.collect ps cr)))
       = mset (rs_FileFilterResult (res_Spec (filter_i.collect qs cr)))"
  using filter_i.collect_any_order [OF assms] by simp

section \<open>Bounds and failures\<close>

lemma filter_lines_bound: "length issues \<le> 1000 \<Longrightarrow> length (filter_lines h rule ls issues) \<le> 1001"
  by (induction h rule ls issues rule: filter_lines.induct) (auto split: option.splits)

text \<open>
  A file-filter result never holds more than a thousand matching lines and one error text, whatever
  the file and the pattern.
\<close>

theorem filter_item_bound: "length (fri_Issues (filter_item h r)) \<le> 1001"
  using filter_lines_bound [of "[]"] by (auto simp: filter_item_def file_item_def Let_def split: option.splits)

text \<open>
  The results of the custom commands are those of the rules whose command succeeded: a rule whose
  command fails has no result at all, although the code fills one in.
\<close>

theorem command_failures_unreported:
  assumes "job_rule rules job = Some phase" and "unmarshal_list dec_CustomCommandRule (jr_RunRule phase) = Some rs"
  shows "\<exists>xs. command_run h rules job = Some (Inr (marshal_items enc_CommandResultItem xs))
     \<and> map (br_Name \<circ> cmi_Base) xs = map (ri_Name \<circ> ccr_Base)
          (filter (\<lambda>r. \<exists>out. h_exec h (ccr_Command r) = Inr out) rs)"
proof -
  have "map (br_Name \<circ> cmi_Base) (List.map_filter (command_item h) rs) = map (ri_Name \<circ> ccr_Base)
          (filter (\<lambda>r. \<exists>out. h_exec h (ccr_Command r) = Inr out) rs)"
    by (induction rs)
       (auto simp: List.map_filter_simps command_item_def Let_def passed_def failed_def split: sum.splits)
  with assms show ?thesis by (auto simp: command_run_def)
qed

lemma to_lower_idem: "to_lower (to_lower s) = to_lower s"
  by (auto simp: to_lower_def lower_char_def Let_def)

text \<open>
  A file-change rule whose name has a capital letter stores its base file under the lower-case name
  and looks it up under the other, so the first run stores it and the second run panics.
\<close>

theorem change_item_case:
  assumes "h_file h (fcr_Path r) = Some content" and "h_base_create h (to_lower n)" and "\<not> h_base_err h n"
    and "n = BaseFilePrefix @ ''-'' @ ri_Name (fcr_Base r)" and "to_lower n \<noteq> n"
    and "mget bases n = None" and "mget bases (to_lower n) = None"
  shows "\<exists>bases'. change_item h r bases = Some (None, bases') \<and> change_item h r bases' = None"
  using assms by (intro exI [of _ "mput bases (to_lower n) content"]) (auto simp: change_item_def Let_def go_map)

text \<open>
  The service found for a rule that gives a name only is a service in the namespace of that name.
\<close>

theorem GetServices_namespace:
  "GetServices services n = Some s \<Longrightarrow> ks_Namespace s = n \<and> connectable s"
  by (auto simp: GetServices_def ArrayFinds_Some)

text \<open>
  A running pod counts as bad only when it is not ignored and none of its containers is ready: one
  ready container is enough.
\<close>

theorem one_ready_container_is_enough:
  "pod_bad (pod\<lparr>kp_Phase := ''Running'', kp_ContainerStatuses := cs\<rparr>) \<longleftrightarrow>
     mget (kp_Annotations pod) AnnotationInspectIgnore = None \<and> \<not> list_ex cs_Ready cs"
  by (auto simp: pod_bad_def isAllContainersReady_def)


section \<open>Concrete runs\<close>

definition demo_host :: host where
  "demo_host = \<lparr>h_exec = (\<lambda>c. if c = ''true'' then Inr [] else Inl ''exit status 1''), h_eval = (\<lambda>d r. Inr False),
     h_file = (\<lambda>p. Some ''text''), h_diff = (\<lambda>a b. []), h_base_err = (\<lambda>n. False), h_base_create = (\<lambda>n. True),
     h_regex = (\<lambda>r l. Some True), h_procfs = True, h_sysctl = (\<lambda>n. Some [''1'']), h_units = Some [],
     h_cpu = None, h_mem = None, h_load = None, h_statfs = (\<lambda>p. None), h_dial = (\<lambda>a. True),
     h_services = (\<lambda>n. Some []), h_all_services = Some [], h_pods = (\<lambda>n s. Some []), h_workspace = (\<lambda>w. None)\<rparr>"

definition demo_job :: "json list \<Rightarrow> JobRule" where
  "demo_job js = \<lparr>jr_JobName = ''job'', jr_RuleType = [], jr_RunRule = Some (JArr js)\<rparr>"

definition demo_cm :: "doc \<Rightarrow> ConfigMap" where
  "demo_cm d = \<lparr>cm_Name = ''job'', cm_Labels = [], cm_BinaryData = [(constData, d)]\<rparr>"

definition demo_result :: InspectResult where
  "demo_result = \<lparr>res_Meta = empty_meta ''res'', res_Spec = zero_ResultSpec, res_Status = zero_ResultStatus\<rparr>"


definition demo_command :: "string \<Rightarrow> string \<Rightarrow> CustomCommandRule" where
  "demo_command n c = \<lparr>ccr_Base = \<lparr>ri_Name = n, ri_Rule = [], ri_Desc = [], ri_Level = DangerLevel\<rparr>,
     ccr_Command = c, ccr_Node = \<lparr>nd_NodeName = None, nd_NodeSelector = []\<rparr>\<rparr>"

theorem command_failures_unreported_witness:
  "\<exists>xs. command_run demo_host [demo_job (map enc_CustomCommandRule [demo_command ''a'' ''true'', demo_command ''b'' ''false''])] ''job''
       = Some (Inr (marshal_items enc_CommandResultItem xs)) \<and> map (br_Name \<circ> cmi_Base) xs = [''a'']"
proof -
  let ?rs = "[demo_command ''a'' ''true'', demo_command ''b'' ''false'']"
  have "job_rule [demo_job (map enc_CustomCommandRule ?rs)] ''job'' = Some (demo_job (map enc_CustomCommandRule ?rs))"
    by (simp add: job_rule_def demo_job_def)
  moreover have "unmarshal_list dec_CustomCommandRule (jr_RunRule (demo_job (map enc_CustomCommandRule ?rs))) = Some ?rs"
    by (simp add: demo_job_def unmarshal_list_def roundtrips)
  ultimately obtain xs where "command_run demo_host [demo_job (map enc_CustomCommandRule ?rs)] ''job''
        = Some (Inr (marshal_items enc_CommandResultItem xs))"
      "map (br_Name \<circ> cmi_Base) xs = map (ri_Name \<circ> ccr_Base)
          (filter (\<lambda>r. \<exists>out. h_exec demo_host (ccr_Command r) = Inr out) ?rs)"
    using command_failures_unreported by blast
  then show ?thesis
    by (intro exI [of _ xs]) (simp add: demo_host_def demo_command_def)
qed

definition demo_change :: FileChangeRule where
  "demo_change = \<lparr>fcr_Base = \<lparr>ri_Name = ''Hosts'', ri_Rule = [], ri_Desc = [], ri_Level = DangerLevel\<rparr>,
     fcr_Path = ''etc'', fcr_Node = \<lparr>nd_NodeName = None, nd_NodeSelector = []\<rparr>\<rparr>"

theorem change_item_case_witness:
  "\<exists>bases. change_item demo_host demo_change [] = Some (None, bases) \<and> change_item demo_host demo_change bases = None"
proof -
  have "h_file demo_host (fcr_Path demo_change) = Some ''text''"
    and "h_base_create demo_host (to_lower (BaseFilePrefix @ ''-'' @ ri_Name (fcr_Base demo_change)))"
    and "\<not> h_base_err demo_host (BaseFilePrefix @ ''-'' @ ri_Name (fcr_Base demo_change))"
    by (simp_all add: demo_host_def)
  moreover have "to_lower (BaseFilePrefix @ ''-'' @ ri_Name (fcr_Base demo_change))
      \<noteq> BaseFilePrefix @ ''-'' @ ri_Name (fcr_Base demo_change)"
    by code_simp
  ultimately show ?thesis
    using change_item_case [of demo_host demo_change "''text''" "BaseFilePrefix @ ''-'' @ ri_Name (fcr_Base demo_change)" "[]"]
    by simp
qed

definition demo_service :: "string \<Rightarrow> string \<Rightarrow> K8sService" where
  "demo_service n ns = \<lparr>ks_Name = n, ks_Namespace = ns, ks_Annotations = [], ks_Type = ''ClusterIP'',
     ks_ClusterIP = ''10.0.0.1'', ks_Ports = [80], ks_Selector = []\<rparr>"

theorem GetServices_namespace_witness:
  "ks_Namespace (the (GetServices [demo_service ''web'' ''shop'', demo_service ''db'' ''web''] ''web'')) = ''web''"
proof -
  have "GetServices [demo_service ''web'' ''shop'', demo_service ''db'' ''web''] ''web''
      = Some (the (GetServices [demo_service ''web'' ''shop'', demo_service ''db'' ''web''] ''web''))"
    by code_simp
  from GetServices_namespace [OF this] show ?thesis by simp
qed

end
