(* ===== verification/Task_Controller.thy ===== *)
theory Task_Controller
  imports Task_Status Templates Inspectors
begin

text \<open>
  pkg/controllers/inspecttask_controller.go: the reconciler of an InspectTask.  It guards the task,
  marks it running, merges its rules, runs their jobs, collects their results, creates the
  InspectResult and writes the phase of the task back to the task and its plan.

  The jobs and the clusters of a task run in goroutines; here they run one after the other, in the
  order of their list.  What the interleaving can change, the list of job phases, is the subject of
  the theory Job_Race.  Option results: None is a panic.
\<close>

section \<open>Requests to the API server of a cluster\<close>

definition read_nodes :: "env \<Rightarrow> string \<Rightarrow> world \<Rightarrow> (api_err + K8sNode list) \<times> world" where
  "read_nodes E c w = (ev_nodes E (w_trace w) c, log (CRead c KNode []) w)"

definition read_pods :: "env \<Rightarrow> string \<Rightarrow> strmap \<Rightarrow> world \<Rightarrow> (api_err + K8sPod list) \<times> world" where
  "read_pods E c sel w = (ev_pods E (w_trace w) c sel, log (CRead c KPod []) w)"

definition read_job :: "env \<Rightarrow> string \<Rightarrow> string \<Rightarrow> world \<Rightarrow> (api_err + K8sJob) \<times> world" where
  "read_job E c n w = (ev_job E (w_trace w) c n, log (CRead c KJob n) w)"

definition read_configmap :: "env \<Rightarrow> string \<Rightarrow> string \<Rightarrow> world \<Rightarrow> (api_err + ConfigMap) \<times> world" where
  "read_configmap E c n w = (ev_configmap E (w_trace w) c n, log (CRead c KConfigMap n) w)"

definition GetNodes :: "env \<Rightarrow> string \<Rightarrow> world \<Rightarrow> K8sNode list \<times> world" where
  "GetNodes E c w = (case read_nodes E c w of (Inl _, w') \<Rightarrow> ([], w') | (Inr ns, w') \<Rightarrow> (ns, w'))"

definition getIncompleteJob :: "env \<Rightarrow> string \<Rightarrow> InspectTask \<Rightarrow> string \<Rightarrow> world \<Rightarrow> K8sPod list \<times> world" where
  "getIncompleteJob E c task ruleType w =
     (case read_pods E c (incomplete_selector task ruleType) w of (Inl _, w') \<Rightarrow> ([], w') | (Inr ps, w') \<Rightarrow> (ps, w'))"

section \<open>The life of a job\<close>

definition phase_of :: "string \<Rightarrow> Phase \<Rightarrow> JobPhase" where
  "phase_of n p = \<lparr>jp_JobName = n, jp_Phase = p\<rparr>"

definition createInspectJob ::
    "env \<Rightarrow> string \<Rightarrow> JobRule \<Rightarrow> InspectTask \<Rightarrow> JobConfig option \<Rightarrow> world \<Rightarrow> ((api_err + JobPhase) \<times> world) option" where
  "createInspectJob E c jobRule task config w = do {
     sched \<leftarrow> GetDeploySchedule (jr_RunRule jobRule);
     let ruleType = jr_RuleType jobRule;
     if sched = None \<and> ruleType \<noteq> ServiceConnect \<and> ruleType \<noteq> Component
     then Some (Inl (ApiErr (ruleType @ '':rule is empty'')), w)
     else do {
       job \<leftarrow> GeneratorJobTemplate \<lparr>jo_JobConfig = config, jo_JobName = jr_JobName jobRule, jo_Task = task,
                 jo_NodeName = (case sched of None \<Rightarrow> [] | Some n \<Rightarrow> n), jo_RuleType = ruleType\<rparr>;
       let (err, w') = submit E (CCreate c (OJob job)) w;
       Some (case err of Some e \<Rightarrow> (Inl e, w') | None \<Rightarrow> (Inr (phase_of (jr_JobName jobRule) PhaseRunning), w')) } }"

text \<open>
  The polling loop, with at most fuel polls; None: not finished by then.  An empty list of
  conditions is the nil one.
\<close>

fun waitForJobCompletionGetResult ::
    "nat \<Rightarrow> env \<Rightarrow> string \<Rightarrow> string \<Rightarrow> string \<Rightarrow> world \<Rightarrow> (JobPhase \<times> world) option" where
  "waitForJobCompletionGetResult 0 E c jobName timeout w = None"
| "waitForJobCompletionGetResult (Suc fuel) E c jobName timeout w =
     (case read_job E c jobName w of
        (Inl _, w1) \<Rightarrow> Some (phase_of jobName PhaseFailed, w1)
      | (Inr jobInfo, w1) \<Rightarrow>
          (let (t, w2) = now E w1 in
           if isTimeout (kj_CreationTimestamp jobInfo) timeout t then Some (phase_of jobName PhaseFailed, w2)
           else if kj_Conditions jobInfo \<noteq> [] \<and> hd (kj_Conditions jobInfo) = ''Failed''
             then Some (phase_of jobName PhaseFailed, w2)
           else if \<not> is_zero (kj_CompletionTime jobInfo) \<and> kj_Active jobInfo = 0
             then (let (err, w3) = submit E (CDelete c KJob jobName) w2 in Some (phase_of jobName PhaseSucceeded, w3))
           else waitForJobCompletionGetResult fuel E c jobName timeout (log (CSleep (10 * second)) w2)))"

text \<open>The result file; HTML and Excel files are made from it, and their errors only logged.\<close>

definition saveResultFile :: "env \<Rightarrow> InspectResult \<Rightarrow> world \<Rightarrow> api_err option \<times> world" where
  "saveResultFile E resultData w =
     submit E (CFileWrite (ResultPathPrefix @ ''/'' @ om_Name (res_Meta resultData)) resultData) w"

definition getInspectResultData ::
    "env \<Rightarrow> string \<Rightarrow> InspectResult \<Rightarrow> string \<Rightarrow> world \<Rightarrow> api_err option \<times> InspectResult \<times> world" where
  "getInspectResultData E c resultData jobName w =
     (case read_configmap E c jobName w of
        (Inl e, w1) \<Rightarrow> (Some e, resultData, w1)
      | (Inr configMap, w1) \<Rightarrow>
          (let ruleType = mget0 (cm_Labels configMap) LabelRuleType;
               nodeName = mget0 (cm_Labels configMap) LabelNodeName;
               data = (case GetResult ruleType of
                   None \<Rightarrow> resultData
                 | Some get \<Rightarrow> (case get nodeName configMap resultData of None \<Rightarrow> resultData | Some d \<Rightarrow> d))
           in case read_nodes E c w1 of
                (Inl e, w2) \<Rightarrow> (Some e, data, w2)
              | (Inr nodes, w2) \<Rightarrow>
                  (case read_pods E c [] w2 of
                     (Inl e, w3) \<Rightarrow> (Some e, data, w3)
                   | (Inr pods, w3) \<Rightarrow>
                       (case saveResultFile E data w3 of
                          (Some e, w4) \<Rightarrow> (Some e, data, w4)
                        | (None, w4) \<Rightarrow>
                            (let (err, w5) = submit E (CDelete c KConfigMap jobName) w4 in (err, data, w5))))))"

text \<open>One job: the phases it adds and the result data after it.\<close>

definition run_job ::
    "nat \<Rightarrow> env \<Rightarrow> string \<Rightarrow> InspectTask \<Rightarrow> JobConfig option \<Rightarrow> K8sNode list \<Rightarrow> JobRule \<Rightarrow> InspectResult \<Rightarrow> world
     \<Rightarrow> (JobPhase list \<times> InspectResult \<times> world) option" where
  "run_job fuel E c task config nodes v resultData w =
     (let bad = [phase_of (jr_JobName v) PhaseFailed]; (t, w1) = now E w in
      if isTimeout (om_CreationTimestamp (it_Meta task)) (its_Timeout (it_Spec task)) t
      then Some (bad, resultData, w1)
      else if GetResult (jr_RuleType v) = None then Some ([], resultData, w1)
      else do {
        let (incomplete, w2) = getIncompleteJob E c task (jr_RuleType v) w1;
        deploy \<leftarrow> checkJobIsDeploy nodes incomplete v;
        if \<not> deploy then Some (bad, resultData, w2)
        else do {
          (created, w3) \<leftarrow> createInspectJob E c v task config w2;
          (case created of
             Inl _ \<Rightarrow> Some (bad, resultData, w3)
           | Inr jobTask \<Rightarrow> do {
               (resultJob, w4) \<leftarrow> waitForJobCompletionGetResult fuel E c (jr_JobName v) (its_Timeout (it_Spec task)) w3;
               let (err, data, w5) = getInspectResultData E c resultData (jp_JobName resultJob) w4;
               Some (resultJob # (if err = None then [] else bad), data, w5) }) } })"

fun run_jobs ::
    "nat \<Rightarrow> env \<Rightarrow> string \<Rightarrow> InspectTask \<Rightarrow> JobConfig option \<Rightarrow> K8sNode list \<Rightarrow> JobRule list \<Rightarrow> InspectResult \<Rightarrow> world
     \<Rightarrow> (JobPhase list \<times> InspectResult \<times> world) option" where
  "run_jobs fuel E c task config nodes [] resultData w = Some ([], resultData, w)"
| "run_jobs fuel E c task config nodes (v # vs) resultData w = do {
     (ps, data, w1) \<leftarrow> run_job fuel E c task config nodes v resultData w;
     (qs, data', w2) \<leftarrow> run_jobs fuel E c task config nodes vs data w1;
     Some (ps @ qs, data', w2) }"

text \<open>No phases give the nil slice, which append leaves as it is.\<close>

definition createJobsInspect ::
    "nat \<Rightarrow> env \<Rightarrow> string \<Rightarrow> InspectTask \<Rightarrow> JobConfig option \<Rightarrow> JobRule list \<Rightarrow> InspectResult \<Rightarrow> world
     \<Rightarrow> (JobPhase list \<times> InspectResult \<times> world) option" where
  "createJobsInspect fuel E c task config jobRules resultData w =
     (let (nodes, w1) = GetNodes E c w in run_jobs fuel E c task config nodes jobRules resultData w1)"

definition append_phases :: "JobPhase list option \<Rightarrow> JobPhase list \<Rightarrow> JobPhase list option" where
  "append_phases old new = (case old of None \<Rightarrow> (if new = [] then None else Some new) | Some ps \<Rightarrow> Some (ps @ new))"

section \<open>One inspection\<close>

definition accepted :: "api_err option \<Rightarrow> api_err \<Rightarrow> api_err option" where
  "accepted err ok = (if err = Some ok then None else err)"

text \<open>The rules of a task in the cache; missing ones are skipped.\<close>

definition getRules :: "InspectTask \<Rightarrow> world \<Rightarrow> InspectRule list" where
  "getRules task w = List.map_filter (\<lambda>v. mget (w_rules w) (irn_Name v)) (its_RuleNames (it_Spec task))"

text \<open>The rule bytes are put in as the document they hold, where JSON has them in base64.\<close>

definition enc_JobRule :: "JobRule \<Rightarrow> json" where
  "enc_JobRule j = JObj (omit_str ''jobName'' (jr_JobName j) @ omit_str ''ruleType'' (jr_RuleType j)
     @ (case jr_RunRule j of None \<Rightarrow> [] | Some d \<Rightarrow> [(''runRule'', d)]))"

definition CreateInspectRule ::
    "env \<Rightarrow> string \<Rightarrow> InspectTask \<Rightarrow> JobRule list \<Rightarrow> world \<Rightarrow> (api_err + JobRule list) \<times> world" where
  "CreateInspectRule E c task ruleGroup w =
     (let r = sortRuleOpaToAtLast ruleGroup; name = om_Name (it_Meta task);
          (found, w1) = read_configmap E c name w;
          w2 = (case found of Inl _ \<Rightarrow> w1 | Inr _ \<Rightarrow> snd (submit E (CDelete c KConfigMap name) w1));
          cm = BinaryConfigMapTemplate name (Some (JArr (map enc_JobRule r))) [(LabelInspectRuleGroup, ''inspect-rule-temp'')];
          (err, w3) = submit E (CCreate c (OConfigMap cm)) w2
      in (case err of Some e \<Rightarrow> Inl e | None \<Rightarrow> Inr r, w3))"

definition remove_file :: "env \<Rightarrow> string \<Rightarrow> world \<Rightarrow> world" where
  "remove_file E f w = (if ev_file_exists E (w_trace w) f then snd (submit E (CFileRemove f) w) else w)"

definition GenerateResult ::
    "env \<Rightarrow> string \<Rightarrow> InspectTask \<Rightarrow> Cluster \<Rightarrow> (string, int) gomap \<Rightarrow> world \<Rightarrow> InspectResult \<times> world" where
  "GenerateResult E c task cluster ruleNum w =
     (let name = om_Name (it_Meta task); resultName = cl_Name cluster @ ''-'' @ name @ ''-result'';
          sel = [(LabelTaskName, name)];
          listed = ev_configmaps E (w_trace w) c sel; w1 = log (CRead c KConfigMap []) w;
          w2 = (case listed of Inr (_ # _) \<Rightarrow> snd (submit E (CDeleteAll c KConfigMap sel) w1) | _ \<Rightarrow> w1);
          w3 = remove_file E (ResultPathPrefix @ ''/'' @ resultName) w2;
          w4 = remove_file E (ResultPathPrefix @ ''/'' @ resultName @ ''.xlsx'') w3
      in (\<lparr>res_Meta = (empty_meta resultName)\<lparr>
             om_Labels := [(LabelTaskName, name), (LabelPlanName, mget0 (om_Labels (it_Meta task)) LabelPlanName)],
             om_Annotations := [(AnnotationStartTime,
                  case itst_StartTimestamp (it_Status task) of None \<Rightarrow> ''<nil>''
                  | Some t \<Rightarrow> ev_fmt E ''2006-01-02 15:04:05'' t),
               (AnnotationInspectPolicy, its_InspectPolicy (it_Spec task))],
             om_OwnerReferences := [task_owner task]\<rparr>,
           res_Spec = zero_ResultSpec\<lparr>rs_InspectRuleTotal := ruleNum, rs_InspectCluster := cluster\<rparr>,
           res_Status = zero_ResultStatus\<rparr>, w4))"

fun delete_each :: "env \<Rightarrow> call list \<Rightarrow> world \<Rightarrow> api_err option \<times> world" where
  "delete_each E [] w = (None, w)"
| "delete_each E (d # ds) w =
     (let (err, w1) = submit E d w in
      case accepted err NotFound of Some e \<Rightarrow> (Some e, w1) | None \<Rightarrow> delete_each E ds w1)"

definition cleanClusterInspectConfig :: "env \<Rightarrow> string \<Rightarrow> world \<Rightarrow> api_err option \<times> world" where
  "cleanClusterInspectConfig E c = delete_each E
     [CDeleteAll c KConfigMap [(LabelInspectRuleGroup, ''inspect-rule-temp'')],
      CDelete c KServiceAccount GetServiceAccountTemplate,
      CDelete c KClusterRoleBinding (crb_Name (GetClusterRoleBindingTemplate [])),
      CDelete c KClusterRole (cro_Name GetClusterRoleTemplate)]"

fun create_each :: "env \<Rightarrow> call list \<Rightarrow> world \<Rightarrow> api_err option \<times> world" where
  "create_each E [] w = (None, w)"
| "create_each E (d # ds) w =
     (let (err, w1) = submit E d w in
      case accepted err AlreadyExists of Some e \<Rightarrow> (Some e, w1) | None \<Rightarrow> create_each E ds w1)"

definition inspect_access :: "string \<Rightarrow> call list" where
  "inspect_access c = [CCreate c (OClusterRole (cro_Name GetClusterRoleTemplate)),
      CCreate c (OClusterRoleBinding (crb_Name (GetClusterRoleBindingTemplate []))),
      CCreate c (OServiceAccount GetServiceAccountTemplate)]"

definition initClusterInspectConfig :: "env \<Rightarrow> string \<Rightarrow> world \<Rightarrow> api_err option \<times> world" where
  "initClusterInspectConfig E c w =
     (let missing = ev_namespace E (w_trace w) c; w1 = log (CRead c KNamespace []) w in
      case missing of
        None \<Rightarrow> create_each E (inspect_access c) w1
      | Some NotFound \<Rightarrow> create_each E (CCreate c (ONamespace []) # inspect_access c) w1
      | Some e \<Rightarrow> (Some e, w1))"

text \<open>
  The task is changed through its pointer: what a failing call has already set stays.
\<close>

definition createInspect ::
    "nat \<Rightarrow> env \<Rightarrow> string \<Rightarrow> Cluster \<Rightarrow> KubeEyeConfig \<Rightarrow> InspectTask \<Rightarrow> world
     \<Rightarrow> (api_err option \<times> InspectTask \<times> world) option" where
  "createInspect fuel E c cluster kubeEyeConfig task w = do {
     (e, mergeRule) \<leftarrow> MergeRule (NewExecuteRuleOptions task) (getRules task w);
     let (nodes, w1) = GetNodes E c w;
     jobs \<leftarrow> GenerateJob (ev_rand E (w_trace w1)) e nodes mergeRule;
     let (created, w2) = CreateInspectRule E c task jobs w1;
     (case created of
        Inl err \<Rightarrow> Some (Some err, task, w2)
      | Inr rules \<Rightarrow> do {
          jobConfig \<leftarrow> GetClusterJobConfig kubeEyeConfig (cl_Name cluster);
          let task1 = task\<lparr>it_Status := (it_Status task)\<lparr>itst_InspectRuleType :=
                map fst (filter (\<lambda>(k, v). 0 < v) (GetRuleTotal e))\<rparr>\<rparr>;
          let (result, w3) = GenerateResult E c task1 cluster (GetRuleTotal e) w2;
          (phases, _, w4) \<leftarrow> createJobsInspect fuel E c task1 jobConfig rules result w3;
          let task2 = task1\<lparr>it_Status := (it_Status task1)\<lparr>itst_JobPhase :=
                append_phases (itst_JobPhase (it_Status task1)) phases\<rparr>\<rparr>;
          let (err, w5) = submit E (CCreate [] (OResult result)) w4;
          (case err of
             Some e' \<Rightarrow> Some (Some e', task2, w5)
           | None \<Rightarrow> (let (err', w6) = cleanClusterInspectConfig E c w5 in Some (err', task2, w6))) }) }"

section \<open>Reconcile\<close>

definition getClusterInfo :: "env \<Rightarrow> world \<Rightarrow> ClusterInfo" where
  "getClusterInfo E w =
     \<lparr>ci_ClusterVersion = (case ev_version E (w_trace w) of None \<Rightarrow> [] | Some (major, minor) \<Rightarrow> major @ ''.'' @ minor),
      ci_NodesCount = ev_count E (w_trace w) KNode, ci_NamespacesCount = ev_count E (w_trace w) KNamespace\<rparr>"

text \<open>The first task of the name gets the phase; the cached plan is changed in place.\<close>

fun set_first :: "TaskNames list \<Rightarrow> string \<Rightarrow> Phase \<Rightarrow> TaskNames list" where
  "set_first [] n p = []"
| "set_first (t # ts) n p = (if tn_Name t = n then t\<lparr>tn_TaskStatus := p\<rparr> # ts else t # set_first ts n p)"

definition plan_phase :: "Phase \<Rightarrow> string \<Rightarrow> time \<Rightarrow> InspectPlan \<Rightarrow> InspectPlan" where
  "plan_phase phase taskName timeNow plan =
     (let st = (ip_Status plan)\<lparr>ipst_TaskNames := set_first (ipst_TaskNames (ip_Status plan)) taskName phase,
            ipst_LastTaskStatus := phase\<rparr>
      in plan\<lparr>ip_Status := (if IsRunning phase then st\<lparr>ipst_LastTaskStartTime := Some timeNow\<rparr>
            else st\<lparr>ipst_LastTaskEndTime := Some timeNow\<rparr>)\<rparr>)"

definition updatePlanStatus :: "env \<Rightarrow> Phase \<Rightarrow> string \<Rightarrow> string \<Rightarrow> world \<Rightarrow> api_err option \<times> world" where
  "updatePlanStatus E phase planName taskName w =
     (case mget (w_plans w) planName of
        None \<Rightarrow> (Some NotFound, w)
      | Some plan \<Rightarrow>
          (let (t, w1) = now E w; plan' = plan_phase phase taskName t plan
           in submit E (CUpdateStatus (OPlan plan')) (w1\<lparr>w_plans := mput (w_plans w1) planName plan'\<rparr>)))"

text \<open>One cluster of a task that names its clusters: errors are logged only, a panic ends the manager.\<close>

definition inspect_cluster ::
    "nat \<Rightarrow> env \<Rightarrow> KubeEyeConfig \<Rightarrow> Cluster \<Rightarrow> InspectTask \<Rightarrow> world \<Rightarrow> (InspectTask \<times> world) option" where
  "inspect_cluster fuel E config cluster task w =
     (let client = GetMultiClusterClient (ev_go E) (ev_cluster E (w_trace w) (cl_Name cluster));
          w1 = log (CRead [] KCluster (cl_Name cluster)) w
      in case client of
           None \<Rightarrow> None
         | Some (Inl _) \<Rightarrow> Some (task, w1)
         | Some (Inr _) \<Rightarrow>
             (case initClusterInspectConfig E (cl_Name cluster) w1 of
                (Some _, w2) \<Rightarrow> Some (task, w2)
              | (None, w2) \<Rightarrow> map_option snd (createInspect fuel E (cl_Name cluster) cluster config task w2)))"

fun inspect_clusters ::
    "nat \<Rightarrow> env \<Rightarrow> KubeEyeConfig \<Rightarrow> Cluster list \<Rightarrow> InspectTask \<Rightarrow> world \<Rightarrow> (InspectTask \<times> world) option" where
  "inspect_clusters fuel E config [] task w = Some (task, w)"
| "inspect_clusters fuel E config (c # cs) task w = do {
     (task', w') \<leftarrow> inspect_cluster fuel E config c task w;
     inspect_clusters fuel E config cs task' w' }"

definition default_cluster :: Cluster where
  "default_cluster = \<lparr>cl_Name = ''default'', cl_Provider = []\<rparr>"

definition inspect_default ::
    "nat \<Rightarrow> env \<Rightarrow> KubeEyeConfig \<Rightarrow> InspectTask \<Rightarrow> world \<Rightarrow> (api_err option \<times> InspectTask \<times> world) option" where
  "inspect_default fuel E config task w =
     (case initClusterInspectConfig E [] w of
        (Some e, w1) \<Rightarrow> Some (Some e, task, w1)
      | (None, w1) \<Rightarrow> createInspect fuel E [] default_cluster config task w1)"

definition set_phase :: "Phase \<Rightarrow> InspectTask \<Rightarrow> InspectTask" where
  "set_phase p task = task\<lparr>it_Status := (it_Status task)\<lparr>itst_Status := p\<rparr>\<rparr>"

text \<open>The end of a run: the status of the task, then of its plan, whose error is only logged.\<close>

definition finish_task :: "env \<Rightarrow> InspectTask \<Rightarrow> world \<Rightarrow> reconciled \<times> world" where
  "finish_task E task w =
     (let taskStatus = GetStatus task; (err, w1) = submit E (CUpdateStatus (OTask (set_phase taskStatus task))) w in
      case err of
        Some e \<Rightarrow> (Inl e, w1)
      | None \<Rightarrow> (finished, snd (updatePlanStatus E taskStatus (mget0 (om_Labels (it_Meta task)) LabelPlanName)
                             (om_Name (it_Meta task)) w1)))"

definition run_task :: "nat \<Rightarrow> env \<Rightarrow> InspectTask \<Rightarrow> world \<Rightarrow> (reconciled \<times> world) option" where
  "run_task fuel E inspectTask w =
     (let task = inspectTask\<lparr>it_Status := (it_Status inspectTask)\<lparr>itst_ClusterInfo := getClusterInfo E w\<rparr>\<rparr>;
          config = ev_config E (w_trace w)
      in case config of
           Inl e \<Rightarrow> Some (Inl e, w)
         | Inr kubeEyeConfig \<Rightarrow>
             (case its_ClusterName (it_Spec task) of
                Some clusters \<Rightarrow> do {
                  (task', w1) \<leftarrow> inspect_clusters fuel E kubeEyeConfig clusters task w;
                  Some (finish_task E task' w1) }
              | None \<Rightarrow> do {
                  (err, task', w1) \<leftarrow> inspect_default fuel E kubeEyeConfig task w;
                  Some (case err of Some e \<Rightarrow> (Inl e, w1) | None \<Rightarrow> finish_task E task' w1) }))"

text \<open>Without a start time the subtraction dereferences nil.\<close>

definition end_task :: "env \<Rightarrow> InspectTask \<Rightarrow> world \<Rightarrow> (reconciled \<times> world) option" where
  "end_task E task w =
     (if is_zero (itst_EndTimestamp (it_Status task)) then
        (let (t, w1) = now E w in
         case itst_StartTimestamp (it_Status task) of
           None \<Rightarrow> None
         | Some start \<Rightarrow>
             (let task' = task\<lparr>it_Status := (it_Status task)\<lparr>itst_EndTimestamp := Some t,
                    itst_Duration := ev_dur E (time_sub t start)\<rparr>\<rparr>;
                  (err, w2) = submit E (CUpdateStatus (OTask task')) w1
              in Some (failed_or_done err, w2)))
      else Some (finished, w))"

definition start_task :: "env \<Rightarrow> InspectTask \<Rightarrow> world \<Rightarrow> reconciled \<times> world" where
  "start_task E task w =
     (case updatePlanStatus E PhaseRunning (mget0 (om_Labels (it_Meta task)) LabelPlanName) (om_Name (it_Meta task)) w of
        (Some e, w1) \<Rightarrow> (Inl e, w1)
      | (None, w1) \<Rightarrow>
          (let (t, w2) = now E w1;
               task' = task\<lparr>it_Status := (it_Status task)\<lparr>itst_StartTimestamp := Some t, itst_Status := PhaseRunning\<rparr>\<rparr>;
               (err, w3) = submit E (CUpdateStatus (OTask task')) w2
           in (failed_or_done err, w3)))"

definition task_Reconcile :: "nat \<Rightarrow> env \<Rightarrow> string \<Rightarrow> world \<Rightarrow> (reconciled \<times> world) option" where
  "task_Reconcile fuel E req w =
     (let (r, w1) = read_task E req w in
      case r of
        Inl e \<Rightarrow> Some (if e = NotFound then finished else Inl e, w1)
      | Inr task \<Rightarrow>
          (if not_deleted (it_Meta task) \<and> \<not> has_finalizer (it_Meta task) then
             (let (err, w2) = submit E (CUpdate [] (OTask (task_finalizers (add_finalizer (it_Meta task)) task))) w1
              in Some (failed_or_done err, w2))
           else if \<not> not_deleted (it_Meta task) then
             (let (err, w2) = submit E (CUpdate [] (OTask (task_finalizers (drop_finalizer (it_Meta task)) task))) w1
              in Some (failed_or_done err, w2))
           else if IsSucceeded (itst_Status (it_Status task)) \<or> IsFailed (itst_Status (it_Status task))
             then end_task E task w1
           else if is_zero (itst_StartTimestamp (it_Status task)) then Some (start_task E task w1)
           else run_task fuel E task w1))"

section \<open>What a run writes of tasks\<close>

fun task_of :: "obj \<Rightarrow> InspectTask option" where
  "task_of (OTask t) = Some t"
| "task_of _ = None"

definition task_writes :: "world \<Rightarrow> InspectTask list" where
  "task_writes w = List.map_filter task_of (updates w)"

text \<open>What an inspection of a cluster leaves alone: the tasks written so far and the cached plans.\<close>

definition followed :: "world \<Rightarrow> InspectTask list \<times> (string, InspectPlan) gomap" where
  "followed w = (task_writes w, w_plans w)"

named_theorems no_task_write \<open>the operations that write no task and change no cached plan\<close>

lemma task_writes_log [world_simps]:
  "task_writes (log c w) = task_writes w @ (case Option.bind (updated c) task_of of None \<Rightarrow> [] | Some p \<Rightarrow> [p])"
  by (simp add: task_writes_def log_effects map_filter_snoc List.map_filter_simps split: option.splits)

lemma followed_log [world_simps]:
  "Option.bind (updated c) task_of = None \<Longrightarrow> followed (log c w) = followed w"
  by (simp add: followed_def world_simps)

lemma task_writes_cache [world_simps]: "task_writes (w\<lparr>w_plans := m\<rparr>) = task_writes w"
  by (simp add: task_writes_def world_simps)

lemmas task_reads = read_nodes_def read_pods_def read_job_def read_configmap_def

lemma GetNodes_quiet [no_task_write]: "followed (snd (GetNodes E c w)) = followed w"
  by (simp add: GetNodes_def task_reads world_simps split: sum.splits)

lemma getIncompleteJob_quiet [no_task_write]: "followed (snd (getIncompleteJob E c t k w)) = followed w"
  by (simp add: getIncompleteJob_def task_reads world_simps split: sum.splits)

lemma createInspectJob_quiet [no_task_write]:
  "createInspectJob E c r t cfg w = Some (x, w') \<Longrightarrow> followed w' = followed w"
  by (auto simp: createInspectJob_def world_simps Let_def bind_eq_Some_conv split: if_splits option.splits)

lemma wait_quiet [no_task_write]:
  "waitForJobCompletionGetResult fuel E c n to w = Some (x, w') \<Longrightarrow> followed w' = followed w"
  by (induction fuel E c n to w rule: waitForJobCompletionGetResult.induct)
     (auto simp: world_simps task_reads Let_def split: sum.splits if_splits)

lemma getInspectResultData_quiet [no_task_write]:
  "followed (snd (snd (getInspectResultData E c d n w))) = followed w"
  by (auto simp: getInspectResultData_def saveResultFile_def task_reads world_simps Let_def
      split: sum.splits option.splits)

text \<open>The ways the run of a job ends.\<close>

lemma run_job_cases:
  assumes run: "run_job fuel E c t cfg nodes v d w = Some (ps, d', w')"
  obtains (late) "isTimeout (om_CreationTimestamp (it_Meta t)) (its_Timeout (it_Spec t)) (ev_now E (w_trace w))"
      "ps = [phase_of (jr_JobName v) PhaseFailed]" "w' = log CNow w"
  | (unknown) "GetResult (jr_RuleType v) = None" "ps = []" "w' = log CNow w"
  | (refused) inc w2 where "getIncompleteJob E c t (jr_RuleType v) (log CNow w) = (inc, w2)"
      "checkJobIsDeploy nodes inc v = Some False" "ps = [phase_of (jr_JobName v) PhaseFailed]" "w' = w2"
  | (failed) inc w2 e where "getIncompleteJob E c t (jr_RuleType v) (log CNow w) = (inc, w2)"
      "checkJobIsDeploy nodes inc v = Some True" "createInspectJob E c v t cfg w2 = Some (Inl e, w')"
      "ps = [phase_of (jr_JobName v) PhaseFailed]"
  | (ran) inc w2 p w3 q w4 e where "getIncompleteJob E c t (jr_RuleType v) (log CNow w) = (inc, w2)"
      "checkJobIsDeploy nodes inc v = Some True" "createInspectJob E c v t cfg w2 = Some (Inr p, w3)"
      "waitForJobCompletionGetResult fuel E c (jr_JobName v) (its_Timeout (it_Spec t)) w3 = Some (q, w4)"
      "getInspectResultData E c d (jp_JobName q) w4 = (e, d', w')"
      "ps = q # (if e = None then [] else [phase_of (jr_JobName v) PhaseFailed])"
proof -
  obtain inc w2 where w2: "getIncompleteJob E c t (jr_RuleType v) (log CNow w) = (inc, w2)" by fastforce
  note run_defs = run_job_def Let_def world_simps w2 bind_eq_Some_conv
  consider "isTimeout (om_CreationTimestamp (it_Meta t)) (its_Timeout (it_Spec t)) (ev_now E (w_trace w))"
    | "\<not> isTimeout (om_CreationTimestamp (it_Meta t)) (its_Timeout (it_Spec t)) (ev_now E (w_trace w))"
      "GetResult (jr_RuleType v) = None"
    | y where "\<not> isTimeout (om_CreationTimestamp (it_Meta t)) (its_Timeout (it_Spec t)) (ev_now E (w_trace w))"
      "GetResult (jr_RuleType v) = Some y"
    by fastforce
  then show ?thesis
  proof cases
    case 3
    then obtain b where b: "checkJobIsDeploy nodes inc v = Some b" using run by (auto simp: run_defs)
    show ?thesis
    proof (cases b)
      case False
      then show ?thesis using run 3 b w2 refused by (auto simp: run_defs)
    next
      case True
      then obtain r w3 where w3: "createInspectJob E c v t cfg w2 = Some (r, w3)"
        using run 3 b by (auto simp: run_defs)
      show ?thesis
      proof (cases r)
        case (Inl e)
        then show ?thesis using run 3 b w2 w3 True failed by (auto simp: run_defs)
      next
        case (Inr p)
        then obtain q w4 where w4: "waitForJobCompletionGetResult fuel E c (jr_JobName v) (its_Timeout (it_Spec t)) w3 = Some (q, w4)"
          using run 3 b True by (auto simp: run_defs w3)
        obtain e dd w5 where w5: "getInspectResultData E c d (jp_JobName q) w4 = (e, dd, w5)"
          by (cases "getInspectResultData E c d (jp_JobName q) w4") auto
        show ?thesis using run 3 b w2 w3 w4 w5 True Inr by (intro ran) (auto simp: run_defs)
      qed
    qed
  qed (use run late unknown in \<open>auto simp: run_defs\<close>)
qed

lemma run_job_quiet [no_task_write]:
  assumes "run_job fuel E c t cfg nodes v d w = Some (ps, d', w')"
  shows "followed w' = followed w"
proof -
  have i: "followed w2 = followed w" if "getIncompleteJob E c t (jr_RuleType v) (log CNow w) = (x, w2)" for x w2
    using getIncompleteJob_quiet [of E c t "jr_RuleType v" "log CNow w"] that by (simp add: world_simps)
  have g: "followed w2 = followed w1" if "getInspectResultData E c d n w1 = (x, y, w2)" for x y n w1 w2
    using getInspectResultData_quiet [of E c d n w1] that by simp
  from assms show ?thesis
    by (cases rule: run_job_cases) (auto simp: world_simps dest!: i g createInspectJob_quiet wait_quiet)
qed

lemma run_jobs_quiet [no_task_write]:
  "run_jobs fuel E c t cfg nodes vs d w = Some (ps, d', w') \<Longrightarrow> followed w' = followed w"
  by (induction fuel E c t cfg nodes vs d w arbitrary: ps d' w' rule: run_jobs.induct)
     (auto simp: bind_eq_Some_conv dest: run_job_quiet)

lemma createJobsInspect_quiet [no_task_write]:
  assumes "createJobsInspect fuel E c t cfg rs d w = Some (ps, d', w')"
  shows "followed w' = followed w"
  using assms run_jobs_quiet GetNodes_quiet [of E c w]
  by (fastforce simp: createJobsInspect_def Let_def case_prod_unfold)

lemma CreateInspectRule_quiet [no_task_write]: "followed (snd (CreateInspectRule E c t rs w)) = followed w"
  by (auto simp: CreateInspectRule_def task_reads world_simps Let_def split: sum.splits option.splits)

lemma remove_file_quiet [no_task_write]: "followed (remove_file E f w) = followed w"
  by (simp add: remove_file_def world_simps)

lemma GenerateResult_quiet [no_task_write]: "followed (snd (GenerateResult E c t cl n w)) = followed w"
  by (simp add: GenerateResult_def Let_def remove_file_quiet world_simps split: sum.splits list.splits)

lemma delete_each_quiet: "list_all (\<lambda>d. updated d = None) ds \<Longrightarrow> followed (snd (delete_each E ds w)) = followed w"
  by (induction E ds w rule: delete_each.induct) (auto simp: world_simps Let_def split: option.splits)

lemma create_each_quiet: "list_all (\<lambda>d. updated d = None) ds \<Longrightarrow> followed (snd (create_each E ds w)) = followed w"
  by (induction E ds w rule: create_each.induct) (auto simp: world_simps Let_def split: option.splits)

lemma clean_quiet [no_task_write]: "followed (snd (cleanClusterInspectConfig E c w)) = followed w"
  unfolding cleanClusterInspectConfig_def by (rule delete_each_quiet) simp

lemma init_quiet [no_task_write]: "followed (snd (initClusterInspectConfig E c w)) = followed w"
proof -
  have "list_all (\<lambda>d. updated d = None) (inspect_access c)" by (simp add: inspect_access_def)
  then show ?thesis
    by (auto simp: initClusterInspectConfig_def Let_def create_each_quiet world_simps
        split: option.splits api_err.splits)
qed

text \<open>The ways one inspection of a cluster ends.\<close>

lemma createInspect_cases:
  assumes run: "createInspect fuel E c cl k t w = Some (e, t', w')"
  obtains (refused) x mr nodes w1 jobs err where
      "MergeRule (NewExecuteRuleOptions t) (getRules t w) = Some (x, mr)" "GetNodes E c w = (nodes, w1)"
      "GenerateJob (ev_rand E (w_trace w1)) x nodes mr = Some jobs"
      "CreateInspectRule E c t jobs w1 = (Inl err, w')" "e = Some err" "t' = t"
  | (inspected) x mr nodes w1 jobs rules w2 jc res w3 ps d w4 t1 where
      "MergeRule (NewExecuteRuleOptions t) (getRules t w) = Some (x, mr)" "GetNodes E c w = (nodes, w1)"
      "GenerateJob (ev_rand E (w_trace w1)) x nodes mr = Some jobs"
      "CreateInspectRule E c t jobs w1 = (Inr rules, w2)" "GetClusterJobConfig k (cl_Name cl) = Some jc"
      "t1 = t\<lparr>it_Status := (it_Status t)\<lparr>itst_InspectRuleType :=
          map fst (filter (\<lambda>(k, v). 0 < v) (GetRuleTotal x))\<rparr>\<rparr>"
      "GenerateResult E c t1 cl (GetRuleTotal x) w2 = (res, w3)"
      "createJobsInspect fuel E c t1 jc rules res w3 = Some (ps, d, w4)"
      "t' = t1\<lparr>it_Status := (it_Status t1)\<lparr>itst_JobPhase := append_phases (itst_JobPhase (it_Status t1)) ps\<rparr>\<rparr>"
      "(e, w') = (case ev_write E (w_trace w4) (CCreate [] (OResult res)) of
          Some err \<Rightarrow> (Some err, log (CCreate [] (OResult res)) w4)
        | None \<Rightarrow> cleanClusterInspectConfig E c (log (CCreate [] (OResult res)) w4))"
proof -
  obtain x mr where mr: "MergeRule (NewExecuteRuleOptions t) (getRules t w) = Some (x, mr)"
    using run by (auto simp: createInspect_def bind_eq_Some_conv)
  obtain nodes w1 where w1: "GetNodes E c w = (nodes, w1)" by fastforce
  obtain jobs where jobs: "GenerateJob (ev_rand E (w_trace w1)) x nodes mr = Some jobs"
    using run by (auto simp: createInspect_def mr w1 bind_eq_Some_conv)
  obtain cr w2 where w2: "CreateInspectRule E c t jobs w1 = (cr, w2)" by fastforce
  show ?thesis
  proof (cases cr)
    case (Inl err)
    then show ?thesis using run w2 by (intro refused [OF mr w1 jobs]) (auto simp: createInspect_def mr w1 jobs)
  next
    case (Inr rules)
    obtain jc where jc: "GetClusterJobConfig k (cl_Name cl) = Some jc"
      using run by (auto simp: createInspect_def mr w1 jobs w2 Inr bind_eq_Some_conv)
    let ?t1 = "t\<lparr>it_Status := (it_Status t)\<lparr>itst_InspectRuleType := map fst (filter (\<lambda>(k, v). 0 < v) (GetRuleTotal x))\<rparr>\<rparr>"
    obtain res w3 where w3: "GenerateResult E c ?t1 cl (GetRuleTotal x) w2 = (res, w3)" by fastforce
    obtain ps d w4 where w4: "createJobsInspect fuel E c ?t1 jc rules res w3 = Some (ps, d, w4)"
      using run by (auto simp: createInspect_def mr w1 jobs w2 Inr jc w3 bind_eq_Some_conv)
    show ?thesis
      using run w2 by (intro inspected [OF mr w1 jobs _ jc refl w3 w4])
        (auto simp: createInspect_def mr w1 jobs Inr jc w3 w4 Let_def world_simps split: option.splits prod.splits)
  qed
qed

lemma createInspect_quiet [no_task_write]:
  assumes "createInspect fuel E c cl k t w = Some (e, t', w')"
  shows "followed w' = followed w"
  using assms
proof (cases rule: createInspect_cases)
  case (refused x mr nodes w1 jobs err)
  then show ?thesis using GetNodes_quiet [of E c w] CreateInspectRule_quiet [of E c t jobs w1] by simp
next
  case (inspected x mr nodes w1 jobs rules w2 jc res w3 ps d w4 t1)
  have "followed w' = followed w4"
    using inspected(10) clean_quiet [of E c "log (CCreate [] (OResult res)) w4"]
    by (auto simp: world_simps split: option.splits dest: arg_cong [where f = snd])
  then show ?thesis
    using inspected GetNodes_quiet [of E c w] CreateInspectRule_quiet [of E c t jobs w1]
      GenerateResult_quiet [of E c t1 cl "GetRuleTotal x" w2] createJobsInspect_quiet by simp
qed

lemma inspect_cluster_quiet [no_task_write]:
  assumes "inspect_cluster fuel E k c t w = Some (t', w')"
  shows "followed w' = followed w"
proof -
  have i: "followed w2 = followed w1" if "initClusterInspectConfig E n w1 = (x, w2)" for x n w1 w2
    using init_quiet [of E n w1] that by simp
  from assms show ?thesis
    by (auto simp: inspect_cluster_def world_simps Let_def split: if_splits prod.splits option.splits sum.splits
        dest!: i createInspect_quiet)
qed

lemma inspect_clusters_quiet [no_task_write]:
  "inspect_clusters fuel E k cs t w = Some (t', w') \<Longrightarrow> followed w' = followed w"
  by (induction fuel E k cs t w arbitrary: t' w' rule: inspect_clusters.induct)
     (auto simp: bind_eq_Some_conv dest: inspect_cluster_quiet)

lemma inspect_default_quiet [no_task_write]:
  assumes "inspect_default fuel E k t w = Some (e, t', w')"
  shows "followed w' = followed w"
proof -
  have i: "followed w2 = followed w1" if "initClusterInspectConfig E n w1 = (x, w2)" for x n w1 w2
    using init_quiet [of E n w1] that by simp
  from assms show ?thesis
    by (auto simp: inspect_default_def split: prod.splits option.splits dest!: i createInspect_quiet)
qed

lemma updatePlanStatus_quiet: "task_writes (snd (updatePlanStatus E p n t w)) = task_writes w"
  by (auto simp: updatePlanStatus_def world_simps Let_def split: option.splits)

end
