(* ===== verification/Task_Life.thy ===== *)
theory Task_Life
  imports Task_Controller
begin

text \<open>
  The properties of the task reconciler: the stages of a task, the end of the wait for a job, the
  node a job is created on, the phases the jobs leave, the access the jobs are given and lose, and
  what the plan is told.
\<close>

section \<open>The life of a task\<close>

text \<open>
  Where a task stands: not started, started, finished with its phase written, and with the time of
  its end written too.
\<close>

datatype stage = Fresh | Started | Finished | Ended

definition final_phase :: "InspectTask \<Rightarrow> bool" where
  "final_phase t \<longleftrightarrow> IsSucceeded (itst_Status (it_Status t)) \<or> IsFailed (itst_Status (it_Status t))"

definition stage_of :: "InspectTask \<Rightarrow> stage" where
  "stage_of t =
     (if final_phase t then if is_zero (itst_EndTimestamp (it_Status t)) then Finished else Ended
      else if is_zero (itst_StartTimestamp (it_Status t)) then Fresh else Started)"

inductive next_stage :: "stage \<Rightarrow> stage \<Rightarrow> bool" where
  start: "next_stage Fresh Started"
| finish: "next_stage Started Finished"
| end_it: "next_stage Finished Ended"

inductive_simps next_stage_simps: "next_stage Fresh s" "next_stage Started s" "next_stage Finished s" "next_stage Ended s"

text \<open>
  A coherent status: the times and the job phases are those of the stage, and a final phase is the
  one the job phases give.
\<close>

definition task_ok :: "InspectTask \<Rightarrow> bool" where
  "task_ok t = (case stage_of t of
     Fresh \<Rightarrow> is_zero (itst_EndTimestamp (it_Status t)) \<and> itst_JobPhase (it_Status t) = None
   | Started \<Rightarrow> is_zero (itst_EndTimestamp (it_Status t)) \<and> itst_JobPhase (it_Status t) = None
       \<and> IsRunning (itst_Status (it_Status t))
   | _ \<Rightarrow> \<not> is_zero (itst_StartTimestamp (it_Status t)) \<and> itst_Status (it_Status t) = GetStatus t)"

text \<open>What a run may change of its task while it runs.\<close>

definition same_run :: "InspectTask \<Rightarrow> InspectTask \<Rightarrow> bool" where
  "same_run t t' \<longleftrightarrow> it_Type t' = it_Type t \<and> it_Meta t' = it_Meta t \<and> it_Spec t' = it_Spec t
     \<and> itst_Status (it_Status t') = itst_Status (it_Status t)
     \<and> itst_StartTimestamp (it_Status t') = itst_StartTimestamp (it_Status t)
     \<and> itst_EndTimestamp (it_Status t') = itst_EndTimestamp (it_Status t)"

lemma same_run_refl [simp]: "same_run t t"
  by (simp add: same_run_def)

lemma same_run_trans: "same_run t u \<Longrightarrow> same_run u v \<Longrightarrow> same_run t v"
  by (simp add: same_run_def)

lemma createInspect_same_run:
  "createInspect fuel E c cl k t w = Some (e, t', w') \<Longrightarrow> same_run t t'"
  by (erule createInspect_cases) (simp_all add: same_run_def)

lemma inspect_cluster_same_run: "inspect_cluster fuel E k c t w = Some (t', w') \<Longrightarrow> same_run t t'"
  by (auto simp: inspect_cluster_def Let_def split: if_splits prod.splits option.splits sum.splits dest: createInspect_same_run)

lemma inspect_clusters_same_run: "inspect_clusters fuel E k cs t w = Some (t', w') \<Longrightarrow> same_run t t'"
  by (induction fuel E k cs t w arbitrary: t' w' rule: inspect_clusters.induct)
     (auto simp: bind_eq_Some_conv dest: inspect_cluster_same_run intro: same_run_trans)

lemma inspect_default_same_run: "inspect_default fuel E k t w = Some (e, t', w') \<Longrightarrow> same_run t t'"
  by (auto simp: inspect_default_def split: prod.splits option.splits dest: createInspect_same_run)

text \<open>The write at the end of a run.\<close>

lemma finish_task_writes:
  "finish_task E t w = (r, w') \<Longrightarrow> task_writes w' = task_writes w @ [set_phase (GetStatus t) t]"
  by (auto simp: finish_task_def Let_def world_simps updatePlanStatus_quiet split: option.splits)

lemma run_task_cases:
  assumes run: "run_task fuel E t w = Some (r, w')"
  obtains (stopped) "followed w' = followed w"
  | (completed) t' w1 where "same_run t t'" "followed w1 = followed w" "finish_task E t' w1 = (r, w')"
proof -
  let ?t = "t\<lparr>it_Status := (it_Status t)\<lparr>itst_ClusterInfo := getClusterInfo E w\<rparr>\<rparr>"
  have same: "same_run t t'" if "same_run ?t t'" for t'
    using that by (simp add: same_run_def)
  show ?thesis
  proof (cases "ev_config E (w_trace w)")
    case (Inl e)
    then show ?thesis using run stopped by (simp add: run_task_def Let_def)
  next
    case (Inr k)
    show ?thesis
    proof (cases "its_ClusterName (it_Spec t)")
      case None
      then obtain e t' w1 where d: "inspect_default fuel E k ?t w = Some (e, t', w1)"
        using run Inr by (auto simp: run_task_def Let_def bind_eq_Some_conv)
      have "followed w1 = followed w" "same_run t t'"
        using inspect_default_quiet [OF d] inspect_default_same_run [OF d] same by auto
      then show ?thesis using run Inr None d stopped completed
        by (cases e) (auto simp: run_task_def Let_def)
    next
      case (Some cs)
      then obtain t' w1 where d: "inspect_clusters fuel E k cs ?t w = Some (t', w1)"
        using run Inr by (auto simp: run_task_def Let_def bind_eq_Some_conv)
      have "followed w1 = followed w" "same_run t t'"
        using inspect_clusters_quiet [OF d] inspect_clusters_same_run [OF d] same by auto
      then show ?thesis using run Inr Some d completed by (auto simp: run_task_def Let_def)
    qed
  qed
qed

lemma stage_final: "final_phase t \<Longrightarrow> stage_of t = Finished \<or> stage_of t = Ended"
  by (simp add: stage_of_def)

lemma GetStatus_set_phase [simp]: "GetStatus (set_phase p t) = GetStatus t"
  by (simp add: GetStatus_def set_phase_def)

lemma finish_ok:
  assumes "same_run t t'" and "stage_of t = Started" and "task_ok t"
  shows "stage_of (set_phase (GetStatus t') t') = Finished \<and> task_ok (set_phase (GetStatus t') t')"
proof -
  have f: "final_phase (set_phase (GetStatus t') t')"
    using GetStatus_cases(2) [of t'] by (auto simp: final_phase_def set_phase_def)
  have z: "\<not> is_zero (itst_StartTimestamp (it_Status t))" "is_zero (itst_EndTimestamp (it_Status t))"
    using assms(2,3) by (auto simp: task_ok_def stage_of_def split: if_splits)
  have s: "stage_of (set_phase (GetStatus t') t') = Finished"
    using f z assms(1) by (simp add: stage_of_def same_run_def) (simp add: set_phase_def)
  then show ?thesis using z assms(1) by (simp add: task_ok_def same_run_def) (simp add: set_phase_def)
qed

text \<open>
  One reconcile of a live, guarded task whose status is coherent: it writes the task at most once,
  and what it writes is the next stage, coherent again, with the times set before kept.
\<close>

definition advances :: "InspectTask \<Rightarrow> InspectTask \<Rightarrow> bool" where
  "advances t t' \<longleftrightarrow> next_stage (stage_of t) (stage_of t') \<and> task_ok t' \<and> it_Meta t' = it_Meta t \<and> it_Spec t' = it_Spec t
     \<and> (stage_of t \<noteq> Fresh \<longrightarrow> itst_StartTimestamp (it_Status t') = itst_StartTimestamp (it_Status t))
     \<and> (stage_of t = Finished \<longrightarrow> itst_Status (it_Status t') = itst_Status (it_Status t)
          \<and> itst_JobPhase (it_Status t') = itst_JobPhase (it_Status t))"

definition running_clock :: "env \<Rightarrow> bool" where
  "running_clock E \<longleftrightarrow> (\<forall>tr. ev_now E tr \<noteq> time_zero)"

lemma end_task_advances:
  assumes "end_task E t w = Some (r, w')" and "final_phase t" and "task_ok t" and "running_clock E"
  shows "task_writes w' = task_writes w \<or> (\<exists>t'. advances t t' \<and> task_writes w' = task_writes w @ [t'])"
proof (cases "is_zero (itst_EndTimestamp (it_Status t))")
  case False
  then show ?thesis using assms(1) by (simp add: end_task_def)
next
  case True
  then obtain start where s: "itst_StartTimestamp (it_Status t) = Some start" "\<not> is_zero (Some start)"
    using assms(2,3) by (cases "itst_StartTimestamp (it_Status t)") (auto simp: task_ok_def stage_of_def is_zero_def)
  let ?t = "t\<lparr>it_Status := (it_Status t)\<lparr>itst_EndTimestamp := Some (ev_now E (w_trace w)),
      itst_Duration := ev_dur E (time_sub (ev_now E (w_trace w)) start)\<rparr>\<rparr>"
  have w: "task_writes w' = task_writes w @ [?t]"
    using assms(1) True s by (simp add: end_task_def world_simps Let_def) (auto simp: world_simps)
  have "final_phase ?t" using assms(2) by (simp add: final_phase_def)
  then have "stage_of ?t = Ended"
    using assms(4) by (simp add: stage_of_def is_zero_def running_clock_def)
  moreover have "stage_of t = Finished" using True assms(2) by (simp add: stage_of_def)
  ultimately have "advances t ?t"
    using assms(3) s by (simp add: advances_def next_stage_simps task_ok_def GetStatus_def)
  with w show ?thesis by blast
qed

lemma start_task_advances:
  assumes "start_task E t w = (r, w')" and "stage_of t = Fresh" and "task_ok t" and "running_clock E"
  shows "task_writes w' = task_writes w \<or> (\<exists>t'. advances t t' \<and> task_writes w' = task_writes w @ [t'])"
proof -
  obtain e w1 where u: "updatePlanStatus E PhaseRunning (mget0 (om_Labels (it_Meta t)) LabelPlanName) (om_Name (it_Meta t)) w = (e, w1)"
    by fastforce
  have q: "task_writes w1 = task_writes w"
    using updatePlanStatus_quiet [of E PhaseRunning "mget0 (om_Labels (it_Meta t)) LabelPlanName" "om_Name (it_Meta t)" w] u by simp
  let ?t = "t\<lparr>it_Status := (it_Status t)\<lparr>itst_StartTimestamp := Some (ev_now E (w_trace w1)), itst_Status := PhaseRunning\<rparr>\<rparr>"
  have "stage_of ?t = Started"
    using assms(4) by (simp add: stage_of_def final_phase_def is_zero_def running_clock_def)
  then have "advances t ?t"
    using assms(2,3) by (simp add: advances_def next_stage_simps task_ok_def)
  then show ?thesis using assms(1) u q
    by (cases e) (auto simp: start_task_def world_simps Let_def)
qed

lemma run_task_advances:
  assumes "run_task fuel E t w = Some (r, w')" and "stage_of t = Started" and "task_ok t"
  shows "task_writes w' = task_writes w \<or> (\<exists>t'. advances t t' \<and> task_writes w' = task_writes w @ [t'])"
  using assms(1)
proof (cases rule: run_task_cases)
  case (completed t' w1)
  have "advances t (set_phase (GetStatus t') t')"
    using finish_ok [OF completed(1) assms(2,3)] completed(1) assms(2)
    by (simp add: advances_def next_stage_simps same_run_def set_phase_def)
  then show ?thesis using finish_task_writes [OF completed(3)] completed(2) by (auto simp: followed_def)
qed (simp add: followed_def)

lemma task_Reconcile_advances:
  assumes run: "task_Reconcile fuel E req w = Some (r, w')" and read: "ev_task E (w_trace w) req = Inr t"
    and fin: "has_finalizer (it_Meta t)" "not_deleted (it_Meta t)" and ok: "task_ok t" and clock: "running_clock E"
  shows "task_writes w' = task_writes w \<or> (\<exists>t'. advances t t' \<and> task_writes w' = task_writes w @ [t'])"
proof -
  let ?w = "log (CRead [] KTask req) w"
  have q: "task_writes ?w = task_writes w" by (simp add: world_simps)
  show ?thesis
  proof (cases "final_phase t")
    case True
    then have "end_task E t ?w = Some (r, w')"
      using run read fin by (simp add: task_Reconcile_def world_simps final_phase_def)
    from end_task_advances [OF this True ok clock] q show ?thesis by simp
  next
    case False
    show ?thesis
    proof (cases "is_zero (itst_StartTimestamp (it_Status t))")
      case True
      then have s: "start_task E t ?w = (r, w')"
        using run read fin False by (simp add: task_Reconcile_def world_simps final_phase_def)
      have "stage_of t = Fresh" using True False by (simp add: stage_of_def)
      then show ?thesis using start_task_advances [OF s _ ok clock] q by simp
    next
      case z: False
      then have s: "run_task fuel E t ?w = Some (r, w')"
        using run read fin False by (simp add: task_Reconcile_def world_simps final_phase_def)
      have "stage_of t = Started" using z False by (simp add: stage_of_def)
      then show ?thesis using run_task_advances [OF s _ ok] q by simp
    qed
  qed
qed

text \<open>The tasks that reconciles make of a task, each given the one written before.\<close>

inductive made_of :: "env \<Rightarrow> InspectTask \<Rightarrow> InspectTask \<Rightarrow> bool" for E t0 where
  start: "made_of E t0 t0"
| reconcile: "made_of E t0 t \<Longrightarrow> ev_task E (w_trace w) req = Inr t \<Longrightarrow> not_deleted (it_Meta t) \<Longrightarrow>
    task_Reconcile fuel E req w = Some (r, w') \<Longrightarrow> task_writes w' = task_writes w @ [t'] \<Longrightarrow> made_of E t0 t'"

lemma guard_task_writes:
  assumes "task_Reconcile fuel E req w = Some (r, w')" and "ev_task E (w_trace w) req = Inr t"
    and "not_deleted (it_Meta t)" and "\<not> has_finalizer (it_Meta t)"
  shows "task_writes w' = task_writes w @ [task_fin.guard t]"
  using assms by (auto simp: task_Reconcile_def world_simps Let_def finalizer_updates)

lemma guard_task_status [simp]:
  "it_Status (task_fin.guard t) = it_Status t" "it_Spec (task_fin.guard t) = it_Spec t"
  "stage_of (task_fin.guard t) = stage_of t" "task_ok (task_fin.guard t) = task_ok t"
  by (simp_all add: task_fin.guard_def task_finalizers_def stage_of_def final_phase_def task_ok_def GetStatus_def)

text \<open>
  C2. The life of a task: whatever the API server answers, the tasks that its reconciles write, each
  read back by the next, keep the specification and have coherent statuses.  So a final phase is the
  one the phases of the jobs give, a finished task has a start time, and an unfinished one no end time.
\<close>

theorem task_life:
  assumes "made_of E t0 t" and "it_Status t0 = zero_TaskStatus" and "running_clock E"
  shows "task_ok t \<and> it_Spec t = it_Spec t0"
  using assms(1)
proof induction
  case start
  show ?case using assms(2)
    by (simp add: task_ok_def stage_of_def final_phase_def zero_TaskStatus_def is_zero_def)
next
  case (reconcile t w req fuel r w' t')
  show ?case
  proof (cases "has_finalizer (it_Meta t)")
    case True
    then show ?thesis
      using task_Reconcile_advances [OF reconcile(4,2) True reconcile(3) _ assms(3)] reconcile(5,6)
      by (auto simp: advances_def)
  next
    case False
    then show ?thesis using guard_task_writes [OF reconcile(4,2,3) False] reconcile(5,6) by simp
  qed
qed

text \<open>
  C5. A reconcile of a task moves it at most one stage on: not started, started, finished, ended.
  It keeps the start time and, once the task is finished, its phase and job phases; an ended task it
  does not write at all.
\<close>

theorem task_Reconcile_stages:
  assumes "task_Reconcile fuel E req w = Some (r, w')" and "ev_task E (w_trace w) req = Inr t"
    and "has_finalizer (it_Meta t)" and "not_deleted (it_Meta t)" and "task_ok t" and "running_clock E"
  shows "(task_writes w' = task_writes w \<or> (\<exists>t'. advances t t' \<and> task_writes w' = task_writes w @ [t']))
     \<and> (stage_of t = Ended \<longrightarrow> task_writes w' = task_writes w)"
  using task_Reconcile_advances [OF assms] by (auto simp: advances_def next_stage_simps)

section \<open>The jobs of a task\<close>

text \<open>The time slept so far, and a clock that counts it.\<close>

fun slept :: "trace \<Rightarrow> int" where
  "slept [] = 0"
| "slept (CSleep d # tr) = d + slept tr"
| "slept (_ # tr) = slept tr"

lemma slept_append: "slept (tr @ tr') = slept tr + slept tr'"
  by (induction tr rule: slept.induct) auto

definition clock_counts_sleep :: "env \<Rightarrow> int \<Rightarrow> bool" where
  "clock_counts_sleep E t0 \<longleftrightarrow> (\<forall>tr. t0 + slept tr \<le> nanos (ev_now E tr))"

definition timeout_of :: "string \<Rightarrow> int" where
  "timeout_of t = (case ParseDuration t of None \<Rightarrow> DefaultTimeout | Some d \<Rightarrow> d)"

lemma isTimeout_iff: "isTimeout s t at \<longleftrightarrow> nanos s + timeout_of t < nanos at"
  by (cases s; cases at) (simp add: isTimeout_def timeout_of_def time_add_def less_time_def split: option.splits)

definition created_by :: "env \<Rightarrow> string \<Rightarrow> string \<Rightarrow> int \<Rightarrow> bool" where
  "created_by E c n tc \<longleftrightarrow> (\<forall>tr. case ev_job E tr c n of Inl e \<Rightarrow> True | Inr j \<Rightarrow> nanos (kj_CreationTimestamp j) \<le> tc)"

lemma wait_returns:
  assumes "clock_counts_sleep E t0" and "created_by E c n tc"
    and "tc + timeout_of to < t0 + slept (w_trace w) + 10 * second * (int fuel - 1)" and "0 < fuel"
  shows "\<exists>p w'. waitForJobCompletionGetResult fuel E c n to w = Some (p, w')"
  using assms(3,4)
proof (induction fuel arbitrary: w)
  case (Suc k)
  show ?case
  proof (cases "ev_job E (w_trace w) c n")
    case (Inr j)
    let ?w = "log (CRead c KJob n) w"
    have late: "t0 + slept (w_trace w) \<le> nanos (ev_now E (w_trace ?w))"
      using assms(1) by (auto simp: clock_counts_sleep_def world_simps slept_append dest: spec [of _ "w_trace w @ [CRead c KJob n]"])
    have j: "nanos (kj_CreationTimestamp j) \<le> tc"
      using assms(2) Inr by (auto simp: created_by_def dest!: spec [of _ "w_trace w"])
    show ?thesis
    proof (cases k)
      case 0
      then have "isTimeout (kj_CreationTimestamp j) to (ev_now E (w_trace ?w))"
        using Suc.prems late j by (simp add: isTimeout_iff)
      then show ?thesis using Inr by (simp add: task_reads world_simps)
    next
      case (Suc m)
      have "tc + timeout_of to < t0 + slept (w_trace (log (CSleep (10 * second)) (log CNow ?w))) + 10 * second * (int k - 1)"
        using Suc.prems Suc by (simp add: world_simps slept_append algebra_simps)
      from Suc.IH [OF this] Suc show ?thesis
        using Inr by (auto simp: task_reads world_simps Let_def)
    qed
  qed (simp add: task_reads world_simps)
qed simp

lemma wait_phase:
  "waitForJobCompletionGetResult fuel E c n to w = Some (p, w') \<Longrightarrow>
     jp_JobName p = n \<and> (jp_Phase p = PhaseFailed \<or> jp_Phase p = PhaseSucceeded)
     \<and> creations w' = creations w"
  by (induction fuel E c n to w rule: waitForJobCompletionGetResult.induct)
     (auto simp: world_simps task_reads Let_def phase_of_def split: sum.splits if_splits)

text \<open>
  C16. Waiting for a job ends: if the clock counts the time slept and the API server does not date the
  job into the future, then once the polls have slept through the timeout the wait returns, and the
  phase it gives the job is a final one.
\<close>

theorem wait_terminates:
  assumes "clock_counts_sleep E t0" and "created_by E c n tc"
    and "tc + timeout_of to < t0 + slept (w_trace w) + 10 * second * (int fuel - 1)" and "0 < fuel"
  shows "\<exists>p w'. waitForJobCompletionGetResult fuel E c n to w = Some (p, w')
     \<and> jp_JobName p = n \<and> (jp_Phase p = PhaseFailed \<or> jp_Phase p = PhaseSucceeded)"
  using wait_returns [OF assms] wait_phase by fastforce

fun job_of :: "obj \<Rightarrow> JobTemplate option" where
  "job_of (OJob j) = Some j"
| "job_of _ = None"

lemma getIncompleteJob_creates: "creations (snd (getIncompleteJob E c t k w)) = creations w"
  by (simp add: getIncompleteJob_def task_reads world_simps split: sum.splits)

lemma getInspectResultData_creates: "creations (snd (snd (getInspectResultData E c d n w))) = creations w"
  by (auto simp: getInspectResultData_def saveResultFile_def task_reads world_simps Let_def
      split: sum.splits option.splits)

lemma createInspectJob_creates:
  assumes "createInspectJob E c v t cfg w = Some (x, w')" and "GetDeploySchedule (jr_RunRule v) = Some (Some n)"
  obtains job where "GeneratorJobTemplate \<lparr>jo_JobConfig = cfg, jo_JobName = jr_JobName v, jo_Task = t,
      jo_NodeName = n, jo_RuleType = jr_RuleType v\<rparr> = Some job" "creations w' = creations w @ [OJob job]"
  using assms by (auto simp: createInspectJob_def Let_def world_simps bind_eq_Some_conv split: option.splits)



section \<open>The access of the jobs\<close>

lemma create_each_ok:
  "create_each E ds w = (None, w') \<Longrightarrow> list_all (\<lambda>d. created d \<noteq> None) ds \<Longrightarrow>
     creations w' = creations w @ map (\<lambda>d. the (created d)) ds"
  by (induction E ds w rule: create_each.induct) (auto simp: world_simps Let_def split: option.splits)

lemma delete_each_ok:
  "delete_each E ds w = (None, w') \<Longrightarrow> deletions w' = deletions w @ List.map_filter deleted ds"
  by (induction E ds w rule: delete_each.induct)
     (auto simp: world_simps Let_def List.map_filter_simps split: option.splits)

fun access_name :: "obj \<Rightarrow> (kind \<times> string) option" where
  "access_name (OClusterRole n) = Some (KClusterRole, n)"
| "access_name (OClusterRoleBinding n) = Some (KClusterRoleBinding, n)"
| "access_name (OServiceAccount n) = Some (KServiceAccount, n)"
| "access_name _ = None"

text \<open>
  C27. What the preparation of a cluster creates for the jobs (their role, its binding and their
  account, after the namespace where it is missing) is what the cleaning deletes, in the opposite
  order.
\<close>

theorem init_clean:
  assumes "initClusterInspectConfig E c w = (None, w1)" and "cleanClusterInspectConfig E' c w2 = (None, w3)"
  shows "\<exists>objs. creations w1 = creations w @ objs \<and> set objs \<subseteq> {ONamespace []} \<union> {x. access_name x \<noteq> None}
    \<and> deletions w3 = deletions w2 @ rev (List.map_filter access_name objs) \<and> length (List.map_filter access_name objs) = 3"
proof -
  have del: "deletions w3 = deletions w2 @ [(KServiceAccount, GetServiceAccountTemplate),
      (KClusterRoleBinding, crb_Name (GetClusterRoleBindingTemplate [])), (KClusterRole, cro_Name GetClusterRoleTemplate)]"
    using delete_each_ok [OF assms(2) [unfolded cleanClusterInspectConfig_def]] by (simp add: List.map_filter_simps)
  have acc: "list_all (\<lambda>d. created d \<noteq> None) (inspect_access c)"
    "map (\<lambda>d. the (created d)) (inspect_access c) = [OClusterRole (cro_Name GetClusterRoleTemplate),
      OClusterRoleBinding (crb_Name (GetClusterRoleBindingTemplate [])), OServiceAccount GetServiceAccountTemplate]"
    by (simp_all add: inspect_access_def)
  obtain ns where ns: "set ns \<subseteq> {ONamespace []}"
      "creations w1 = creations w @ ns @ map (\<lambda>d. the (created d)) (inspect_access c)"
  proof (cases "ev_namespace E (w_trace w) c")
    case None
    then show ?thesis using assms(1) create_each_ok acc(1) that [of "[]"]
      by (auto simp: initClusterInspectConfig_def world_simps Let_def)
  next
    case (Some e)
    then show ?thesis using assms(1) create_each_ok [of E "CCreate c (ONamespace []) # inspect_access c"] acc(1) that [of "[ONamespace []]"]
      by (cases e) (auto simp: initClusterInspectConfig_def world_simps Let_def simp del: create_each.simps)
  qed
  have "List.map_filter access_name ns = []"
    using ns(1) by (induction ns) (auto simp: List.map_filter_simps)
  then show ?thesis using ns del acc
    by (intro exI [of _ "ns @ map (\<lambda>d. the (created d)) (inspect_access c)"])
      (auto simp: List.map_filter_def)
qed

section \<open>What the plan is told\<close>

lemma set_first_names [simp]: "map tn_Name (set_first ts n p) = map tn_Name ts"
  by (induction ts) auto

lemma set_first_phase:
  "distinct (map tn_Name ts) \<Longrightarrow>
     set (set_first ts n p) = (\<lambda>t. if tn_Name t = n then t\<lparr>tn_TaskStatus := p\<rparr> else t) ` set ts"
  by (induction ts) (auto simp: image_iff intro: rev_bexI)

text \<open>
  When the last write of a task is accepted and its plan is in the cache, the plan gets the phase
  of the task, both as its last phase and in its list of tasks, at the name of the task only, and is
  written after the task.
\<close>

theorem finish_task_tells_plan:
  assumes "ev_write E (w_trace w) (CUpdateStatus (OTask (set_phase (GetStatus t) t))) = None"
    and "mget (w_plans w) (mget0 (om_Labels (it_Meta t)) LabelPlanName) = Some p"
    and "distinct (map tn_Name (ipst_TaskNames (ip_Status p)))"
  shows "\<exists>p'. updates (snd (finish_task E t w)) = updates w @ [OTask (set_phase (GetStatus t) t), OPlan p']
    \<and> mget (w_plans (snd (finish_task E t w))) (mget0 (om_Labels (it_Meta t)) LabelPlanName) = Some p'
    \<and> ip_Meta p' = ip_Meta p \<and> ip_Spec p' = ip_Spec p \<and> ipst_LastTaskStatus (ip_Status p') = GetStatus t
    \<and> set (ipst_TaskNames (ip_Status p'))
        = (\<lambda>x. if tn_Name x = om_Name (it_Meta t) then x\<lparr>tn_TaskStatus := GetStatus t\<rparr> else x)
            ` set (ipst_TaskNames (ip_Status p))"
  using assms
  by (simp add: finish_task_def updatePlanStatus_def world_simps Let_def go_map plan_phase_def set_first_phase del: LabelPlanName_def)

section \<open>Concrete runs\<close>

definition live_task :: "InspectTaskStatus \<Rightarrow> InspectTask" where
  "live_task st = \<lparr>it_Type = \<lparr>tm_Kind = ''InspectTask'', tm_APIVersion = ''v1''\<rparr>,
     it_Meta = (empty_meta ''task'')\<lparr>om_Labels := [(LabelPlanName, ''plan'')], om_Finalizers := [Finalizers]\<rparr>,
     it_Spec = \<lparr>its_ClusterName = None, its_RuleNames = [], its_Timeout = [], its_InspectPolicy = CyclePolicy\<rparr>,
     it_Status = st\<rparr>"

definition live_plan :: InspectPlan where
  "live_plan = \<lparr>ip_Type = \<lparr>tm_Kind = ''InspectPlan'', tm_APIVersion = ''v1''\<rparr>, ip_Meta = empty_meta ''plan'',
     ip_Spec = \<lparr>ips_Schedule = None, ips_Suspend = False, ips_Timeout = [], ips_RuleNames = [],
       ips_MaxTasks = 1, ips_ClusterName = None, ips_KubeConfig = [], ips_Once = None\<rparr>,
     ip_Status = zero_PlanStatus\<lparr>ipst_TaskNames := [\<lparr>tn_Name = ''task'', tn_TaskStatus = PhasePending\<rparr>]\<rparr>\<rparr>"

definition live_env :: "InspectTaskStatus \<Rightarrow> env" where
  "live_env st = quiet_env\<lparr>ev_task := \<lambda>tr n. Inr (live_task st), ev_now := \<lambda>tr. Time 5\<rparr>"

definition live_world :: world where
  "live_world = empty_world\<lparr>w_plans := [(''plan'', live_plan)]\<rparr>"

lemma live_facts:
  "has_finalizer (it_Meta (live_task st))" "not_deleted (it_Meta (live_task st))" "running_clock (live_env st)"
  "ev_task (live_env st) tr n = Inr (live_task st)"
  "task_writes live_world = []" "creations live_world = []" "updates live_world = []"
  unfolding has_finalizer_def ArrayFind_not_None
  by (simp_all add: live_task_def not_deleted_def is_zero_def empty_meta_def
      running_clock_def live_env_def time_zero_def live_world_def task_writes_def updates_def creations_def
      empty_world_def List.map_filter_simps)

definition started_status :: InspectTaskStatus where
  "started_status = zero_TaskStatus\<lparr>itst_StartTimestamp := Some (Time 5), itst_Status := PhaseRunning\<rparr>"

lemma live_start:
  "\<exists>r w'. task_Reconcile 0 (live_env zero_TaskStatus) ''task'' live_world = Some (r, w')
     \<and> task_writes w' = [live_task started_status]"
proof -
  let ?E = "live_env zero_TaskStatus" and ?t = "live_task zero_TaskStatus"
  let ?w = "log (CRead [] KTask ''task'') live_world"
  have run: "task_Reconcile 0 ?E ''task'' live_world = Some (start_task ?E ?t ?w)"
    by (simp add: task_Reconcile_def world_simps live_facts)
       (simp add: live_task_def zero_TaskStatus_def is_zero_def)
  have plan: "mget0 (om_Labels (it_Meta ?t)) LabelPlanName = ''plan''" "mget (w_plans live_world) ''plan'' = Some live_plan"
    by (simp_all add: live_task_def mget0_def live_world_def world_simps)
  have "task_writes (snd (start_task ?E ?t ?w)) = task_writes ?w @ [live_task started_status]"
    by (simp add: start_task_def updatePlanStatus_def plan world_simps Let_def del: LabelPlanName_def)
       (simp add: live_env_def quiet_env_def world_simps live_task_def started_status_def)
  then show ?thesis using run live_facts(5)
    by (cases "start_task ?E ?t ?w") (simp add: world_simps)
qed

theorem task_life_witness: "task_ok (live_task started_status)"
proof -
  obtain r w' where "task_Reconcile 0 (live_env zero_TaskStatus) ''task'' live_world = Some (r, w')"
    and "task_writes w' = task_writes live_world @ [live_task started_status]"
    using live_start by (auto simp: live_facts(5))
  then have "made_of (live_env zero_TaskStatus) (live_task zero_TaskStatus) (live_task started_status)"
    by (intro made_of.reconcile [OF made_of.start live_facts(4,2)])
  moreover have "it_Status (live_task zero_TaskStatus) = zero_TaskStatus" by (simp add: live_task_def)
  ultimately show ?thesis using task_life live_facts(3) by blast
qed

theorem task_Reconcile_stages_witness:
  "\<exists>t' r w'. advances (live_task zero_TaskStatus) t'
     \<and> task_Reconcile 0 (live_env zero_TaskStatus) ''task'' live_world = Some (r, w') \<and> task_writes w' = [t']"
proof -
  obtain r w' where w: "task_Reconcile 0 (live_env zero_TaskStatus) ''task'' live_world = Some (r, w')"
    "task_writes w' = [live_task started_status]"
    using live_start by auto
  have "task_ok (live_task zero_TaskStatus)"
    by (simp add: live_task_def task_ok_def stage_of_def final_phase_def zero_TaskStatus_def is_zero_def)
  from task_Reconcile_stages [OF w(1) live_facts(4,1,2) this live_facts(3)] w show ?thesis
    by (auto simp: live_facts(5))
qed

theorem finish_task_tells_plan_witness:
  "\<exists>p'. mget (w_plans (snd (finish_task (live_env started_status) (live_task started_status) live_world))) ''plan'' = Some p'
     \<and> ipst_TaskNames (ip_Status p') = [\<lparr>tn_Name = ''task'', tn_TaskStatus = PhaseFailed\<rparr>]"
proof -
  let ?t = "live_task started_status" and ?E = "live_env started_status"
  have "ev_write ?E (w_trace live_world) (CUpdateStatus (OTask (set_phase (GetStatus ?t) ?t))) = None"
    by (simp add: live_env_def quiet_env_def)
  moreover have "mget0 (om_Labels (it_Meta ?t)) LabelPlanName = ''plan''" by (simp add: live_task_def mget0_def)
  moreover have "mget (w_plans live_world) ''plan'' = Some live_plan" by (simp add: live_world_def)
  moreover have "distinct (map tn_Name (ipst_TaskNames (ip_Status live_plan)))" by (simp add: live_plan_def)
  ultimately obtain p' where p: "mget (w_plans (snd (finish_task ?E ?t live_world))) ''plan'' = Some p'"
      "ipst_LastTaskStatus (ip_Status p') = GetStatus ?t"
    using finish_task_tells_plan [of ?E live_world ?t live_plan] by metis
  have "GetStatus ?t = PhaseFailed" by (simp add: GetStatus_def live_task_def started_status_def zero_TaskStatus_def)
  moreover have "mget (w_plans (snd (finish_task ?E ?t live_world))) ''plan''
      = Some (plan_phase (GetStatus ?t) ''task'' (Time 5) live_plan)"
    by (simp add: finish_task_def updatePlanStatus_def world_simps Let_def live_env_def quiet_env_def live_world_def
        live_task_def mget0_def empty_meta_def)
  ultimately show ?thesis using p by (auto simp: plan_phase_def live_plan_def)
qed

definition job_env :: env where
  "job_env = quiet_env\<lparr>ev_job := \<lambda>tr c n. Inr \<lparr>kj_CreationTimestamp = Time 0, kj_Conditions = [],
      kj_CompletionTime = None, kj_Active = 1\<rparr>, ev_now := \<lambda>tr. Time (slept tr)\<rparr>"

theorem wait_terminates_witness:
  "\<exists>p w'. waitForJobCompletionGetResult 100 job_env [] ''job'' ''10m'' empty_world = Some (p, w')
     \<and> jp_JobName p = ''job'' \<and> (jp_Phase p = PhaseFailed \<or> jp_Phase p = PhaseSucceeded)"
proof -
  have "clock_counts_sleep job_env 0" by (simp add: clock_counts_sleep_def job_env_def)
  moreover have "created_by job_env [] ''job'' 0" by (simp add: created_by_def job_env_def)
  moreover have "0 + timeout_of ''10m'' < 0 + slept (w_trace empty_world) + 10 * second * (int 100 - 1)"
    by code_simp
  ultimately show ?thesis using wait_terminates [of job_env 0 "[]" "''job''" 0 "''10m''" empty_world 100] by simp
qed

definition ready_node :: K8sNode where
  "ready_node = (mk_node ''n1'' [])\<lparr>kn_Conditions := [(''Ready'', ''True'')]\<rparr>"

definition sys_job :: JobRule where
  "sys_job = \<lparr>jr_JobName = ''job'', jr_RuleType = Systemd,
     jr_RunRule = Some (JArr (map JObj [[(''name'', JStr ''a''), (''nodeName'', JStr ''n1'')]]))\<rparr>"

definition plain_config :: JobConfig where
  "plain_config = \<lparr>ic_Image = ''img'', ic_ImagePullPolicy = [], jc_BackLimit = None, jc_Resources = [],
     jc_AutoDelTime = None, jc_MultiCluster = None\<rparr>"

definition plain_result :: InspectResult where
  "plain_result = \<lparr>res_Meta = empty_meta ''res'', res_Spec = zero_ResultSpec, res_Status = zero_ResultStatus\<rparr>"

lemma sys_job_sched: "GetDeploySchedule (jr_RunRule sys_job) = Some (Some ''n1'')"
  by code_simp

lemma sys_job_runs:
  "\<exists>ps d' w'. run_job 1 (live_env started_status) [] (live_task started_status) (Some plain_config) [ready_node] sys_job
     plain_result live_world = Some (ps, d', w') \<and> creations w' \<noteq> []"
proof -
  let ?E = "live_env started_status" and ?t = "live_task started_status"
  have late: "\<not> isTimeout (om_CreationTimestamp (it_Meta ?t)) (its_Timeout (it_Spec ?t)) (ev_now ?E tr)" for tr
    by (simp add: isTimeout_iff live_task_def empty_meta_def live_env_def time_zero_def) code_simp
  have ready: "checkJobIsDeploy [ready_node] [] sys_job = Some True"
    by code_simp
  have kind: "GetResult (jr_RuleType sys_job) \<noteq> None" "jr_RuleType sys_job = Systemd"
    by (simp_all add: sys_job_def GetResult_def)
  have env: "ev_pods ?E = (\<lambda>tr c s. Inr [])" "ev_write ?E = (\<lambda>tr c. None)" "ev_job ?E = (\<lambda>tr c n. Inl NotFound)"
    "ev_configmap ?E = (\<lambda>tr c n. Inl NotFound)"
    by (simp_all add: live_env_def quiet_env_def)
  show ?thesis
    using late ready kind(1)
    by (auto simp: run_job_def Let_def getIncompleteJob_def task_reads env world_simps createInspectJob_def sys_job_sched
        GeneratorJobTemplate_def getInspectResultData_def live_facts(6))
qed



theorem init_clean_witness:
  "\<exists>objs. creations (snd (initClusterInspectConfig quiet_env [] empty_world)) = creations empty_world @ objs
     \<and> length (List.map_filter access_name objs) = 3"
proof -
  obtain w1 where "initClusterInspectConfig quiet_env [] empty_world = (None, w1)"
    by (simp add: initClusterInspectConfig_def inspect_access_def world_simps Let_def quiet_env_def accepted_def)
  moreover obtain w3 where "cleanClusterInspectConfig quiet_env [] empty_world = (None, w3)"
    by (simp add: cleanClusterInspectConfig_def world_simps Let_def quiet_env_def accepted_def)
  ultimately show ?thesis using init_clean [of quiet_env "[]" empty_world w1 quiet_env empty_world w3] by auto
qed

section \<open>A cluster without a kubeconfig\<close>

lemma inspect_clusters_panic:
  assumes "cl \<in> set cs" and "\<forall>tr. ev_cluster E tr (cl_Name cl) = Inr (Some (cluster_object others None))"
  shows "inspect_clusters fuel E k cs t w = None"
  using assms(1)
proof (induction cs arbitrary: t w)
  case (Cons c cs)
  have "inspect_cluster fuel E k cl t w = None" for t w
    using assms(2) by (simp add: inspect_cluster_def cluster_client_panics)
  then show ?case using Cons by (cases "inspect_cluster fuel E k c t w") auto
qed simp


definition named_task :: InspectTask where
  "named_task = (live_task started_status)\<lparr>it_Spec := \<lparr>its_ClusterName = Some [\<lparr>cl_Name = ''new'', cl_Provider = []\<rparr>],
     its_RuleNames = [], its_Timeout = [], its_InspectPolicy = CyclePolicy\<rparr>\<rparr>"

definition joining_env :: "api_err + doc \<Rightarrow> env" where
  "joining_env answer = quiet_env\<lparr>ev_task := \<lambda>tr n. Inr named_task, ev_cluster := \<lambda>tr c. answer,
     ev_config := \<lambda>tr. Inr \<lparr>kc_Job = None, kc_Message = None\<rparr>, ev_now := \<lambda>tr. Time 5\<rparr>"


end
