(* ===== verification/Task_Progress.thy ===== *)
theory Task_Progress
  imports Task_Life
begin

text \<open>
  Liveness of the task reconciler: while the API server accepts the writes, a task that names its
  clusters is brought to its end, whatever becomes of the clusters.
\<close>

definition accepting :: "env \<Rightarrow> bool" where
  "accepting E \<longleftrightarrow> (\<forall>tr c. ev_write E tr c = None) \<and> (\<forall>tr. \<exists>k. ev_config E tr = Inr k)"

text \<open>The environment that gives a reconcile the task written last.\<close>

definition serving :: "env \<Rightarrow> InspectTask \<Rightarrow> env" where
  "serving E t = E\<lparr>ev_task := \<lambda>tr n. Inr t\<rparr>"

definition written :: "InspectTask \<Rightarrow> world \<Rightarrow> world \<Rightarrow> InspectTask" where
  "written t w w' = (if task_writes w' = task_writes w then t else last (task_writes w'))"

fun drive :: "nat \<Rightarrow> nat \<Rightarrow> env \<Rightarrow> string \<Rightarrow> InspectTask \<Rightarrow> world \<Rightarrow> (InspectTask \<times> world) option" where
  "drive 0 fuel E req t w = Some (t, w)"
| "drive (Suc n) fuel E req t w = do {
     (r, w') \<leftarrow> task_Reconcile fuel (serving E t) req w;
     drive n fuel E req (written t w w') w' }"

fun steps_left :: "stage \<Rightarrow> nat" where
  "steps_left Fresh = 3" | "steps_left Started = 2" | "steps_left Finished = 1" | "steps_left Ended = 0"

lemma next_stage_left: "next_stage s s' \<Longrightarrow> steps_left s = Suc (steps_left s')"
  by (cases rule: next_stage.cases) auto

lemma steps_left_0: "steps_left s = 0 \<longleftrightarrow> s = Ended"
  by (cases s) auto

lemma serving_simps [simp]:
  "ev_task (serving E t) tr n = Inr t" "running_clock (serving E t) = running_clock E" "accepting (serving E t) = accepting E"
  by (simp_all add: serving_def running_clock_def accepting_def)

text \<open>What the drive needs of a task.\<close>

definition driven :: "InspectTask \<Rightarrow> bool" where
  "driven t \<longleftrightarrow> has_finalizer (it_Meta t) \<and> not_deleted (it_Meta t) \<and> task_ok t \<and> its_ClusterName (it_Spec t) \<noteq> None"

lemma start_task_writes:
  assumes "accepting E" and "mget (w_plans w) (mget0 (om_Labels (it_Meta t)) LabelPlanName) \<noteq> None"
  shows "task_writes (snd (start_task E t w)) \<noteq> task_writes w"
  using assms
  by (auto simp: start_task_def updatePlanStatus_def accepting_def world_simps Let_def simp del: LabelPlanName_def)

lemma run_task_writes:
  assumes "run_task fuel E t w = Some (r, w')" and "accepting E" and "its_ClusterName (it_Spec t) \<noteq> None"
  shows "task_writes w' \<noteq> task_writes w"
proof -
  obtain k where k: "ev_config E (w_trace w) = Inr k" using assms(2) unfolding accepting_def by blast
  obtain cs where cs: "its_ClusterName (it_Spec t) = Some cs" using assms(3) by blast
  let ?t = "t\<lparr>it_Status := (it_Status t)\<lparr>itst_ClusterInfo := getClusterInfo E w\<rparr>\<rparr>"
  obtain t' w1 where d: "inspect_clusters fuel E k cs ?t w = Some (t', w1)" "finish_task E t' w1 = (r, w')"
    using assms(1) k cs by (auto simp: run_task_def Let_def bind_eq_Some_conv)
  then show ?thesis using inspect_clusters_quiet [OF d(1)] finish_task_writes [OF d(2)] by (simp add: followed_def)
qed

lemma end_task_writes:
  assumes "end_task E t w = Some (r, w')" and "is_zero (itst_EndTimestamp (it_Status t))"
  shows "task_writes w' \<noteq> task_writes w"
  using assms by (auto simp: end_task_def world_simps Let_def split: option.splits)

lemma driven_reconcile:
  assumes "driven t"
  shows "task_Reconcile fuel (serving E t) req w =
      (if final_phase t then end_task (serving E t) t (log (CRead [] KTask req) w)
       else if is_zero (itst_StartTimestamp (it_Status t)) then Some (start_task (serving E t) t (log (CRead [] KTask req) w))
       else run_task fuel (serving E t) t (log (CRead [] KTask req) w))"
  using assms by (simp add: driven_def task_Reconcile_def world_simps final_phase_def)

lemma driven_reconcile_returns:
  assumes "driven t" and "\<forall>w. run_task fuel (serving E t) t w \<noteq> None"
  shows "task_Reconcile fuel (serving E t) req w \<noteq> None"
proof (cases "final_phase t")
  case True
  then have "itst_StartTimestamp (it_Status t) \<noteq> None"
    using assms(1) by (auto simp: driven_def task_ok_def stage_of_def is_zero_def split: if_splits)
  then show ?thesis unfolding driven_reconcile [OF assms(1)] using True by (auto simp: end_task_def world_simps Let_def)
next
  case False
  then show ?thesis unfolding driven_reconcile [OF assms(1)] using assms(2) by simp
qed

lemma driven_reconcile_writes:
  assumes "driven t" and "accepting E" and run: "task_Reconcile fuel (serving E t) req w = Some (r, w')"
    and plan: "stage_of t = Fresh \<Longrightarrow> mget (w_plans w) (mget0 (om_Labels (it_Meta t)) LabelPlanName) \<noteq> None"
    and "stage_of t \<noteq> Ended"
  shows "task_writes w' \<noteq> task_writes w"
proof -
  let ?E = "serving E t" and ?w = "log (CRead [] KTask req) w"
  have q: "task_writes ?w = task_writes w" by (simp add: world_simps)
  note run = run [unfolded driven_reconcile [OF assms(1)]]
  consider "stage_of t = Fresh" | "stage_of t = Started" | "stage_of t = Finished" using assms(5) by (cases "stage_of t") auto
  then show ?thesis
  proof cases
    case 1
    then have "start_task ?E t ?w = (r, w')" using run by (auto simp: stage_of_def split: if_splits)
    moreover have "mget (w_plans ?w) (mget0 (om_Labels (it_Meta t)) LabelPlanName) \<noteq> None" using plan [OF 1] by (simp add: world_simps)
    ultimately show ?thesis using start_task_writes [of ?E ?w t] assms(2) q by (metis serving_simps(3) snd_conv)
  next
    case 2
    then have "run_task fuel ?E t ?w = Some (r, w')" using run by (auto simp: stage_of_def split: if_splits)
    then show ?thesis using run_task_writes assms(1,2) q by (metis driven_def serving_simps(3))
  next
    case 3
    then have "end_task ?E t ?w = Some (r, w')" "is_zero (itst_EndTimestamp (it_Status t))"
      using run by (auto simp: stage_of_def split: if_splits)
    then show ?thesis using end_task_writes q by metis
  qed
qed

lemma reconcile_progress:
  assumes "driven t" and "accepting E" and "running_clock E"
    and plan: "stage_of t = Fresh \<Longrightarrow> mget (w_plans w) (mget0 (om_Labels (it_Meta t)) LabelPlanName) \<noteq> None"
    and returns: "\<forall>w. run_task fuel (serving E t) t w \<noteq> None"
  shows "\<exists>r w'. task_Reconcile fuel (serving E t) req w = Some (r, w')
    \<and> (if stage_of t = Ended then task_writes w' = task_writes w
       else \<exists>t'. task_writes w' = task_writes w @ [t'] \<and> advances t t')"
proof -
  have t: "has_finalizer (it_Meta t)" "not_deleted (it_Meta t)" "task_ok t" using assms(1) by (simp_all add: driven_def)
  obtain r w' where run: "task_Reconcile fuel (serving E t) req w = Some (r, w')"
    using driven_reconcile_returns [OF assms(1) returns, of req w] by auto
  show ?thesis
    using task_Reconcile_advances [OF run _ t] driven_reconcile_writes [OF assms(1,2) run plan] run assms(3)
    by (auto simp: advances_def next_stage_simps)
qed

lemma advances_driven: "advances t t' \<Longrightarrow> driven t \<Longrightarrow> driven t'"
  by (simp add: advances_def driven_def)

lemma advances_left: "advances t t' \<Longrightarrow> steps_left (stage_of t) = Suc (steps_left (stage_of t')) \<and> stage_of t' \<noteq> Fresh"
  by (auto simp: advances_def next_stage_left next_stage.simps)


text \<open>A task of one cluster that cannot be reached.\<close>

definition far_task :: InspectTask where
  "far_task = (live_task zero_TaskStatus)\<lparr>it_Spec := \<lparr>its_ClusterName = Some [\<lparr>cl_Name = ''far'', cl_Provider = []\<rparr>],
     its_RuleNames = [], its_Timeout = [], its_InspectPolicy = CyclePolicy\<rparr>\<rparr>"

definition far_env :: env where
  "far_env = quiet_env\<lparr>ev_now := \<lambda>tr. Time 5, ev_cluster := \<lambda>tr c. Inl NotFound,
     ev_config := \<lambda>tr. Inr \<lparr>kc_Job = None, kc_Message = None\<rparr>\<rparr>"


end
