(* ===== verification/Inspection.thy ===== *)
theory Inspection
  imports Plan_Controller Task_Progress
begin

text \<open>
  The plan reconciler and the task reconciler together: the task that a plan starts is brought to
  its end, and from its start on the cached plan reports the phase of the task.
\<close>

section \<open>What the cached plan reports\<close>

definition plan_name :: "InspectTask \<Rightarrow> string" where
  "plan_name t = mget0 (om_Labels (it_Meta t)) LabelPlanName"

definition set_task_phase :: "string \<Rightarrow> Phase \<Rightarrow> TaskNames list \<Rightarrow> TaskNames list" where
  "set_task_phase n ph = map (\<lambda>x. if tn_Name x = n then x\<lparr>tn_TaskStatus := ph\<rparr> else x)"

text \<open>The plan p with the phase of the task n.\<close>

definition told :: "string \<Rightarrow> Phase \<Rightarrow> InspectPlan \<Rightarrow> InspectPlan \<Rightarrow> bool" where
  "told n ph p p' \<longleftrightarrow> ip_Type p' = ip_Type p \<and> ip_Meta p' = ip_Meta p \<and> ip_Spec p' = ip_Spec p
     \<and> ipst_LastTaskStatus (ip_Status p') = ph
     \<and> ipst_TaskNames (ip_Status p') = set_task_phase n ph (ipst_TaskNames (ip_Status p))"

text \<open>The plans of w0 but for the plan of the task, which reports the phase of the task.\<close>

definition reported :: "InspectTask \<Rightarrow> world \<Rightarrow> world \<Rightarrow> bool" where
  "reported t w0 w \<longleftrightarrow>
     (\<exists>p p'. mget (w_plans w0) (plan_name t) = Some p \<and> mget (w_plans w) (plan_name t) = Some p'
        \<and> told (om_Name (it_Meta t)) (itst_Status (it_Status t)) p p')
     \<and> (\<forall>q. q \<noteq> plan_name t \<longrightarrow> mget (w_plans w) q = mget (w_plans w0) q)"

lemma set_first_map: "distinct (map tn_Name ts) \<Longrightarrow> set_first ts n ph = set_task_phase n ph ts"
  unfolding set_task_phase_def
proof (induction ts)
  case (Cons t ts)
  have "map (\<lambda>x. if tn_Name x = n then x\<lparr>tn_TaskStatus := ph\<rparr> else x) ts = ts" if "n \<notin> tn_Name ` set ts"
    using that by (intro map_idI) auto
  then show ?case using Cons by auto
qed simp

lemma set_task_phase_twice [simp]: "set_task_phase n ph (set_task_phase n ph' ts) = set_task_phase n ph ts"
  by (simp add: set_task_phase_def)

lemma set_task_phase_names [simp]: "map tn_Name (set_task_phase n ph ts) = map tn_Name ts"
  by (simp add: set_task_phase_def)

lemma plan_phase_told:
  assumes "distinct (map tn_Name (ipst_TaskNames (ip_Status p)))"
  shows "told n ph p (plan_phase ph n t p)"
  using assms by (simp add: told_def plan_phase_def Let_def set_first_map)

lemma told_again: "told n ph p p' \<Longrightarrow> told n ph' p' p'' \<Longrightarrow> told n ph' p p''"
  by (simp add: told_def)

lemma told_distinct:
  "told n ph p p' \<Longrightarrow> distinct (map tn_Name (ipst_TaskNames (ip_Status p'))) = distinct (map tn_Name (ipst_TaskNames (ip_Status p)))"
  by (simp add: told_def)

text \<open>The write of a phase is reported, in a cache that has reported none or one before.\<close>

lemma updatePlanStatus_told:
  assumes "mget (w_plans w) q = Some p" and "distinct (map tn_Name (ipst_TaskNames (ip_Status p)))"
  shows "\<exists>p'. mget (w_plans (snd (updatePlanStatus E ph q n w))) q = Some p' \<and> told n ph p p'"
    and "q' \<noteq> q \<Longrightarrow> mget (w_plans (snd (updatePlanStatus E ph q n w))) q' = mget (w_plans w) q'"
  using plan_phase_told [OF assms(2)] assms(1)
  by (auto simp: updatePlanStatus_def Let_def world_simps go_map)

lemma finish_task_plans:
  assumes "accepting E"
  shows "w_plans (snd (finish_task E t w))
    = w_plans (snd (updatePlanStatus E (GetStatus t) (plan_name t) (om_Name (it_Meta t))
        (log (CUpdateStatus (OTask (set_phase (GetStatus t) t))) w)))"
  using assms by (simp add: finish_task_def Let_def world_simps accepting_def plan_name_def)

lemma start_task_plans:
  assumes "accepting E"
  shows "w_plans (snd (start_task E t w))
    = w_plans (snd (updatePlanStatus E PhaseRunning (plan_name t) (om_Name (it_Meta t)) w))"
  using assms by (auto simp: start_task_def Let_def world_simps accepting_def plan_name_def split: prod.splits option.splits)

section \<open>One reconcile\<close>

text \<open>The plan is known, with its tasks under distinct names.\<close>

definition known_plan :: "InspectTask \<Rightarrow> world \<Rightarrow> bool" where
  "known_plan t w \<longleftrightarrow> (case mget (w_plans w) (plan_name t) of
     None \<Rightarrow> False | Some p \<Rightarrow> distinct (map tn_Name (ipst_TaskNames (ip_Status p))))"

text \<open>Before its start a task is not reported; from then on it is.\<close>

definition followed_by :: "InspectTask \<Rightarrow> world \<Rightarrow> world \<Rightarrow> bool" where
  "followed_by t w0 w \<longleftrightarrow> (if stage_of t = Fresh then w_plans w = w_plans w0 else reported t w0 w)"

lemma updatePlanStatus_reported:
  assumes "known_plan t w0" and "w_plans w = w_plans w0 \<or> reported t w0 w"
    and "w_plans w' = w_plans (snd (updatePlanStatus E ph (plan_name t) (om_Name (it_Meta t)) w))"
    and "it_Meta t' = it_Meta t" and "itst_Status (it_Status t') = ph"
  shows "reported t' w0 w'"
proof -
  obtain p where p: "mget (w_plans w0) (plan_name t) = Some p" "distinct (map tn_Name (ipst_TaskNames (ip_Status p)))"
    using assms(1) by (auto simp: known_plan_def split: option.splits)
  obtain p1 where p1: "mget (w_plans w) (plan_name t) = Some p1" "distinct (map tn_Name (ipst_TaskNames (ip_Status p1)))"
      "\<And>p'. told (om_Name (it_Meta t)) ph p1 p' \<Longrightarrow> told (om_Name (it_Meta t)) ph p p'"
      "\<And>q. q \<noteq> plan_name t \<Longrightarrow> mget (w_plans w) q = mget (w_plans w0) q"
  proof (cases "w_plans w = w_plans w0")
    case True
    then show ?thesis using p by (intro that [of p]) simp_all
  next
    case False
    then obtain p1 where "mget (w_plans w) (plan_name t) = Some p1" "told (om_Name (it_Meta t)) (itst_Status (it_Status t)) p p1"
        "\<forall>q. q \<noteq> plan_name t \<longrightarrow> mget (w_plans w) q = mget (w_plans w0) q"
      using assms(2) p(1) by (auto simp: reported_def)
    then show ?thesis using p(2) by (intro that [of p1]) (simp_all add: told_distinct told_again)
  qed
  have name: "plan_name t' = plan_name t" using assms(4) by (simp add: plan_name_def)
  show ?thesis
    using updatePlanStatus_told [OF p1(1,2)] p(1) p1(3,4) unfolding reported_def name assms(3-5) by metis
qed

lemma reconcile_reports:
  assumes "driven t" and "accepting E" and run: "task_Reconcile fuel (serving E t) req w = Some (r, w')"
    and new: "task_writes w' = task_writes w @ [t']" "advances t t'"
    and "known_plan t w0" and "followed_by t w0 w"
  shows "followed_by t' w0 w'"
proof -
  let ?E = "serving E t" and ?w = "log (CRead [] KTask req) w"
  note run = run [unfolded driven_reconcile [OF assms(1)]]
  have acc: "accepting ?E" using assms(2) by simp
  have meta: "it_Meta t' = it_Meta t" and later: "stage_of t' \<noteq> Fresh" and ok: "task_ok t'"
    using new(2) advances_left [OF new(2)] by (simp_all add: advances_def)
  have q: "task_writes ?w = task_writes w" "w_plans ?w = w_plans w" by (simp_all add: world_simps)
  have "reported t' w0 w'"
  proof (cases "stage_of t")
    case Fresh
    then have "start_task ?E t ?w = (r, w')" using run by (auto simp: stage_of_def split: if_splits)
    then have "w_plans w' = w_plans (snd (updatePlanStatus ?E PhaseRunning (plan_name t) (om_Name (it_Meta t)) ?w))"
      using start_task_plans [OF acc, of t ?w] by simp
    moreover have "itst_Status (it_Status t') = PhaseRunning"
      using new(2) Fresh ok by (auto simp: advances_def next_stage_simps task_ok_def)
    ultimately show ?thesis
      using updatePlanStatus_reported [OF assms(6), of ?w] meta assms(7) Fresh q by (simp add: followed_by_def)
  next
    case Started
    then have "run_task fuel ?E t ?w = Some (r, w')" using run by (auto simp: stage_of_def split: if_splits)
    then show ?thesis
    proof (cases rule: run_task_cases)
      case stopped
      then show ?thesis using new(1) q by (simp add: followed_def)
    next
      case (completed t1 w1)
      have t1: "it_Meta t1 = it_Meta t" "t' = set_phase (GetStatus t1) t1"
        using completed(1,2) finish_task_writes [OF completed(3)] new(1) q by (simp_all add: same_run_def followed_def)
      let ?w1 = "log (CUpdateStatus (OTask (set_phase (GetStatus t1) t1))) w1"
      have "w_plans ?w1 = w_plans w" using completed(2) q by (simp add: followed_def world_simps)
      then have "w_plans ?w1 = w_plans w0 \<or> reported t w0 ?w1"
        using assms(7) Started by (simp add: followed_by_def reported_def)
      moreover have "w_plans w' = w_plans (snd (updatePlanStatus ?E (GetStatus t1) (plan_name t) (om_Name (it_Meta t)) ?w1))"
        using finish_task_plans [OF acc, of t1 w1] completed(3) t1(1) by (simp add: plan_name_def)
      moreover have "itst_Status (it_Status t') = GetStatus t1" unfolding t1(2) by (simp add: set_phase_def)
      ultimately show ?thesis using updatePlanStatus_reported [OF assms(6)] meta by metis
    qed
  next
    case Finished
    then have "end_task ?E t ?w = Some (r, w')" using run by (auto simp: stage_of_def split: if_splits)
    then have "w_plans w' = w_plans w" by (auto simp: end_task_def Let_def world_simps split: if_splits option.splits)
    moreover have "itst_Status (it_Status t') = itst_Status (it_Status t)" using new(2) Finished by (simp add: advances_def)
    ultimately show ?thesis
      using assms(7) Finished meta by (simp add: followed_by_def reported_def plan_name_def)
  next
    case Ended
    then show ?thesis using new(2) by (simp add: advances_def next_stage_simps)
  qed
  then show ?thesis using later by (simp add: followed_by_def)
qed

section \<open>From the plan to the end of the task\<close>

text \<open>No run of the task panics, whatever it finds.\<close>

definition runs_return :: "nat \<Rightarrow> env \<Rightarrow> InspectTask \<Rightarrow> bool" where
  "runs_return fuel E t \<longleftrightarrow>
     (\<forall>t' w. it_Spec t' = it_Spec t \<longrightarrow> it_Meta t' = it_Meta t \<longrightarrow> run_task fuel (serving E t') t' w \<noteq> None)"

lemma reconcile_step:
  assumes "driven t" and "accepting E" and "running_clock E" and "runs_return fuel E t"
    and "known_plan t w0" and "followed_by t w0 w"
  shows "\<exists>r w'. task_Reconcile fuel (serving E t) req w = Some (r, w') \<and> followed_by (written t w w') w0 w'
    \<and> it_Spec (written t w w') = it_Spec t \<and> it_Meta (written t w w') = it_Meta t \<and> driven (written t w w')
    \<and> steps_left (stage_of (written t w w')) = steps_left (stage_of t) - 1"
proof -
  have plan: "mget (w_plans w) (mget0 (om_Labels (it_Meta t)) LabelPlanName) \<noteq> None" if "stage_of t = Fresh"
    using that assms(5,6) by (auto simp: followed_by_def known_plan_def plan_name_def split: option.splits)
  have returns: "\<forall>w. run_task fuel (serving E t) t w \<noteq> None" using assms(4) by (simp add: runs_return_def)
  obtain r w' where run: "task_Reconcile fuel (serving E t) req w = Some (r, w')"
      and new: "if stage_of t = Ended then task_writes w' = task_writes w
       else \<exists>t'. task_writes w' = task_writes w @ [t'] \<and> advances t t'"
    using reconcile_progress [OF assms(1-3) plan returns] by blast
  show ?thesis
  proof (cases "stage_of t = Ended")
    case True
    then have e: "end_task (serving E t) t (log (CRead [] KTask req) w) = Some (r, w')" "\<not> is_zero (itst_EndTimestamp (it_Status t))"
      using run unfolding driven_reconcile [OF assms(1)] by (auto simp: stage_of_def split: if_splits)
    then have "w_plans w' = w_plans w" by (auto simp: end_task_def world_simps)
    moreover have "written t w w' = t" using new True by (simp add: written_def)
    ultimately show ?thesis using run assms(1,6) True by (simp add: followed_by_def reported_def)
  next
    case False
    then obtain t' where t': "task_writes w' = task_writes w @ [t']" "advances t t'" using new by auto
    then have "written t w w' = t'" by (simp add: written_def)
    then show ?thesis
      using run reconcile_reports [OF assms(1,2) run t' assms(5,6)] advances_driven [OF t'(2) assms(1)] advances_left [OF t'(2)] t'(2)
      by (simp add: advances_def)
  qed
qed

lemma drive_follows:
  assumes "driven t" and "accepting E" and "running_clock E" and "runs_return fuel E t"
    and "known_plan t w0" and "followed_by t w0 w"
  shows "\<exists>t' w'. drive n fuel E req t w = Some (t', w') \<and> followed_by t' w0 w' \<and> driven t'
    \<and> it_Spec t' = it_Spec t \<and> it_Meta t' = it_Meta t \<and> steps_left (stage_of t') = steps_left (stage_of t) - n"
  using assms(1,4-6)
proof (induction n arbitrary: t w)
  case (Suc n)
  obtain r w1 where step: "task_Reconcile fuel (serving E t) req w = Some (r, w1)" "followed_by (written t w w1) w0 w1"
      "it_Spec (written t w w1) = it_Spec t" "it_Meta (written t w w1) = it_Meta t" "driven (written t w w1)"
      "steps_left (stage_of (written t w w1)) = steps_left (stage_of t) - 1"
    using reconcile_step [OF Suc.prems(1) assms(2,3) Suc.prems(2-4)] by blast
  have "runs_return fuel E (written t w w1)" "known_plan (written t w w1) w0"
    using Suc.prems(2,3) step(3,4) by (simp_all add: runs_return_def known_plan_def plan_name_def)
  from Suc.IH [OF step(5) this step(2)] show ?case using step by simp
qed simp


text \<open>The first reconcile of a task that a plan has just created gives it the finalizer.\<close>

lemma drive_guard:
  assumes "\<not> has_finalizer (it_Meta t)" and "not_deleted (it_Meta t)"
  shows "\<exists>w'. drive (Suc n) fuel E req t w = drive n fuel E req (task_fin.guard t) w' \<and> w_plans w' = w_plans w"
proof -
  let ?w = "log (CUpdate [] (OTask (task_fin.guard t))) (log (CRead [] KTask req) w)"
  obtain r where r: "task_Reconcile fuel (serving E t) req w = Some (r, ?w)"
    using assms by (simp add: task_Reconcile_def world_simps Let_def finalizer_updates)
  have "written t w ?w = task_fin.guard t" by (simp add: written_def world_simps)
  then show ?thesis using r by (intro exI [of _ ?w]) (simp add: world_simps)
qed

lemma new_task_fresh:
  "\<not> has_finalizer (it_Meta (new_task plan n))" "not_deleted (it_Meta (new_task plan n))"
  "stage_of (new_task plan n) = Fresh" "task_ok (new_task plan n)"
  "plan_name (new_task plan n) = om_Name (ip_Meta plan)" "plan_name (task_fin.guard t) = plan_name t"
  unfolding has_finalizer_def ArrayFind_not_None
  by (simp_all add: new_task_def empty_meta_def not_deleted_def is_zero_def stage_of_def final_phase_def task_ok_def
      zero_TaskStatus_def plan_name_def mget0_def task_fin.guard_def task_finalizers_def with_finalizers_def)

lemma new_task_driven:
  "its_ClusterName (it_Spec (new_task plan n)) \<noteq> None \<Longrightarrow> driven (task_fin.guard (new_task plan n))"
  using new_task_fresh(2,4) [of plan n] finalizer_tests(3,4)
  by (simp add: driven_def task_fin.guard_guarded task_fin.guard_live)


section \<open>Concrete runs\<close>

text \<open>
  A plan of one cluster and no rules, in whose cluster a ready node runs the one job there is, and
  the job succeeds.
\<close>

definition near :: Cluster where
  "near = \<lparr>cl_Name = ''near'', cl_Provider = []\<rparr>"

definition near_plan :: InspectPlan where
  "near_plan = \<lparr>ip_Type = \<lparr>tm_Kind = ''InspectPlan'', tm_APIVersion = ''v1''\<rparr>,
     ip_Meta = (empty_meta ''plan'')\<lparr>om_Finalizers := [Finalizers]\<rparr>,
     ip_Spec = \<lparr>ips_Schedule = None, ips_Suspend = False, ips_Timeout = [], ips_RuleNames = [],
       ips_MaxTasks = 1, ips_ClusterName = Some [near], ips_KubeConfig = [], ips_Once = None\<rparr>,
     ip_Status = zero_PlanStatus\<lparr>ipst_LastTaskStatus := PhasePending\<rparr>\<rparr>"

definition near_env :: env where
  "near_env = quiet_env\<lparr>ev_plan := \<lambda>tr n. Inr near_plan, ev_now := \<lambda>tr. Time 5,
     ev_cluster := \<lambda>tr c. Inr (Some (cluster_object [] (Some []))),
     ev_config := \<lambda>tr. Inr \<lparr>kc_Job = Some plain_config, kc_Message = None\<rparr>,
     ev_nodes := \<lambda>tr c. Inr [ready_node],
     ev_configmap := \<lambda>tr c n. Inr (BinaryConfigMapTemplate n (Some (JArr [])) [(LabelRuleType, Component)]),
     ev_job := \<lambda>tr c n. Inr \<lparr>kj_CreationTimestamp = Time 5, kj_Conditions = [], kj_CompletionTime = Some (Time 5), kj_Active = 0\<rparr>\<rparr>"

definition near_world :: world where
  "near_world = empty_world\<lparr>w_plans := [(''plan'', near_plan\<lparr>ip_Status := zero_PlanStatus\<lparr>
     ipst_TaskNames := [\<lparr>tn_Name = ''plan-now'', tn_TaskStatus = PhasePending\<rparr>]\<rparr>\<rparr>)]\<rparr>"

lemma near_env_simps:
  "ev_job (serving near_env u) tr c n = Inr \<lparr>kj_CreationTimestamp = Time 5, kj_Conditions = [], kj_CompletionTime = Some (Time 5), kj_Active = 0\<rparr>"
  "ev_cluster (serving near_env u) tr c = Inr (Some (cluster_object [] (Some [])))" "ev_go (serving near_env u) = quiet_go"
  "ev_config (serving near_env u) tr = Inr \<lparr>kc_Job = Some plain_config, kc_Message = None\<rparr>" "ev_write (serving near_env u) tr x = None"
  by (simp_all add: serving_def near_env_def quiet_env_def)

text \<open>A job without a node, and so a run of a task without rules, returns.\<close>

lemma near_job_returns:
  assumes "GetDeploySchedule (jr_RunRule v) = Some None"
  shows "run_job 1 (serving near_env u) c t (Some plain_config) nodes v d w \<noteq> None"
  using assms
  by (simp add: run_job_def Let_def case_prod_unfold checkJobIsDeploy_def createInspectJob_def GeneratorJobTemplate_def
      task_reads near_env_simps world_simps is_zero_def time_zero_def split: sum.splits)

lemma near_run_returns:
  assumes "its_RuleNames (it_Spec t) = []"
  shows "createInspect 1 (serving near_env u) c near \<lparr>kc_Job = Some plain_config, kc_Message = None\<rparr> t w \<noteq> None"
proof -
  have x: "getRules t w = []" using assms by (simp add: getRules_def List.map_filter_simps)
  obtain e where m: "MergeRule (NewExecuteRuleOptions t) [] = Some (e, [])"
    using assms by (simp add: MergeRule_def SetRuleSchedule_def SetPrometheusEndpoint_def NewExecuteRuleOptions_def)
  obtain nodes w0 where n: "GetNodes (serving near_env u) c w = (nodes, w0)" by fastforce
  obtain j where j: "GenerateJob (ev_rand (serving near_env u) (w_trace w0)) e nodes [] = Some [j]"
      "GetDeploySchedule (jr_RunRule j) = Some None"
    by (simp add: GenerateJob_def Allocation_def spec_get_def marshal_slice_def GetDeploySchedule_def unmarshal_list_def)
  have s: "sortRuleOpaToAtLast [j] = [j]" by (simp add: sortRuleOpaToAtLast_def)
  obtain w1 where w1: "CreateInspectRule (serving near_env u) c t [j] w0 = (Inr [j], w1)"
    by (simp add: CreateInspectRule_def Let_def case_prod_unfold world_simps near_env_simps s)
  have k: "GetClusterJobConfig \<lparr>kc_Job = Some plain_config, kc_Message = None\<rparr> (cl_Name near) = Some (Some plain_config)"
    by (simp add: GetClusterJobConfig_def near_def plain_config_def)
  let ?t1 = "t\<lparr>it_Status := (it_Status t)\<lparr>itst_InspectRuleType := map fst (filter (\<lambda>(k, v). 0 < v) (GetRuleTotal e))\<rparr>\<rparr>"
  obtain res w2 where w2: "GenerateResult (serving near_env u) c ?t1 near (GetRuleTotal e) w1 = (res, w2)" by fastforce
  obtain nodes2 w4 where n2: "GetNodes (serving near_env u) c w2 = (nodes2, w4)" by fastforce
  obtain ps d w3 where "run_job 1 (serving near_env u) c ?t1 (Some plain_config) nodes2 j res w4 = Some (ps, d, w3)"
    using near_job_returns [OF j(2), of u c ?t1 nodes2 res w4] by (metis not_None_eq prod.collapse)
  then have "createJobsInspect 1 (serving near_env u) c ?t1 (Some plain_config) [j] res w2 = Some (ps, d, w3)"
    by (simp add: createJobsInspect_def n2)
  then show ?thesis
    using m n j(1) w1 by (simp add: createInspect_def x k w2 Let_def world_simps split: option.splits prod.splits)
qed

lemma near_runs_return:
  assumes "its_ClusterName (it_Spec t) = Some [near]" and "its_RuleNames (it_Spec t) = []"
  shows "runs_return 1 near_env t"
  unfolding runs_return_def
proof (intro allI impI)
  fix t' :: InspectTask and w
  assume spec: "it_Spec t' = it_Spec t"
  have go: "GetMultiClusterClient quiet_go (Inr (Some (cluster_object [] (Some [])))) = Some (K8SClients quiet_go \<lparr>rcf_Host = []\<rparr>)"
    by (rule cluster_client_config) (simp_all add: quiet_go_def)
  have "inspect_cluster 1 (serving near_env t') \<lparr>kc_Job = Some plain_config, kc_Message = None\<rparr> near t1 w1 \<noteq> None"
    if "its_RuleNames (it_Spec t1) = []" for t1 w1
    by (simp add: inspect_cluster_def near_env_simps go near_run_returns [OF that] Let_def
        split: sum.splits option.splits prod.splits del: not_None_eq One_nat_def)
  then show "run_task 1 (serving near_env t') t' w \<noteq> None"
    using assms spec by (simp add: run_task_def near_env_simps Let_def bind_eq_None_conv case_prod_unfold)
qed

lemma near_facts:
  "accepting near_env" "running_clock near_env" "mget (w_plans near_world) ''plan'' \<noteq> None"
  "plan_name t = ''plan'' \<Longrightarrow> known_plan t near_world"
  by (simp_all add: accepting_def running_clock_def near_env_def quiet_env_def time_zero_def near_world_def known_plan_def)



end
