(* ===== verification/Job_Race.thy ===== *)
theory Job_Race
  imports Task_Controller
begin

text \<open>
  The goroutines of createJobsInspect and the slice of job phases they share.  A goroutine appends
  under the mutex when its job ran, and without it when the job was late, refused or not created.
  An append loads the slice and stores the longer one, two steps: another goroutine may come between.
  Slices are values here, as when each append has to grow the array, which the first ones do.
\<close>

record goroutine =
  gr_locked :: bool
  gr_todo :: "JobPhase list"
  gr_loaded :: "JobPhase list option"

record appending =
  ap_names :: "JobPhase list"
  ap_holder :: "nat option" \<comment> \<open>who has the mutex\<close>
  ap_threads :: "goroutine list"

definition with_thread :: "nat \<Rightarrow> goroutine \<Rightarrow> appending \<Rightarrow> appending" where
  "with_thread i g s = s\<lparr>ap_threads := (ap_threads s)[i := g]\<rparr>"

inductive append_step :: "appending \<Rightarrow> appending \<Rightarrow> bool" where
  lock: "i < length (ap_threads s) \<Longrightarrow> gr_locked (ap_threads s ! i) \<Longrightarrow> gr_todo (ap_threads s ! i) \<noteq> [] \<Longrightarrow>
    ap_holder s = None \<Longrightarrow> append_step s (s\<lparr>ap_holder := Some i\<rparr>)"
| load: "i < length (ap_threads s) \<Longrightarrow> gr_todo (ap_threads s ! i) \<noteq> [] \<Longrightarrow> gr_loaded (ap_threads s ! i) = None \<Longrightarrow>
    gr_locked (ap_threads s ! i) \<longrightarrow> ap_holder s = Some i \<Longrightarrow>
    append_step s (with_thread i ((ap_threads s ! i)\<lparr>gr_loaded := Some (ap_names s)\<rparr>) s)"
| store: "i < length (ap_threads s) \<Longrightarrow> gr_todo (ap_threads s ! i) = p # ps \<Longrightarrow> gr_loaded (ap_threads s ! i) = Some xs \<Longrightarrow>
    append_step s (with_thread i ((ap_threads s ! i)\<lparr>gr_todo := ps, gr_loaded := None\<rparr>) (s\<lparr>ap_names := xs @ [p]\<rparr>))"
| unlock: "ap_holder s = Some i \<Longrightarrow> i < length (ap_threads s) \<Longrightarrow> gr_todo (ap_threads s ! i) = [] \<Longrightarrow>
    append_step s (s\<lparr>ap_holder := None\<rparr>)"

definition joined :: "appending \<Rightarrow> bool" where
  "joined s \<longleftrightarrow> ap_holder s = None \<and> list_all (\<lambda>g. gr_todo g = []) (ap_threads s)"

text \<open>The goroutines start with their phases, the slice is nil.\<close>

definition spawned :: "(bool \<times> JobPhase list) list \<Rightarrow> appending" where
  "spawned js = \<lparr>ap_names = [], ap_holder = None,
     ap_threads = map (\<lambda>(l, ps). \<lparr>gr_locked = l, gr_todo = ps, gr_loaded = None\<rparr>) js\<rparr>"

definition pending :: "appending \<Rightarrow> JobPhase multiset" where
  "pending s = mset (concat (map gr_todo (ap_threads s)))"

lemma pending_update:
  assumes "i < length gs"
  shows "mset (concat (map gr_todo (gs[i := g]))) + mset (gr_todo (gs ! i)) = mset (concat (map gr_todo gs)) + mset (gr_todo g)"
proof -
  have "gs = take i gs @ gs ! i # drop (Suc i) gs" using assms by (rule id_take_nth_drop)
  then have "mset (concat (map gr_todo gs))
      = mset (concat (map gr_todo (take i gs))) + mset (gr_todo (gs ! i)) + mset (concat (map gr_todo (drop (Suc i) gs)))"
    by (metis (no_types, lifting) concat.simps(2) concat_append list.simps(9) map_append mset_append union_assoc)
  then show ?thesis using assms by (simp add: upd_conv_take_nth_drop)
qed

text \<open>When every goroutine locks, the one that has loaded the slice holds the mutex.\<close>

definition race_free :: "appending \<Rightarrow> bool" where
  "race_free s \<longleftrightarrow> (\<forall>i < length (ap_threads s). gr_locked (ap_threads s ! i)
     \<and> (\<forall>xs. gr_loaded (ap_threads s ! i) = Some xs \<longrightarrow> ap_holder s = Some i \<and> xs = ap_names s \<and> gr_todo (ap_threads s ! i) \<noteq> []))"

lemma append_step_race_free:
  assumes "append_step s s'" and "race_free s"
  shows "race_free s' \<and> mset (ap_names s') + pending s' = mset (ap_names s) + pending s"
  using assms
proof induction
  case (lock i s)
  then show ?case by (auto simp: race_free_def pending_def)
next
  case (load i s)
  then show ?case
    using pending_update [OF load(1), of "(ap_threads s ! i)\<lparr>gr_loaded := Some (ap_names s)\<rparr>"]
    by (auto simp: race_free_def with_thread_def pending_def nth_list_update)
next
  case (store i s p ps xs)
  let ?g = "(ap_threads s ! i)\<lparr>gr_todo := ps, gr_loaded := None\<rparr>"
  let ?s = "with_thread i ?g (s\<lparr>ap_names := xs @ [p]\<rparr>)"
  have h: "ap_holder s = Some i" "xs = ap_names s"
    using store by (auto simp: race_free_def)
  have others: "gr_loaded (ap_threads s ! j) = None" if "j < length (ap_threads s)" "j \<noteq> i" for j
    using store(4) that h(1) unfolding race_free_def by (metis not_None_eq option.inject)
  have "mset ps + {#p#} + mset (concat (map gr_todo ((ap_threads s)[i := ?g])))
      = mset (concat (map gr_todo (ap_threads s))) + mset ps"
    using pending_update [OF store(1), of "?g"] store(2)
    by (simp add: ac_simps)
  then have "{#p#} + mset (concat (map gr_todo ((ap_threads s)[i := ?g])))
      = mset (concat (map gr_todo (ap_threads s)))"
    by simp
  moreover have "race_free ?s"
    unfolding race_free_def
  proof (intro allI impI)
    fix j
    assume j: "j < length (ap_threads ?s)"
    then have "gr_locked (ap_threads s ! j)" using store(4) by (simp add: race_free_def with_thread_def)
    with j others show "gr_locked (ap_threads ?s ! j) \<and>
        (\<forall>ys. gr_loaded (ap_threads ?s ! j) = Some ys \<longrightarrow>
          ap_holder ?s = Some j \<and>
          ys = ap_names ?s \<and>
          gr_todo (ap_threads ?s ! j) \<noteq> [])"
      by (cases "j = i") (simp_all add: with_thread_def nth_list_update)
  qed
  ultimately show ?case by (simp add: h(2) with_thread_def pending_def)
next
  case (unlock s i)
  then show ?case by (auto simp: race_free_def pending_def) (metis not_None_eq)
qed

lemma appends_race_free:
  assumes "append_step\<^sup>*\<^sup>* s s'" and "race_free s"
  shows "race_free s' \<and> mset (ap_names s') + pending s' = mset (ap_names s) + pending s"
  using assms by (induction rule: rtranclp_induct) (auto dest: append_step_race_free)

lemma joined_pending: "joined s \<Longrightarrow> pending s = {#}"
  by (auto simp: joined_def pending_def list_all_iff concat_eq_Nil_conv)

lemma spawned_facts:
  "list_all fst js \<Longrightarrow> race_free (spawned js)" "pending (spawned js) = mset (concat (map snd js))"
proof -
  show "list_all fst js \<Longrightarrow> race_free (spawned js)"
    by (auto simp: race_free_def spawned_def list_all_length split: prod.splits)
  have "map gr_todo (ap_threads (spawned js)) = map snd js" by (simp add: spawned_def case_prod_unfold)
  then show "pending (spawned js) = mset (concat (map snd js))" by (simp add: pending_def)
qed

text \<open>The status a task gets when its jobs left these phases.\<close>

definition status_after :: "InspectTask \<Rightarrow> JobPhase list \<Rightarrow> Phase" where
  "status_after t ps = GetStatus (t\<lparr>it_Status := (it_Status t)\<lparr>itst_JobPhase := append_phases None ps\<rparr>\<rparr>)"

lemma status_after_iff:
  "status_after t ps = PhaseSucceeded \<longleftrightarrow> ps \<noteq> [] \<and> (\<forall>p \<in> set ps. jp_Phase p \<noteq> PhaseFailed)"
  unfolding status_after_def GetStatus_cases(1) by (simp add: append_phases_def)

lemma status_after_mset: "mset ps = mset qs \<Longrightarrow> status_after t ps = status_after t qs"
  by (metis GetStatus_cases(2) status_after_def mset_eq_setD mset_zero_iff status_after_iff)


lemma race_schedule:
  fixes p q :: JobPhase
  defines "g l ps r \<equiv> \<lparr>gr_locked = l, gr_todo = ps, gr_loaded = r\<rparr>"
  shows "append_step\<^sup>*\<^sup>* (spawned [(False, [p]), (True, [q])])
     \<lparr>ap_names = [q], ap_holder = None, ap_threads = [g False [] None, g True [] None]\<rparr>"
proof -
  let ?s = "\<lambda>names h a b. \<lparr>ap_names = names, ap_holder = h, ap_threads = [a, b]\<rparr>"
  have "append_step (?s [] None (g False [p] None) (g True [q] None)) (?s [] (Some 1) (g False [p] None) (g True [q] None))"
    using append_step.lock [of 1 "?s [] None (g False [p] None) (g True [q] None)"] by (simp add: g_def)
  moreover have "append_step (?s [] (Some 1) (g False [p] None) (g True [q] None)) (?s [] (Some 1) (g False [p] None) (g True [q] (Some [])))"
    using append_step.load [of 1 "?s [] (Some 1) (g False [p] None) (g True [q] None)"] by (simp add: g_def with_thread_def)
  moreover have "append_step (?s [] (Some 1) (g False [p] None) (g True [q] (Some []))) (?s [] (Some 1) (g False [p] (Some [])) (g True [q] (Some [])))"
    using append_step.load [of 0 "?s [] (Some 1) (g False [p] None) (g True [q] (Some []))"] by (simp add: g_def with_thread_def)
  moreover have "append_step (?s [] (Some 1) (g False [p] (Some [])) (g True [q] (Some []))) (?s [p] (Some 1) (g False [] None) (g True [q] (Some [])))"
    using append_step.store [of 0 "?s [] (Some 1) (g False [p] (Some [])) (g True [q] (Some []))"] by (simp add: g_def with_thread_def)
  moreover have "append_step (?s [p] (Some 1) (g False [] None) (g True [q] (Some []))) (?s [q] (Some 1) (g False [] None) (g True [] None))"
    using append_step.store [of 1 "?s [p] (Some 1) (g False [] None) (g True [q] (Some []))"] by (simp add: g_def with_thread_def)
  moreover have "append_step (?s [q] (Some 1) (g False [] None) (g True [] None)) (?s [q] None (g False [] None) (g True [] None))"
    using append_step.unlock [of "?s [q] (Some 1) (g False [] None) (g True [] None)" 1] by (simp add: g_def)
  ultimately show ?thesis
    unfolding spawned_def g_def list.map prod.case by (meson converse_rtranclp_into_rtranclp rtranclp.rtrancl_refl)
qed

text \<open>
  The appends of failed jobs take no mutex, so one can be lost: of a job that was refused and a
  job that succeeded, some interleaving leaves only the success, and the task is Succeeded where one
  job after the other makes it Failed.
\<close>

theorem unlocked_append_lost:
  "\<exists>s. append_step\<^sup>*\<^sup>* (spawned [(False, [phase_of a PhaseFailed]), (True, [phase_of b PhaseSucceeded])]) s
     \<and> joined s \<and> ap_names s = [phase_of b PhaseSucceeded] \<and> status_after t (ap_names s) = PhaseSucceeded
     \<and> status_after t [phase_of a PhaseFailed, phase_of b PhaseSucceeded] = PhaseFailed"
proof -
  let ?s = "\<lparr>ap_names = [phase_of b PhaseSucceeded], ap_holder = None,
      ap_threads = [\<lparr>gr_locked = False, gr_todo = [], gr_loaded = None\<rparr>, \<lparr>gr_locked = True, gr_todo = [], gr_loaded = None\<rparr>]\<rparr>"
  have "joined ?s" by (simp add: joined_def)
  moreover have "status_after t [phase_of b PhaseSucceeded] = PhaseSucceeded"
    by (simp add: status_after_iff phase_of_def del: PhaseSucceeded_def) simp
  moreover have "status_after t [phase_of a PhaseFailed, phase_of b PhaseSucceeded] = PhaseFailed"
    by (simp add: status_after_def GetStatus_def append_phases_def phase_of_def arr_find)
  ultimately show ?thesis
    using race_schedule [of "phase_of a PhaseFailed" "phase_of b PhaseSucceeded"] by (intro exI [of _ ?s]) simp
qed

definition one_failed :: JobPhase where
  "one_failed = phase_of ''a'' PhaseFailed"


end
