(* ===== verification/Level_Count.thy ===== *)
theory Level_Count
  imports Kube_Api
begin

text \<open>
  Counting by level: ComputeLevel of pkg/controllers/inspectrules_controller.go over the rules of a
  spec, totalResultLevel of pkg/controllers/inspectresult_controller.go over the items of a result.
  Both read the JSON of their list back as maps.  The counters are behind pointers in the code, all
  of them distinct, so a map of integers has the same contents.
\<close>

type_synonym levels = "(Level, int) gomap"

definition level_num :: "levels \<Rightarrow> Level \<Rightarrow> int" where
  "level_num m l = (case mget m l of None \<Rightarrow> 0 | Some n \<Rightarrow> n)"

definition Autoincrement :: "Level \<Rightarrow> levels \<Rightarrow> levels" where
  "Autoincrement l m = mput m l (level_num m l + 1)"

text \<open>The level of a map, or the default; None is the panic of a level that is no string.\<close>

definition level_entry :: "Level \<Rightarrow> jobj \<Rightarrow> Level option" where
  "level_entry dflt m = (case mget m ''level'' of None \<Rightarrow> Some dflt | Some v \<Rightarrow> as_string v)"

fun compute_levels :: "jobj list \<Rightarrow> levels \<Rightarrow> levels option" where
  "compute_levels [] mapLevel = Some mapLevel"
| "compute_levels (m # ms) mapLevel = do {
     l \<leftarrow> level_entry WarningLevel m;
     compute_levels ms (Autoincrement l mapLevel) }"

definition ComputeLevel :: "json \<Rightarrow> levels \<Rightarrow> levels option" where
  "ComputeLevel data mapLevel = (case ArrayStructToArrayMap data of
     None \<Rightarrow> Some mapLevel | Some maps \<Rightarrow> compute_levels maps mapLevel)"

text \<open>
  An item that asserts counts once for each of its issues, once if it lists none.  With an empty
  list of issues the level is not read.
\<close>

definition issue_number :: "jobj \<Rightarrow> nat option" where
  "issue_number m = (case mget m ''issues'' of None \<Rightarrow> Some 1 | Some (JArr s) \<Rightarrow> Some (length s) | Some _ \<Rightarrow> None)"

definition total_item :: "jobj \<Rightarrow> levels \<Rightarrow> levels option" where
  "total_item m mapLevel =
     (if mget m ''assert'' = None then Some mapLevel
      else do {
        a \<leftarrow> issue_number m;
        if a = 0 then Some mapLevel
        else do {
          l \<leftarrow> level_entry DangerLevel m;
          Some ((Autoincrement l ^^ a) mapLevel) } })"

fun total_levels :: "jobj list \<Rightarrow> levels \<Rightarrow> levels option" where
  "total_levels [] mapLevel = Some mapLevel"
| "total_levels (m # ms) mapLevel = do {
     mapLevel' \<leftarrow> total_item m mapLevel;
     total_levels ms mapLevel' }"

definition totalResultLevel :: "json \<Rightarrow> levels \<Rightarrow> levels option" where
  "totalResultLevel data mapLevel = (case ArrayStructToArrayMap data of
     None \<Rightarrow> Some mapLevel | Some maps \<Rightarrow> total_levels maps mapLevel)"

section \<open>What the counters end with\<close>

named_theorems level_simps \<open>the number a counter has\<close>

lemma level_num_Nil [level_simps]: "level_num [] l = 0"
  by (simp add: level_num_def)

lemma level_num_Autoincrement [level_simps]:
  "level_num (Autoincrement k m) l = level_num m l + (if l = k then 1 else 0)"
  by (simp add: level_num_def Autoincrement_def go_map)

lemma level_num_funpow [level_simps]:
  "level_num ((Autoincrement k ^^ n) m) l = level_num m l + (if l = k then int n else 0)"
  by (induction n) (auto simp: level_simps)

lemma level_num_fold [level_simps]:
  "level_num (fold Autoincrement ls m) l = level_num m l + int (count_list ls l)"
  by (induction ls arbitrary: m) (auto simp: level_simps)

definition level_of :: "Level \<Rightarrow> Level \<Rightarrow> Level" where
  "level_of dflt l = (if l = [] then dflt else l)"

lemma decoded_objects: "ArrayStructToArrayMap (JArr (map JObj xs)) = Some xs"
  using obj_of_objects [of xs] by (simp add: ArrayStructToArrayMap_def unmarshal_list_def)

text \<open>Structs with a level, as their encoding shows it.\<close>

locale leveled =
  fixes enc :: "'r \<Rightarrow> json" and level :: "'r \<Rightarrow> Level"
  assumes enc_level: "\<exists>obj. enc r = JObj obj \<and> mget obj ''level'' = (if level r = [] then None else Some (JStr (level r)))"
begin

lemma object: obtains obj where "\<And>r. enc r = JObj (obj r)"
    and "\<And>r dflt. level_entry dflt (obj r) = Some (level_of dflt (level r))"
proof -
  obtain obj where "enc r = JObj (obj r) \<and> mget (obj r) ''level'' = (if level r = [] then None else Some (JStr (level r)))" for r
    using enc_level by metis
  then show ?thesis by (intro that [of obj]) (auto simp: level_entry_def level_of_def as_string_def)
qed

lemma ComputeLevel_fold:
  "ComputeLevel (JArr (map enc rs)) m = Some (fold Autoincrement (map (level_of WarningLevel \<circ> level) rs) m)"
proof -
  obtain obj where o: "\<And>r. enc r = JObj (obj r)" "\<And>r dflt. level_entry dflt (obj r) = Some (level_of dflt (level r))"
    using object by blast
  have "compute_levels (map obj rs) m = Some (fold Autoincrement (map (level_of WarningLevel \<circ> level) rs) m)"
    by (induction rs arbitrary: m) (simp_all add: o)
  moreover have "map enc rs = map JObj (map obj rs)" by (simp add: o)
  ultimately show ?thesis unfolding ComputeLevel_def by (simp only: decoded_objects option.case)
qed

end

text \<open>Result items: the base they embed and the number of issues they list.\<close>

locale assertable =
  fixes enc :: "'r \<Rightarrow> json" and base :: "'r \<Rightarrow> BaseResult" and issues :: "'r \<Rightarrow> nat"
  assumes enc_base: "\<exists>obj. enc r = JObj obj
      \<and> mget obj ''level'' = (if br_Level (base r) = [] then None else Some (JStr (br_Level (base r))))
      \<and> mget obj ''assert'' = (if br_Assert (base r) then Some (JBool True) else None)
      \<and> (if issues r = 0 then mget obj ''issues'' = None else \<exists>js. mget obj ''issues'' = Some (JArr js) \<and> length js = issues r)"

sublocale assertable \<subseteq> leveled enc "br_Level \<circ> base"
proof
  fix r
  show "\<exists>obj. enc r = JObj obj \<and> mget obj ''level'' = (if (br_Level \<circ> base) r = [] then None else Some (JStr ((br_Level \<circ> base) r)))"
    using enc_base [of r] by auto
qed

context assertable
begin

definition weight :: "'r \<Rightarrow> nat" where
  "weight r = (if br_Assert (base r) then max 1 (issues r) else 0)"

definition severity :: "'r \<Rightarrow> Level" where
  "severity r = level_of DangerLevel (br_Level (base r))"

lemma total_item_encoded:
  assumes "enc r = JObj obj"
  shows "total_item obj m = Some ((Autoincrement (severity r) ^^ weight r) m)"
proof -
  obtain o' where o': "enc r = JObj o'"
      "mget o' ''level'' = (if br_Level (base r) = [] then None else Some (JStr (br_Level (base r))))"
      "mget o' ''assert'' = (if br_Assert (base r) then Some (JBool True) else None)"
      "if issues r = 0 then mget o' ''issues'' = None else \<exists>js. mget o' ''issues'' = Some (JArr js) \<and> length js = issues r"
    using enc_base [of r] by blast
  moreover have "obj = o'" using assms o'(1) by simp
  ultimately have l: "level_entry DangerLevel obj = Some (severity r)"
    by (simp add: level_entry_def severity_def level_of_def as_string_def)
  show ?thesis
  proof (cases "br_Assert (base r)")
    case True
    then have "issue_number obj = Some (weight r)"
      using o'(4) \<open>obj = o'\<close> by (auto simp: issue_number_def weight_def split: if_splits)
    moreover have "weight r \<noteq> 0" using True by (simp add: weight_def)
    ultimately show ?thesis using True o'(3) l \<open>obj = o'\<close> by (simp add: total_item_def)
  next
    case False
    then show ?thesis using o'(3) \<open>obj = o'\<close> by (simp add: total_item_def weight_def)
  qed
qed

lemma totalResultLevel_encoded:
  "\<exists>m'. totalResultLevel (JArr (map enc rs)) m = Some m'
     \<and> (\<forall>l. level_num m' l = level_num m l + int (\<Sum>r\<leftarrow>rs. if l = severity r then weight r else 0))"
proof -
  obtain obj where o: "\<And>r. enc r = JObj (obj r)" "\<And>r dflt. level_entry dflt (obj r) = Some (level_of dflt ((br_Level \<circ> base) r))"
    using object by blast
  have "\<exists>m'. total_levels (map obj rs) m = Some m'
      \<and> (\<forall>l. level_num m' l = level_num m l + int (\<Sum>r\<leftarrow>rs. if l = severity r then weight r else 0))"
  proof (induction rs arbitrary: m)
    case (Cons r rs)
    let ?m = "(Autoincrement (severity r) ^^ weight r) m"
    obtain m' where m': "total_levels (map obj rs) ?m = Some m'"
      "\<And>l. level_num m' l = level_num ?m l + int (\<Sum>r\<leftarrow>rs. if l = severity r then weight r else 0)"
      using Cons.IH by blast
    have "total_levels (map obj (r # rs)) m = Some m'"
      using m'(1) by (simp add: total_item_encoded [OF o(1)])
    moreover have "level_num m' l = level_num m l + int (\<Sum>r\<leftarrow>r # rs. if l = severity r then weight r else 0)" for l
      unfolding m'(2) level_num_funpow by simp
    ultimately show ?case by blast
  qed simp
  moreover have "map enc rs = map JObj (map obj rs)" by (simp add: o(1))
  ultimately show ?thesis unfolding totalResultLevel_def by (simp only: decoded_objects option.case)
qed

end

end
