(* ===== verification/Rule_Controller.thy ===== *)
theory Rule_Controller
  imports Level_Count
begin

text \<open>
  pkg/controllers/inspectrules_controller.go: the reconciler of an InspectRule imports it once: it
  marks the start of the import, counts the rules by level and marks the end.  None is a panic.
\<close>

definition rule_levels :: "InspectRuleSpec \<Rightarrow> levels option" where
  "rule_levels spec = do {
     m \<leftarrow> ComputeLevel (JArr (map enc_OpaRule (irs_Opas spec))) [];
     m \<leftarrow> ComputeLevel (JArr (map enc_PrometheusRule (irs_PromQL spec))) m;
     m \<leftarrow> ComputeLevel (JArr (map enc_FileChangeRule (irs_FileChange spec))) m;
     m \<leftarrow> ComputeLevel (JArr (map enc_SysRule (irs_Sysctl spec))) m;
     m \<leftarrow> ComputeLevel (JArr (map enc_SysRule (irs_Systemd spec))) m;
     m \<leftarrow> ComputeLevel (JArr (map enc_FileFilterRule (irs_FileFilter spec))) m;
     m \<leftarrow> ComputeLevel (JArr (map enc_CustomCommandRule (irs_CustomCommand spec))) m;
     m \<leftarrow> ComputeLevel (JArr (map enc_NodeInfoRule (irs_NodeInfo spec))) m;
     ComputeLevel (JArr (map enc_ServiceConnectRule (irs_ServiceConnect spec))) m }"

definition rule_Reconcile :: "env \<Rightarrow> string \<Rightarrow> world \<Rightarrow> (reconciled \<times> world) option" where
  "rule_Reconcile E req w =
     (let (r, w1) = read_rule E req w in
      case r of
        Inl e \<Rightarrow> Some (if e = NotFound then finished else Inl e, w1)
      | Inr rule \<Rightarrow>
          (if not_deleted (ir_Meta rule) \<and> \<not> has_finalizer (ir_Meta rule) then
             (let (err, w2) = submit E (CUpdate [] (ORule (rule_finalizers (add_finalizer (ir_Meta rule)) rule))) w1
              in Some (failed_or_done err, w2))
           else if \<not> not_deleted (ir_Meta rule) then
             (let (err, w2) = submit E (CUpdate [] (ORule (rule_finalizers (drop_finalizer (ir_Meta rule)) rule))) w1
              in Some (failed_or_done err, w2))
           else if irst_State (ir_Status rule) = [] then
             (let (t, w2) = now E w1;
                  rule' = rule\<lparr>ir_Status := (ir_Status rule)\<lparr>irst_State := StartImport, irst_StartImportTime := Some t\<rparr>\<rparr>;
                  (err, w3) = submit E (CUpdateStatus (ORule rule')) w2
              in Some (failed_or_done err, w3))
           else if irst_State (ir_Status rule) = ImportComplete then Some (finished, w1)
           else do {
             levelCount \<leftarrow> rule_levels (ir_Spec rule);
             let (t, w2) = now E w1;
             let rule' = rule\<lparr>ir_Status := (ir_Status rule)\<lparr>irst_EndImportTime := Some t,
                   irst_State := ImportComplete, irst_LevelCount := levelCount\<rparr>\<rparr>;
             let (err, w3) = submit E (CUpdateStatus (ORule rule')) w2;
             Some (failed_or_done err, w3) }))"

section \<open>The kinds of rules\<close>

lemma level_of_bases:
  "mget (enc_RuleItemBases b) ''level'' = (if ri_Level b = [] then None else Some (JStr (ri_Level b)))"
  by (simp add: enc_RuleItemBases_def json_omit map_add_def)

lemmas rule_encoders = enc_OpaRule_def enc_PrometheusRule_def enc_FileChangeRule_def enc_SysRule_def
  enc_FileFilterRule_def enc_CustomCommandRule_def enc_NodeInfoRule_def enc_ServiceConnectRule_def

interpretation opa_lv: leveled enc_OpaRule "ri_Level \<circ> opr_Base"
  by unfold_locales (simp add: rule_encoders mget_append level_of_bases json_omit)

interpretation prom_lv: leveled enc_PrometheusRule "ri_Level \<circ> pr_Base"
  by unfold_locales (simp add: rule_encoders mget_append level_of_bases json_omit)

interpretation fchange_lv: leveled enc_FileChangeRule "ri_Level \<circ> fcr_Base"
  by unfold_locales (simp add: rule_encoders mget_append level_of_bases json_omit keys_Node)

interpretation sys_lv: leveled enc_SysRule "ri_Level \<circ> sr_Base"
  by unfold_locales (simp add: rule_encoders mget_append level_of_bases json_omit keys_Node)

interpretation ffilter_lv: leveled enc_FileFilterRule "ri_Level \<circ> ffr_Base"
  by unfold_locales (simp add: rule_encoders mget_append level_of_bases json_omit keys_Node)

interpretation command_lv: leveled enc_CustomCommandRule "ri_Level \<circ> ccr_Base"
  by unfold_locales (simp add: rule_encoders mget_append level_of_bases json_omit keys_Node)

interpretation nodeinfo_lv: leveled enc_NodeInfoRule "ri_Level \<circ> nir_Base"
  by unfold_locales (simp add: rule_encoders mget_append level_of_bases json_omit keys_Node)

interpretation service_lv: leveled enc_ServiceConnectRule "ri_Level \<circ> scr_Base"
  by unfold_locales (simp add: rule_encoders mget_append level_of_bases json_omit)

text \<open>The items of a spec that have a level, whatever their kind.\<close>

definition leveled_items :: "InspectRuleSpec \<Rightarrow> RuleItemBases list" where
  "leveled_items spec = map opr_Base (irs_Opas spec) @ map pr_Base (irs_PromQL spec) @ map fcr_Base (irs_FileChange spec)
     @ map sr_Base (irs_Sysctl spec) @ map sr_Base (irs_Systemd spec) @ map ffr_Base (irs_FileFilter spec)
     @ map ccr_Base (irs_CustomCommand spec) @ map nir_Base (irs_NodeInfo spec) @ map scr_Base (irs_ServiceConnect spec)"

lemma rule_levels_fold:
  "rule_levels spec = Some (fold Autoincrement (map (level_of WarningLevel \<circ> ri_Level) (leveled_items spec)) [])"
  by (simp add: rule_levels_def leveled_items_def opa_lv.ComputeLevel_fold prom_lv.ComputeLevel_fold
      fchange_lv.ComputeLevel_fold sys_lv.ComputeLevel_fold ffilter_lv.ComputeLevel_fold command_lv.ComputeLevel_fold
      nodeinfo_lv.ComputeLevel_fold service_lv.ComputeLevel_fold comp_assoc)

text \<open>
  C20. The import of a rule never panics and ends after two writes: a live, guarded rule is first
  marked as started, then as imported with, for every level, the number of its items of that level
  (warning for those that name none), and an imported one is left alone.
\<close>

theorem rule_import:
  assumes "ev_rule E (w_trace w) req = Inr rule" and "rule_fin.guarded rule" and "rule_fin.live rule"
  shows "\<exists>r w'. rule_Reconcile E req w = Some (r, w') \<and>
    (if irst_State (ir_Status rule) = [] then
       \<exists>t. updates w' = updates w @ [ORule (rule\<lparr>ir_Status := (ir_Status rule)\<lparr>irst_State := StartImport, irst_StartImportTime := Some t\<rparr>\<rparr>)]
     else if irst_State (ir_Status rule) = ImportComplete then updates w' = updates w
     else \<exists>rule'. updates w' = updates w @ [ORule rule'] \<and> ir_Spec rule' = ir_Spec rule
       \<and> irst_State (ir_Status rule') = ImportComplete
       \<and> (\<forall>l. level_num (irst_LevelCount (ir_Status rule')) l
            = int (length (filter (\<lambda>b. level_of WarningLevel (ri_Level b) = l) (leveled_items (ir_Spec rule))))))"
proof -
  have c: "count_list (map f xs) l = length (filter (\<lambda>x. f x = l) xs)" for f :: "RuleItemBases \<Rightarrow> Level" and xs l
    by (induction xs) auto
  show ?thesis
    using assms
    by (simp add: rule_Reconcile_def world_simps finalizer_tests Let_def rule_levels_fold level_simps c) blast
qed

definition plain_rule :: "RuleState \<Rightarrow> InspectRule" where
  "plain_rule st = \<lparr>ir_Meta = (empty_meta ''r'')\<lparr>om_Finalizers := [Finalizers]\<rparr>,
     ir_Spec = zero_RuleSpec\<lparr>irs_Opas := [\<lparr>opr_Base = \<lparr>ri_Name = ''o'', ri_Rule = [], ri_Desc = [], ri_Level = DangerLevel\<rparr>,
         opr_Module = []\<rparr>],
       irs_Sysctl := [\<lparr>sr_Base = \<lparr>ri_Name = ''s'', ri_Rule = [], ri_Desc = [], ri_Level = []\<rparr>,
         sr_Node = \<lparr>nd_NodeName = None, nd_NodeSelector = []\<rparr>\<rparr>]\<rparr>,
     ir_Status = zero_RuleStatus\<lparr>irst_State := st\<rparr>\<rparr>"

theorem rule_import_witness:
  "\<exists>r w' rule'. rule_Reconcile (quiet_env\<lparr>ev_rule := \<lambda>tr n. Inr (plain_rule StartImport)\<rparr>) ''r'' empty_world = Some (r, w')
     \<and> updates w' = [ORule rule'] \<and> level_num (irst_LevelCount (ir_Status rule')) WarningLevel = 1"
proof -
  let ?E = "quiet_env\<lparr>ev_rule := \<lambda>tr n. Inr (plain_rule StartImport)\<rparr>"
  have "ev_rule ?E (w_trace empty_world) ''r'' = Inr (plain_rule StartImport)" by simp
  moreover have "rule_fin.guarded (plain_rule StartImport)" "rule_fin.live (plain_rule StartImport)"
    by (simp_all add: rule_fin.guarded_def rule_fin.live_def plain_rule_def empty_meta_def is_zero_def)
  moreover have "updates empty_world = []" by (simp add: updates_def empty_world_def List.map_filter_simps)
  moreover have "irst_State (ir_Status (plain_rule StartImport)) = StartImport" by (simp add: plain_rule_def)
  moreover have "length (filter (\<lambda>b. level_of WarningLevel (ri_Level b) = WarningLevel) (leveled_items (ir_Spec (plain_rule StartImport)))) = 1"
    by (simp add: plain_rule_def leveled_items_def zero_RuleSpec_def level_of_def)
  ultimately show ?thesis using rule_import [of ?E empty_world "''r''" "plain_rule StartImport"]
    by (auto simp del: WarningLevel_def)
qed

end
