(* ===== verification/Result_Controller.thy ===== *)
theory Result_Controller
  imports Level_Count
begin

text \<open>
  pkg/controllers/inspectresult_controller.go: the reconciler of an InspectResult counts the issues
  of the result file by level, completes the result and starts the message about it.  The rendering
  of the message (the HTML template) is a parameter.  None is a panic.
\<close>

definition opa_levels :: "InspectResult \<Rightarrow> levels" where
  "opa_levels res = (let s = kor_ScoreInfo (rs_OpaResult (res_Spec res)) in
     [(DangerLevel, si_Dangerous s), (WarningLevel, si_Warning s), (IgnoreLevel, si_Ignore s)])"

definition count_levels :: "InspectResult \<Rightarrow> levels option" where
  "count_levels res = (let spec = res_Spec res in do {
     m \<leftarrow> totalResultLevel (JArr (map enc_FileChangeResultItem (rs_FileChangeResult spec))) (opa_levels res);
     m \<leftarrow> totalResultLevel (JArr (map enc_FileChangeResultItem (rs_FileFilterResult spec))) m;
     m \<leftarrow> totalResultLevel (JArr (map enc_NodeMetricsResultItem (rs_SysctlResult spec))) m;
     m \<leftarrow> totalResultLevel (JArr (map enc_NodeMetricsResultItem (rs_SystemdResult spec))) m;
     m \<leftarrow> totalResultLevel (JArr (map enc_NodeInfoResultItem (rs_NodeInfo spec))) m;
     m \<leftarrow> totalResultLevel (JArr (map enc_PrometheusResult (rs_PrometheusResult spec))) m;
     m \<leftarrow> totalResultLevel (JArr (map enc_ServiceConnectResultItem (rs_ServiceConnectResult spec))) m;
     m \<leftarrow> totalResultLevel (JArr (map enc_ComponentResultItem (rs_ComponentResult spec))) m;
     totalResultLevel (JArr (map enc_CommandResultItem (rs_CommandResult spec))) m })"

definition CountLevelNum :: "env \<Rightarrow> string \<Rightarrow> world \<Rightarrow> (api_err + levels) option" where
  "CountLevelNum E resultName w =
     (case ev_file E (w_trace w) (ResultPathPrefix @ ''/'' @ resultName) of
        None \<Rightarrow> Some (Inl (ApiErr ''read''))
      | Some res \<Rightarrow> map_option Inr (count_levels res))"

definition time_layout :: string where
  "time_layout = ''2006-01-02 15:04:05''"

definition end_result :: "env \<Rightarrow> InspectResult \<Rightarrow> world \<Rightarrow> reconciled \<times> world" where
  "end_result E res w =
     (if rst_TaskEndTime (res_Status res) = [] \<or> rst_Duration (res_Status res) = [] then
        (case ev_parse E (rst_TaskStartTime (res_Status res)) of
           None \<Rightarrow> (Inl (ApiErr ''parsing time''), w)
         | Some parseStart \<Rightarrow>
             (let (t, w1) = now E w; (t', w2) = now E w1;
                  res' = res\<lparr>res_Status := (res_Status res)\<lparr>rst_TaskEndTime := ev_fmt E time_layout t,
                    rst_Duration := ev_dur E (time_sub t' parseStart)\<rparr>\<rparr>;
                  (err, w3) = submit E (CUpdateStatus (OResult res')) w2
              in (failed_or_done err, w3)))
      else (finished, w))"

text \<open>With the outcome comes the result the message goroutine is started on, if it is.\<close>

definition complete_result ::
    "env \<Rightarrow> InspectResult \<Rightarrow> world \<Rightarrow> (reconciled \<times> InspectResult option \<times> world) option" where
  "complete_result E res w =
     (case mget (w_tasks w) (mget0 (om_Labels (res_Meta res)) LabelTaskName) of
        None \<Rightarrow> Some (Inl NotFound, None, w)
      | Some task \<Rightarrow> do {
          counted \<leftarrow> CountLevelNum E (om_Name (res_Meta res)) w;
          (case counted of
             Inl e \<Rightarrow> Some (Inl e, None, w)
           | Inr countLevelNum \<Rightarrow>
               (let res' = res\<lparr>res_Status := (res_Status res)\<lparr>rst_Policy := its_InspectPolicy (it_Spec task),
                      rst_TaskStartTime := mget0 (om_Annotations (res_Meta res)) AnnotationStartTime,
                      rst_Complete := True, rst_Level := map (\<lambda>(l, n). (l, Some n)) countLevelNum\<rparr>\<rparr>;
                    (err, w1) = submit E (CUpdateStatus (OResult res')) w
                in Some (case err of Some e \<Rightarrow> (Inl e, None, w1) | None \<Rightarrow> (finished, Some res', w1)))) })"

definition release_result :: "env \<Rightarrow> InspectResult \<Rightarrow> world \<Rightarrow> reconciled \<times> world" where
  "release_result E res w =
     (let file = ResultPathPrefix @ ''/'' @ om_Name (res_Meta res);
          (e1, w1) = submit E (CFileRemove file) w;
          (e2, w2) = submit E (CFileRemove (file @ ''.xlsx'')) w1;
          (e3, w3) = submit E (CFileRemove (file @ ''.html'')) w2;
          (err, w4) = submit E (CUpdate [] (OResult (result_finalizers (drop_finalizer (res_Meta res)) res))) w3
      in (failed_or_done err, w4))"

definition result_Reconcile :: "env \<Rightarrow> string \<Rightarrow> world \<Rightarrow> (reconciled \<times> InspectResult option \<times> world) option" where
  "result_Reconcile E req w =
     (let (r, w1) = read_result E req w in
      case r of
        Inl e \<Rightarrow> Some (if e = NotFound then finished else Inl e, None, w1)
      | Inr res \<Rightarrow>
          (if not_deleted (res_Meta res) \<and> \<not> has_finalizer (res_Meta res) then
             (let (err, w2) = submit E (CUpdate [] (OResult (result_finalizers (add_finalizer (res_Meta res)) res))) w1
              in Some (failed_or_done err, None, w2))
           else if \<not> not_deleted (res_Meta res) then
             (let (x, w2) = release_result E res w1 in Some (x, None, w2))
           else if rst_Complete (res_Status res) then
             (let (x, w2) = end_result E res w1 in Some (x, None, w2))
           else complete_result E res w1))"

section \<open>The message\<close>

definition GetIssuesNumber :: "InspectResult \<Rightarrow> int" where
  "GetIssuesNumber res = sum_list (map (\<lambda>(k, l). case l of None \<Rightarrow> 0 | Some n \<Rightarrow> n) (rst_Level (res_Status res)))"

text \<open>The fixed parts of the title, in UTF-8.\<close>

definition title_found :: string where
  "title_found = '' '' @ map char_of [233 :: nat, 155, 134, 231, 190, 164, 229, 183, 161, 230, 163, 128, 229, 174, 140,
     230, 136, 144] @ '','' @ map char_of [229 :: nat, 133, 177, 229, 143, 145, 231, 142, 176] @ '' ''"

definition title_issues :: string where
  "title_issues = '' '' @ map char_of [228 :: nat, 184, 170, 233, 151, 174, 233, 162, 152]"

definition SendMessage ::
    "env \<Rightarrow> (trace \<Rightarrow> string \<Rightarrow> string option) \<Rightarrow> InspectResult \<Rightarrow> world \<Rightarrow> (EmailConfig \<times> MessageEvent) option" where
  "SendMessage E render res w =
     (case ev_config E (w_trace w) of
        Inl _ \<Rightarrow> None
      | Inr kc \<Rightarrow> do {
          msg \<leftarrow> kc_Message kc;
          if \<not> mc_Enable msg then None
          else if (mc_Mode msg = [] \<or> mc_Mode msg = AbnormalMode) \<and> GetIssuesNumber res = 0 then None
          else do {
            content \<leftarrow> render (w_trace w) (om_Name (res_Meta res));
            Some (mc_Email msg, \<lparr>me_Title = cl_Name (rs_InspectCluster (res_Spec res)) @ title_found
                @ itoa (GetIssuesNumber res) @ title_issues,
              me_Content = content, me_Timestamp = ev_now E (w_trace w)\<rparr>) } })"

section \<open>The kinds of result items\<close>

lemma base_fields:
  "mget (enc_BaseResult b) ''level'' = (if br_Level b = [] then None else Some (JStr (br_Level b)))"
  "mget (enc_BaseResult b) ''assert'' = (if br_Assert b then Some (JBool True) else None)"
  "mget (enc_BaseResult b) ''issues'' = None"
  by (simp_all add: enc_BaseResult_def json_omit map_add_def)

lemmas item_encoders = enc_FileChangeResultItem_def enc_NodeMetricsResultItem_def enc_NodeInfoResultItem_def
  enc_PrometheusResult_def enc_ServiceConnectResultItem_def enc_ComponentResultItem_def enc_CommandResultItem_def

interpretation file_as: assertable enc_FileChangeResultItem fri_Base "length \<circ> fri_Issues"
  by unfold_locales (simp add: item_encoders mget_append base_fields json_omit map_add_def)

interpretation metric_as: assertable enc_NodeMetricsResultItem nmi_Base "\<lambda>_. 0"
  by unfold_locales (simp add: item_encoders mget_append base_fields json_omit)

interpretation nodeinfo_as: assertable enc_NodeInfoResultItem nri_Base "\<lambda>_. 0"
  by unfold_locales (simp add: item_encoders mget_append base_fields json_omit)

interpretation prom_as: assertable enc_PrometheusResult pmr_Base "\<lambda>_. 0"
  by unfold_locales (simp add: item_encoders mget_append base_fields json_omit)

interpretation service_as: assertable enc_ServiceConnectResultItem sci_Base "\<lambda>_. 0"
  by unfold_locales (simp add: item_encoders mget_append base_fields json_omit)

interpretation component_as: assertable enc_ComponentResultItem cri_Base "\<lambda>_. 0"
  by unfold_locales (simp add: item_encoders mget_append base_fields json_omit)

interpretation command_as: assertable enc_CommandResultItem cmi_Base "\<lambda>_. 0"
  by unfold_locales (simp add: item_encoders mget_append base_fields json_omit)

text \<open>Every item of a result, as its base and the number of its issues.\<close>

definition asserting_items :: "InspectResult \<Rightarrow> (BaseResult \<times> nat) list" where
  "asserting_items res = (let s = res_Spec res in
     map (\<lambda>r. (fri_Base r, max 1 (length (fri_Issues r)))) (rs_FileChangeResult s @ rs_FileFilterResult s)
     @ map (\<lambda>b. (b, 1)) (map nmi_Base (rs_SysctlResult s @ rs_SystemdResult s) @ map nri_Base (rs_NodeInfo s)
         @ map pmr_Base (rs_PrometheusResult s) @ map sci_Base (rs_ServiceConnectResult s)
         @ map cri_Base (rs_ComponentResult s) @ map cmi_Base (rs_CommandResult s)))"

definition issues_at :: "Level \<Rightarrow> InspectResult \<Rightarrow> nat" where
  "issues_at l res = (\<Sum>(b, n)\<leftarrow>asserting_items res. if br_Assert b \<and> level_of DangerLevel (br_Level b) = l then n else 0)"

lemma item_weights:
  "(if l = file_as.severity f then file_as.weight f else 0)
     = (if br_Assert (fri_Base f) \<and> level_of DangerLevel (br_Level (fri_Base f)) = l then max 1 (length (fri_Issues f)) else 0)"
  "(if l = metric_as.severity m then metric_as.weight m else 0)
     = (if br_Assert (nmi_Base m) \<and> level_of DangerLevel (br_Level (nmi_Base m)) = l then 1 else 0)"
  "(if l = nodeinfo_as.severity n then nodeinfo_as.weight n else 0)
     = (if br_Assert (nri_Base n) \<and> level_of DangerLevel (br_Level (nri_Base n)) = l then 1 else 0)"
  "(if l = prom_as.severity p then prom_as.weight p else 0)
     = (if br_Assert (pmr_Base p) \<and> level_of DangerLevel (br_Level (pmr_Base p)) = l then 1 else 0)"
  "(if l = service_as.severity s then service_as.weight s else 0)
     = (if br_Assert (sci_Base s) \<and> level_of DangerLevel (br_Level (sci_Base s)) = l then 1 else 0)"
  "(if l = component_as.severity c then component_as.weight c else 0)
     = (if br_Assert (cri_Base c) \<and> level_of DangerLevel (br_Level (cri_Base c)) = l then 1 else 0)"
  "(if l = command_as.severity d then command_as.weight d else 0)
     = (if br_Assert (cmi_Base d) \<and> level_of DangerLevel (br_Level (cmi_Base d)) = l then 1 else 0)"
  by (auto simp: file_as.severity_def file_as.weight_def metric_as.severity_def metric_as.weight_def
      nodeinfo_as.severity_def nodeinfo_as.weight_def prom_as.severity_def prom_as.weight_def
      service_as.severity_def service_as.weight_def component_as.severity_def component_as.weight_def
      command_as.severity_def command_as.weight_def)

lemma count_levels_issues:
  "\<exists>m. count_levels res = Some m \<and> (\<forall>l. level_num m l = level_num (opa_levels res) l + int (issues_at l res))"
proof -
  let ?s = "res_Spec res"
  obtain m1 where m1: "totalResultLevel (JArr (map enc_FileChangeResultItem (rs_FileChangeResult ?s))) (opa_levels res) = Some m1"
    "\<And>l. level_num m1 l = level_num (opa_levels res) l + int (\<Sum>r\<leftarrow>rs_FileChangeResult ?s. if l = file_as.severity r then file_as.weight r else 0)"
    using file_as.totalResultLevel_encoded by blast
  obtain m2 where m2: "totalResultLevel (JArr (map enc_FileChangeResultItem (rs_FileFilterResult ?s))) m1 = Some m2"
    "\<And>l. level_num m2 l = level_num m1 l + int (\<Sum>r\<leftarrow>rs_FileFilterResult ?s. if l = file_as.severity r then file_as.weight r else 0)"
    using file_as.totalResultLevel_encoded by blast
  obtain m3 where m3: "totalResultLevel (JArr (map enc_NodeMetricsResultItem (rs_SysctlResult ?s))) m2 = Some m3"
    "\<And>l. level_num m3 l = level_num m2 l + int (\<Sum>r\<leftarrow>rs_SysctlResult ?s. if l = metric_as.severity r then metric_as.weight r else 0)"
    using metric_as.totalResultLevel_encoded by blast
  obtain m4 where m4: "totalResultLevel (JArr (map enc_NodeMetricsResultItem (rs_SystemdResult ?s))) m3 = Some m4"
    "\<And>l. level_num m4 l = level_num m3 l + int (\<Sum>r\<leftarrow>rs_SystemdResult ?s. if l = metric_as.severity r then metric_as.weight r else 0)"
    using metric_as.totalResultLevel_encoded by blast
  obtain m5 where m5: "totalResultLevel (JArr (map enc_NodeInfoResultItem (rs_NodeInfo ?s))) m4 = Some m5"
    "\<And>l. level_num m5 l = level_num m4 l + int (\<Sum>r\<leftarrow>rs_NodeInfo ?s. if l = nodeinfo_as.severity r then nodeinfo_as.weight r else 0)"
    using nodeinfo_as.totalResultLevel_encoded by blast
  obtain m6 where m6: "totalResultLevel (JArr (map enc_PrometheusResult (rs_PrometheusResult ?s))) m5 = Some m6"
    "\<And>l. level_num m6 l = level_num m5 l + int (\<Sum>r\<leftarrow>rs_PrometheusResult ?s. if l = prom_as.severity r then prom_as.weight r else 0)"
    using prom_as.totalResultLevel_encoded by blast
  obtain m7 where m7: "totalResultLevel (JArr (map enc_ServiceConnectResultItem (rs_ServiceConnectResult ?s))) m6 = Some m7"
    "\<And>l. level_num m7 l = level_num m6 l + int (\<Sum>r\<leftarrow>rs_ServiceConnectResult ?s. if l = service_as.severity r then service_as.weight r else 0)"
    using service_as.totalResultLevel_encoded by blast
  obtain m8 where m8: "totalResultLevel (JArr (map enc_ComponentResultItem (rs_ComponentResult ?s))) m7 = Some m8"
    "\<And>l. level_num m8 l = level_num m7 l + int (\<Sum>r\<leftarrow>rs_ComponentResult ?s. if l = component_as.severity r then component_as.weight r else 0)"
    using component_as.totalResultLevel_encoded by blast
  obtain m9 where m9: "totalResultLevel (JArr (map enc_CommandResultItem (rs_CommandResult ?s))) m8 = Some m9"
    "\<And>l. level_num m9 l = level_num m8 l + int (\<Sum>r\<leftarrow>rs_CommandResult ?s. if l = command_as.severity r then command_as.weight r else 0)"
    using command_as.totalResultLevel_encoded by blast
  have "level_num m9 l = level_num (opa_levels res) l + int (issues_at l res)" for l
    unfolding m9(2) m8(2) m7(2) m6(2) m5(2) m4(2) m3(2) m2(2) m1(2) item_weights issues_at_def asserting_items_def Let_def
    by (simp add: o_def case_prod_unfold cong: if_cong)
  then show ?thesis by (simp add: count_levels_def Let_def m1(1) m2(1) m3(1) m4(1) m5(1) m6(1) m7(1) m8(1) m9(1))
qed

text \<open>
  C19. The count of the issues of a result never panics, and the number it gives a level is the one
  of the OPA score plus, for each asserting item of that level (danger for those without one), the
  number of its issues, at least one.
\<close>

theorem CountLevelNum_issues:
  "(case ev_file E (w_trace w) (ResultPathPrefix @ ''/'' @ n) of
      None \<Rightarrow> CountLevelNum E n w = Some (Inl (ApiErr ''read''))
    | Some res \<Rightarrow> \<exists>m. CountLevelNum E n w = Some (Inr m)
        \<and> (\<forall>l. level_num m l = level_num (opa_levels res) l + int (issues_at l res)))"
  using count_levels_issues by (auto simp: CountLevelNum_def split: option.splits)

text \<open>
  C18. The message about a result: a reconcile starts it only after its own completion of the result
  was accepted, with the levels counted; and the goroutine sends it only if messages are enabled and,
  unless the mode asks for every result, some issue was counted.
\<close>

theorem result_message:
  assumes "result_Reconcile E req w = Some (r, Some res, w')"
  shows "r = finished \<and> rst_Complete (res_Status res)
    \<and> updates w' = updates w @ [OResult res]
    \<and> (\<exists>old m. ev_result E (w_trace w) req = Inr old \<and> \<not> rst_Complete (res_Status old) \<and> res_Spec res = res_Spec old
        \<and> CountLevelNum E (om_Name (res_Meta old)) (log (CRead [] KResult req) w) = Some (Inr m)
        \<and> GetIssuesNumber res = sum_list (map snd m))
    \<and> (\<forall>cfg ev. SendMessage E render res w'' = Some (cfg, ev) \<longrightarrow>
        (\<exists>kc msg. ev_config E (w_trace w'') = Inr kc \<and> kc_Message kc = Some msg \<and> mc_Enable msg \<and> cfg = mc_Email msg
           \<and> (GetIssuesNumber res \<noteq> 0 \<or> mc_Mode msg \<notin> {[], AbnormalMode})))"
proof -
  let ?w = "log (CRead [] KResult req) w"
  have run: "\<exists>old. ev_result E (w_trace w) req = Inr old \<and> \<not> rst_Complete (res_Status old)
      \<and> complete_result E old ?w = Some (r, Some res, w')"
    using assms by (auto simp: result_Reconcile_def world_simps Let_def split: sum.splits if_splits prod.splits)
  then obtain old where old: "ev_result E (w_trace w) req = Inr old" "\<not> rst_Complete (res_Status old)"
    "complete_result E old ?w = Some (r, Some res, w')"
    by blast
  obtain task c where c: "mget (w_tasks w) (mget0 (om_Labels (res_Meta old)) LabelTaskName) = Some task"
      "CountLevelNum E (om_Name (res_Meta old)) ?w = Some c"
    using old(3) by (auto simp: complete_result_def world_simps bind_eq_Some_conv split: option.splits)
  obtain m where m: "c = Inr m"
    using old(3) c by (cases c) (auto simp: complete_result_def world_simps)
  let ?res = "old\<lparr>res_Status := (res_Status old)\<lparr>rst_Policy := its_InspectPolicy (it_Spec task),
      rst_TaskStartTime := mget0 (om_Annotations (res_Meta old)) AnnotationStartTime,
      rst_Complete := True, rst_Level := map (\<lambda>(l, n). (l, Some n)) m\<rparr>\<rparr>"
  have "res = ?res \<and> r = finished \<and> w' = log (CUpdateStatus (OResult ?res)) ?w"
    using old(3) c m
    by (cases "ev_write E (w_trace ?w) (CUpdateStatus (OResult ?res))") (auto simp: complete_result_def world_simps Let_def)
  then have res: "res = ?res" "r = finished" "w' = log (CUpdateStatus (OResult ?res)) ?w" by blast+
  have n: "GetIssuesNumber res = sum_list (map snd m)"
    unfolding res(1) by (simp add: GetIssuesNumber_def case_prod_unfold o_def)
  have send: "\<exists>kc msg. ev_config E (w_trace w'') = Inr kc \<and> kc_Message kc = Some msg \<and> mc_Enable msg \<and> cfg = mc_Email msg
      \<and> (GetIssuesNumber res \<noteq> 0 \<or> mc_Mode msg \<notin> {[], AbnormalMode})"
    if "SendMessage E render res w'' = Some (cfg, ev)" for cfg ev
    using that by (auto simp: SendMessage_def bind_eq_Some_conv split: sum.splits if_splits)
  have u: "updates w' = updates w @ [OResult res]"
    unfolding res(3) using res(1) by (simp add: world_simps)
  show ?thesis
    using res(2) u old(1,2) c(2) m n send by (auto simp: res(1))
qed

section \<open>A concrete run\<close>

definition broken_result :: InspectResult where
  "broken_result = \<lparr>res_Meta = (empty_meta ''res'')\<lparr>om_Labels := [(LabelTaskName, ''task'')], om_Finalizers := [Finalizers]\<rparr>,
     res_Spec = zero_ResultSpec\<lparr>rs_SysctlResult := [\<lparr>nmi_Base = \<lparr>br_Name = ''a'', br_Assert = True, br_Level = []\<rparr>,
       nmi_Value = None, nmi_NodeName = []\<rparr>]\<rparr>,
     res_Status = zero_ResultStatus\<rparr>"

definition result_env :: env where
  "result_env = quiet_env\<lparr>ev_result := \<lambda>tr n. Inr broken_result, ev_file := \<lambda>tr n. Some broken_result\<rparr>"

definition result_world :: world where
  "result_world = empty_world\<lparr>w_tasks := [(''task'', \<lparr>it_Type = \<lparr>tm_Kind = [], tm_APIVersion = []\<rparr>, it_Meta = empty_meta ''task'',
     it_Spec = \<lparr>its_ClusterName = None, its_RuleNames = [], its_Timeout = [], its_InspectPolicy = CyclePolicy\<rparr>,
     it_Status = zero_TaskStatus\<rparr>)]\<rparr>"

theorem result_message_witness:
  "\<exists>r res w'. result_Reconcile result_env ''res'' result_world = Some (r, Some res, w')
     \<and> rst_Complete (res_Status res) \<and> r = finished"
proof -
  have "result_Reconcile result_env ''res'' result_world \<noteq> None
      \<and> fst (snd (the (result_Reconcile result_env ''res'' result_world))) \<noteq> None"
    by code_simp
  then obtain r res w' where "result_Reconcile result_env ''res'' result_world = Some (r, Some res, w')"
    by (cases "result_Reconcile result_env ''res'' result_world") auto
  from result_message [OF this] this show ?thesis by blast
qed

end
