(* ===== verification/Report_Rows.thy ===== *)
theory Report_Rows
  imports Inspectors
begin

text \<open>
  pkg/output/html.go: the rows of the report, a table for each kind of rule with its header, and the
  overview.  None is a panic.  The lists of a result come from a file written with omitempty, so an
  empty list is the nil one.
\<close>

datatype renderNode = Render (rn_Text: string) (rn_Issues: bool) (rn_Header: bool) (rn_Children: "renderNode list")

abbreviation cell :: "string \<Rightarrow> renderNode" where
  "cell t \<equiv> Render t False False []"

definition header_row :: "string list \<Rightarrow> renderNode" where
  "header_row names = Render [] False True (map cell names)"

definition data_row :: "bool \<Rightarrow> string list \<Rightarrow> renderNode" where
  "data_row issues texts = Render [] issues False (map cell texts)"

definition GetOpaList :: "ResourceResult list \<Rightarrow> renderNode list" where
  "GetOpaList rs = header_row [''Name'', ''Kind'', ''NameSpace'', ''Message'', ''Reason'', ''Level''] #
     concat (map (\<lambda>r. map (\<lambda>i. data_row False [rr_Name r, rr_ResourceType r, rr_NameSpace r, rit_Message i,
       rit_Reason i, rit_Level i]) (rr_ResultItems r)) rs)"

definition GetPrometheus :: "PrometheusResult list \<Rightarrow> renderNode list" where
  "GetPrometheus pro = header_row [''name'', ''result''] #
     map (\<lambda>p. data_row False [br_Name (pmr_Base p), pmr_Result p]) pro"

definition GetFileChange :: "FileChangeResultItem list \<Rightarrow> renderNode list" where
  "GetFileChange fs = header_row [''name'', ''path'', ''nodeName'', ''value'', ''level''] #
     map (\<lambda>f. data_row False [fri_Path f, br_Name (fri_Base f), fri_NodeName f, join '','' (fri_Issues f), br_Level (fri_Base f)])
       (filter (\<lambda>f. fri_Issues f \<noteq> []) fs)"

definition GetFileFilter :: "FileChangeResultItem list \<Rightarrow> renderNode list" where
  "GetFileFilter fs = header_row [''name'', ''Path'', ''nodeName'', ''Issues'', ''level''] #
     concat (map (\<lambda>f. map (\<lambda>issue. data_row False [br_Name (fri_Base f), fri_Path f, fri_NodeName f, issue, br_Level (fri_Base f)])
       (fri_Issues f)) fs)"

definition GetServiceConnect :: "ServiceConnectResultItem list \<Rightarrow> renderNode list" where
  "GetServiceConnect cs = header_row [''name'', ''namespace'', ''endpoint''] #
     map (\<lambda>c. data_row False [br_Name (sci_Base c), sci_Namespace c, sci_Endpoint c]) (filter (\<lambda>c. br_Assert (sci_Base c)) cs)"

text \<open>An asserting item without a value is a nil dereference.\<close>

definition metric_rows :: "NodeMetricsResultItem list \<Rightarrow> renderNode list option" where
  "metric_rows items = map_option (Cons (header_row [''name'', ''nodeName'', ''value'']))
     (those (map (\<lambda>i. map_option (\<lambda>v. data_row True [br_Name (nmi_Base i), nmi_NodeName i, v]) (nmi_Value i))
       (filter (\<lambda>i. br_Assert (nmi_Base i)) items)))"

definition GetSysctl :: "NodeMetricsResultItem list \<Rightarrow> renderNode list option" where
  "GetSysctl sysctlResult = metric_rows sysctlResult"

definition GetSystemd :: "NodeMetricsResultItem list \<Rightarrow> renderNode list option" where
  "GetSystemd systemdResult = metric_rows systemdResult"

definition GetNodeInfo :: "NodeInfoResultItem list \<Rightarrow> renderNode list" where
  "GetNodeInfo items = header_row [''name'', ''nodeName'', ''resourcesType'', ''mount'', ''value''] #
     map (\<lambda>i. data_row True [br_Name (nri_Base i), nri_NodeName i, rt_Type (nri_ResourcesType i),
       rt_Mount (nri_ResourcesType i), nri_Value i]) (filter (\<lambda>i. br_Assert (nri_Base i)) items)"

definition GetCommand :: "CommandResultItem list \<Rightarrow> renderNode list" where
  "GetCommand items = header_row [''name'', ''nodeName'', ''value''] #
     map (\<lambda>i. data_row True [br_Name (cmi_Base i), cmi_NodeName i, BoolToString (br_Assert (cmi_Base i))])
       (filter (\<lambda>i. br_Assert (cmi_Base i)) items)"

text \<open>The last address and the last condition of a node decide.\<close>

definition internal_ip :: "K8sNode \<Rightarrow> string" where
  "internal_ip n = fold (\<lambda>(typ, a) address. if typ = ''InternalIP'' then a else address) (kn_Addresses n) []"

definition shown_status :: "K8sNode \<Rightarrow> string" where
  "shown_status n = fold (\<lambda>(typ, st) status. if typ = ''Ready'' \<and> st = ''True'' then ''Ready'' else ''NotReady'')
     (kn_Conditions n) []"

definition GetNodesStatus :: "K8sNode list \<Rightarrow> renderNode list" where
  "GetNodesStatus ns = header_row [''Name'', ''Address'', ''Version'', ''Status''] #
     map (\<lambda>n. data_row False [kn_Name n, internal_ip n, kn_KubeletVersion n, shown_status n]) ns"

text \<open>Reasons joined by commas and messages by newlines, of the waiting or terminated containers.\<close>

definition add_text :: "string \<Rightarrow> string \<Rightarrow> string \<Rightarrow> string" where
  "add_text sep old new = (if old \<noteq> [] then old @ sep @ new else new)"

definition container_text :: "ContainerStatus \<Rightarrow> string \<times> string \<Rightarrow> string \<times> string" where
  "container_text c st = (case st of (reason, message) \<Rightarrow>
     (case (cs_Waiting c, cs_Terminated c) of
        (Some (r, m), _) \<Rightarrow> (add_text '', '' reason r, add_text [CHR 0x0A] message m)
      | (None, Some (r, m)) \<Rightarrow> (add_text '', '' reason r, add_text [CHR 0x0A] message m)
      | (None, None) \<Rightarrow> (reason, message)))"

definition pod_texts :: "K8sPod \<Rightarrow> string \<times> string" where
  "pod_texts p = fold container_text (kp_InitContainerStatuses p @ kp_ContainerStatuses p) ([], [])"

definition GetAbnormalPods :: "K8sPod list \<Rightarrow> renderNode list" where
  "GetAbnormalPods ps = header_row [''Name'', ''Namespace'', ''Phase'', ''Reason'', ''Message''] #
     map (\<lambda>p. data_row False [kp_Name p, kp_Namespace p, kp_Phase p, fst (pod_texts p), snd (pod_texts p)])
       (filter (\<lambda>p. kp_Phase p \<noteq> ''Running'' \<and> kp_Phase p \<noteq> ''Succeeded'') ps)"

section \<open>Paths\<close>

text \<open>
  path.Join of a directory and a name: joined by a slash and cleaned, empty and dot segments dropped,
  a double dot taking the segment before it or, at the start of a relative path, kept.
\<close>

fun split_on :: "char \<Rightarrow> string \<Rightarrow> string list" where
  "split_on d [] = [[]]"
| "split_on d (c # s) = (if c = d then [] # split_on d s
     else case split_on d s of [] \<Rightarrow> [[c]] | seg # segs \<Rightarrow> (c # seg) # segs)"

definition split_slash :: "string \<Rightarrow> string list" where
  "split_slash s = split_on CHR ''/'' s"

definition clean_segment :: "bool \<Rightarrow> string \<Rightarrow> string list \<Rightarrow> string list" where
  "clean_segment rooted seg out =
     (if seg = [] \<or> seg = ''.'' then out
      else if seg \<noteq> ''..'' then out @ [seg]
      else if out \<noteq> [] \<and> last out \<noteq> ''..'' then butlast out
      else if rooted then out else out @ [seg])"

definition path_clean :: "string \<Rightarrow> string" where
  "path_clean p =
     (let rooted = (take 1 p = ''/''); segs = fold (clean_segment rooted) (split_slash p) []
      in if rooted then ''/'' @ join ''/'' segs else if segs = [] then ''.'' else join ''/'' segs)"

definition path_join :: "string \<Rightarrow> string \<Rightarrow> string" where
  "path_join dir name =
     (let p = (if dir = [] then name else if name = [] then dir else dir @ ''/'' @ name)
      in if p = [] then [] else path_clean p)"

text \<open>ParseFileName of pkg/output/output.go.\<close>

definition ParseFileName :: "string \<Rightarrow> string \<Rightarrow> string" where
  "ParseFileName p defaultFileName =
     (if list_ex (\<lambda>i. str_has_prefix (drop i p) ''.html'') [1..<Suc (length p)] then p else path_join p defaultFileName)"

lemma split_slash_plain: "CHR ''/'' \<notin> set s \<Longrightarrow> split_slash s = [s]"
  unfolding split_slash_def by (induction s) auto

text \<open>A name without a slash leads to a file of the directory of the results, to it, or to its parent.\<close>

lemma path_join_results:
  assumes "CHR ''/'' \<notin> set name"
  shows "path_join ResultPathPrefix name
    = (if name = [] \<or> name = ''.'' then ResultPathPrefix else if name = ''..'' then ''/kubeeye'' else ResultPathPrefix @ ''/'' @ name)"
proof -
  have "split_on CHR ''/'' name = [name]" using split_slash_plain [OF assms] by (simp add: split_slash_def)
  then show ?thesis by (simp add: path_join_def path_clean_def clean_segment_def split_slash_def)
qed

section \<open>The report\<close>

type_synonym tables = "(string, renderNode list) gomap"

text \<open>A kind gets its table when its list is there.\<close>

definition with_table :: "'a list \<Rightarrow> string \<Rightarrow> renderNode list \<Rightarrow> tables \<Rightarrow> tables" where
  "with_table xs k rows m = (if xs = [] then m else mput m k rows)"

definition result_tables :: "InspectResultSpec \<Rightarrow> tables option" where
  "result_tables s = do {
     sysctl \<leftarrow> GetSysctl (rs_SysctlResult s);
     systemd \<leftarrow> GetSystemd (rs_SystemdResult s);
     let m = with_table (kor_ResourceResults (rs_OpaResult s)) Opa (GetOpaList (kor_ResourceResults (rs_OpaResult s))) [];
     let m = with_table (rs_PrometheusResult s) PrometheusType (GetPrometheus (rs_PrometheusResult s)) m;
     let m = with_table (rs_FileChangeResult s) FileChange (GetFileChange (rs_FileChangeResult s)) m;
     let m = with_table (rs_SysctlResult s) Sysctl sysctl m;
     let m = with_table (rs_SystemdResult s) Systemd systemd m;
     let m = with_table (rs_FileFilterResult s) FileFilter (GetFileFilter (rs_FileFilterResult s)) m;
     let m = with_table (rs_CommandResult s) CustomCommand (GetCommand (rs_CommandResult s)) m;
     let m = with_table (rs_NodeInfo s) NodeInfo (GetNodeInfo (rs_NodeInfo s)) m;
     Some (with_table (rs_ServiceConnectResult s) ServiceConnect (GetServiceConnect (rs_ServiceConnectResult s)) m) }"

record html_data =
  ht_Title :: string
  ht_Overview :: "(string \<times> int \<times> nat) list option"
  ht_Details :: tables

definition row_number :: "tables \<Rightarrow> string \<Rightarrow> nat" where
  "row_number m k = (case mget m k of None \<Rightarrow> 0 | Some rows \<Rightarrow> length rows - 1)"

text \<open>
  HtmlOut, with the two switches of the environment: an error when the file cannot be read, and None
  for a panic.
\<close>

definition HtmlOut :: "bool \<Rightarrow> bool \<Rightarrow> (string \<Rightarrow> InspectResult option) \<Rightarrow> string \<Rightarrow> (unit + html_data) option" where
  "HtmlOut disable_component disable_overview file resultName =
     (case file (path_join ResultPathPrefix resultName) of
        None \<Rightarrow> Some (Inl ())
      | Some results \<Rightarrow> do {
          collection \<leftarrow> result_tables (res_Spec results);
          let ruleNumber = map (\<lambda>(key, val). (key, val, row_number collection key)) (rs_InspectRuleTotal (res_Spec results));
          let details = (if disable_component then mdel collection Component else collection);
          Some (Inr \<lparr>ht_Title = mget0 (om_Annotations (res_Meta results)) AnnotationStartTime,
            ht_Overview = (if disable_overview then None else Some ruleNumber), ht_Details = details\<rparr>) })"

section \<open>What the report shows\<close>

text \<open>The issues of a result by kind, as the overview is meant to count them.\<close>

definition asserting :: "('a \<Rightarrow> BaseResult) \<Rightarrow> 'a list \<Rightarrow> nat" where
  "asserting base xs = length (filter (\<lambda>x. br_Assert (base x)) xs)"

definition shown_issues :: "string \<Rightarrow> InspectResultSpec \<Rightarrow> nat" where
  "shown_issues k s =
     (if k = Opa then (\<Sum>r\<leftarrow>kor_ResourceResults (rs_OpaResult s). length (rr_ResultItems r))
      else if k = PrometheusType then length (rs_PrometheusResult s)
      else if k = FileChange then length (filter (\<lambda>f. fri_Issues f \<noteq> []) (rs_FileChangeResult s))
      else if k = FileFilter then (\<Sum>f\<leftarrow>rs_FileFilterResult s. length (fri_Issues f))
      else if k = Sysctl then asserting nmi_Base (rs_SysctlResult s)
      else if k = Systemd then asserting nmi_Base (rs_SystemdResult s)
      else if k = CustomCommand then asserting cmi_Base (rs_CommandResult s)
      else if k = NodeInfo then asserting nri_Base (rs_NodeInfo s)
      else if k = ServiceConnect then asserting sci_Base (rs_ServiceConnectResult s)
      else 0)"

lemma asserting_Nil [simp]: "asserting base [] = 0"
  by (simp add: asserting_def)

lemma those_None: "those xs = None \<longleftrightarrow> None \<in> set xs"
  by (induction xs) (auto split: option.splits)

lemma length_those: "those xs = Some ys \<Longrightarrow> length ys = length xs"
  by (induction xs arbitrary: ys) (auto split: option.splits)

lemma metric_rows_None:
  "metric_rows items = None \<longleftrightarrow> (\<exists>i \<in> set items. br_Assert (nmi_Base i) \<and> nmi_Value i = None)"
  by (auto simp: metric_rows_def those_None image_iff)

lemma metric_rows_length:
  "metric_rows items = Some rows \<Longrightarrow> length rows - 1 = asserting nmi_Base items"
  by (auto simp: metric_rows_def asserting_def dest!: length_those)

lemma rows_length:
  "length (GetOpaList rs) - 1 = (\<Sum>r\<leftarrow>rs. length (rr_ResultItems r))"
  "length (GetPrometheus ps) - 1 = length ps"
  "length (GetFileChange fs) - 1 = length (filter (\<lambda>f. fri_Issues f \<noteq> []) fs)"
  "length (GetFileFilter fs) - 1 = (\<Sum>f\<leftarrow>fs. length (fri_Issues f))"
  "length (GetServiceConnect cs) - 1 = asserting sci_Base cs"
  "length (GetNodeInfo ns) - 1 = asserting nri_Base ns"
  "length (GetCommand ds) - 1 = asserting cmi_Base ds"
  by (simp_all add: GetOpaList_def GetPrometheus_def GetFileChange_def GetFileFilter_def GetServiceConnect_def
      GetNodeInfo_def GetCommand_def asserting_def length_concat o_def)

lemma row_number_with_table [simp]:
  "row_number (with_table xs k rows m) k' =
     (if k' = k \<and> xs \<noteq> [] then length rows - 1 else row_number m k')"
  by (simp add: row_number_def with_table_def go_map)

lemma result_tables_rows:
  assumes "result_tables s = Some m"
  shows "row_number m k = shown_issues k s"
proof -
  obtain sysctl systemd where rows: "GetSysctl (rs_SysctlResult s) = Some sysctl" "GetSystemd (rs_SystemdResult s) = Some systemd"
    using assms by (auto simp: result_tables_def bind_eq_Some_conv)
  have "length sysctl - 1 = asserting nmi_Base (rs_SysctlResult s)" "length systemd - 1 = asserting nmi_Base (rs_SystemdResult s)"
    using rows by (simp_all only: GetSysctl_def GetSystemd_def metric_rows_length)
  note metric_lengths = this
  have none: "row_number [] k = 0" by (simp add: row_number_def)
  consider "k = Opa" | "k = PrometheusType" | "k = FileChange" | "k = FileFilter" | "k = Sysctl" | "k = Systemd"
    | "k = CustomCommand" | "k = NodeInfo" | "k = ServiceConnect"
    | "k \<notin> {Opa, PrometheusType, FileChange, FileFilter, Sysctl, Systemd, CustomCommand, NodeInfo, ServiceConnect}"
    by blast
  then show ?thesis
    using assms rows none metric_lengths
    by cases (auto simp: result_tables_def shown_issues_def rows_length simp del: One_nat_def)
qed

lemma result_tables_None:
  "result_tables s = None \<longleftrightarrow> (\<exists>i \<in> set (rs_SysctlResult s) \<union> set (rs_SystemdResult s). br_Assert (nmi_Base i) \<and> nmi_Value i = None)"
  by (auto simp: result_tables_def GetSysctl_def GetSystemd_def metric_rows_None bind_eq_None_conv Let_def)

text \<open>
  C35. The overview of the report gives every counted kind of rule its total and the number of its
  issues: the items of the OPA resources, the Prometheus samples, the changed files, the issues of
  the filtered files and the asserting items of the other kinds.  A kind without a table, as the
  system components, always shows zero.
\<close>

theorem html_overview:
  assumes "file (path_join ResultPathPrefix n) = Some res" and "HtmlOut no_component False file n = Some (Inr d)"
  shows "ht_Overview d = Some (map (\<lambda>(k, t). (k, t, shown_issues k (res_Spec res))) (rs_InspectRuleTotal (res_Spec res)))
    \<and> shown_issues Component (res_Spec res) = 0"
  using assms by (auto simp: HtmlOut_def bind_eq_Some_conv result_tables_rows case_prod_unfold) (simp add: shown_issues_def)

text \<open>
  The report panics exactly on an asserting kernel parameter or unit without a value, and the
  inspectors give every item a value, so their results are always rendered.
\<close>

theorem report_panics:
  "(HtmlOut no_component no_overview file n = None \<longleftrightarrow>
     (\<exists>res. file (path_join ResultPathPrefix n) = Some res
        \<and> (\<exists>i \<in> set (rs_SysctlResult (res_Spec res)) \<union> set (rs_SystemdResult (res_Spec res)).
              br_Assert (nmi_Base i) \<and> nmi_Value i = None)))
   \<and> GetSysctl (map (sysctl_item h) rs) \<noteq> None \<and> GetSystemd (map (systemd_item h units) rs) \<noteq> None"
proof -
  have "nmi_Value (sysctl_item h r) \<noteq> None" "nmi_Value (systemd_item h units r) \<noteq> None" for r
    by (auto simp: sysctl_item_def systemd_item_def metric_def Let_def split: option.split sum.split)
  then have "GetSysctl (map (sysctl_item h) rs) \<noteq> None" "GetSystemd (map (systemd_item h units) rs) \<noteq> None"
    by (auto simp: GetSysctl_def GetSystemd_def metric_rows_None)
  then show ?thesis
    by (simp add: HtmlOut_def bind_eq_None_conv Let_def result_tables_None split: option.split)
qed

text \<open>The columns of the changed files are swapped: the path stands under the name and the name under the path.\<close>

lemma file_change_columns:
  assumes "fri_Issues f \<noteq> []"
  shows "map rn_Text (rn_Children (GetFileChange [f] ! 0)) ! 0 = ''name'' \<and> map rn_Text (rn_Children (GetFileChange [f] ! 1)) ! 0 = fri_Path f
    \<and> map rn_Text (rn_Children (GetFileChange [f] ! 0)) ! 1 = ''path'' \<and> map rn_Text (rn_Children (GetFileChange [f] ! 1)) ! 1 = br_Name (fri_Base f)"
  using assms by (simp add: GetFileChange_def header_row_def data_row_def)

text \<open>A ready node is shown as not ready when another condition follows.\<close>

lemma shown_status_last:
  "kn_Conditions n = cs @ [c] \<Longrightarrow> shown_status n = (if c = (''Ready'', ''True'') then ''Ready'' else ''NotReady'')"
  by (cases c) (simp add: shown_status_def)

definition report_file :: "string \<Rightarrow> InspectResult option" where
  "report_file p = Some (demo_result\<lparr>res_Spec := (res_Spec demo_result)\<lparr>rs_InspectRuleTotal := [(Sysctl, 3), (Component, 2)],
     rs_SysctlResult := [\<lparr>nmi_Base = failed WarningLevel ''a'', nmi_Value = Some ''1'', nmi_NodeName = ''n1''\<rparr>]\<rparr>\<rparr>)"

theorem html_overview_witness:
  "\<exists>d. HtmlOut False False report_file ''r'' = Some (Inr d) \<and> ht_Overview d = Some [(Sysctl, 3, 1), (Component, 2, 0)]"
proof -
  have "(case HtmlOut False False report_file ''r'' of Some (Inr d) \<Rightarrow> True | _ \<Rightarrow> False)" by code_simp
  then obtain d where d: "HtmlOut False False report_file ''r'' = Some (Inr d)" by (auto split: option.splits sum.splits)
  obtain res where r: "report_file (path_join ResultPathPrefix ''r'') = Some res" by (simp add: report_file_def)
  have "map (\<lambda>(k, t). (k, t, shown_issues k (res_Spec res))) (rs_InspectRuleTotal (res_Spec res)) = [(Sysctl, 3, 1), (Component, 2, 0)]"
    using r by (simp add: report_file_def shown_issues_def asserting_def failed_def demo_result_def)
      (auto simp: shown_issues_def asserting_def)
  then show ?thesis using d html_overview [OF r d] by auto
qed

end
