(* ===== verification/Opa_Score.thy ===== *)
theory Opa_Score
  imports Result_Controller Report_Rows
begin

text \<open>
  What becomes of the violations the OPA rules find: CalculateScore of pkg/inspect/kubeeyeinspect.go
  counts them for the score of a result, but only the disused audit of pkg/inspect/resources.go calls
  it, so the levels of a result, which start from its score, do not hold them.
\<close>

section \<open>The score\<close>

definition count_level :: "string \<Rightarrow> ResourceResult list \<Rightarrow> int" where
  "count_level level rs = int (length (filter (\<lambda>i. rit_Level i = level) (concat (map rr_ResultItems rs))))"

text \<open>Division truncates towards zero and panics on zero; the numbers are far from overflow.\<close>

definition go_div :: "int \<Rightarrow> int \<Rightarrow> int option" where
  "go_div a b = (if b = 0 then None else Some (sgn a * sgn b * (\<bar>a\<bar> div \<bar>b\<bar>)))"

text \<open>A list of the cluster that could not be read is nil, and its items a panic.\<close>

definition CalculateScore :: "ResourceResult list \<Rightarrow> K8SResource \<Rightarrow> ScoreInfo option" where
  "CalculateScore fmResultss k8sResources = do {
     let countDanger = count_level ''danger'' fmResultss;
     let countWarning = count_level ''warning'' fmResultss;
     let countIgnore = count_level ''ignore'' fmResultss;
     roles \<leftarrow> kr_Roles k8sResources;
     clusterRoles \<leftarrow> kr_ClusterRoles k8sResources;
     events \<leftarrow> kr_Events k8sResources;
     nodes \<leftarrow> kr_Nodes k8sResources;
     let total = kr_WorkloadsCount k8sResources * 20 + (int (length roles) + int (length clusterRoles)) * 3
       + int (length events) + int (length nodes) + 1;
     let countSuccess = total - countDanger - countWarning - countIgnore;
     let totalWeight = countSuccess * 2 + countDanger * 2 + countWarning;
     score \<leftarrow> go_div (countSuccess * 2 * 100) totalWeight;
     Some \<lparr>si_Score = score, si_Total = total, si_Dangerous = countDanger, si_Warning = countWarning,
       si_Ignore = countIgnore, si_Passing = countSuccess\<rparr> }"

text \<open>The score is a percentage as long as no more issues were found than there are checks.\<close>

lemma go_div_percent: "0 \<le> a \<Longrightarrow> a \<le> b \<Longrightarrow> 0 < b \<Longrightarrow> \<exists>s. go_div (a * 100) b = Some s \<and> 0 \<le> s \<and> s \<le> 100"
proof -
  assume a: "0 \<le> a" "a \<le> b" "0 < b"
  then have "a * 100 div b \<le> 100 * b div b" by (intro zdiv_mono1) simp_all
  then have "a * 100 div b \<le> 100" using a by simp
  moreover have "0 \<le> a * 100 div b" using a by (simp add: pos_imp_zdiv_nonneg_iff)
  ultimately show ?thesis using a by (cases "a = 0") (simp_all add: go_div_def sgn_if)
qed

lemma CalculateScore_percent:
  assumes lists: "kr_Roles k = Some roles" "kr_ClusterRoles k = Some clusterRoles" "kr_Events k = Some events" "kr_Nodes k = Some nodes"
    and few: "count_level ''danger'' rs + count_level ''warning'' rs + count_level ''ignore'' rs
      \<le> kr_WorkloadsCount k * 20 + (int (length roles) + int (length clusterRoles)) * 3 + int (length events) + int (length nodes)"
  shows "\<exists>s. CalculateScore rs k = Some s \<and> 0 \<le> si_Score s \<and> si_Score s \<le> 100
    \<and> si_Passing s + si_Dangerous s + si_Warning s + si_Ignore s = si_Total s"
proof -
  have n: "0 \<le> count_level l rs" for l by (simp add: count_level_def)
  let ?t = "kr_WorkloadsCount k * 20 + (int (length roles) + int (length clusterRoles)) * 3 + int (length events) + int (length nodes) + 1"
  let ?s = "?t - count_level ''danger'' rs - count_level ''warning'' rs - count_level ''ignore'' rs"
  have "0 \<le> ?s * 2" "?s * 2 \<le> ?s * 2 + count_level ''danger'' rs * 2 + count_level ''warning'' rs"
    "0 < ?s * 2 + count_level ''danger'' rs * 2 + count_level ''warning'' rs"
    using few n [of "''danger''"] n [of "''warning''"] by simp_all
  from go_div_percent [OF this] obtain s where
    "go_div (?s * 2 * 100) (?s * 2 + count_level ''danger'' rs * 2 + count_level ''warning'' rs) = Some s" "0 \<le> s" "s \<le> 100"
    by blast
  then have "CalculateScore rs k = Some \<lparr>si_Score = s, si_Total = ?t, si_Dangerous = count_level ''danger'' rs,
      si_Warning = count_level ''warning'' rs, si_Ignore = count_level ''ignore'' rs, si_Passing = ?s\<rparr>" "0 \<le> s" "s \<le> 100"
    by (simp_all only: CalculateScore_def lists Let_def bind.bind_lunit)
  then show ?thesis by auto
qed

lemma CalculateScore_panics:
  "None \<in> {kr_Roles k, kr_ClusterRoles k, kr_Events k, kr_Nodes k} \<Longrightarrow> CalculateScore rs k = None"
  by (auto simp: CalculateScore_def Let_def bind_eq_None_conv)

section \<open>The violations are shown and not counted\<close>

lemma opa_run_zero_score:
  assumes "opa_run R collector rules job = Some (Inr (Some d))"
  shows "\<exists>rs. d = enc_KubeeyeOpaResult (zero_OpaResult\<lparr>kor_ResourceResults := rs\<rparr>)"
  using assms by (auto simp: opa_run_def split: option.splits)

lemma zero_opa_levels: "kor_ScoreInfo (rs_OpaResult (res_Spec res)) = zero_ScoreInfo \<Longrightarrow> level_num (opa_levels res) l = 0"
  by (simp add: opa_levels_def level_num_def zero_ScoreInfo_def Let_def)


definition pod_rule :: OpaRule where
  "pod_rule = \<lparr>opr_Base = \<lparr>ri_Name = ''o'', ri_Rule = ''input.kind=='' @ [CHR 0x22] @ ''Pod'' @ [CHR 0x22]
       @ ''input.apiVersion=='' @ [CHR 0x22] @ ''v1'' @ [CHR 0x22], ri_Desc = [], ri_Level = DangerLevel\<rparr>, opr_Module = []\<rparr>"

definition pod_rego :: rego where
  "pod_rego = \<lparr>rg_prepare = (\<lambda>q r. Some ''bad''), rg_eval = (\<lambda>q r i. Inl []), rg_print = (\<lambda>j. [])\<rparr>"

definition pod_collector :: ResourceCollector where
  "pod_collector = \<lparr>rc_mapping = (\<lambda>g k v. Some (False, ''pods'')), rc_namespaces = None,
     rc_list = (\<lambda>r ns sel. Some [demo_pod ''a'', demo_pod ''b'']), rc_nodes = None, rc_stats = (\<lambda>n. None)\<rparr>"


end
