(* ===== verification/Job_Command.thy ===== *)
theory Job_Command
  imports Task_Controller Report_Rows
begin

text \<open>
  cmd/ke/ctl/create: the commands of the binary ke.  The inspection job runs ke create job in its
  pod: it reads the rules of all jobs from their config maps, runs the inspector of its kind on its
  own rules and writes the result to a config map, from which the controller collects it.  The
  command config renders the example files.  The clients of the cluster are parameters.
\<close>

section \<open>The inspectors by kind\<close>

record inspect_env =
  ie_host :: host
  ie_bases :: strmap
  ie_query :: "http_config \<Rightarrow> string \<Rightarrow> string \<Rightarrow> prom_answer"
  ie_rego :: rego
  ie_collector :: "ResourceCollector option"

definition RunInspect :: "inspect_env \<Rightarrow> string \<Rightarrow> (JobRule list \<Rightarrow> string \<Rightarrow> run_result) option" where
  "RunInspect I jobType = mget
     [(CustomCommand, command_run (ie_host I)), (Component, component_run (ie_host I)),
      (FileChange, change_run (ie_bases I) (ie_host I)), (FileFilter, filter_run (ie_host I)),
      (NodeInfo, nodeinfo_run (ie_host I)), (Opa, opa_run (ie_rego I) (ie_collector I)),
      (PrometheusType, prometheus_run (ie_query I)), (ServiceConnect, service_run (ie_host I)),
      (Sysctl, sysctl_run (ie_host I)), (Systemd, systemd_run (ie_host I))] jobType"

section \<open>The job\<close>

record Options =
  op_TaskName :: string
  op_ResultName :: string
  op_JobType :: string

text \<open>
  The configuration in the cluster and the clients made of it; the data of the config maps of rules;
  the nodes of the pods of a job; and whether a config map is accepted.
\<close>

record job_env =
  jb_config :: bool
  jb_clients :: bool
  jb_maps :: "doc list option"
  jb_pods :: "string \<Rightarrow> string list option"
  jb_create :: "ConfigMap \<Rightarrow> bool"

definition CheckAgr :: "Options \<Rightarrow> string option" where
  "CheckAgr o1 = (if IsEmptyValue (VString (op_TaskName o1)) \<or> IsEmptyValue (VString (op_ResultName o1))
     then Some ''taskName  or resultName Incomplete parameters'' else None)"

definition dec_JobRule :: "json \<Rightarrow> JobRule option" where
  "dec_JobRule j = (case j of
     JObj obj \<Rightarrow> do {
       n \<leftarrow> dec_str obj ''jobName'';
       t \<leftarrow> dec_str obj ''ruleType'';
       Some \<lparr>jr_JobName = n, jr_RuleType = t, jr_RunRule = mget obj ''runRule''\<rparr> }
   | JNull \<Rightarrow> Some \<lparr>jr_JobName = [], jr_RuleType = [], jr_RunRule = None\<rparr>
   | _ \<Rightarrow> None)"

definition job_rules :: "doc list \<Rightarrow> JobRule list option" where
  "job_rules docs = map_option concat (those (map (unmarshal_list dec_JobRule) docs))"

text \<open>None is the panic on a job without pods.\<close>

definition findJobRunNode :: "job_env \<Rightarrow> Options \<Rightarrow> string option" where
  "findJobRunNode J o1 = (case jb_pods J (op_ResultName o1) of
     None \<Rightarrow> Some [] | Some [] \<Rightarrow> None | Some (node # _) \<Rightarrow> Some node)"

definition jobInspect :: "job_env \<Rightarrow> inspect_env \<Rightarrow> Options \<Rightarrow> (string + ConfigMap option) option" where
  "jobInspect J I o1 =
     (case jb_maps J of
        None \<Rightarrow> Some (Inl ''config maps'')
      | Some docs \<Rightarrow>
          (case job_rules docs of
             None \<Rightarrow> Some (Inl ''unmarshal'')
           | Some jobRule \<Rightarrow>
               (case RunInspect I (op_JobType o1) of
                  None \<Rightarrow> Some (Inr None)
                | Some run \<Rightarrow> do {
                    outcome \<leftarrow> run jobRule (op_ResultName o1);
                    (case outcome of
                       Inl err \<Rightarrow> Some (Inl err)
                     | Inr result \<Rightarrow> do {
                         node \<leftarrow> findJobRunNode J o1;
                         let cm = BinaryConfigMapTemplate (op_ResultName o1) result
                           [(LabelTaskName, op_TaskName o1), (LabelNodeName, node), (LabelRuleType, op_JobType o1)];
                         Some (if jb_create J cm then Inr (Some cm) else Inl ''create configMap failed'') }) })))"

definition Run :: "job_env \<Rightarrow> inspect_env \<Rightarrow> Options \<Rightarrow> (string + ConfigMap option) option" where
  "Run J I o1 =
     (case CheckAgr o1 of
        Some err \<Rightarrow> Some (Inl err)
      | None \<Rightarrow>
          if \<not> jb_config J then Some (Inl ''kube config'')
          else if \<not> jb_clients J then Some (Inl ''clients'')
          else jobInspect J I o1)"

text \<open>The arguments the controller gives a job are the options of the command.\<close>

definition options_of :: "string list \<Rightarrow> Options option" where
  "options_of args = (case args of
     [c, j, f1, jobType, f2, taskName, f3, resultName] \<Rightarrow>
       if c = ''create'' \<and> j = ''job'' \<and> f1 = ''--job-type'' \<and> f2 = ''--task-name'' \<and> f3 = ''--result-name''
       then Some \<lparr>op_TaskName = taskName, op_ResultName = resultName, op_JobType = jobType\<rparr> else None
   | _ \<Rightarrow> None)"

section \<open>Through the config maps and back\<close>

lemma dec_enc_JobRule: "dec_JobRule (enc_JobRule j) = Some j"
  by (cases j) (auto simp: dec_JobRule_def enc_JobRule_def omit_str_def dec_str_def split: option.split)

lemma job_rules_written:
  "job_rules (map (\<lambda>rs. Some (JArr (map enc_JobRule rs))) rss) = Some (concat rss)"
proof -
  have "unmarshal_list dec_JobRule (Some (JArr (map enc_JobRule rs))) = Some rs" for rs
    using those_inverse [of dec_JobRule enc_JobRule rs] dec_enc_JobRule by (simp add: unmarshal_list_def)
  then have "those (map (unmarshal_list dec_JobRule \<circ> (\<lambda>rs. Some (JArr (map enc_JobRule rs)))) rss) = Some rss"
    by (induction rss) simp_all
  then show ?thesis by (simp add: job_rules_def)
qed

text \<open>The kinds that can be run are the kinds whose results are collected.\<close>

lemma run_iff_collected: "RunInspect I k = None \<longleftrightarrow> GetResult k = None"
  unfolding RunInspect_def GetResult_def map_of_eq_None_iff by simp

text \<open>The result after a collection, whatever becomes of the requests that follow the decoding.\<close>

lemma getInspectResultData_data:
  assumes "ev_configmap E (w_trace w) c name = Inr cm" and "GetResult (mget0 (cm_Labels cm) LabelRuleType) = Some get"
  shows "fst (snd (getInspectResultData E c res name w))
    = (case get (mget0 (cm_Labels cm) LabelNodeName) cm res of None \<Rightarrow> res | Some data \<Rightarrow> data)"
  using assms(2)
  by (simp add: getInspectResultData_def read_configmap_def assms(1) Let_def split: sum.split option.split prod.split
      del: LabelRuleType_def LabelNodeName_def)


text \<open>A job whose pod is not listed panics after its inspection.\<close>

lemma no_pod_panics:
  assumes "jb_pods J (op_ResultName o1) = Some []"
  shows "findJobRunNode J o1 = None"
  using assms by (simp add: findJobRunNode_def)

section \<open>The example files\<close>

datatype config_template = RuleTemplate | PlanTemplate

definition template_name :: "config_template \<Rightarrow> string" where
  "template_name t = (case t of RuleTemplate \<Rightarrow> ''examples-inspect-rule'' | PlanTemplate \<Rightarrow> ''examples-inspect-plan'')"

text \<open>The texts of the templates; they hold no actions, so executing one prints it.\<close>

definition GetInspectRuleTemplate :: string where
  "GetInspectRuleTemplate = join nl [
     [],
     ''apiVersion: kubeeye.kubesphere.io/v1alpha2'',
     ''kind: InspectRule'',
     ''metadata:'',
     ''  labels:'',
     ''    app.kubernetes.io/name: inspectrule'',
     ''    app.kubernetes.io/instance: inspectrule-sample'',
     ''    app.kubernetes.io/part-of: kubeeye'',
     ''    app.kubernetes.io/managed-by: kustomize'',
     ''    app.kubernetes.io/created-by: kubeeye'',
     ''    kubeeye.kubesphere.io/rule-tag: kubeeye_workloads_rego'',
     ''  name: inspect-rules-sample'',
     ''  namespace: kubeeye-system'',
     ''spec:'',
     ''  sysctl:'',
     ''    - name: vm.max_map_count'',
     ''      rule: vm.max_map_count==262144      '',
     ''      nodeName: master'',
     ''      nodeSelector:'',
     tab @ tab @ ''kubernetes.io/name: \"\"'',
     ''  systemd:'',
     ''    - name: docker'',
     ''      rule: docker = \"active\"'',
     ''      nodeName: master'',
     ''      nodeSelector:'',
     tab @ tab @ ''kubernetes.io/name: \"\"'',
     ''  fileChange:'',
     ''    - name: '',
     ''      path: '',
     ''      nodeName: master'',
     ''      nodeSelector:'',
     tab @ tab @ ''kubernetes.io/name: \"\"'',
     ''  prometheusEndpoint: '',
     ''  prometheus:'',
     ''    - name: '',
     ''      rule: '',
     ''  opas:'',
     ''    - module: kubeeye_workloads_rego'',
     ''      name: '',
     ''      rule: |-'',
     []]"

definition GetInspectPlanTemplate :: string where
  "GetInspectPlanTemplate = join nl [
     [],
     tab @ ''apiVersion: kubeeye.kubesphere.io/v1alpha2'',
     tab @ ''kind: InspectPlan'',
     tab @ ''metadata:'',
     tab @ ''  name: inspect-plan-sample'',
     tab @ ''  namespace: kubeeye-system'',
     tab @ ''spec:'',
     tab @ ''  schedule: \"*/30 * * *  ?\"'',
     tab @ ''  maxTasks: 10'',
     tab @ ''  tag: kubeeye_workloads_rego'',
     tab]"

definition template_text :: "config_template \<Rightarrow> string" where
  "template_text t = (case t of RuleTemplate \<Rightarrow> GetInspectRuleTemplate | PlanTemplate \<Rightarrow> GetInspectPlanTemplate)"

record ConfigOptions =
  cf_Template :: string
  cf_Path :: string

definition GetFileName :: "ConfigOptions \<Rightarrow> config_template \<Rightarrow> string" where
  "GetFileName c t = (if cf_Path c = [] then template_name t @ ''.yaml'' else path_join (cf_Path c) (template_name t @ ''.yaml''))"

text \<open>Whether there was an error, and the files written so far with their texts; create tells which can be.\<close>

definition RenderConfigFile ::
    "(string \<Rightarrow> bool) \<Rightarrow> ConfigOptions \<Rightarrow> config_template \<Rightarrow> (string \<times> string) list \<Rightarrow> bool \<times> (string \<times> string) list" where
  "RenderConfigFile create c t files =
     (if create (GetFileName c t) then (False, files @ [(GetFileName c t, template_text t)]) else (True, files))"

definition GenerateInspectConfig :: "(string \<Rightarrow> bool) \<Rightarrow> ConfigOptions \<Rightarrow> bool \<times> (string \<times> string) list" where
  "GenerateInspectConfig create c =
     (let (err, files) =
        (if cf_Template c = [] then
           (case RenderConfigFile create c RuleTemplate [] of
              (True, files) \<Rightarrow> (True, files)
            | (False, files) \<Rightarrow> RenderConfigFile create c PlanTemplate files)
         else (False, []))
      in if err then (True, files)
         else if to_upper (cf_Template c) = ''INSPECTRULE'' then RenderConfigFile create c RuleTemplate files
         else if to_upper (cf_Template c) = ''INSPECTPLAN'' then RenderConfigFile create c PlanTemplate files
         else (False, files))"

lemma GenerateInspectConfig_all:
  "GenerateInspectConfig (\<lambda>_. True) \<lparr>cf_Template = [], cf_Path = []\<rparr>
     = (False, [(''examples-inspect-rule.yaml'', GetInspectRuleTemplate), (''examples-inspect-plan.yaml'', GetInspectPlanTemplate)])"
  by (simp add: GenerateInspectConfig_def RenderConfigFile_def GetFileName_def template_name_def template_text_def to_upper_def)

text \<open>
  The example files are no YAML, which indents by spaces only: every line of the plan and three lines
  of the rule are indented by tabs.
\<close>

definition tab_indented :: "string \<Rightarrow> bool" where
  "tab_indented l \<longleftrightarrow> CHR 0x09 \<in> set (takeWhile (\<lambda>c. c = CHR '' '' \<or> c = CHR 0x09) l)"

lemma examples_indented_by_tabs:
  "list_all tab_indented (tl (split_on CHR 0x0A GetInspectPlanTemplate))"
  "length (filter tab_indented (split_on CHR 0x0A GetInspectRuleTemplate)) = 3"
  by code_simp+

section \<open>A concrete job\<close>

definition demo_task :: InspectTask where
  "demo_task = \<lparr>it_Type = \<lparr>tm_Kind = [], tm_APIVersion = []\<rparr>, it_Meta = empty_meta ''task'',
     it_Spec = \<lparr>its_ClusterName = None, its_RuleNames = [], its_Timeout = [], its_InspectPolicy = []\<rparr>, it_Status = zero_TaskStatus\<rparr>"

definition demo_options :: JobTemplateOptions where
  "demo_options = \<lparr>jo_JobConfig = Some \<lparr>ic_Image = [], ic_ImagePullPolicy = [], jc_BackLimit = None, jc_Resources = [],
       jc_AutoDelTime = None, jc_MultiCluster = None\<rparr>, jo_JobName = ''job'', jo_Task = demo_task, jo_NodeName = ''n1'', jo_RuleType = Sysctl\<rparr>"

definition demo_inspect :: inspect_env where
  "demo_inspect = \<lparr>ie_host = demo_host, ie_bases = [], ie_query = (\<lambda>c e q. QueryError), ie_rego = \<lparr>rg_prepare = (\<lambda>m q. None), rg_eval = (\<lambda>m q j. Inl []), rg_print = (\<lambda>j. [])\<rparr>, ie_collector = None\<rparr>"

definition demo_job_env :: job_env where
  "demo_job_env = \<lparr>jb_config = True, jb_clients = True,
     jb_maps = Some (map (\<lambda>rs. Some (JArr (map enc_JobRule rs))) [[demo_job [enc_SysRule (demo_sys ''a'')]]]),
     jb_pods = (\<lambda>n. Some [''n1'']), jb_create = (\<lambda>cm. True)\<rparr>"


end
