(* ===== verification/Metric_Text.thy ===== *)
theory Metric_Text
  imports Inspectors
begin

text \<open>
  The text of a Prometheus sample and back: toString of pkg/inspect/prometheus_inspect.go writes the
  labels as quoted pairs joined by equals signs, ParseString of
  apis/kubeeye/v1alpha2/inspectresult_types.go turns the signs into colons and reads the text as a
  JSON object of strings.  What encoding/json does on such an object is written out: white space,
  strings with their escapes, null for an empty value, the last of equal keys.  A member of another
  type is an error like a syntax error.  Strings are valid UTF-8.
\<close>

definition json_space :: "char \<Rightarrow> bool" where
  "json_space c = (let n = of_char c :: nat in n = 32 \<or> n = 9 \<or> n = 10 \<or> n = 13)"

definition skip_space :: "string \<Rightarrow> string" where
  "skip_space s = dropWhile json_space s"

definition hex_digit :: "char \<Rightarrow> nat option" where
  "hex_digit c = (let n = of_char c :: nat in
     if 48 \<le> n \<and> n \<le> 57 then Some (n - 48) else if 97 \<le> n \<and> n \<le> 102 then Some (n - 87)
     else if 65 \<le> n \<and> n \<le> 70 then Some (n - 55) else None)"

fun hex4 :: "string \<Rightarrow> (nat \<times> string) option" where
  "hex4 (a # b # c # d # s) = do {
     w \<leftarrow> hex_digit a; x \<leftarrow> hex_digit b; y \<leftarrow> hex_digit c; z \<leftarrow> hex_digit d;
     Some (((w * 16 + x) * 16 + y) * 16 + z, s) }"
| "hex4 _ = None"

definition utf8 :: "nat \<Rightarrow> string" where
  "utf8 n = (if n < 128 then [char_of n]
     else if n < 2048 then [char_of (192 + n div 64), char_of (128 + n mod 64)]
     else if n < 65536 then [char_of (224 + n div 4096), char_of (128 + n div 64 mod 64), char_of (128 + n mod 64)]
     else [char_of (240 + n div 262144), char_of (128 + n div 4096 mod 64), char_of (128 + n div 64 mod 64),
       char_of (128 + n mod 64)])"

text \<open>A code unit of the escape u; a surrogate without its partner is the replacement character.\<close>

fun low_surrogate :: "string \<Rightarrow> (nat \<times> string) option" where
  "low_surrogate (b # u # s) =
     (if b = CHR 0x5C \<and> u = CHR ''u'' then
        (case hex4 s of Some (n, rest) \<Rightarrow> if 56320 \<le> n \<and> n < 57344 then Some (n, rest) else None | None \<Rightarrow> None)
      else None)"
| "low_surrogate _ = None"

definition unicode_escape :: "string \<Rightarrow> (string \<times> string) option" where
  "unicode_escape s = do {
     (n, rest) \<leftarrow> hex4 s;
     Some (if 55296 \<le> n \<and> n < 56320 then
             (case low_surrogate rest of
                Some (m, rest') \<Rightarrow> (utf8 (65536 + (n - 55296) * 1024 + (m - 56320)), rest')
              | None \<Rightarrow> (utf8 65533, rest))
           else if 56320 \<le> n \<and> n < 57344 then (utf8 65533, rest)
           else (utf8 n, rest)) }"

definition simple_escape :: "char \<Rightarrow> char option" where
  "simple_escape c =
     (if c = CHR 0x22 \<or> c = CHR 0x5C \<or> c = CHR ''/'' then Some c
      else if c = CHR ''b'' then Some (char_of (8 :: nat)) else if c = CHR ''f'' then Some (char_of (12 :: nat))
      else if c = CHR ''n'' then Some (char_of (10 :: nat)) else if c = CHR ''r'' then Some (char_of (13 :: nat))
      else if c = CHR ''t'' then Some (char_of (9 :: nat)) else None)"

text \<open>The characters of a string up to its closing quote; every step shortens the input.\<close>

fun json_chars :: "nat \<Rightarrow> string \<Rightarrow> (string \<times> string) option" where
  "json_chars 0 s = None"
| "json_chars (Suc fuel) [] = None"
| "json_chars (Suc fuel) (c # s) =
     (if c = CHR 0x22 then Some ([], s)
      else if c = CHR 0x5C then
        (case s of
           [] \<Rightarrow> None
         | e # t \<Rightarrow>
             (if e = CHR ''u'' then do {
                (x, rest) \<leftarrow> unicode_escape t;
                (xs, rest') \<leftarrow> json_chars fuel rest;
                Some (x @ xs, rest') }
              else do {
                x \<leftarrow> simple_escape e;
                (xs, rest) \<leftarrow> json_chars fuel t;
                Some (x # xs, rest) }))
      else if of_char c < (32 :: nat) then None
      else do {
        (xs, rest) \<leftarrow> json_chars fuel s;
        Some (c # xs, rest) })"

definition json_string :: "string \<Rightarrow> (string \<times> string) option" where
  "json_string s = (case s of
     [] \<Rightarrow> None
   | c # t \<Rightarrow> if c = CHR 0x22 then json_chars (Suc (length t)) t else None)"

definition json_value :: "string \<Rightarrow> (string \<times> string) option" where
  "json_value s = (if take 4 s = ''null'' then Some ([], drop 4 s) else json_string s)"

text \<open>The members after the first brace or comma, then the text after the closing brace.\<close>

fun json_members :: "nat \<Rightarrow> strmap \<Rightarrow> string \<Rightarrow> (strmap \<times> string) option" where
  "json_members 0 m s = None"
| "json_members (Suc fuel) m s = do {
     (k, s1) \<leftarrow> json_string (skip_space s);
     (case skip_space s1 of
        [] \<Rightarrow> None
      | c # s2 \<Rightarrow> if c \<noteq> CHR '':'' then None else do {
          (v, s3) \<leftarrow> json_value (skip_space s2);
          (case skip_space s3 of
             [] \<Rightarrow> None
           | d # s4 \<Rightarrow>
               if d = CHR ''}'' then Some (mput m k v, s4)
               else if d = CHR '','' then json_members fuel (mput m k v) s4
               else None) }) }"

definition unmarshal_strmap :: "string \<Rightarrow> strmap option" where
  "unmarshal_strmap text =
     (let s = skip_space text in
      if take 4 s = ''null'' \<and> skip_space (drop 4 s) = [] then Some []
      else case s of
        [] \<Rightarrow> None
      | c # s1 \<Rightarrow> if c \<noteq> CHR ''{'' then None
          else case skip_space s1 of
            [] \<Rightarrow> None
          | d # s2 \<Rightarrow>
              if d = CHR ''}'' then (if skip_space s2 = [] then Some [] else None)
              else do {
                (m, rest) \<leftarrow> json_members (length s1) [] s1;
                if skip_space rest = [] then Some m else None })"

definition colons :: "string \<Rightarrow> string" where
  "colons s = map (\<lambda>c. if c = CHR ''='' then CHR '':'' else c) s"

text \<open>The nil map of an error reads like the empty one.\<close>

definition ParseString :: "PrometheusResult \<Rightarrow> strmap" where
  "ParseString p = (case unmarshal_strmap (colons (pmr_Result p)) of None \<Rightarrow> [] | Some data \<Rightarrow> data)"

section \<open>Reading what was written\<close>

text \<open>
  The characters that survive: no equals sign, and none that %q escapes in a way JSON does not know.
\<close>

definition plain_char :: "char \<Rightarrow> bool" where
  "plain_char c \<longleftrightarrow> (let n = of_char c :: nat in c \<noteq> CHR ''='' \<and> n \<noteq> 127 \<and> (32 \<le> n \<or> n \<in> {8, 9, 10, 12, 13}))"

definition plain :: "string \<Rightarrow> bool" where
  "plain s \<longleftrightarrow> list_all plain_char s"

text \<open>How a plain character is quoted: alone, or as a backslash and the letter JSON reads back.\<close>

definition quotes_back :: "char \<Rightarrow> bool" where
  "quotes_back c = (case quote_char c of
     [a] \<Rightarrow> a = c \<and> c \<noteq> CHR 0x22 \<and> c \<noteq> CHR 0x5C \<and> \<not> of_char c < (32 :: nat)
   | [b, e] \<Rightarrow> b = CHR 0x5C \<and> e \<noteq> CHR ''u'' \<and> e \<noteq> CHR ''='' \<and> simple_escape e = Some c
   | _ \<Rightarrow> False)"

lemma escaped_chars:
  "(of_char c :: nat) \<in> {8, 9, 10, 12, 13, 34, 92} \<Longrightarrow>
     c = CHR 0x08 \<or> c = CHR 0x09 \<or> c = CHR 0x0A \<or> c = CHR 0x0C \<or> c = CHR 0x0D \<or> c = CHR 0x22 \<or> c = CHR 0x5C"
proof -
  assume "(of_char c :: nat) \<in> {8, 9, 10, 12, 13, 34, 92}"
  moreover have "c = char_of (of_char c :: nat)" by simp
  ultimately have "c \<in> char_of ` {8 :: nat, 9, 10, 12, 13, 34, 92}" by (metis imageI)
  moreover have "char_of ` {8 :: nat, 9, 10, 12, 13, 34, 92}
      = {CHR 0x08, CHR 0x09, CHR 0x0A, CHR 0x0C, CHR 0x0D, CHR 0x22, CHR 0x5C}"
    by code_simp
  ultimately have "c \<in> {CHR 0x08, CHR 0x09, CHR 0x0A, CHR 0x0C, CHR 0x0D, CHR 0x22, CHR 0x5C}"
    by (simp only:)
  then show ?thesis by blast
qed

lemma escaped_back: "quotes_back CHR 0x08" "quotes_back CHR 0x09" "quotes_back CHR 0x0A" "quotes_back CHR 0x0C"
  "quotes_back CHR 0x0D" "quotes_back CHR 0x22" "quotes_back CHR 0x5C"
  by code_simp+

lemma quote_plain:
  assumes "plain_char c"
  shows "quotes_back c"
proof (cases "(of_char c :: nat) \<in> {8, 9, 10, 12, 13, 34, 92}")
  case True
  then show ?thesis using escaped_chars escaped_back by metis
next
  case False
  then have n: "32 \<le> (of_char c :: nat)" "(of_char c :: nat) \<noteq> 34" "(of_char c :: nat) \<noteq> 92" "(of_char c :: nat) \<noteq> 127"
    using assms by (auto simp: plain_char_def Let_def)
  then have "quote_char c = [c]" by (simp add: quote_char_def Let_def)
  moreover have "c \<noteq> CHR 0x22" "c \<noteq> CHR 0x5C" using n by auto
  ultimately show ?thesis using n by (simp add: quotes_back_def)
qed

lemma json_chars_quoted:
  "plain s \<Longrightarrow> length (concat (map quote_char s)) < fuel \<Longrightarrow>
     json_chars fuel (concat (map quote_char s) @ CHR 0x22 # rest) = Some (s, rest)"
proof (induction s arbitrary: fuel)
  case Nil
  then show ?case by (cases fuel) simp_all
next
  case (Cons c s)
  obtain f where f: "fuel = Suc f" using Cons.prems(2) by (cases fuel) auto
  have q: "quotes_back c" using Cons.prems(1) by (intro quote_plain) (simp add: plain_def)
  have ih: "json_chars f (concat (map quote_char s) @ CHR 0x22 # rest) = Some (s, rest)"
    using Cons f q by (auto simp: plain_def quotes_back_def split: list.splits)
  show ?case
    using q ih f by (auto simp: quotes_back_def split: list.splits)
qed

lemma colons_quoted: "plain s \<Longrightarrow> colons (concat (map quote_char s)) = concat (map quote_char s)"
proof (induction s)
  case (Cons c s)
  have "plain_char c" "plain s" using Cons.prems by (simp_all add: plain_def)
  moreover have "c \<noteq> CHR ''=''" using \<open>plain_char c\<close> by (simp add: plain_char_def Let_def)
  ultimately show ?case using Cons.IH quote_plain [of c]
    by (auto simp: colons_def quotes_back_def split: list.splits)
qed (simp add: colons_def)

text \<open>A pair as the text after the replacement has it.\<close>

definition pair_text :: "string \<times> string \<Rightarrow> string" where
  "pair_text p = go_quote (fst p) @ '':'' @ go_quote (snd p)"

lemma colons_label: "plain k \<Longrightarrow> plain v \<Longrightarrow> colons (label_string k v) = pair_text (k, v)"
  using colons_quoted [of k] colons_quoted [of v]
  by (simp add: label_string_def pair_text_def go_quote_def colons_def)

lemma json_string_quoted: "plain s \<Longrightarrow> json_string (go_quote s @ rest) = Some (s, rest)"
  by (simp add: json_string_def go_quote_def json_chars_quoted)

lemma skip_quote: "skip_space (go_quote s @ rest) = go_quote s @ rest"
  by (simp add: skip_space_def go_quote_def json_space_def)

lemma json_value_quoted: "plain s \<Longrightarrow> json_value (go_quote s @ rest) = Some (s, rest)"
  using json_string_quoted [of s rest] by (simp add: json_value_def go_quote_def)

lemma skip_space_cons: "\<not> json_space c \<Longrightarrow> skip_space (c # s) = c # s" "skip_space ('' '' @ s) = skip_space s"
  by (simp_all add: skip_space_def json_space_def)

declare json_members.simps [simp del]

lemma json_member_step:
  assumes "plain k" and "plain v" and "sp = [] \<or> sp = '' ''" and "d = CHR '','' \<or> d = CHR ''}''"
  shows "json_members (Suc fuel) m (sp @ pair_text (k, v) @ d # s)
    = (if d = CHR ''}'' then Some (mput m k v, s) else json_members fuel (mput m k v) s)"
proof -
  have 1: "skip_space (sp @ pair_text (k, v) @ d # s) = go_quote k @ CHR '':'' # go_quote v @ d # s"
    using assms(3) skip_quote skip_space_cons(2) by (auto simp: pair_text_def)
  have 2: "skip_space (CHR '':'' # x) = CHR '':'' # x" "skip_space (d # x) = d # x" for x
    using assms(4) by (auto simp: skip_space_def json_space_def)
  show ?thesis
    using assms(4) by (subst json_members.simps) (auto simp: 1 2 json_string_quoted assms(1,2) json_value_quoted skip_quote)
qed

lemma json_members_pairs:
  "ps \<noteq> [] \<Longrightarrow> list_all (\<lambda>(k, v). plain k \<and> plain v) ps \<Longrightarrow> length ps \<le> fuel \<Longrightarrow> sp = [] \<or> sp = '' '' \<Longrightarrow>
     json_members fuel m (sp @ join '', '' (map pair_text ps) @ ''}'') = Some (fold (\<lambda>(k, v) m. mput m k v) ps m, [])"
proof (induction ps arbitrary: fuel m sp)
  case (Cons p ps)
  obtain k v where p: "p = (k, v)" by (cases p)
  obtain f where f: "fuel = Suc f" "length ps \<le> f" using Cons.prems(3) by (cases fuel) auto
  have pl: "plain k" "plain v" using Cons.prems(2) p by simp_all
  show ?case
  proof (cases ps)
    case Nil
    then show ?thesis using json_member_step [OF pl Cons.prems(4), of "CHR ''}''" f m "[]"] p f by simp
  next
    case (Cons q qs)
    then have j: "join '', '' (map pair_text (p # ps)) = pair_text (k, v) @ CHR '','' # '' '' @ join '', '' (map pair_text ps)"
      using p by simp
    have ih: "json_members f (mput m k v) ('' '' @ join '', '' (map pair_text ps) @ ''}'')
        = Some (fold (\<lambda>(k, v) m. mput m k v) ps (mput m k v), [])"
      using Cons.IH [of f "'' ''" "mput m k v"] Cons.prems(2) Cons f by simp
    show ?thesis
      unfolding j f(1) append_assoc append_Cons
      using json_member_step [OF pl Cons.prems(4), of "CHR '',''" f m "'' '' @ join '', '' (map pair_text ps) @ ''}''"] ih
      by (simp add: p)
  qed
qed simp

text \<open>The labels of a sample with the three members toString adds.\<close>

definition sample_pairs :: "sample \<Rightarrow> strmap" where
  "sample_pairs s = filter (\<lambda>(k, v). k \<noteq> ''__name__'') (sm_Metric s)
     @ [(''value'', sm_Value s), (''timestamp'', sm_Timestamp s), (''metricName'', mget0 (sm_Metric s) ''__name__'')]"

lemma toString_pairs:
  "toString (Some s) = ''{'' @ join '', '' (sort (map (\<lambda>(k, v). label_string k v) (sample_pairs s))) @ ''}''"
  by (simp add: toString_def sample_pairs_def)

lemma sort_map_pairs: "sort (map f xs) = map f (sort_key f xs)" for f :: "'a \<Rightarrow> 'b :: linorder"
  by (rule properties_for_sort) simp_all

lemma colons_join: "colons (join '', '' xs) = join '', '' (map colons xs)"
  by (induction "'', ''" xs rule: join.induct) (simp_all add: colons_def)

lemma mget_fold_mput:
  "wf_map ps \<Longrightarrow> mget (fold (\<lambda>(k, v) m. mput m k v) ps m) k = (case mget ps k of None \<Rightarrow> mget m k | Some v \<Rightarrow> Some v)"
proof (induction ps arbitrary: m)
  case (Cons p ps)
  have "mget ps k = None" if "fst p = k" using Cons.prems that by (auto simp: wf_map_def map_of_eq_None_iff)
  then show ?case using Cons by (auto simp: wf_map_def go_map case_prod_unfold split: option.splits)
qed simp

lemma mget_same_pairs:
  assumes "wf_map ps" and "mset qs = mset ps"
  shows "mget qs k = mget ps k" "wf_map qs"
proof -
  have s: "set qs = set ps" using assms(2) by (metis set_mset_mset)
  have "mset (map fst qs) = mset (map fst ps)" using assms(2) by simp
  then show w: "wf_map qs" using assms(1) unfolding wf_map_def by (metis mset_eq_imp_distinct_iff)
  show "mget qs k = mget ps k"
    using s wf_map_mget [OF assms(1)] wf_map_mget [OF w] mget_in_set
    by (metis not_None_eq)
qed

lemma unmarshal_pairs:
  assumes "ps \<noteq> []" and "list_all (\<lambda>(k, v). plain k \<and> plain v) ps"
  shows "unmarshal_strmap (''{'' @ join '', '' (map pair_text ps) @ ''}'') = Some (fold (\<lambda>(k, v) m. mput m k v) ps [])"
proof -
  let ?s = "join '', '' (map pair_text ps) @ ''}''"
  obtain r where r: "?s = CHR 0x22 # r"
    using assms(1) by (cases ps rule: remdups_adj.cases) (simp_all add: pair_text_def go_quote_def)
  have n: "length ps \<le> length ?s"
  proof -
    have "length xs \<le> length (join '', '' (map pair_text xs))" for xs
      by (induction xs rule: induct_list012) (simp_all add: pair_text_def go_quote_def)
    then show ?thesis by (simp add: le_SucI)
  qed
  have m: "json_members (length ?s) [] ?s = Some (fold (\<lambda>(k, v) m. mput m k v) ps [], [])"
    using json_members_pairs [OF assms n, of "[]" "[]"] by simp
  have q: "\<not> json_space CHR 0x22" "\<not> json_space (CHR ''{'')" by (simp_all add: json_space_def)
  show ?thesis
    using m unfolding append.simps r
    by (simp add: unmarshal_strmap_def skip_space_cons(1) q) (simp add: skip_space_def)
qed

text \<open>
  C36. The labels of a sample survive the text they are stored as: with plain labels and values, none
  of them named like the added members, ParseString reads from toString exactly the labels, the
  value, the time and the name of the metric.
\<close>

theorem ParseString_toString:
  assumes "pmr_Result p = toString (Some s)" and "wf_map (sample_pairs s)"
    and "list_all (\<lambda>(k, v). plain k \<and> plain v) (sample_pairs s)"
  shows "mget (ParseString p) k = mget (sample_pairs s) k"
proof -
  let ?f = "\<lambda>(k, v). label_string k v"
  let ?ps = "sort_key ?f (sample_pairs s)"
  have pl: "list_all (\<lambda>(k, v). plain k \<and> plain v) ?ps" using assms(3) by (simp add: list_all_iff)
  have ne: "?ps \<noteq> []" by (simp add: sample_pairs_def flip: length_0_conv)
  have "map colons (map ?f ?ps) = map pair_text ?ps"
    using pl by (auto simp: list_all_iff colons_label)
  moreover have "colons (''{'' @ x @ ''}'') = ''{'' @ colons x @ ''}''" for x by (simp add: colons_def)
  ultimately have "colons (pmr_Result p) = ''{'' @ join '', '' (map pair_text ?ps) @ ''}''"
    unfolding assms(1) toString_pairs sort_map_pairs by (simp only: colons_join)
  then have "ParseString p = fold (\<lambda>(k, v) m. mput m k v) ?ps []"
    by (simp only: ParseString_def unmarshal_pairs [OF ne pl] option.case)
  moreover have "mget ?ps k = mget (sample_pairs s) k" "wf_map ?ps"
    by (rule mget_same_pairs [OF assms(2)]; simp)+
  ultimately show ?thesis by (simp add: mget_fold_mput split: option.splits)
qed

definition cpu_sample :: sample where
  "cpu_sample = \<lparr>sm_Metric = [(''__name__'', ''cpu''), (''node'', ''n1'')], sm_Value = ''0.5'', sm_Timestamp = ''1''\<rparr>"

theorem ParseString_toString_witness:
  "mget (ParseString \<lparr>pmr_Base = \<lparr>br_Name = [], br_Assert = True, br_Level = []\<rparr>, pmr_Result = toString (Some cpu_sample),
     pmr_RawDataEnabled = False, pmr_Rule = []\<rparr>) ''node'' = Some ''n1''"
proof -
  have "wf_map (sample_pairs cpu_sample)" by code_simp
  moreover have "list_all (\<lambda>(k, v). plain k \<and> plain v) (sample_pairs cpu_sample)" by code_simp
  moreover have "mget (sample_pairs cpu_sample) ''node'' = Some ''n1''" by code_simp
  ultimately show ?thesis
    using ParseString_toString [of "\<lparr>pmr_Base = \<lparr>br_Name = [], br_Assert = True, br_Level = []\<rparr>,
        pmr_Result = toString (Some cpu_sample), pmr_RawDataEnabled = False, pmr_Rule = []\<rparr>" cpu_sample "''node''"]
    by simp
qed

end
