(* ===== verification/Html_Page.thy ===== *)
theory Html_Page
  imports Report_Rows
begin

text \<open>
  The HTML page of a result: the template GetInspectResultHtmlTemplate of
  pkg/template/inspect_template.go, executed by html/template on what HtmlOut collects, and the file
  GenerateHtml writes.  Texts are bytes in UTF-8.
\<close>

section \<open>Escaping\<close>

text \<open>
  html/template escapes by context: a text and the value of an id by character references, the
  fragment of a link by percent signs.
\<close>

definition html_char :: "char \<Rightarrow> string" where
  "html_char c =
     (if c = CHR 0x00 then [CHR 0xEF, CHR 0xBF, CHR 0xBD] else if c = CHR 0x22 then ''&#34;''
      else if c = CHR ''&'' then ''&amp;'' else if c = CHR 0x27 then ''&#39;'' else if c = CHR ''+'' then ''&#43;''
      else if c = CHR ''<'' then ''&lt;'' else if c = CHR ''>'' then ''&gt;'' else [c])"

definition html_escape :: "string \<Rightarrow> string" where
  "html_escape s = concat (map html_char s)"

definition unreserved :: "char \<Rightarrow> bool" where
  "unreserved c \<longleftrightarrow> is_digit c \<or> (let n = of_char c :: nat in (65 \<le> n \<and> n \<le> 90) \<or> (97 \<le> n \<and> n \<le> 122)) \<or> c \<in> set ''-._~''"

definition lower_hex :: "nat \<Rightarrow> char" where
  "lower_hex n = char_of (if n < 10 then 48 + n else 87 + n)"

definition url_escape :: "string \<Rightarrow> string" where
  "url_escape s = concat (map (\<lambda>c. if unreserved c then [c]
     else [CHR ''%'', lower_hex (of_char c div 16), lower_hex (of_char c mod 16)]) s)"

section \<open>The page\<close>

definition page_head :: string where
  "page_head = join nl [
     [],
     ''<!DOCTYPE html>'',
     ''<html lang=\"en\">'',
     ''<head>'',
     ''    <meta charset=\"UTF-8\">'',
     ''    <title>inspect report</title>'',
     ''</head>'',
     ''<body>'',
     [],
     ''<div class=\"header\">InspectReport'' @ [CHR 0xEF] @ [CHR 0xBC] @ [CHR 0x88]]"

definition page_titled :: string where
  "page_titled = join nl [
     [CHR 0xEF] @ [CHR 0xBC] @ [CHR 0x89] @ ''</div>'',
     [],
     []]"

definition overview_head :: string where
  "overview_head = join nl [
     [],
     ''<div class=\"content\">'',
     ''    <div style=\"font-size: 30px;min-width: 800px;\">overview</div>'',
     ''    <table border=\"1\" cellpadding=\"0\" cellspacing=\"0\" class=\"overview\">'',
     ''        <thead>'',
     ''        <tr>'',
     ''            <td>ruleType</td>'',
     ''            <td>inspectRuleNumber</td>'',
     ''            <td>issuesNumber</td>'',
     ''        </tr>'',
     ''        </thead>'',
     ''        <tbody>'',
     [],
     ''        '']"

definition overview_foot :: string where
  "overview_foot = join nl [
     [],
     ''        </tbody>'',
     ''    </table>'',
     ''</div>'',
     []]"

definition table_head :: string where
  "table_head = join nl [
     ''</a></div>'',
     ''<div class=\"table\">'',
     ''        '']"

definition page_foot :: string where
  "page_foot = join nl [
     [],
     [],
     ''</body>'',
     [],
     ''<style>'',
     ''    .header {'',
     ''        display: flex;'',
     ''        justify-content: center;'',
     ''        align-items: center;'',
     ''        height: 50px;'',
     ''        width: 100%;'',
     ''        box-sizing: border-box;'',
     ''        font-size: 50px;'',
     ''        font-weight: bold;'',
     ''    }'',
     [],
     ''    .content {'',
     ''        width: 100%;'',
     ''        display: flex;'',
     ''        flex-direction: column;'',
     ''        font-size: 18px;'',
     ''        margin-top: 30px;'',
     [],
     ''    }'',
     [],
     ''    .overview {'',
     ''        min-width: 800px;'',
     ''        text-align: center;'',
     ''    }'',
     [],
     ''  .table{'',
     ''        display: flex;'',
     ''        flex-direction: column;'',
     ''        width: 100%;'',
     ''        height: 100%;'',
     ''    }'',
     ''    .tr{'',
     ''        width: 100%;'',
     ''        display: flex;'',
     ''        overflow: hidden;'',
     ''        border: 1px solid #000;'',
     ''    }'',
     ''    .td{'',
     ''        flex: 1;'',
     ''        display: flex;'',
     ''        flex-wrap: wrap;'',
     ''        white-space: pre-wrap;'',
     ''        border-right: 1px solid #000;'',
     ''        word-break: break-all;'',
     tab @ tab @ ''padding: 3px;'',
     ''    }'',
     [],
     ''</style>'',
     [],
     ''</html>'',
     []]"

definition overview_cell :: "nat \<times> string \<Rightarrow> string" where
  "overview_cell = (\<lambda>(i, v). join nl [[], ''            ''] @
     (if i = 0 then join nl [[], ''            <td><a href=\"#''] @ url_escape v @ ''\">'' @ html_escape v @ join nl [''</a></td>'', ''            '']
      else join nl [[], ''            <td> ''] @ html_escape v @ join nl [''</td>'', ''            ''])
     @ join nl [[], ''            ''])"

definition overview_row :: "string \<times> int \<times> nat \<Rightarrow> string" where
  "overview_row = (\<lambda>(k, total, issues). join nl [[], ''        <tr>'']
     @ concat (map overview_cell (enumerate 0 [k, itoa total, itoa (int issues)]))
     @ join nl [[], ''        </tr>'', ''        ''])"

text \<open>Both branches on the header flag print the same.\<close>

definition table_cell :: "bool \<Rightarrow> renderNode \<Rightarrow> string" where
  "table_cell header c = join nl [[], [], ''            ''] @
     (if header then join nl [[], ''            <div class=\"td\">''] @ html_escape (rn_Text c) @ join nl [''</div>'', ''            '']
      else join nl [[], ''            <div class=\"td\">''] @ html_escape (rn_Text c) @ join nl [''</div>'', ''            ''])
     @ join nl [[], ''            '']"

definition table_row :: "renderNode \<Rightarrow> string" where
  "table_row r = join nl [[], [], ''    <div class=\"tr\">'', ''     '', ''            '']
     @ concat (map (table_cell (rn_Header r)) (rn_Children r))
     @ join nl [[], ''        </div>'', [], ''        '']"

definition page_table :: "string \<times> renderNode list \<Rightarrow> string" where
  "page_table = (\<lambda>(k, rows). join nl [[], [], ''<div class=\"content\">'',
       ''    <div style=\"font-size: 30px;width: 100%\"><a id=\"''] @ html_escape k @ ''\">'' @ html_escape k @ table_head
     @ concat (map table_row rows) @ join nl [[], ''</div>'', ''</div>'', [], []])"

text \<open>An action over a map visits it in the order of its keys; an overview that is empty is false.\<close>

definition in_key_order :: "tables \<Rightarrow> tables" where
  "in_key_order m = sort_slice (\<lambda>a b. fst a < fst b) m"

definition html_page :: "html_data \<Rightarrow> string" where
  "html_page d = page_head @ html_escape (ht_Title d) @ page_titled
     @ (case ht_Overview d of
          None \<Rightarrow> []
        | Some rows \<Rightarrow> (if rows = [] then [] else overview_head @ concat (map overview_row rows) @ overview_foot))
     @ join nl [[], [], []] @ concat (map page_table (in_key_order (ht_Details d))) @ page_foot"

text \<open>GenerateHtml: the file and its content; writable tells whether it can be written.  None is a panic.\<close>

definition GenerateHtml ::
    "bool \<Rightarrow> bool \<Rightarrow> (string \<Rightarrow> InspectResult option) \<Rightarrow> (string \<Rightarrow> bool) \<Rightarrow> string \<Rightarrow> (string + string \<times> string) option" where
  "GenerateHtml no_component no_overview file writable resultName = do {
     out \<leftarrow> HtmlOut no_component no_overview file resultName;
     (case out of
        Inl _ \<Rightarrow> Some (Inl ''HtmlOut error'')
      | Inr m \<Rightarrow>
          (let name = path_join ResultPathPrefix resultName @ ''.html''
           in Some (if writable name then Inr (name, html_page m) else Inl ''write html file error''))) }"

section \<open>What a reader sees\<close>

text \<open>
  A reader of the page: it is cut at the angle brackets that open a tag; a piece begins with its tag,
  and after the closing bracket comes text, whose character references are resolved.
\<close>

definition tag_of :: "string \<Rightarrow> string" where
  "tag_of piece = takeWhile (\<lambda>c. c \<noteq> CHR ''>'') piece"

definition text_after :: "string \<Rightarrow> string" where
  "text_after piece = tl (dropWhile (\<lambda>c. c \<noteq> CHR ''>'') piece)"

fun html_unescape :: "string \<Rightarrow> string" where
  "html_unescape [] = []"
| "html_unescape (c # s) =
     (if str_has_prefix (c # s) ''&#34;'' then CHR 0x22 # html_unescape (drop 4 s)
      else if str_has_prefix (c # s) ''&amp;'' then CHR ''&'' # html_unescape (drop 4 s)
      else if str_has_prefix (c # s) ''&#39;'' then CHR 0x27 # html_unescape (drop 4 s)
      else if str_has_prefix (c # s) ''&#43;'' then CHR ''+'' # html_unescape (drop 4 s)
      else if str_has_prefix (c # s) ''&lt;'' then CHR ''<'' # html_unescape (drop 3 s)
      else if str_has_prefix (c # s) ''&gt;'' then CHR ''>'' # html_unescape (drop 3 s)
      else c # html_unescape s)"

definition tag_pieces :: "string \<Rightarrow> string list" where
  "tag_pieces page = tl (split_on CHR ''<'' page)"

definition tags :: "string \<Rightarrow> string list" where
  "tags page = map tag_of (tag_pieces page)"

definition cells_read :: "string \<Rightarrow> string list" where
  "cells_read page = map (html_unescape \<circ> text_after) (filter (\<lambda>p. tag_of p = ''div class=\"td\"'') (tag_pieces page))"

lemma html_char_reads:
  "c \<noteq> CHR 0x00 \<Longrightarrow> html_unescape (html_char c @ s) = c # html_unescape s"
  by (simp add: html_char_def str_has_prefix_def)

lemma html_unescape_escape: "CHR 0x00 \<notin> set s \<Longrightarrow> html_unescape (html_escape s) = s"
  unfolding html_escape_def by (induction s) (auto simp: html_char_reads)

lemma html_escape_plain: "CHR ''<'' \<notin> set (html_escape s)" "CHR ''>'' \<notin> set (html_escape s)"
  by (auto simp: html_escape_def html_char_def split: if_splits)

lemma lower_hex_plain: "n < 16 \<Longrightarrow> lower_hex n \<noteq> CHR ''<'' \<and> lower_hex n \<noteq> CHR ''>''"
proof -
  have "list_all (\<lambda>n. lower_hex n \<noteq> CHR ''<'' \<and> lower_hex n \<noteq> CHR ''>'') [0..<16]" by code_simp
  then show "n < 16 \<Longrightarrow> lower_hex n \<noteq> CHR ''<'' \<and> lower_hex n \<noteq> CHR ''>''" by (simp add: list_all_iff)
qed

lemma url_escape_plain: "CHR ''<'' \<notin> set (url_escape s)" "CHR ''>'' \<notin> set (url_escape s)"
proof -
  have "of_char c div 16 < (16 :: nat)" for c using nat_of_char_less_256 [of c] by (simp add: less_mult_imp_div_less)
  then have "lower_hex (of_char c div 16) \<noteq> CHR ''<''" "lower_hex (of_char c div 16) \<noteq> CHR ''>''"
    "lower_hex (of_char c mod 16) \<noteq> CHR ''<''" "lower_hex (of_char c mod 16) \<noteq> CHR ''>''" for c
    using lower_hex_plain [of "of_char c div 16"] lower_hex_plain [of "of_char c mod 16"] by auto
  moreover have "\<not> unreserved CHR ''<''" "\<not> unreserved CHR ''>''" by code_simp+
  ultimately show "CHR ''<'' \<notin> set (url_escape s)" "CHR ''>'' \<notin> set (url_escape s)"
    by (auto simp: url_escape_def split: if_splits dest: sym)
qed

text \<open>A string that what follows cannot change: its last tag is closed, or it has none.\<close>

lemma split_on_not_Nil [simp]: "split_on d s \<noteq> []"
  by (cases s) (auto split: list.splits)

lemma split_on_append:
  "split_on d (x @ y) = butlast (split_on d x) @ [last (split_on d x) @ hd (split_on d y)] @ tl (split_on d y)"
  by (induction x) (auto split: list.splits simp: hd_Cons_tl neq_Nil_conv)

lemma split_on_plain: "d \<notin> set s \<Longrightarrow> split_on d s = [s]"
  by (induction s) auto

definition last_piece :: "string \<Rightarrow> string" where
  "last_piece s = last (split_on CHR ''<'' s)"

definition complete :: "string \<Rightarrow> bool" where
  "complete s \<longleftrightarrow> CHR ''<'' \<notin> set s \<or> CHR ''>'' \<in> set (last_piece s) \<and> tag_of (last_piece s) \<noteq> ''div class=\"td\"''"

lemma tag_of_append: "CHR ''>'' \<in> set p \<Longrightarrow> tag_of (p @ q) = tag_of p"
  by (auto simp: tag_of_def takeWhile_append)

lemma split_plain_append:
  "CHR ''<'' \<notin> set x \<Longrightarrow> split_on CHR ''<'' (x @ y) = (x @ hd (split_on CHR ''<'' y)) # tag_pieces y"
  by (simp add: split_on_append split_on_plain tag_pieces_def)

lemma tag_pieces_open: "CHR ''<'' \<in> set x \<Longrightarrow> tag_pieces x = butlast (tag_pieces x) @ [last_piece x]"
  by (induction x) (auto simp: tag_pieces_def last_piece_def split: list.splits if_splits)

lemma tag_pieces_append:
  assumes "CHR ''<'' \<in> set x"
  shows "tag_pieces (x @ y) = butlast (tag_pieces x) @ [last_piece x @ hd (split_on CHR ''<'' y)] @ tag_pieces y"
proof -
  obtain p ps where s: "split_on CHR ''<'' x = p # ps" by (cases "split_on CHR ''<'' x") auto
  moreover have "ps \<noteq> []" using tag_pieces_open [OF assms] s by (auto simp: tag_pieces_def)
  ultimately show ?thesis by (simp add: tag_pieces_def last_piece_def split_on_append)
qed

lemma reads_append:
  assumes "complete x"
  shows "tags (x @ y) = tags x @ tags y" "cells_read (x @ y) = cells_read x @ cells_read y"
proof -
  have "tags (x @ y) = tags x @ tags y \<and> cells_read (x @ y) = cells_read x @ cells_read y"
  proof (cases "CHR ''<'' \<in> set x")
    case False
    then show ?thesis by (simp add: tags_def cells_read_def tag_pieces_def split_on_append split_on_plain)
  next
    case True
    have "tags x = map tag_of (butlast (tag_pieces x) @ [last_piece x])"
        "cells_read x = map (html_unescape \<circ> text_after)
           (filter (\<lambda>p. tag_of p = ''div class=\"td\"'') (butlast (tag_pieces x) @ [last_piece x]))"
      using tag_pieces_open [OF True] by (simp_all only: tags_def cells_read_def)
    then show ?thesis
      using True assms by (simp add: tags_def cells_read_def tag_pieces_append complete_def tag_of_append)
  qed
  then show "tags (x @ y) = tags x @ tags y" "cells_read (x @ y) = cells_read x @ cells_read y" by auto
qed

lemma last_piece_append: "last_piece (x @ y) = (if CHR ''<'' \<in> set y then last_piece y else last_piece x @ y)"
  using tag_pieces_open [of y]
  by (auto simp: last_piece_def split_on_append split_on_plain tag_pieces_def last_tl)

lemma complete_append [intro]: "complete x \<Longrightarrow> complete y \<Longrightarrow> complete (x @ y)"
  by (auto simp: complete_def last_piece_append tag_of_append)

lemma complete_concat: "\<forall>x \<in> set xs. complete x \<Longrightarrow> complete (concat xs)"
  by (induction xs) (auto simp: complete_def [of "[]"])

lemma reads_Nil [simp]: "tags [] = []" "cells_read [] = []"
  by (simp_all add: tags_def cells_read_def tag_pieces_def)

lemma reads_concat:
  assumes "\<forall>x \<in> set xs. complete x"
  shows "tags (concat xs) = concat (map tags xs)" "cells_read (concat xs) = concat (map cells_read xs)"
  using assms by (induction xs) (auto simp: reads_append)

section \<open>The parts of the page\<close>

lemma tag_through [simp]:
  "takeWhile (\<lambda>c. c \<noteq> CHR ''>'') (html_escape v @ y) = html_escape v @ takeWhile (\<lambda>c. c \<noteq> CHR ''>'') y"
  "takeWhile (\<lambda>c. c \<noteq> CHR ''>'') (url_escape v @ y) = url_escape v @ takeWhile (\<lambda>c. c \<noteq> CHR ''>'') y"
  using html_escape_plain(2) [of v] url_escape_plain(2) [of v] by (auto intro!: takeWhile_append2)

lemmas reading = complete_def last_piece_def cells_read_def tags_def tag_pieces_def tag_of_def text_after_def nl_def
  split_on_append split_on_plain html_escape_plain url_escape_plain html_unescape_escape

lemma table_cell_reads:
  "complete (table_cell h c)" "tags (table_cell h c) = [''div class=\"td\"'', ''/div'']"
  "CHR 0x00 \<notin> set (rn_Text c) \<Longrightarrow> cells_read (table_cell h c) = [rn_Text c]"
  by (simp_all add: table_cell_def reading)

lemma overview_cell_reads:
  "complete (overview_cell (i, v))" "cells_read (overview_cell (i, v)) = []"
  "tags (overview_cell (i, v)) = (if i = 0 then [''td'', ''a href=\"#'' @ url_escape v @ [CHR 0x22], ''/a'', ''/td''] else [''td'', ''/td''])"
  by (simp_all add: overview_cell_def reading)

lemma row_frame_reads:
  "complete (join nl [[], [], ''    <div class=\"tr\">'', ''     '', ''            ''])"
  "cells_read (join nl [[], [], ''    <div class=\"tr\">'', ''     '', ''            '']) = []"
  "complete (join nl [[], ''        </div>'', [], ''        ''])"
  "cells_read (join nl [[], ''        </div>'', [], ''        '']) = []"
  by (simp_all add: reading)

lemma overview_frame_reads:
  "complete (join nl [[], ''        <tr>''])" "cells_read (join nl [[], ''        <tr>'']) = []"
  "complete (join nl [[], ''        </tr>'', ''        ''])" "cells_read (join nl [[], ''        </tr>'', ''        '']) = []"
  "complete overview_head" "cells_read overview_head = []" "complete overview_foot" "cells_read overview_foot = []"
  by (simp_all add: reading) code_simp+

lemma page_frame_reads:
  "complete page_head" "cells_read page_head = []" "complete (html_escape t)" "cells_read (html_escape t) = []" "tags (html_escape t) = []"
  "complete page_titled" "cells_read page_titled = []" "cells_read page_foot = []"
  "complete (join nl [[], [], []])" "cells_read (join nl [[], [], []]) = []"
  by (simp_all add: reading) code_simp+

lemma table_frame_reads:
  "complete (join nl [[], [], ''<div class=\"content\">'', ''    <div style=\"font-size: 30px;width: 100%\"><a id=\"'']
      @ html_escape k @ ''\">'' @ html_escape k @ table_head)"
  "cells_read (join nl [[], [], ''<div class=\"content\">'', ''    <div style=\"font-size: 30px;width: 100%\"><a id=\"'']
      @ html_escape k @ ''\">'' @ html_escape k @ table_head) = []"
  "complete (join nl [[], ''</div>'', ''</div>'', [], []])" "cells_read (join nl [[], ''</div>'', ''</div>'', [], []]) = []"
  by (simp_all add: table_head_def reading)

text \<open>Rows with as many cells.\<close>

definition same_cells :: "renderNode \<Rightarrow> renderNode \<Rightarrow> bool" where
  "same_cells r r' \<longleftrightarrow> length (rn_Children r) = length (rn_Children r')"

lemma table_row_reads:
  "complete (table_row r)"
  "\<forall>c \<in> set (rn_Children r). CHR 0x00 \<notin> set (rn_Text c) \<Longrightarrow> cells_read (table_row r) = map rn_Text (rn_Children r)"
  "same_cells r r' \<Longrightarrow> tags (table_row r) = tags (table_row r')"
proof -
  have cells: "complete (concat (map (table_cell h) cs))" for h cs
    by (rule complete_concat) (simp add: table_cell_reads)
  have all: "\<forall>x \<in> set (map (table_cell h) cs). complete x" for h cs by (simp add: table_cell_reads)
  show "complete (table_row r)" unfolding table_row_def by (intro complete_append cells row_frame_reads)
  have "cells_read (concat (map (table_cell h) cs)) = map rn_Text cs" if "\<forall>c \<in> set cs. CHR 0x00 \<notin> set (rn_Text c)" for h cs
    using that by (induction cs) (simp_all add: reads_append table_cell_reads)
  then show "cells_read (table_row r) = map rn_Text (rn_Children r)" if "\<forall>c \<in> set (rn_Children r). CHR 0x00 \<notin> set (rn_Text c)"
    using that by (simp add: table_row_def reads_append row_frame_reads cells del: join.simps)
  have "tags (concat (map (table_cell h) cs)) = concat (replicate (length cs) [''div class=\"td\"'', ''/div''])" for h cs
    by (induction cs) (simp_all add: reads_append table_cell_reads)
  then show "tags (table_row r) = tags (table_row r')" if "same_cells r r'"
    using that by (simp add: same_cells_def table_row_def reads_append row_frame_reads cells del: join.simps)
qed

lemma page_table_reads:
  "complete (page_table (k, rows))"
  "\<forall>r \<in> set rows. \<forall>c \<in> set (rn_Children r). CHR 0x00 \<notin> set (rn_Text c) \<Longrightarrow>
     cells_read (page_table (k, rows)) = concat (map (map rn_Text \<circ> rn_Children) rows)"
  "list_all2 same_cells rows rows' \<Longrightarrow> tags (page_table (k, rows)) = tags (page_table (k, rows'))"
proof -
  note frame = table_frame_reads(1,2) [of k] table_frame_reads(3,4)
  have pt: "page_table (k, rs) = (join nl [[], [], ''<div class=\"content\">'', ''    <div style=\"font-size: 30px;width: 100%\"><a id=\"'']
      @ html_escape k @ ''\">'' @ html_escape k @ table_head) @ concat (map table_row rs) @ join nl [[], ''</div>'', ''</div>'', [], []]" for rs
    by (simp add: page_table_def del: join.simps)
  have cs: "complete (concat (map table_row rs))" for rs by (rule complete_concat) (simp add: table_row_reads)
  show "complete (page_table (k, rows))" unfolding pt by (intro complete_append frame cs)
  have "cells_read (concat (map table_row rs)) = concat (map (map rn_Text \<circ> rn_Children) rs)"
    if "\<forall>r \<in> set rs. \<forall>c \<in> set (rn_Children r). CHR 0x00 \<notin> set (rn_Text c)" for rs
    using that by (induction rs) (simp_all add: reads_append table_row_reads)
  then show "cells_read (page_table (k, rows)) = concat (map (map rn_Text \<circ> rn_Children) rows)"
    if "\<forall>r \<in> set rows. \<forall>c \<in> set (rn_Children r). CHR 0x00 \<notin> set (rn_Text c)"
    using that unfolding pt by (simp only: reads_append frame cs append_Nil append_Nil2)
  have "tags (concat (map table_row rs)) = tags (concat (map table_row rs'))" if "list_all2 same_cells rs rs'" for rs rs'
    using that by induction (simp_all add: reads_append table_row_reads(1) table_row_reads(3))
  then show "tags (page_table (k, rows)) = tags (page_table (k, rows'))"
    if "list_all2 same_cells rows rows'"
    using that unfolding pt by (simp only: reads_append frame cs)
qed

lemma overview_row_reads: "complete (overview_row r)" "cells_read (overview_row r) = []"
proof -
  obtain k t i where r: "r = (k, t, i)" by (cases r)
  have all: "\<forall>x \<in> set (map overview_cell es). complete x" for es
    using overview_cell_reads(1) by auto
  have nil: "cells_read (concat (map overview_cell es)) = []" for es
    using overview_cell_reads(2) by (auto simp: reads_concat [OF all])
  show "complete (overview_row r)" "cells_read (overview_row r) = []"
    unfolding overview_row_def r prod.case
    by (intro complete_append overview_frame_reads complete_concat [OF all])
      (simp add: reads_append overview_frame_reads complete_concat [OF all] nil del: join.simps enumerate_simps)
qed

lemma html_overview_reads:
  "complete (case ov of None \<Rightarrow> [] | Some rows \<Rightarrow> (if rows = [] then [] else overview_head @ concat (map overview_row rows) @ overview_foot))"
  "cells_read (case ov of None \<Rightarrow> [] | Some rows \<Rightarrow> (if rows = [] then [] else overview_head @ concat (map overview_row rows) @ overview_foot)) = []"
proof -
  have all: "\<forall>x \<in> set (map overview_row rows). complete x" for rows using overview_row_reads(1) by auto
  have c: "complete (concat (map overview_row rows))" "cells_read (concat (map overview_row rows)) = []" for rows
    using complete_concat [OF all] overview_row_reads(2) by (auto simp: reads_concat [OF all])
  show "complete (case ov of None \<Rightarrow> [] | Some rows \<Rightarrow> (if rows = [] then [] else overview_head @ concat (map overview_row rows) @ overview_foot))"
    by (cases ov) (simp_all add: complete_def [of "[]"] complete_append c overview_frame_reads)
  show "cells_read (case ov of None \<Rightarrow> [] | Some rows \<Rightarrow> (if rows = [] then [] else overview_head @ concat (map overview_row rows) @ overview_foot)) = []"
    by (auto simp: c overview_frame_reads reads_append split: option.split)
qed

section \<open>The whole page\<close>

text \<open>Tables of the same kinds and shape.\<close>

definition same_shape :: "html_data \<Rightarrow> html_data \<Rightarrow> bool" where
  "same_shape d d' \<longleftrightarrow> ht_Overview d = ht_Overview d'
     \<and> list_all2 (\<lambda>(k, rows) (k', rows'). k = k' \<and> list_all2 same_cells rows rows') (in_key_order (ht_Details d)) (in_key_order (ht_Details d'))"

definition texts_shown :: "tables \<Rightarrow> string list" where
  "texts_shown m = concat (map (\<lambda>(k, rows). concat (map (map rn_Text \<circ> rn_Children) rows)) m)"

lemma tables_read:
  "complete (concat (map page_table m))"
  "\<forall>(k, rows) \<in> set m. \<forall>r \<in> set rows. \<forall>c \<in> set (rn_Children r). CHR 0x00 \<notin> set (rn_Text c) \<Longrightarrow>
     cells_read (concat (map page_table m)) = texts_shown m"
  "list_all2 (\<lambda>(k, rows) (k', rows'). k = k' \<and> list_all2 same_cells rows rows') m m' \<Longrightarrow>
     tags (concat (map page_table m)) = tags (concat (map page_table m'))"
proof -
  show "complete (concat (map page_table m))" by (rule complete_concat) (auto simp: page_table_reads)
  show "cells_read (concat (map page_table m)) = texts_shown m"
    if "\<forall>(k, rows) \<in> set m. \<forall>r \<in> set rows. \<forall>c \<in> set (rn_Children r). CHR 0x00 \<notin> set (rn_Text c)"
    using that by (induction m) (auto simp: texts_shown_def reads_append page_table_reads)
  show "tags (concat (map page_table m)) = tags (concat (map page_table m'))"
    if "list_all2 (\<lambda>(k, rows) (k', rows'). k = k' \<and> list_all2 same_cells rows rows') m m'"
    using that by induction (auto simp: reads_append page_table_reads)
qed


definition demo_page :: "string \<Rightarrow> html_data" where
  "demo_page t = \<lparr>ht_Title = t, ht_Overview = Some [(Sysctl, 1, 1)],
     ht_Details = [(Sysctl, [header_row [''name''], data_row True [t]])]\<rparr>"


end
