(* ===== verification/Report_Excel.thy ===== *)
theory Report_Excel
  imports Report_Rows
begin

text \<open>
  pkg/output/excel.go: the workbook of a result, a sheet for each table of the report and one each
  for the nodes and the pods.  A sheet is the list of its cells in the order they are written,
  each with its reference: a column letter and a row number.  The errors of the library (a sheet
  that cannot be made, a file that cannot be saved) come from the parameters sheet_ok and save_ok;
  None is a panic.  The columns are at most six, so the letter is one of A to F.
\<close>

type_synonym sheet = "string \<times> (string \<times> string) list"

definition column_char :: "nat \<Rightarrow> char" where
  "column_char j = char_of (65 + j)"

text \<open>The header row is written with the literal 1, the others with their number.\<close>

definition cell_ref :: "nat \<Rightarrow> nat \<Rightarrow> string" where
  "cell_ref i j = column_char j # (if i = 0 then ''1'' else itoa (int i + 1))"

definition row_cells :: "nat \<times> renderNode \<Rightarrow> (string \<times> string) list" where
  "row_cells = (\<lambda>(i, item). map (\<lambda>(j, c). (cell_ref i j, rn_Text c)) (enumerate 0 (rn_Children item)))"

definition sheet_cells :: "renderNode list \<Rightarrow> (string \<times> string) list" where
  "sheet_cells rows = concat (map row_cells (enumerate 0 rows))"

text \<open>A sheet is added when its list is there; the first one that fails ends the function.\<close>

definition add_sheet ::
    "(string \<Rightarrow> bool) \<Rightarrow> 'a list \<Rightarrow> string \<Rightarrow> renderNode list option \<Rightarrow> (string + sheet list) option \<Rightarrow> (string + sheet list) option" where
  "add_sheet sheet_ok xs name rows book =
     (case book of
        Some (Inr sheets) \<Rightarrow>
          (if xs = [] then book
           else if \<not> sheet_ok name then Some (Inl ''sheet'')
           else map_option (\<lambda>r. Inr (sheets @ [(name, sheet_cells r)])) rows)
      | _ \<Rightarrow> book)"

definition GenerateExcel ::
    "(string \<Rightarrow> bool) \<Rightarrow> bool \<Rightarrow> InspectResult \<Rightarrow> K8sNode list \<Rightarrow> K8sPod list \<Rightarrow> (string + sheet list) option" where
  "GenerateExcel sheet_ok save_ok resultData nodes pods =
     (let s = res_Spec resultData;
          b = add_sheet sheet_ok nodes NodesStatus (Some (GetNodesStatus nodes)) (Some (Inr []));
          b = add_sheet sheet_ok pods AbnormalPods (Some (GetAbnormalPods pods)) b;
          b = add_sheet sheet_ok (kor_ResourceResults (rs_OpaResult s)) Opa (Some (GetOpaList (kor_ResourceResults (rs_OpaResult s)))) b;
          b = add_sheet sheet_ok (rs_SystemdResult s) Systemd (GetSystemd (rs_SystemdResult s)) b;
          b = add_sheet sheet_ok (rs_PrometheusResult s) PrometheusType (Some (GetPrometheus (rs_PrometheusResult s))) b;
          b = add_sheet sheet_ok (rs_FileChangeResult s) FileChange (Some (GetFileChange (rs_FileChangeResult s))) b;
          b = add_sheet sheet_ok (rs_SysctlResult s) Sysctl (GetSysctl (rs_SysctlResult s)) b;
          b = add_sheet sheet_ok (rs_FileFilterResult s) FileFilter (Some (GetFileFilter (rs_FileFilterResult s))) b;
          b = add_sheet sheet_ok (rs_CommandResult s) CustomCommand (Some (GetCommand (rs_CommandResult s))) b;
          b = add_sheet sheet_ok (rs_NodeInfo s) NodeInfo (Some (GetNodeInfo (rs_NodeInfo s))) b;
          b = add_sheet sheet_ok (rs_ServiceConnectResult s) ServiceConnect (Some (GetServiceConnect (rs_ServiceConnectResult s))) b
      in case b of
           Some (Inr sheets) \<Rightarrow> Some (if save_ok then Inr sheets else Inl ''save'')
         | _ \<Rightarrow> b)"

section \<open>The cells\<close>

lemma of_char_column: "j < 6 \<Longrightarrow> (of_char (column_char j) :: nat) = 65 + j"
  by (simp add: column_char_def take_bit_nat_eq_self)

lemma column_char_inj: "j < 6 \<Longrightarrow> j' < 6 \<Longrightarrow> column_char j = column_char j' \<Longrightarrow> j = j'"
  using of_char_column [of j] of_char_column [of j'] by (metis add_left_cancel)

lemma cell_ref_itoa: "cell_ref i j = column_char j # itoa (int i + 1)"
proof -
  have "itoa 1 = ''1''" by code_simp
  then show ?thesis by (simp add: cell_ref_def)
qed

lemma cell_ref_inj:
  assumes "cell_ref i j = cell_ref i' j'" and "j < 6" "j' < 6" and "int i < max_int64" "int i' < max_int64"
  shows "i = i' \<and> j = j'"
proof -
  have "column_char j = column_char j'" "itoa (int i + 1) = itoa (int i' + 1)"
    using assms(1) by (simp_all add: cell_ref_itoa)
  moreover have "min_int64 \<le> int i + 1" "int i + 1 \<le> max_int64" "min_int64 \<le> int i' + 1" "int i' + 1 \<le> max_int64"
    using assms(4,5) by (simp_all add: min_int64_def)
  ultimately have "j = j'" "int i + 1 = int i' + 1" using column_char_inj [OF assms(2,3)] itoa_inj by blast+
  then show ?thesis by simp
qed

text \<open>The tables: at most six columns.\<close>

definition narrow :: "renderNode list \<Rightarrow> bool" where
  "narrow rows \<longleftrightarrow> list_all (\<lambda>r. length (rn_Children r) \<le> 6) rows"

lemma narrow_Cons [simp]: "narrow (r # rows) \<longleftrightarrow> length (rn_Children r) \<le> 6 \<and> narrow rows"
  by (simp add: narrow_def)

lemma row_children [simp]:
  "length (rn_Children (header_row ts)) = length ts" "length (rn_Children (data_row b ts)) = length ts"
  by (simp_all add: header_row_def data_row_def)

lemma narrow_metric_rows: "metric_rows items = Some rows \<Longrightarrow> narrow rows"
proof -
  assume "metric_rows items = Some rows"
  then obtain ys where rows: "rows = header_row [''name'', ''nodeName'', ''value''] # ys"
    and ys: "those (map (\<lambda>i. map_option (\<lambda>v. data_row True [br_Name (nmi_Base i), nmi_NodeName i, v]) (nmi_Value i))
       (filter (\<lambda>i. br_Assert (nmi_Base i)) items)) = Some ys"
    by (auto simp: metric_rows_def)
  have "those (map (\<lambda>i. map_option (\<lambda>v. data_row True [a i, b i, v]) (f i)) xs) = Some zs \<Longrightarrow> narrow zs" for a b f zs and xs :: "'a list"
    by (induction xs arbitrary: zs) (auto simp: narrow_def split: option.splits)
  from this [OF ys] show ?thesis by (simp add: rows)
qed

lemma narrow_rows:
  "narrow (GetNodesStatus ns)" "narrow (GetAbnormalPods ps)" "narrow (GetOpaList rs)" "narrow (GetPrometheus pro)"
  "narrow (GetFileChange fs)" "narrow (GetFileFilter fs)" "narrow (GetCommand cs)" "narrow (GetNodeInfo is)"
  "narrow (GetServiceConnect ss)"
  by (auto simp: GetNodesStatus_def GetAbnormalPods_def GetOpaList_def GetPrometheus_def GetFileChange_def GetFileFilter_def
      GetCommand_def GetNodeInfo_def GetServiceConnect_def narrow_def list_all_iff)

text \<open>Reading back the cells of a narrow sheet.\<close>

lemma set_enumerate: "set (enumerate 0 xs) = {(i, xs ! i) |i. i < length xs}"
  by (auto simp: in_set_enumerate_eq)

lemma cells_of_row:
  "set (row_cells (i, item)) = {(cell_ref i j, rn_Text (rn_Children item ! j)) |j. j < length (rn_Children item)}"
  by (force simp: row_cells_def set_enumerate image_iff)

lemma cells_of_sheet:
  "(ref, t) \<in> set (sheet_cells rows) \<longleftrightarrow>
     (\<exists>i < length rows. \<exists>j < length (rn_Children (rows ! i)). ref = cell_ref i j \<and> t = rn_Text (rn_Children (rows ! i) ! j))"
proof -
  have "set (sheet_cells rows) = (\<Union>i \<in> {..<length rows}. set (row_cells (i, rows ! i)))"
    unfolding sheet_cells_def set_concat set_map set_enumerate by blast
  then show ?thesis by (auto simp: cells_of_row)
qed

lemma sheet_cells_read:
  assumes "narrow rows" and "int (length rows) < max_int64" and "i < length rows" and "j < length (rn_Children (rows ! i))"
  shows "mget (sheet_cells rows) (cell_ref i j) = Some (rn_Text (rn_Children (rows ! i) ! j))"
proof -
  have narrow: "i' < length rows \<Longrightarrow> j' < length (rn_Children (rows ! i')) \<Longrightarrow> j' < 6" for i' j'
    using assms(1) unfolding narrow_def list_all_length by fastforce
  have "(cell_ref i j, rn_Text (rn_Children (rows ! i) ! j)) \<in> set (sheet_cells rows)"
    using assms(3,4) cells_of_sheet by blast
  then obtain t where t: "mget (sheet_cells rows) (cell_ref i j) = Some t"
    by (metis weak_map_of_SomeI)
  then obtain i' j' where "i' < length rows" "j' < length (rn_Children (rows ! i'))" "cell_ref i j = cell_ref i' j'"
      "t = rn_Text (rn_Children (rows ! i') ! j')"
    using mget_in_set cells_of_sheet by metis
  moreover from this have "i = i' \<and> j = j'"
    using assms narrow by (intro cell_ref_inj) auto
  ultimately show ?thesis using t by simp
qed

section \<open>The workbook\<close>

lemma add_sheet_Inr:
  "add_sheet sheet_ok xs name rows book = Some (Inr sheets') \<longleftrightarrow>
     (\<exists>sheets. book = Some (Inr sheets) \<and>
        (xs = [] \<and> sheets' = sheets
         \<or> xs \<noteq> [] \<and> sheet_ok name \<and> (\<exists>r. rows = Some r \<and> sheets' = sheets @ [(name, sheet_cells r)])))"
  by (auto simp: add_sheet_def split: option.split sum.split)

lemma mget_with_table: "mget (with_table xs k rows m) k' = (if k' = k \<and> xs \<noteq> [] then Some rows else mget m k')"
  by (simp add: with_table_def go_map)

text \<open>Every sheet holds the cells of a narrow table.\<close>

definition tabular :: "sheet list \<Rightarrow> bool" where
  "tabular sheets \<longleftrightarrow> (\<forall>(k, cells) \<in> set sheets. \<exists>rows. narrow rows \<and> cells = sheet_cells rows)"

lemma add_sheet_tabular:
  assumes "add_sheet sheet_ok xs name rows book = Some (Inr sheets')" and "\<And>r. rows = Some r \<Longrightarrow> narrow r"
    and "\<And>sheets. book = Some (Inr sheets) \<Longrightarrow> tabular sheets"
  shows "tabular sheets'"
  using assms by (auto simp: add_sheet_Inr tabular_def)

lemma narrow_metric: "GetSysctl xs = Some r \<Longrightarrow> narrow r" "GetSystemd xs = Some r \<Longrightarrow> narrow r"
  by (simp_all add: GetSysctl_def GetSystemd_def narrow_metric_rows)

text \<open>Apart from the nodes and the pods, the sheets so far are the tables so far.\<close>

definition agrees :: "sheet list \<Rightarrow> tables \<Rightarrow> bool" where
  "agrees sheets m \<longleftrightarrow> (\<forall>k. k \<notin> {NodesStatus, AbnormalPods} \<longrightarrow> mget sheets k = map_option sheet_cells (mget m k))"

lemma mget_snoc:
  "mget (sheets @ [(name, c)]) k = (case mget sheets k of Some c' \<Rightarrow> Some c' | None \<Rightarrow> if k = name then Some c else None)"
  by (simp add: map_add_def split: option.split)

lemma agrees_append:
  assumes "agrees sheets m" and "name \<in> {NodesStatus, AbnormalPods}"
  shows "agrees (sheets @ [(name, c)]) m"
  unfolding agrees_def
proof (intro allI impI)
  fix k assume k: "k \<notin> {NodesStatus, AbnormalPods}"
  then have "mget sheets k = map_option sheet_cells (mget m k)" using assms(1) unfolding agrees_def by blast
  moreover have "k \<noteq> name" using k assms(2) by metis
  ultimately show "mget (sheets @ [(name, c)]) k = map_option sheet_cells (mget m k)"
    unfolding mget_snoc by (simp split: option.split)
qed

lemma agrees_step:
  assumes "agrees sheets m" and "mget m name = None"
  shows "agrees (sheets @ [(name, sheet_cells r)]) (mput m name r)"
  unfolding agrees_def
proof (intro allI impI)
  fix k assume "k \<notin> {NodesStatus, AbnormalPods}"
  then have "mget sheets k = map_option sheet_cells (mget m k)" using assms(1) unfolding agrees_def by blast
  then show "mget (sheets @ [(name, sheet_cells r)]) k = map_option sheet_cells (mget (mput m name r) k)"
    using assms(2) unfolding mget_snoc mget_mput by (cases "k = name") (auto split: option.split)
qed

lemma add_sheet_agrees:
  assumes "add_sheet sheet_ok xs name rows book = Some (Inr sheets')" and "\<And>sheets. book = Some (Inr sheets) \<Longrightarrow> agrees sheets m"
    and "mget m name = None" and "xs \<noteq> [] \<Longrightarrow> rows = Some r"
  shows "agrees sheets' (with_table xs name r m)"
proof -
  obtain sheets where "book = Some (Inr sheets)"
    and "xs = [] \<and> sheets' = sheets \<or> xs \<noteq> [] \<and> sheet_ok name \<and> (\<exists>r. rows = Some r \<and> sheets' = sheets @ [(name, sheet_cells r)])"
    using assms(1) unfolding add_sheet_Inr by (elim exE conjE)
  then show ?thesis
    using assms(2) [of sheets] assms(4) agrees_step [OF _ assms(3), of sheets r] by (cases "xs = []") (auto simp: with_table_def)
qed

lemma add_sheet_aside:
  assumes "add_sheet sheet_ok xs name rows book = Some (Inr sheets')" and "\<And>sheets. book = Some (Inr sheets) \<Longrightarrow> agrees sheets m"
    and "name \<in> {NodesStatus, AbnormalPods}"
  shows "agrees sheets' m"
proof -
  obtain sheets where "book = Some (Inr sheets)"
    and "xs = [] \<and> sheets' = sheets \<or> xs \<noteq> [] \<and> sheet_ok name \<and> (\<exists>r. rows = Some r \<and> sheets' = sheets @ [(name, sheet_cells r)])"
    using assms(1) unfolding add_sheet_Inr by (elim exE conjE)
  then show ?thesis using assms(2) [of sheets] agrees_append [OF _ assms(3)] by auto
qed

lemma add_sheet_earlier: "add_sheet sheet_ok xs name rows book = Some (Inr sheets') \<Longrightarrow>
    (\<exists>sheets. book = Some (Inr sheets)) \<and> (xs \<noteq> [] \<longrightarrow> rows \<noteq> None)"
  by (auto simp: add_sheet_Inr)

lemma excel_tabular:
  assumes "GenerateExcel sheet_ok save_ok res nodes pods = Some (Inr sheets)"
  shows "tabular sheets"
  using assms [unfolded GenerateExcel_def Let_def]
  apply (simp split: option.splits sum.splits if_splits)
  by (erule add_sheet_tabular, fastforce intro: narrow_rows narrow_metric)+ (simp add: tabular_def)

lemma excel_metric_rows:
  assumes "GenerateExcel sheet_ok save_ok res nodes pods = Some (Inr sheets)"
  obtains sysctl systemd where "GetSysctl (rs_SysctlResult (res_Spec res)) = Some sysctl"
    "GetSystemd (rs_SystemdResult (res_Spec res)) = Some systemd"
proof -
  let ?s = "res_Spec res"
  have "(rs_SysctlResult ?s \<noteq> [] \<longrightarrow> GetSysctl (rs_SysctlResult ?s) \<noteq> None) \<and> (rs_SystemdResult ?s \<noteq> [] \<longrightarrow> GetSystemd (rs_SystemdResult ?s) \<noteq> None)"
    using assms [unfolded GenerateExcel_def Let_def]
    apply (simp split: option.splits sum.splits if_splits)
    by (drule add_sheet_earlier, elim conjE exE)+ blast
  then show ?thesis
    using that by (cases "rs_SysctlResult ?s = []"; cases "rs_SystemdResult ?s = []") (auto simp: GetSysctl_def GetSystemd_def metric_rows_def)
qed

lemma excel_agrees:
  assumes "GenerateExcel sheet_ok save_ok res nodes pods = Some (Inr sheets)"
    and rows: "GetSysctl (rs_SysctlResult (res_Spec res)) = Some sysctl" "GetSystemd (rs_SystemdResult (res_Spec res)) = Some systemd"
  obtains m' where "agrees sheets m'" and "\<forall>k. mget m' k = mget (the (result_tables (res_Spec res))) k"
proof
  let ?s = "res_Spec res"
  have start: "agrees [] []" by (simp add: agrees_def)
  show "agrees sheets (with_table (rs_ServiceConnectResult ?s) ServiceConnect (GetServiceConnect (rs_ServiceConnectResult ?s))
    (with_table (rs_NodeInfo ?s) NodeInfo (GetNodeInfo (rs_NodeInfo ?s))
    (with_table (rs_CommandResult ?s) CustomCommand (GetCommand (rs_CommandResult ?s))
    (with_table (rs_FileFilterResult ?s) FileFilter (GetFileFilter (rs_FileFilterResult ?s))
    (with_table (rs_SysctlResult ?s) Sysctl sysctl
    (with_table (rs_FileChangeResult ?s) FileChange (GetFileChange (rs_FileChangeResult ?s))
    (with_table (rs_PrometheusResult ?s) PrometheusType (GetPrometheus (rs_PrometheusResult ?s))
    (with_table (rs_SystemdResult ?s) Systemd systemd
    (with_table (kor_ResourceResults (rs_OpaResult ?s)) Opa (GetOpaList (kor_ResourceResults (rs_OpaResult ?s))) [])))))))))"
    using assms(1) [unfolded GenerateExcel_def Let_def]
    apply (simp del: Opa_def Systemd_def PrometheusType_def FileChange_def Sysctl_def FileFilter_def CustomCommand_def NodeInfo_def ServiceConnect_def
        NodesStatus_def AbnormalPods_def split: option.splits sum.splits if_splits)
    apply (erule add_sheet_agrees)+
    apply (erule add_sheet_aside)+
    using start by (simp_all add: mget_with_table rows)
qed (auto simp: mget_with_table rows result_tables_def Let_def)

lemma tabular_cells:
  assumes "tabular sheets" and "(k, cells) \<in> set sheets"
  shows "\<exists>rows. cells = sheet_cells rows
        \<and> (int (length rows) < max_int64 \<longrightarrow>
            (\<forall>i < length rows. \<forall>j < length (rn_Children (rows ! i)).
               mget cells (cell_ref i j) = Some (rn_Text (rn_Children (rows ! i) ! j))))"
proof -
  obtain rows where "narrow rows" "cells = sheet_cells rows" using assms unfolding tabular_def by blast
  then show ?thesis using sheet_cells_read by (intro exI [of _ rows]) simp
qed

text \<open>
  C33. The workbook and the HTML report show the same tables: when it is written no table panics, and
  apart from the nodes and the pods its sheets are the tables of the report, cell by cell; and no
  cell is overwritten by another, the cell in column j of row i reads back the text that stands
  there.
\<close>

theorem excel_as_html:
  assumes "GenerateExcel sheet_ok save_ok res nodes pods = Some (Inr sheets)"
  shows "(\<exists>m. result_tables (res_Spec res) = Some m
      \<and> (\<forall>k. k \<notin> {NodesStatus, AbnormalPods} \<longrightarrow> mget sheets k = map_option sheet_cells (mget m k)))
    \<and> (\<forall>(k, cells) \<in> set sheets. \<exists>rows. cells = sheet_cells rows
        \<and> (int (length rows) < max_int64 \<longrightarrow>
            (\<forall>i < length rows. \<forall>j < length (rn_Children (rows ! i)).
               mget cells (cell_ref i j) = Some (rn_Text (rn_Children (rows ! i) ! j)))))"
proof -
  obtain sysctl systemd where rows: "GetSysctl (rs_SysctlResult (res_Spec res)) = Some sysctl"
    "GetSystemd (rs_SystemdResult (res_Spec res)) = Some systemd"
    by (rule excel_metric_rows [OF assms])
  obtain m where m: "result_tables (res_Spec res) = Some m" using rows by (simp add: result_tables_def Let_def)
  obtain m' where "agrees sheets m'" and "\<forall>k. mget m' k = mget (the (result_tables (res_Spec res))) k"
    by (rule excel_agrees [OF assms rows])
  then have same: "\<forall>k. k \<notin> {NodesStatus, AbnormalPods} \<longrightarrow> mget sheets k = map_option sheet_cells (mget m k)"
    using m by (auto simp: agrees_def)
  show ?thesis
    using m same tabular_cells [OF excel_tabular [OF assms]]
    by (intro conjI ballI exI [of _ m]) (simp_all only: split_paired_all prod.case)
qed

theorem excel_as_html_witness:
  "\<exists>sheets m. GenerateExcel (\<lambda>_. True) True (the (report_file [])) [] [] = Some (Inr sheets)
     \<and> result_tables (res_Spec (the (report_file []))) = Some m
     \<and> mget sheets Sysctl = map_option sheet_cells (mget m Sysctl)"
proof -
  have "(case GenerateExcel (\<lambda>_. True) True (the (report_file [])) [] [] of Some (Inr sheets) \<Rightarrow> True | _ \<Rightarrow> False)"
    by code_simp
  then obtain sheets where sheets: "GenerateExcel (\<lambda>_. True) True (the (report_file [])) [] [] = Some (Inr sheets)"
    by (auto split: option.splits sum.splits)
  from excel_as_html [OF this] obtain m where m: "result_tables (res_Spec (the (report_file []))) = Some m"
    "\<forall>k. k \<notin> {NodesStatus, AbnormalPods} \<longrightarrow> mget sheets k = map_option sheet_cells (mget m k)" by blast
  have "Sysctl \<notin> {NodesStatus, AbnormalPods}" by simp
  with m sheets show ?thesis by blast
qed

end
