(* ===== verification/Report_Json.thy ===== *)
theory Report_Json
  imports Metric_Text Report_Rows Kube_Access
begin

text \<open>
  pkg/output/json.go: the summaries of a result for the web client, read off the Prometheus samples,
  the nodes and the components.  64-bit floats are a parameter: a type with the operations the code
  uses (an error of ParseFloat is None).  Rule names are ASCII, as to_lower and to_upper are.
\<close>

record 'f floats =
  fl_zero :: 'f
  fl_is_zero :: "'f \<Rightarrow> bool"
  fl_less :: "'f \<Rightarrow> 'f \<Rightarrow> bool"
  fl_div :: "'f \<Rightarrow> 'f \<Rightarrow> 'f"
  fl_parse :: "string \<Rightarrow> 'f option"

section \<open>Nodes\<close>

record node_status =
  ns_total :: nat
  ns_ready :: nat
  ns_not_ready :: nat
  ns_no_schedule :: nat

definition IsNodesSchedule :: "K8sNode \<Rightarrow> bool" where
  "IsNodesSchedule node = list_ex (\<lambda>(key, effect). key = ''node.kubernetes.io/unschedulable'' \<and> effect = ''NoSchedule'') (kn_Taints node)"

definition node_step :: "K8sNode \<Rightarrow> node_status \<Rightarrow> node_status" where
  "node_step node st =
     (if \<not> IsNodesReady node then st\<lparr>ns_not_ready := ns_not_ready st + 1\<rparr>
      else if IsNodesSchedule node then st\<lparr>ns_no_schedule := ns_no_schedule st + 1\<rparr>
      else st\<lparr>ns_ready := ns_ready st + 1\<rparr>)"

definition ParseNodeStatus :: "K8sNode list \<Rightarrow> node_status" where
  "ParseNodeStatus nodes = fold node_step nodes \<lparr>ns_total = length nodes, ns_ready = 0, ns_not_ready = 0, ns_no_schedule = 0\<rparr>"

section \<open>Prometheus samples\<close>

abbreviation rule_of :: "PrometheusResult \<Rightarrow> string" where
  "rule_of r \<equiv> br_Name (pmr_Base r)"

definition label_of :: "PrometheusResult \<Rightarrow> string \<Rightarrow> string" where
  "label_of r k = mget0 (ParseString r) k"

definition api_status_step :: "PrometheusResult \<Rightarrow> strmap \<Rightarrow> strmap" where
  "api_status_step pro m =
     (let m = (if to_upper (rule_of pro) = to_upper ''apiserver_request_latencies''
               then mput m ''apiserver_request_latencies'' (label_of pro ''value'') else m)
      in if to_upper (rule_of pro) = to_upper ''apiserver_request_rate''
         then mput m ''apiserver_request_rate'' (label_of pro ''value'') else m)"

definition ParseApiStatus :: "InspectResult \<Rightarrow> strmap" where
  "ParseApiStatus result = fold api_status_step (rs_PrometheusResult (res_Spec result)) []"

definition resource_metrics :: "string list" where
  "resource_metrics = [''cluster_cpu_usage'', ''cluster_cpu_total'', ''cluster_memory_usage_wo_cache'', ''cluster_memory_total'',
     ''cluster_disk_size_usage'', ''cluster_disk_size_capacity'', ''cluster_pod_running_count'', ''cluster_pod_quota'',
     ''cluster_pod_memory_requests_total'', ''cluster_pod_memory_limits_total'', ''cluster_pod_cpu_requests_total'',
     ''cluster_pod_cpu_limits_total'']"

definition parse0 :: "'f floats \<Rightarrow> string \<Rightarrow> 'f" where
  "parse0 fl s = (case fl_parse fl s of None \<Rightarrow> fl_zero fl | Some x \<Rightarrow> x)"

definition metricComputed :: "'f floats \<Rightarrow> 'f \<Rightarrow> 'f \<Rightarrow> 'f" where
  "metricComputed fl a b = (if fl_is_zero fl b then fl_zero fl else fl_div fl a b)"

text \<open>The test ignores case, the key does not.\<close>

definition metric_data :: "'f floats \<Rightarrow> InspectResult \<Rightarrow> (string, 'f) gomap" where
  "metric_data fl result = fold (\<lambda>pro m. if to_lower (rule_of pro) \<in> set resource_metrics
       then mput m (rule_of pro) (parse0 fl (label_of pro ''value'')) else m) (rs_PrometheusResult (res_Spec result)) []"

definition metric_at :: "'f floats \<Rightarrow> (string, 'f) gomap \<Rightarrow> string \<Rightarrow> 'f" where
  "metric_at fl m k = (case mget m k of None \<Rightarrow> fl_zero fl | Some x \<Rightarrow> x)"

definition usage_row :: "'f floats \<Rightarrow> (string, 'f) gomap \<Rightarrow> string \<Rightarrow> string \<Rightarrow> string list \<Rightarrow> (string, 'f) gomap" where
  "usage_row fl m all used extra =
     (''total'', metric_at fl m all) # (''usage'', metric_at fl m used) # map (\<lambda>k. (k, metric_at fl m k)) extra
     @ [(''percent'', metricComputed fl (metric_at fl m used) (metric_at fl m all))]"

definition ParseResources :: "'f floats \<Rightarrow> InspectResult \<Rightarrow> (string, (string, 'f) gomap) gomap" where
  "ParseResources fl result =
     (let m = metric_data fl result in
      if m = [] then []
      else [(''cpu'', usage_row fl m ''cluster_cpu_total'' ''cluster_cpu_usage''
               [''cluster_pod_cpu_limits_total'', ''cluster_pod_cpu_requests_total'']),
            (''memory'', usage_row fl m ''cluster_memory_total'' ''cluster_memory_usage_wo_cache''
               [''cluster_pod_memory_requests_total'', ''cluster_pod_memory_limits_total'']),
            (''disk'', usage_row fl m ''cluster_disk_size_capacity'' ''cluster_disk_size_usage'' []),
            (''pod'', usage_row fl m ''cluster_pod_quota'' ''cluster_pod_running_count'' [])])"

definition top_metrics :: "string list" where
  "top_metrics = [''node_cpu_utilisation'', ''node_memory_utilisation'', ''node_disk_size_utilisation'']"

definition cluster_of :: "InspectResult \<Rightarrow> string" where
  "cluster_of result = cl_Name (rs_InspectCluster (res_Spec result))"

definition top_row :: "string \<Rightarrow> PrometheusResult \<Rightarrow> strmap" where
  "top_row cluster r = [(''cluster'', cluster), (''node'', label_of r ''node''), (''value'', label_of r ''value'')]"

definition top_step :: "'f floats \<Rightarrow> string \<Rightarrow> PrometheusResult \<Rightarrow> (string, strmap) gomap \<Rightarrow> (string, strmap) gomap" where
  "top_step fl cluster r tops =
     (if to_lower (rule_of r) \<notin> set top_metrics then tops
      else case mget tops (rule_of r) of
        None \<Rightarrow> mput tops (rule_of r) (top_row cluster r)
      | Some m \<Rightarrow>
          if fl_less fl (parse0 fl (mget0 m ''value'')) (parse0 fl (label_of r ''value''))
          then mput tops (rule_of r) (top_row cluster r) else tops)"

definition ParseResourcesTop :: "'f floats \<Rightarrow> InspectResult \<Rightarrow> (string, strmap) gomap" where
  "ParseResourcesTop fl result = fold (top_step fl (cluster_of result)) (rs_PrometheusResult (res_Spec result)) []"

text \<open>The other metrics: the columns of each, with the label each is read from.\<close>

definition other_metrics :: "(string \<times> (string \<times> string) list) list" where
  "other_metrics =
     (let node = (''node'', ''node''); inst = (''node'', ''instance''); mp = (''mountpoint'', ''mountpoint''); v = (''value'', ''value'') in
      [(''node_load_15'', [node, v]), (''filesystem_readonly'', [inst, mp, v]), (''filesystem_avail'', [inst, mp, v]),
       (''harbor_health'', [(''name'', ''name''), v]), (''harbor_ref_work_replication'', [v]),
       (''node_loadapp_etcd_backup_status'', [inst, v]), (''node_pod_usage_ratio'', [node, v]),
       (''node_memory_usage_ratio'', [node, v]), (''node_cpu_usage_ratio'', [node, v]),
       (''cluster_pod_usage_ratio'', [v]), (''cluster_memory_usage_ratio'', [v]), (''cluster_cpu_usage_ratio'', [v])])"

type_synonym metric_table = "(string, strmap list) gomap"

definition rows_at :: "metric_table \<Rightarrow> string \<Rightarrow> strmap list" where
  "rows_at m k = (case mget m k of None \<Rightarrow> [] | Some rows \<Rightarrow> rows)"

definition other_row :: "string \<Rightarrow> PrometheusResult \<Rightarrow> (string \<times> string) list \<Rightarrow> strmap" where
  "other_row cluster r columns = (''cluster'', cluster) # map (\<lambda>(column, label). (column, label_of r label)) columns"

definition other_step :: "string \<Rightarrow> PrometheusResult \<Rightarrow> metric_table \<Rightarrow> metric_table" where
  "other_step cluster r m = fold (\<lambda>(name, columns) m. if to_lower (rule_of r) = to_lower name
       then mput m (rule_of r) (rows_at m (rule_of r) @ [other_row cluster r columns]) else m) other_metrics m"

definition ParseOtherMetric :: "InspectResult \<Rightarrow> metric_table" where
  "ParseOtherMetric result = fold (other_step (cluster_of result)) (rs_PrometheusResult (res_Spec result)) []"

definition overview_keys :: "string list" where
  "overview_keys = [''node_load_15'', ''filesystem_readonly'', ''filesystem_avail'', ''harbor_health'',
     ''harbor_ref_work_replication'', ''node_loadapp_etcd_backup_status'']"

definition OverviewCount :: "metric_table \<Rightarrow> ComponentResultItem list \<Rightarrow> (string, nat) gomap" where
  "OverviewCount m com = map (\<lambda>k. (k, length (rows_at m k))) overview_keys @ [(''component'', asserting cri_Base com)]"

section \<open>The raw data of the samples\<close>

record prometheusData =
  pd_Name :: string
  pd_Rule :: string
  pd_Results :: "string list"

definition merge_key :: "PrometheusResult \<Rightarrow> string" where
  "merge_key r = rule_of r @ '':'' @ pmr_Rule r"

definition merge_step :: "PrometheusResult \<Rightarrow> (string, prometheusData) gomap \<Rightarrow> (string, prometheusData) gomap" where
  "merge_step r m =
     (if \<not> pmr_RawDataEnabled r then m
      else case mget m (merge_key r) of
        Some result \<Rightarrow> mput m (merge_key r) (result\<lparr>pd_Results := pd_Results result @ [pmr_Result r]\<rparr>)
      | None \<Rightarrow> mput m (merge_key r) \<lparr>pd_Name = rule_of r, pd_Rule = pmr_Rule r, pd_Results = [pmr_Result r]\<rparr>)"

text \<open>The results in the order of one iteration over the map, and the cluster.\<close>

definition ParsePrometheusData :: "InspectResult \<Rightarrow> prometheusData list \<times> string" where
  "ParsePrometheusData data = (map snd (fold merge_step (rs_PrometheusResult (res_Spec data)) []), cluster_of data)"

section \<open>The summary\<close>

record 'f customized =
  cu_name :: string
  cu_cluster :: string
  cu_overview_count :: "(string, nat) gomap"
  cu_component_status :: "ComponentResultItem list"
  cu_api_status :: strmap
  cu_resources_usage :: "(string, (string, 'f) gomap) gomap"
  cu_resources_usage_top :: "(string, strmap) gomap"
  cu_metric :: metric_table
  cu_nodes_status :: node_status

text \<open>
  What is read of the clusters: the objects of the others, client-go, and the nodes that a client lists,
  the one of the program's own cluster (None) or one made from a configuration.
\<close>

record cluster_reads =
  cr_cluster :: "string \<Rightarrow> string + doc"
  cr_go :: client_go
  cr_nodes :: "RestConfig option \<Rightarrow> string + K8sNode list"

text \<open>The nodes shown: none where the client or the list is an error, a panic where GetMultiClusterClient panics.\<close>

definition nodes_of :: "cluster_reads \<Rightarrow> string \<Rightarrow> K8sNode list option" where
  "nodes_of N c =
     (let listed = (\<lambda>k. case cr_nodes N k of Inl _ \<Rightarrow> [] | Inr ns \<Rightarrow> ns)
      in if c = ''default'' then Some (listed None)
         else (case GetMultiClusterClient (cr_go N) (cr_cluster N c) of
             None \<Rightarrow> None
           | Some (Inl _) \<Rightarrow> Some []
           | Some (Inr client) \<Rightarrow> Some (listed (Some (kcl_ClientSet client)))))"

definition ParseCustomizedStruct :: "'f floats \<Rightarrow> cluster_reads \<Rightarrow> InspectResult \<Rightarrow> 'f customized option" where
  "ParseCustomizedStruct fl N data = map_option (\<lambda>nodes.
     (let m = ParseOtherMetric data
      in \<lparr>cu_name = om_Name (res_Meta data), cu_cluster = cluster_of data,
          cu_overview_count = OverviewCount m (rs_ComponentResult (res_Spec data)),
          cu_component_status = rs_ComponentResult (res_Spec data), cu_api_status = ParseApiStatus data,
          cu_resources_usage = ParseResources fl data, cu_resources_usage_top = ParseResourcesTop fl data,
          cu_metric = m, cu_nodes_status = ParseNodeStatus nodes\<rparr>))
     (nodes_of N (cluster_of data))"

section \<open>What the summaries show\<close>

text \<open>Every node is in exactly one class.\<close>

lemma fold_node_step:
  "fold node_step nodes st = \<lparr>ns_total = ns_total st,
     ns_ready = ns_ready st + length (filter (\<lambda>n. IsNodesReady n \<and> \<not> IsNodesSchedule n) nodes),
     ns_not_ready = ns_not_ready st + length (filter (\<lambda>n. \<not> IsNodesReady n) nodes),
     ns_no_schedule = ns_no_schedule st + length (filter (\<lambda>n. IsNodesReady n \<and> IsNodesSchedule n) nodes)\<rparr>"
  by (induction nodes arbitrary: st) (auto simp: node_step_def)

lemma ParseNodeStatus_classes:
  "let st = ParseNodeStatus nodes in
     ns_total st = ns_ready st + ns_not_ready st + ns_no_schedule st
     \<and> ns_ready st = length (filter (\<lambda>n. IsNodesReady n \<and> \<not> IsNodesSchedule n) nodes)"
proof -
  have "length nodes = length (filter (\<lambda>n. IsNodesReady n \<and> \<not> IsNodesSchedule n) nodes)
      + length (filter (\<lambda>n. \<not> IsNodesReady n) nodes) + length (filter (\<lambda>n. IsNodesReady n \<and> IsNodesSchedule n) nodes)"
    by (induction nodes) auto
  then show ?thesis by (simp add: ParseNodeStatus_def fold_node_step Let_def)
qed

text \<open>A rule counts for the overview only under the very name, a table takes it in any case.\<close>

lemma overview_is_case_sensitive:
  assumes "rs_PrometheusResult (res_Spec result) = [r]" and "rule_of r = ''Node_Load_15''"
  shows "length (rows_at (ParseOtherMetric result) ''Node_Load_15'') = 1
    \<and> mget (OverviewCount (ParseOtherMetric result) []) ''node_load_15'' = Some 0"
proof -
  have low: "to_lower ''Node_Load_15'' = ''node_load_15''" by code_simp
  have lows: "map (\<lambda>(name, columns). to_lower name) other_metrics = map fst other_metrics" by code_simp
  have step: "other_step c r [] = [(''Node_Load_15'', [other_row c r [(''node'', ''node''), (''value'', ''value'')]])]" for c
    using lows unfolding other_step_def other_metrics_def by (simp add: assms(2) low rows_at_def Let_def)
  show ?thesis
    unfolding ParseOtherMetric_def assms(1) by (simp add: step rows_at_def OverviewCount_def overview_keys_def)
qed

section \<open>The busiest node\<close>

definition value_of :: "'f floats \<Rightarrow> PrometheusResult \<Rightarrow> 'f" where
  "value_of fl r = parse0 fl (label_of r ''value'')"

lemma top_row_value [simp]: "mget0 (top_row c r) ''value'' = label_of r ''value''"
  by (simp add: top_row_def mget0_def)

text \<open>The row of a metric comes from one of its samples, and no sample seen is greater.\<close>

definition top_inv :: "'f floats \<Rightarrow> string \<Rightarrow> PrometheusResult list \<Rightarrow> (string, strmap) gomap \<Rightarrow> bool" where
  "top_inv fl c rs tops \<longleftrightarrow> (\<forall>k. case mget tops k of
       None \<Rightarrow> \<forall>r \<in> set rs. rule_of r = k \<longrightarrow> to_lower k \<notin> set top_metrics
     | Some row \<Rightarrow> to_lower k \<in> set top_metrics \<and> (\<exists>r \<in> set rs. rule_of r = k \<and> row = top_row c r
         \<and> (\<forall>r' \<in> set rs. rule_of r' = k \<longrightarrow> \<not> fl_less fl (value_of fl r) (value_of fl r'))))"

lemma top_step_inv:
  assumes "weak_order (fl_less fl)" and "top_inv fl c rs tops"
  shows "top_inv fl c (rs @ [r]) (top_step fl c r tops)"
proof -
  have irrefl: "\<not> fl_less fl x x" and trans: "fl_less fl x y \<Longrightarrow> \<not> fl_less fl x z \<Longrightarrow> \<not> fl_less fl y z" for x y z
    using weak_orderD [OF assms(1)] assms(1) unfolding weak_order_def by blast+
  have "case mget (top_step fl c r tops) k of
       None \<Rightarrow> \<forall>r' \<in> set (rs @ [r]). rule_of r' = k \<longrightarrow> to_lower k \<notin> set top_metrics
     | Some row \<Rightarrow> to_lower k \<in> set top_metrics \<and> (\<exists>r1 \<in> set (rs @ [r]). rule_of r1 = k \<and> row = top_row c r1
         \<and> (\<forall>r' \<in> set (rs @ [r]). rule_of r' = k \<longrightarrow> \<not> fl_less fl (value_of fl r1) (value_of fl r')))" for k
  proof (cases "rule_of r = k \<and> to_lower k \<in> set top_metrics")
    case False
    then have same: "mget (top_step fl c r tops) k = mget tops k"
      by (auto simp: top_step_def go_map split: option.split)
    show ?thesis
      unfolding same using assms(2) [unfolded top_inv_def, rule_format, of k] False by (cases "mget tops k") auto
  next
    case True
    show ?thesis
    proof (cases "mget tops k")
      case None
      then have "mget (top_step fl c r tops) k = Some (top_row c r)" using True by (auto simp: top_step_def go_map)
      moreover have "r' \<in> set rs \<Longrightarrow> rule_of r' \<noteq> k" for r'
        using assms(2) [unfolded top_inv_def, rule_format, of k] None True by auto
      ultimately show ?thesis using True irrefl by auto
    next
      case (Some row)
      then obtain r1 where r1: "r1 \<in> set rs" "rule_of r1 = k" "row = top_row c r1"
          "\<forall>r' \<in> set rs. rule_of r' = k \<longrightarrow> \<not> fl_less fl (value_of fl r1) (value_of fl r')"
        using assms(2) [unfolded top_inv_def, rule_format, of k] by auto
      have step: "mget (top_step fl c r tops) k = Some (if fl_less fl (value_of fl r1) (value_of fl r) then top_row c r else row)"
        using True Some by (auto simp: top_step_def r1(3) value_of_def go_map)
      show ?thesis
      proof (cases "fl_less fl (value_of fl r1) (value_of fl r)")
        case lt: True
        have "\<forall>r' \<in> set rs. rule_of r' = k \<longrightarrow> \<not> fl_less fl (value_of fl r) (value_of fl r')"
          using r1(4) trans [OF lt] by blast
        then show ?thesis using True lt irrefl by (auto simp: step)
      next
        case False
        then show ?thesis using True r1 by (auto simp: step intro!: bexI [of _ r1])
      qed
    qed
  qed
  then show ?thesis by (simp add: top_inv_def)
qed

lemma fold_top_step:
  assumes "weak_order (fl_less fl)" and "top_inv fl c rs tops"
  shows "top_inv fl c (rs @ new) (fold (top_step fl c) new tops)"
  using assms(2)
proof (induction new arbitrary: rs tops)
  case (Cons r new)
  from Cons.IH [OF top_step_inv [OF assms(1) Cons.prems]] show ?case by simp
qed simp

text \<open>
  C40. The busiest node: where the order of the values is a strict weak one, the row shown for a
  utilisation metric is the row of one of its samples, no sample of the metric has a greater value,
  and a metric without a row has no sample.
\<close>

theorem top_is_max:
  assumes "weak_order (fl_less fl)"
  shows "case mget (ParseResourcesTop fl result) k of
      None \<Rightarrow> \<forall>r \<in> set (rs_PrometheusResult (res_Spec result)). rule_of r = k \<longrightarrow> to_lower k \<notin> set top_metrics
    | Some row \<Rightarrow> \<exists>r \<in> set (rs_PrometheusResult (res_Spec result)). rule_of r = k
        \<and> row = [(''cluster'', cluster_of result), (''node'', label_of r ''node''), (''value'', label_of r ''value'')]
        \<and> (\<forall>r' \<in> set (rs_PrometheusResult (res_Spec result)). rule_of r' = k \<longrightarrow>
              \<not> fl_less fl (parse0 fl (label_of r ''value'')) (parse0 fl (label_of r' ''value'')))"
proof -
  have "top_inv fl (cluster_of result) [] []" by (simp add: top_inv_def)
  from fold_top_step [OF assms this, of "rs_PrometheusResult (res_Spec result)"] show ?thesis
    unfolding ParseResourcesTop_def top_inv_def top_row_def [symmetric] value_of_def [symmetric]
    by (cases "mget (fold (top_step fl (cluster_of result)) (rs_PrometheusResult (res_Spec result)) []) k")
      (auto dest!: spec [of _ k])
qed

text \<open>Whole numbers as floats, for concrete runs.\<close>

definition int_floats :: "int floats" where
  "int_floats = \<lparr>fl_zero = 0, fl_is_zero = (\<lambda>x. x = 0), fl_less = (<), fl_div = (div),
     fl_parse = (\<lambda>s. let (n, ok) = atoi s in if ok then Some n else None)\<rparr>"

definition sample_text :: "string \<Rightarrow> string \<Rightarrow> PrometheusResult" where
  "sample_text node value = \<lparr>pmr_Base = failed [] ''node_cpu_utilisation'',
     pmr_Result = ''{'' @ label_string ''node'' node @ '', '' @ label_string ''value'' value @ ''}'', pmr_RawDataEnabled = True, pmr_Rule = ''q''\<rparr>"

definition top_result :: InspectResult where
  "top_result = demo_result\<lparr>res_Spec := (res_Spec demo_result)\<lparr>rs_PrometheusResult :=
     [sample_text ''n1'' ''3'', sample_text ''n2'' ''12'', sample_text ''n3'' ''4'']\<rparr>\<rparr>"

theorem top_is_max_witness:
  "\<exists>r \<in> set (rs_PrometheusResult (res_Spec top_result)).
     mget (ParseResourcesTop int_floats top_result) ''node_cpu_utilisation''
       = Some [(''cluster'', cluster_of top_result), (''node'', label_of r ''node''), (''value'', label_of r ''value'')]"
proof -
  have "weak_order (fl_less int_floats)" by (auto simp: weak_order_def int_floats_def)
  from top_is_max [OF this, of top_result "''node_cpu_utilisation''"]
  have m: "case mget (ParseResourcesTop int_floats top_result) ''node_cpu_utilisation'' of
      None \<Rightarrow> \<forall>r \<in> set (rs_PrometheusResult (res_Spec top_result)). rule_of r = ''node_cpu_utilisation'' \<longrightarrow>
        to_lower ''node_cpu_utilisation'' \<notin> set top_metrics
    | Some row \<Rightarrow> \<exists>r \<in> set (rs_PrometheusResult (res_Spec top_result)).
        row = [(''cluster'', cluster_of top_result), (''node'', label_of r ''node''), (''value'', label_of r ''value'')]"
    by (auto split: option.splits)
  have "mget (ParseResourcesTop int_floats top_result) ''node_cpu_utilisation'' \<noteq> None" by code_simp
  with m show ?thesis by auto
qed

section \<open>Raw data is merged by name and rule\<close>

definition merged :: "(string, prometheusData) gomap \<Rightarrow> string multiset" where
  "merged m = (\<Sum>d \<in># mset (map snd m). mset (pd_Results d))"

lemma mset_mput_new: "mget m k = None \<Longrightarrow> mset (mput m k v) = add_mset (k, v) (mset m)"
  by (induction m) (auto split: if_splits)

lemma mput_split:
  "mget m k = Some w \<Longrightarrow> \<exists>a b. m = a @ (k, w) # b \<and> mput m k v = a @ (k, v) # b"
proof (induction m)
  case (Cons kv m)
  obtain k' v' where kv: "kv = (k', v')" by (cases kv)
  show ?case
  proof (cases "k' = k")
    case True
    then show ?thesis using Cons.prems kv by (intro exI [of _ "[]"] exI [of _ m]) simp
  next
    case False
    then obtain a b where "m = a @ (k, w) # b" "mput m k v = a @ (k, v) # b" using Cons kv by auto
    then show ?thesis using kv False by (intro exI [of _ "(k', v') # a"] exI [of _ b]) simp
  qed
qed simp

lemma merge_step_merged:
  assumes "wf_map m"
  shows "wf_map (merge_step r m)"
    "merged (merge_step r m) = merged m + (if pmr_RawDataEnabled r then {#pmr_Result r#} else {#})"
proof -
  show "wf_map (merge_step r m)" using assms by (simp add: merge_step_def split: option.split)
  show "merged (merge_step r m) = merged m + (if pmr_RawDataEnabled r then {#pmr_Result r#} else {#})"
  proof (cases "mget m (merge_key r)")
    case None
    then show ?thesis by (simp add: merge_step_def merged_def mset_mput_new)
  next
    case (Some d)
    let ?d = "d\<lparr>pd_Results := pd_Results d @ [pmr_Result r]\<rparr>"
    obtain a b where "m = a @ (merge_key r, d) # b" "mput m (merge_key r) ?d = a @ (merge_key r, ?d) # b"
      using mput_split [OF Some] by blast
    then show ?thesis using Some by (simp add: merge_step_def merged_def)
  qed
qed

lemma fold_merge_step:
  "wf_map m \<Longrightarrow> wf_map (fold merge_step rs m)
    \<and> merged (fold merge_step rs m) = merged m + mset (map pmr_Result (filter pmr_RawDataEnabled rs))"
  by (induction rs arbitrary: m) (auto simp: merge_step_merged)

text \<open>
  The raw data of the samples is complete: the groups together hold the text of every sample that
  asked for it, each as often as it was taken, and of no other.
\<close>

theorem raw_data_complete:
  "mset (concat (map pd_Results (fst (ParsePrometheusData data))))
     = mset (map pmr_Result (filter pmr_RawDataEnabled (rs_PrometheusResult (res_Spec data))))"
proof -
  have "mset (concat (map pd_Results (map snd m))) = merged m" for m
    by (induction m) (simp_all add: merged_def)
  moreover have "merged [] = {#}" by (simp add: merged_def)
  ultimately show ?thesis
    using fold_merge_step [of "[]" "rs_PrometheusResult (res_Spec data)"] by (simp add: ParsePrometheusData_def)
qed

text \<open>Name and rule are joined by a colon, so different rules can share a group.\<close>

lemma rules_share_group:
  assumes "rs_PrometheusResult (res_Spec data) = [r, r']" and "pmr_RawDataEnabled r" "pmr_RawDataEnabled r'"
    and "rule_of r = ''a''" "pmr_Rule r = ''b:c''" "rule_of r' = ''a:b''" "pmr_Rule r' = ''c''"
  shows "fst (ParsePrometheusData data) = [\<lparr>pd_Name = ''a'', pd_Rule = ''b:c'', pd_Results = [pmr_Result r, pmr_Result r']\<rparr>]"
  using assms by (simp add: ParsePrometheusData_def merge_step_def merge_key_def)

end
