(* ===== verification/Email.thy ===== *)
theory Email
  imports Report_Rows Result_Controller
begin

text \<open>
  pkg/message: the handlers of the message about a result.  The mail handler checks its configuration
  and speaks SMTP; its session is the list of the commands the program gives, and the server answers
  each with success or failure.  What net/smtp and mime do with them is written out as far as the
  program relies on it: lines with a line break are refused, plain authentication is refused without
  TLS except on the local host, header words are Q-encoded.  The clean-up commands of the library
  after a failed authentication are not shown.
\<close>

datatype smtp = SHello string | SAuth string string | SMail string | SRcpt string | SData | SWrite string | SEnd | SQuit

record mail_env =
  ml_dial :: "bool \<Rightarrow> string \<Rightarrow> bool" \<comment> \<open>with TLS or without, to an address\<close>
  ml_answer :: "smtp list \<Rightarrow> smtp \<Rightarrow> bool"
  ml_auth :: "string option" \<comment> \<open>the mechanisms of the extension AUTH\<close>
  ml_secret :: "string \<Rightarrow> strmap option"
  ml_nanos :: "smtp list \<Rightarrow> nat \<Rightarrow> int"
  ml_date :: "time \<Rightarrow> string"

section \<open>Header words\<close>

definition crlf :: string where
  "crlf = [CHR 0x0D, CHR 0x0A]"

definition has_break :: "string \<Rightarrow> bool" where
  "has_break s \<longleftrightarrow> CHR 0x0D \<in> set s \<or> CHR 0x0A \<in> set s"

definition printable :: "char \<Rightarrow> bool" where
  "printable c = (let n = of_char c :: nat in 32 \<le> n \<and> n \<le> 126)"

definition upper_hex :: "nat \<Rightarrow> char" where
  "upper_hex n = char_of (if n < 10 then 48 + n else 55 + n)"

definition q_literal :: "char \<Rightarrow> bool" where
  "q_literal c = (printable c \<and> c \<noteq> CHR ''='' \<and> c \<noteq> CHR ''?'' \<and> c \<noteq> CHR ''_'')"

definition q_byte :: "char \<Rightarrow> string" where
  "q_byte c = (if c = CHR '' '' then ''_'' else if q_literal c then [c]
     else [CHR ''='', upper_hex (of_char c div 16), upper_hex (of_char c mod 16)])"

text \<open>The bytes of a character by its first one, in valid UTF-8.\<close>

definition rune_len :: "char \<Rightarrow> nat" where
  "rune_len c = (let n = of_char c :: nat in if n < 192 then 1 else if n < 224 then 2 else if n < 240 then 3 else 4)"

text \<open>A word has room for 63 characters; a character is not divided between words.\<close>

function q_words :: "nat \<Rightarrow> string \<Rightarrow> string" where
  "q_words used [] = []"
| "q_words used (b # s) =
     (let need = (if q_literal b then 1 else 3 * rune_len b);
          text = concat (map q_byte (take (rune_len b) (b # s)));
          rest = drop (rune_len b - 1) s
      in if 63 < used + need then ''?= =?utf-8?q?'' @ text @ q_words need rest
         else text @ q_words (used + need) rest)"
  by pat_completeness auto
termination by (relation "measure (\<lambda>(used, s). length s)") auto

definition q_encode :: "string \<Rightarrow> string" where
  "q_encode s = (if list_all (\<lambda>c. printable c \<or> c = CHR 0x09) s then s else ''=?utf-8?q?'' @ q_words 0 s @ ''?='')"

section \<open>The message\<close>

definition setMsg :: "mail_env \<Rightarrow> int \<Rightarrow> EmailConfig \<Rightarrow> MessageEvent \<Rightarrow> string \<Rightarrow> string" where
  "setMsg M unixNano e me to =
     ''From: '' @ q_encode (ec_Fo e) @ crlf
     @ ''To: '' @ q_encode to @ crlf
     @ ''Subject: '' @ q_encode (me_Title me) @ crlf
     @ ''Message-Id: <'' @ itoa unixNano @ ''.@'' @ ec_Address e @ ''>'' @ crlf
     @ ''Date: '' @ ml_date M (me_Timestamp me) @ crlf
     @ ''Content-Type: text/html; charset=UTF-8;''
     @ ''MIME-Version: 1.0'' @ crlf @ crlf
     @ me_Content me"

section \<open>The session\<close>

definition sendable :: "smtp \<Rightarrow> bool" where
  "sendable c = (case c of SHello s \<Rightarrow> \<not> has_break s | SMail s \<Rightarrow> \<not> has_break s | SRcpt s \<Rightarrow> \<not> has_break s | _ \<Rightarrow> True)"

text \<open>Commands in order, up to the first that fails.\<close>

fun say_all :: "mail_env \<Rightarrow> smtp list \<Rightarrow> smtp list \<Rightarrow> bool \<times> smtp list" where
  "say_all M said [] = (True, said)"
| "say_all M said (c # cs) =
     (if \<not> sendable c then (False, said)
      else if \<not> ml_answer M said c then (False, said @ [c])
      else say_all M (said @ [c]) cs)"

definition isLocalhost :: "string \<Rightarrow> bool" where
  "isLocalhost name \<longleftrightarrow> name \<in> {''localhost'', ''127.0.0.1'', ''::1''}"

text \<open>The user and the password of plain authentication.\<close>

definition mail_auth :: "mail_env \<Rightarrow> EmailConfig \<Rightarrow> string \<Rightarrow> string + (string \<times> string)" where
  "mail_auth M e authType = (case ml_secret M (ec_SecretKey e) of
     None \<Rightarrow> Inl ''secret''
   | Some data \<Rightarrow> if ''PLAIN'' \<in> set (split_on CHR '' '' authType)
       then Inr (mget0 data ''username'', mget0 data ''password'')
       else Inl (''unknown auth mechanism: '' @ authType))"

definition mail_texts :: "mail_env \<Rightarrow> smtp list \<Rightarrow> EmailConfig \<Rightarrow> MessageEvent \<Rightarrow> string list" where
  "mail_texts M said e eve = map (\<lambda>(i, s). setMsg M (ml_nanos M said i) e eve s) (enumerate 0 (ec_To e))"

text \<open>The error, if any, and the commands given.\<close>

definition SendMsg :: "mail_env \<Rightarrow> EmailConfig \<Rightarrow> MessageEvent \<Rightarrow> string option \<times> smtp list" where
  "SendMsg M e eve =
     (let tls = (ec_Port e = 465) in
      if \<not> ml_dial M tls (ec_Address e @ '':'' @ itoa (ec_Port e)) then (Some ''dial'', [])
      else case say_all M [] [SHello (ec_Address e)] of
        (False, said) \<Rightarrow> (Some ''hello'', said)
      | (True, said) \<Rightarrow>
          (case ml_auth M of
             None \<Rightarrow> (Some ''smtp: server doesn't support AUTH'', said)
           | Some param \<Rightarrow>
               (case mail_auth M e param of
                  Inl err \<Rightarrow> (Some err, said)
                | Inr (user, password) \<Rightarrow>
                    if \<not> tls \<and> \<not> isLocalhost (ec_Address e) then (Some ''unencrypted connection'', said)
                    else case say_all M said (SAuth user password # SMail (ec_Fo e) # map SRcpt (ec_To e) @ [SData]) of
                      (False, said) \<Rightarrow> (Some ''refused'', said)
                    | (True, said) \<Rightarrow>
                        (case say_all M (said @ map SWrite (mail_texts M said e eve)) [SEnd, SQuit] of
                           (False, said) \<Rightarrow> (Some ''refused'', said)
                         | (True, said) \<Rightarrow> (None, said)))))"

definition Vail :: "EmailConfig \<Rightarrow> string option" where
  "Vail e =
     (if IsEmptyValue (VString (ec_Address e)) then Some ''address is empty''
      else if ec_Port e = 0 then Some ''port  error''
      else if IsEmptyValue (VString (ec_Fo e)) then Some ''fo is empty''
      else if IsEmptyValue (VSlice (length (ec_To e))) then Some ''to is empty''
      else if IsEmptyValue (VString (ec_SecretKey e)) then Some ''secretKey is empty''
      else None)"

definition HandleMessageEvent :: "mail_env \<Rightarrow> EmailConfig \<Rightarrow> MessageEvent \<Rightarrow> smtp list" where
  "HandleMessageEvent M e event = (if Vail e \<noteq> None then [] else snd (SendMsg M e event))"

text \<open>The other handler posts the content; the dispatcher calls the handler it was made with.\<close>

definition alarm_post :: "string \<Rightarrow> MessageEvent \<Rightarrow> string \<times> string \<times> string" where
  "alarm_post RequestUrl event = (RequestUrl, ''application/json'', me_Content event)"

definition DispatchMessageEvent :: "(MessageEvent \<Rightarrow> 'a) \<Rightarrow> MessageEvent \<Rightarrow> 'a" where
  "DispatchMessageEvent handler event = handler event"

text \<open>The LOGIN mechanism, which is never chosen.\<close>

definition login_start :: "string \<Rightarrow> string \<Rightarrow> string \<times> string" where
  "login_start username password = (''LOGIN'', username @ [CHR 0x00] @ password)"

definition login_next :: "string \<Rightarrow> string \<Rightarrow> string \<Rightarrow> bool \<Rightarrow> string + string" where
  "login_next username password fromServer more_expected =
     (if \<not> more_expected then Inr []
      else if to_lower fromServer = ''username:'' then Inr username
      else if to_lower fromServer = ''password:'' then Inr password
      else Inl ''unexpected server challenge'')"

section \<open>No header is injected\<close>

lemma has_break_append [simp]: "has_break (s @ t) \<longleftrightarrow> has_break s \<or> has_break t"
  by (auto simp: has_break_def)

lemma has_break_simps [simp]:
  "\<not> has_break []" "has_break (c # s) \<longleftrightarrow> c = CHR 0x0D \<or> c = CHR 0x0A \<or> has_break s"
  by (auto simp: has_break_def)

lemma printable_no_break: "printable c \<Longrightarrow> c \<noteq> CHR 0x0D \<and> c \<noteq> CHR 0x0A"
  by (auto simp: printable_def)

lemma upper_hex_no_break: "n < 16 \<Longrightarrow> upper_hex n \<noteq> CHR 0x0D \<and> upper_hex n \<noteq> CHR 0x0A"
proof -
  have "list_all (\<lambda>n. upper_hex n \<noteq> CHR 0x0D \<and> upper_hex n \<noteq> CHR 0x0A) [0..<16]" by code_simp
  then show "n < 16 \<Longrightarrow> upper_hex n \<noteq> CHR 0x0D \<and> upper_hex n \<noteq> CHR 0x0A" by (simp add: list_all_iff)
qed

lemma q_byte_no_break: "\<not> has_break (q_byte c)"
proof -
  have "of_char c div 16 < (16 :: nat)" using nat_of_char_less_256 [of c] by linarith
  then have "upper_hex (of_char c div 16) \<noteq> CHR 0x0D" "upper_hex (of_char c div 16) \<noteq> CHR 0x0A"
    "upper_hex (of_char c mod 16) \<noteq> CHR 0x0D" "upper_hex (of_char c mod 16) \<noteq> CHR 0x0A"
    using upper_hex_no_break by auto
  then show ?thesis by (auto simp: q_byte_def has_break_def q_literal_def dest: printable_no_break)
qed

lemma q_words_no_break: "\<not> has_break (q_words used s)"
proof (induction used s rule: q_words.induct)
  case (2 used b s)
  have "\<not> has_break (concat (map q_byte xs))" for xs
    by (induction xs) (simp_all add: q_byte_no_break)
  with 2 show ?case by (simp add: Let_def)
qed simp

lemma q_encode_no_break: "\<not> has_break (q_encode s)"
proof (cases "list_all (\<lambda>c. printable c \<or> c = CHR 0x09) s")
  case True
  then have "\<not> has_break s" by (auto simp: has_break_def list_all_iff dest: printable_no_break)
  then show ?thesis using True by (simp add: q_encode_def)
next
  case False
  then show ?thesis by (simp add: q_encode_def q_words_no_break)
qed

lemma itoa_no_break: "\<not> has_break (itoa n)"
proof -
  have "is_digit c \<Longrightarrow> c \<noteq> CHR 0x0D \<and> c \<noteq> CHR 0x0A" for c by (auto simp: is_digit_def)
  then have "\<not> has_break (nat_digits m)" for m
    using nat_digits_all_digits [of m] by (auto simp: has_break_def list_all_iff)
  then show ?thesis by (simp add: itoa_def has_break_def)
qed

text \<open>
  C38. Whatever the title, the sender and the recipient are, the head of a message has six lines and
  none of them can smuggle in another; the version of MIME is not one of them, it stands at the end
  of the line of the content type.
\<close>

theorem mail_header_lines:
  assumes "\<not> has_break (ec_Address e)" and "\<not> has_break (ml_date M (me_Timestamp me))"
  shows "\<exists>lines. setMsg M n e me to = concat (map (\<lambda>l. l @ crlf) lines) @ crlf @ me_Content me
    \<and> length lines = 6 \<and> list_all (\<lambda>l. \<not> has_break l \<and> \<not> str_has_prefix l ''MIME-Version'') lines
    \<and> lines ! 2 = ''Subject: '' @ q_encode (me_Title me)
    \<and> lines ! 5 = ''Content-Type: text/html; charset=UTF-8;MIME-Version: 1.0''"
proof -
  let ?lines = "[''From: '' @ q_encode (ec_Fo e), ''To: '' @ q_encode to, ''Subject: '' @ q_encode (me_Title me),
    ''Message-Id: <'' @ itoa n @ ''.@'' @ ec_Address e @ ''>'', ''Date: '' @ ml_date M (me_Timestamp me),
    ''Content-Type: text/html; charset=UTF-8;MIME-Version: 1.0'']"
  have "list_all (\<lambda>l. \<not> has_break l) ?lines"
    by (simp add: q_encode_no_break itoa_no_break assms)
  moreover have "list_all (\<lambda>l. \<not> str_has_prefix l ''MIME-Version'') ?lines"
    by (simp add: str_has_prefix_def)
  moreover have "setMsg M n e me to = concat (map (\<lambda>l. l @ crlf) ?lines) @ crlf @ me_Content me"
    by (simp add: setMsg_def)
  ultimately show ?thesis by (intro exI [of _ ?lines]) (simp add: list_all_iff)
qed

section \<open>What a session says\<close>

lemma say_all_Cons:
  "say_all M said (c # cs) = (True, l) \<longleftrightarrow> sendable c \<and> ml_answer M said c \<and> say_all M (said @ [c]) cs = (True, l)"
  by auto

lemma say_all_True: "say_all M said cs = (True, l) \<Longrightarrow> l = said @ cs"
  by (induction cs arbitrary: said) (fastforce split: if_splits)+

text \<open>
  C37. A mail that is sent is one session: the greeting, the authentication with the user and password
  of the secret, the sender, every recipient, and a single text in which the messages to all of them
  follow each other.  It is sent over TLS, on port 465, or to the local host: with any other server
  the password is never shown and nothing is sent.
\<close>

theorem mail_session:
  "(fst (SendMsg M e eve) = None \<longrightarrow>
      (\<exists>user password param said. ml_auth M = Some param \<and> mail_auth M e param = Inr (user, password)
         \<and> snd (SendMsg M e eve) = [SHello (ec_Address e), SAuth user password, SMail (ec_Fo e)] @ map SRcpt (ec_To e) @ [SData]
             @ map SWrite (mail_texts M said e eve) @ [SEnd, SQuit]
         \<and> length (mail_texts M said e eve) = length (ec_To e)))
   \<and> (ec_Port e \<noteq> 465 \<and> \<not> isLocalhost (ec_Address e) \<longrightarrow>
        fst (SendMsg M e eve) \<noteq> None \<and> set (snd (SendMsg M e eve)) \<subseteq> {SHello (ec_Address e)})"
proof (intro conjI impI)
  assume ok: "fst (SendMsg M e eve) = None"
  have greeted: "say_all M [] [SHello (ec_Address e)] = (True, [SHello (ec_Address e)])"
    using ok say_all_True [of M "[]" "[SHello (ec_Address e)]"]
    by (auto simp: SendMsg_def Let_def split: if_splits prod.splits bool.splits)
  obtain param where param: "ml_auth M = Some param"
    using ok greeted by (auto simp: SendMsg_def Let_def split: if_splits option.splits)
  obtain user password where auth: "mail_auth M e param = Inr (user, password)"
    using ok greeted param by (auto simp: SendMsg_def Let_def split: if_splits sum.splits)
  let ?head = "SAuth user password # SMail (ec_Fo e) # map SRcpt (ec_To e) @ [SData]"
  obtain said where said: "say_all M [SHello (ec_Address e)] ?head = (True, said)"
    using ok greeted param auth by (auto simp: SendMsg_def Let_def simp del: say_all.simps split: if_splits prod.splits bool.splits)
  obtain l where l: "say_all M (said @ map SWrite (mail_texts M said e eve)) [SEnd, SQuit] = (True, l)"
      "snd (SendMsg M e eve) = l"
    using ok greeted param auth said by (auto simp: SendMsg_def Let_def simp del: say_all.simps split: if_splits prod.splits bool.splits)
  have "snd (SendMsg M e eve) = [SHello (ec_Address e), SAuth user password, SMail (ec_Fo e)] @ map SRcpt (ec_To e) @ [SData]
             @ map SWrite (mail_texts M said e eve) @ [SEnd, SQuit]"
    using l(2) say_all_True [OF l(1)] say_all_True [OF said] by simp
  moreover have "length (mail_texts M said e eve) = length (ec_To e)" by (simp add: mail_texts_def)
  ultimately show "\<exists>user password param said. ml_auth M = Some param \<and> mail_auth M e param = Inr (user, password)
         \<and> snd (SendMsg M e eve) = [SHello (ec_Address e), SAuth user password, SMail (ec_Fo e)] @ map SRcpt (ec_To e) @ [SData]
             @ map SWrite (mail_texts M said e eve) @ [SEnd, SQuit]
         \<and> length (mail_texts M said e eve) = length (ec_To e)"
    using param auth by blast
next
  assume remote: "ec_Port e \<noteq> 465 \<and> \<not> isLocalhost (ec_Address e)"
  then show "fst (SendMsg M e eve) \<noteq> None"
    by (auto simp: SendMsg_def Let_def split: option.split sum.split prod.split bool.split)
  show "set (snd (SendMsg M e eve)) \<subseteq> {SHello (ec_Address e)}"
    using remote by (auto simp: SendMsg_def Let_def split: option.splits sum.splits prod.splits bool.splits if_splits)
qed

section \<open>A concrete mail\<close>

definition demo_mail :: mail_env where
  "demo_mail = \<lparr>ml_dial = (\<lambda>tls a. True), ml_answer = (\<lambda>said c. True), ml_auth = Some ''LOGIN PLAIN'',
     ml_secret = (\<lambda>n. Some [(''username'', ''u''), (''password'', ''p'')]), ml_nanos = (\<lambda>said i. int i), ml_date = (\<lambda>t. ''today'')\<rparr>"

definition demo_config :: EmailConfig where
  "demo_config = \<lparr>ec_Address = ''mail.org'', ec_Port = 465, ec_Fo = ''a@b'', ec_To = [''x@y'', ''z@y''], ec_SecretKey = ''s''\<rparr>"

definition demo_event :: MessageEvent where
  "demo_event = \<lparr>me_Title = ''t'' @ crlf @ ''Bcc: all'', me_Content = ''<p>'', me_Timestamp = Time 0\<rparr>"

theorem mail_header_lines_witness:
  "\<exists>lines. setMsg demo_mail 7 demo_config demo_event ''x@y'' = concat (map (\<lambda>l. l @ crlf) lines) @ crlf @ ''<p>''
    \<and> length lines = 6 \<and> lines ! 2 = ''Subject: =?utf-8?q?t=0D=0ABcc:_all?=''"
proof -
  have q: "q_encode (me_Title demo_event) = ''=?utf-8?q?t=0D=0ABcc:_all?=''" by code_simp
  have c: "me_Content demo_event = ''<p>''" by (simp add: demo_event_def)
  have "\<not> has_break (ec_Address demo_config)" "\<not> has_break (ml_date demo_mail (me_Timestamp demo_event))"
    by (simp_all add: demo_config_def demo_mail_def)
  from mail_header_lines [OF this, of 7 "''x@y''"] show ?thesis by (auto simp: q c)
qed

theorem mail_session_witness:
  "(\<exists>user password said. snd (SendMsg demo_mail demo_config demo_event)
       = [SHello ''mail.org'', SAuth user password, SMail ''a@b'', SRcpt ''x@y'', SRcpt ''z@y'', SData]
         @ map SWrite (mail_texts demo_mail said demo_config demo_event) @ [SEnd, SQuit])
   \<and> set (snd (SendMsg demo_mail (demo_config\<lparr>ec_Port := 25\<rparr>) demo_event)) \<subseteq> {SHello ''mail.org''}"
proof
  have "fst (SendMsg demo_mail demo_config demo_event) = None" by code_simp
  with mail_session [of demo_mail demo_config demo_event]
  show "\<exists>user password said. snd (SendMsg demo_mail demo_config demo_event)
       = [SHello ''mail.org'', SAuth user password, SMail ''a@b'', SRcpt ''x@y'', SRcpt ''z@y'', SData]
         @ map SWrite (mail_texts demo_mail said demo_config demo_event) @ [SEnd, SQuit]"
    by (auto simp: demo_config_def)
  show "set (snd (SendMsg demo_mail (demo_config\<lparr>ec_Port := 25\<rparr>) demo_event)) \<subseteq> {SHello ''mail.org''}"
    using mail_session [of demo_mail "demo_config\<lparr>ec_Port := 25\<rparr>" demo_event] by (simp add: demo_config_def isLocalhost_def)
qed

end
