(* ===== verification/Query.thy ===== *)
theory Query
  imports Rules
begin

text \<open>
  pkg/server/query/query.go: the query of a list request and the page it gets: filter, sort, slice.
  The rows are the objects of the list as decoded maps.  sort.Slice is a parameter, since it leaves
  the order of a long slice open where its contract does; None is a panic.
\<close>

text \<open>The values of a URL by key, in the order of one iteration; a map of the filters likewise.\<close>

type_synonym url_values = "(string, string list) gomap"
type_synonym Filter = strmap

record Pagination =
  pg_Limit :: int
  pg_Offset :: int

record Query =
  q_Pagination :: Pagination
  q_SortBy :: string
  q_Ascending :: bool
  q_Filters :: "Filter option"
  q_LabelSelector :: string

record Result =
  r_TotalItems :: int
  r_Items :: "jobj list"

definition values_get :: "url_values \<Rightarrow> string \<Rightarrow> string" where
  "values_get vs k = (case mget vs k of Some (v # _) \<Rightarrow> v | _ \<Rightarrow> [])"

definition NewPagination :: Pagination where
  "NewPagination = \<lparr>pg_Limit = 10, pg_Offset = 0\<rparr>"

definition NewQuery :: Query where
  "NewQuery = \<lparr>q_Pagination = \<lparr>pg_Limit = 0, pg_Offset = 0\<rparr>, q_SortBy = [], q_Ascending = False,
     q_Filters = None, q_LabelSelector = []\<rparr>"

definition ParsePagination :: "url_values \<Rightarrow> Pagination" where
  "ParsePagination vs =
     (let p0 = NewPagination;
          p1 = (if values_get vs ''page'' = [] then p0
                else let (n, ok) = atoi (values_get vs ''page''); n' = (if \<not> ok \<or> n < 1 then 1 else n)
                     in p0\<lparr>pg_Offset := wrap64 ((n' - 1) * pg_Limit p0)\<rparr>)
      in if values_get vs ''limit'' = [] then p1
         else let (n, ok) = atoi (values_get vs ''limit'')
              in p1\<lparr>pg_Limit := (if \<not> ok \<or> n < 1 then 0 else n)\<rparr>)"

definition ParseAscending :: "string \<Rightarrow> bool" where
  "ParseAscending b = (b = ''true'')"

definition query_keys :: "string list" where
  "query_keys = [''limit'', ''page'', ''sortBy'', ''ascending'', ''labelSelector'', ''details'', ''type'', ''source'']"

fun parse_filter :: "url_values \<Rightarrow> Filter option \<Rightarrow> Filter option option" where
  "parse_filter [] filters = Some filters"
| "parse_filter ((key, v) # vs) filters =
     (if key \<in> set query_keys then parse_filter vs filters
      else case v of
        [] \<Rightarrow> None
      | x # _ \<Rightarrow> parse_filter vs (Some (mput (case filters of None \<Rightarrow> [] | Some f \<Rightarrow> f) key x)))"

definition ParseFilter :: "url_values \<Rightarrow> Filter option option" where
  "ParseFilter vs = parse_filter vs None"

definition ParseQuery :: "url_values \<Rightarrow> Query option" where
  "ParseQuery vs = map_option (\<lambda>filters. NewQuery\<lparr>q_Pagination := ParsePagination vs, q_Filters := filters,
       q_SortBy := values_get vs ''sortBy'', q_Ascending := ParseAscending (values_get vs ''ascending''),
       q_LabelSelector := values_get vs ''labelSelector''\<rparr>) (ParseFilter vs)"

definition computeIndex :: "Pagination \<Rightarrow> int \<Rightarrow> int \<times> int" where
  "computeIndex p n =
     (if pg_Limit p < 0 \<or> pg_Offset p < 0 \<or> n < pg_Offset p then (0, 0)
      else let startIndex = pg_Offset p; endIndex = wrap64 (startIndex + pg_Limit p);
               endIndex' = (if n < endIndex \<or> endIndex = 0 then n else endIndex)
           in (if n < startIndex then 0 else startIndex, endIndex'))"

text \<open>A slice expression panics unless its bounds are ordered and within the slice.\<close>

definition go_slice :: "'a list \<Rightarrow> int \<Rightarrow> int \<Rightarrow> 'a list option" where
  "go_slice xs a b = (if 0 \<le> a \<and> a \<le> b \<and> b \<le> int (length xs) then Some (drop (nat a) (take (nat b) xs)) else None)"

type_synonym compare = "jobj \<Rightarrow> jobj \<Rightarrow> string \<Rightarrow> bool option"
type_synonym filterC = "jobj \<Rightarrow> Filter \<Rightarrow> bool option"
type_synonym sorter = "(jobj \<Rightarrow> jobj \<Rightarrow> bool) \<Rightarrow> jobj list \<Rightarrow> jobj list"

text \<open>
  A comparison panics on a row that does not decode, and a sort of two or more rows compares every
  row.
\<close>

definition sort_rows :: "sorter \<Rightarrow> (jobj \<Rightarrow> jobj \<Rightarrow> bool option) \<Rightarrow> jobj list \<Rightarrow> jobj list option" where
  "sort_rows srt c data =
     (if 1 < length data \<and> (\<exists>m \<in> set data. c m m = None) then None
      else Some (srt (\<lambda>i j. c i j = Some True) data))"

definition Asc :: "sorter \<Rightarrow> string \<Rightarrow> jobj list \<Rightarrow> compare \<Rightarrow> jobj list option" where
  "Asc srt s data c = sort_rows srt (\<lambda>i j. c i j s) data"

definition Desc :: "sorter \<Rightarrow> string \<Rightarrow> jobj list \<Rightarrow> compare \<Rightarrow> jobj list option" where
  "Desc srt s data c = sort_rows srt (\<lambda>i j. map_option Not (c i j s)) data"

fun F :: "Filter \<Rightarrow> jobj list \<Rightarrow> filterC \<Rightarrow> jobj list option" where
  "F f [] fc = Some []"
| "F f (m # d) fc = do {
     keep \<leftarrow> fc m f;
     data \<leftarrow> F f d fc;
     Some (if keep then m # data else data) }"

text \<open>The rows of the page and their number before the slice.\<close>

definition GetPageData :: "sorter \<Rightarrow> Query \<Rightarrow> json \<Rightarrow> compare option \<Rightarrow> filterC option \<Rightarrow> Result option" where
  "GetPageData srt q data c f =
     (case ArrayStructToArrayMap data of
        None \<Rightarrow> Some \<lparr>r_TotalItems = 0, r_Items = []\<rparr>
      | Some toMap \<Rightarrow> do {
          rows \<leftarrow> (case (q_Filters q, f) of (Some fs, Some fc) \<Rightarrow> F fs toMap fc | _ \<Rightarrow> Some toMap);
          sorted \<leftarrow> (case c of
              Some cmp \<Rightarrow> if q_SortBy q = [] then Some rows
                else if q_Ascending q then Asc srt (q_SortBy q) rows cmp else Desc srt (q_SortBy q) rows cmp
            | None \<Rightarrow> Some rows);
          let (a, b) = computeIndex (q_Pagination q) (int (length sorted));
          items \<leftarrow> go_slice sorted a b;
          Some \<lparr>r_TotalItems = int (length sorted), r_Items = items\<rparr> })"

definition query_filter_get :: "Filter option \<Rightarrow> string \<Rightarrow> string" where
  "query_filter_get f key = (if key = [] then [] else case f of None \<Rightarrow> [] | Some m \<Rightarrow> mget0 m key)"

definition query_filter_keys :: "Filter option \<Rightarrow> string list" where
  "query_filter_keys f = (case f of None \<Rightarrow> [] | Some m \<Rightarrow> map fst m)"

section \<open>The rows of a page\<close>

lemma go_slice_page:
  assumes "0 \<le> pg_Limit p" and "0 \<le> pg_Offset p" and "pg_Offset p + pg_Limit p \<le> max_int64"
  shows "(case computeIndex p (int (length xs)) of (a, b) \<Rightarrow> go_slice xs a b)
    = Some (if pg_Limit p = 0 \<and> pg_Offset p = 0 then xs else take (nat (pg_Limit p)) (drop (nat (pg_Offset p)) xs))"
proof -
  have w: "wrap64 (pg_Offset p + pg_Limit p) = pg_Offset p + pg_Limit p"
    using assms by (intro wrap64_id) (auto simp: min_int64_def)
  show ?thesis
    using assms(1,2)
    unfolding computeIndex_def w go_slice_def Let_def
    by (auto simp: drop_take nat_diff_distrib nat_add_distrib)
qed

lemma ParsePagination_numbers:
  assumes "values_get vs ''page'' = itoa p" and "values_get vs ''limit'' = itoa l"
    and "1 \<le> p" "p \<le> 576460752303423488" "1 \<le> l" "l \<le> max_int64"
  shows "ParsePagination vs = \<lparr>pg_Limit = l, pg_Offset = (p - 1) * 10\<rparr>"
proof -
  have n: "itoa x \<noteq> []" for x by (simp add: itoa_def nat_digits_nonempty)
  have p: "atoi (itoa p) = (p, True)" and l: "atoi (itoa l) = (l, True)"
    using assms by (auto intro!: atoi_itoa simp: min_int64_def max_int64_def)
  have w: "wrap64 ((p - 1) * 10) = (p - 1) * 10"
    using assms by (intro wrap64_id) (auto simp: min_int64_def max_int64_def)
  show ?thesis using assms unfolding ParsePagination_def NewPagination_def assms(1,2) p l
    by (simp add: n w [simplified])
qed

definition page_query :: "int \<Rightarrow> int \<Rightarrow> url_values" where
  "page_query p l = [(''page'', [itoa p]), (''limit'', [itoa l])]"

definition page_rows :: "sorter \<Rightarrow> url_values \<Rightarrow> jobj list \<Rightarrow> jobj list option" where
  "page_rows srt vs xs = Option.bind (ParseQuery vs) (\<lambda>q.
     map_option r_Items (GetPageData srt q (JArr (map JObj xs)) None None))"

lemma page_query_rows:
  assumes "1 \<le> p" "p \<le> 576460752303423488" "1 \<le> l" "l \<le> 1000000"
  shows "page_rows srt (page_query p l) xs = Some (take (nat l) (drop (nat ((p - 1) * 10)) xs))"
proof -
  let ?vs = "page_query p l"
  have v: "values_get ?vs ''page'' = itoa p" "values_get ?vs ''limit'' = itoa l" "values_get ?vs ''sortBy'' = []"
    by (simp_all add: values_get_def page_query_def)
  have pg: "ParsePagination ?vs = \<lparr>pg_Limit = l, pg_Offset = (p - 1) * 10\<rparr>"
    using assms v by (intro ParsePagination_numbers) (auto simp: max_int64_def)
  have f: "ParseFilter ?vs = Some None"
    by (simp add: ParseFilter_def page_query_def query_keys_def)
  have d: "ArrayStructToArrayMap (JArr (map JObj xs)) = Some xs"
    using obj_of_objects [of xs] by (simp add: ArrayStructToArrayMap_def unmarshal_list_def)
  have s: "(case computeIndex \<lparr>pg_Limit = l, pg_Offset = (p - 1) * 10\<rparr> (int (length xs)) of (a, b) \<Rightarrow> go_slice xs a b)
      = Some (take (nat l) (drop (nat ((p - 1) * 10)) xs))"
    using go_slice_page [of "\<lparr>pg_Limit = l, pg_Offset = (p - 1) * 10\<rparr>" xs] assms by (simp add: max_int64_def)
  show ?thesis using s
    by (cases "computeIndex \<lparr>pg_Limit = l, pg_Offset = (p - 1) * 10\<rparr> (int (length xs))")
       (simp add: page_rows_def ParseQuery_def f pg v NewQuery_def GetPageData_def d)
qed



section \<open>Sorted pages\<close>

text \<open>What sort.Slice promises, and that the short slices keep it.\<close>

definition sorts :: "sorter \<Rightarrow> bool" where
  "sorts srt \<longleftrightarrow> (\<forall>lt xs. mset (srt lt xs) = mset xs \<and> (weak_order lt \<longrightarrow> sorted_wrt (\<lambda>a b. \<not> lt b a) (srt lt xs)))"

lemma sort_slice_sorts: "sorts sort_slice"
  by (simp add: sorts_def sorted_sort_slice)

lemma F_total: "(\<And>m. m \<in> set xs \<Longrightarrow> fc m f = Some (P m)) \<Longrightarrow> F f xs fc = Some (filter P xs)"
  by (induction f xs fc rule: F.induct) auto


definition by_num :: compare where
  "by_num a b s = Some ((case mget a s of Some (JNum n) \<Rightarrow> n | _ \<Rightarrow> 0) < (case mget b s of Some (JNum n) \<Rightarrow> n | _ \<Rightarrow> 0))"


text \<open>
  Descending order is the negation of the comparison, which sort.Slice does not allow for; a short
  slice still ends in descending order.
\<close>

lemma Desc_go_insert:
  assumes w: "weak_order lt" and s: "sorted_wrt (\<lambda>a b. \<not> lt b a) ys"
  shows "sorted_wrt (\<lambda>a b. \<not> lt b a) (go_insert (\<lambda>a b. \<not> lt a b) x ys)"
  using s
proof (induction ys)
  case (Cons y ys)
  show ?case
  proof (cases "lt x y")
    case True
    then have "\<not> lt y x" by (rule weak_orderD(1) [OF w])
    then have "\<not> lt z x" if "z \<in> set ys" for z
      using Cons.prems that weak_orderD(2) [OF w, of z y x] by simp
    with True Cons.prems \<open>\<not> lt y x\<close> show ?thesis by simp
  next
    case False
    with Cons show ?thesis by (simp add: set_go_insert)
  qed
qed simp

lemma sort_slice_descending:
  assumes w: "weak_order lt"
  shows "sorted_wrt (\<lambda>a b. \<not> lt a b) (sort_slice (\<lambda>a b. \<not> lt a b) xs)"
proof -
  have "sorted_wrt (\<lambda>a b. \<not> lt b a) (fold (go_insert (\<lambda>a b. \<not> lt a b)) xs ys)"
    if "sorted_wrt (\<lambda>a b. \<not> lt b a) ys" for ys
    using that by (induction xs arbitrary: ys) (auto intro: Desc_go_insert [OF w])
  from this [of "[]"] show ?thesis by (simp add: sort_slice_def sorted_wrt_rev)
qed

end
