(* ===== verification/Api_Server.thy ===== *)
theory Api_Server
  imports Query Kube_Api
begin

text \<open>
  pkg/server/api: the handlers of the requests about plans, tasks, rules and results, with their
  comparisons and filters.  A handler has a list of replies, since one that forgets to return replies
  twice or goes on, and a flag for a panic, which the server recovers from.

  Parameters: the decoders of the resources (their metadata is decoded by apimachinery), the parser
  of label selectors, the answers of the API server, and the sort of the pages.
\<close>

section \<open>Comparisons\<close>

definition decode_row :: "(json \<Rightarrow> 'a option) \<Rightarrow> jobj \<Rightarrow> 'a option" where
  "decode_row dec a = (case MapToStruct dec [a] of [] \<Rightarrow> None | x # _ \<Rightarrow> Some x)"

text \<open>strings.Compare orders by the bytes.\<close>

definition str_less :: "string \<Rightarrow> string \<Rightarrow> bool" where
  "str_less a b = (a < b)"

definition created_before :: "ObjectMeta \<Rightarrow> ObjectMeta \<Rightarrow> bool" where
  "created_before a b = (om_CreationTimestamp a < om_CreationTimestamp b)"

definition plan_less :: "InspectPlan \<Rightarrow> InspectPlan \<Rightarrow> string \<Rightarrow> bool" where
  "plan_less left right orderBy =
     (if orderBy = ''createTime'' then created_before (ip_Meta left) (ip_Meta right)
      else if orderBy = ''lastTaskStatus'' then
        str_less (ipst_LastTaskStatus (ip_Status left)) (ipst_LastTaskStatus (ip_Status right))
      else time_before (ipst_LastTaskStartTime (ip_Status left)) (ipst_LastTaskStartTime (ip_Status right)))"

definition plan_compare :: "(json \<Rightarrow> InspectPlan option) \<Rightarrow> compare" where
  "plan_compare dec a b orderBy =
     (if orderBy \<in> {''createTime'', ''lastTaskStatus'', ''lastTaskStartTime''} then do {
        left \<leftarrow> decode_row dec a;
        right \<leftarrow> decode_row dec b;
        Some (plan_less left right orderBy) }
      else Some (orderBy = ''inspectPolicy''))"

definition task_less :: "InspectTask \<Rightarrow> InspectTask \<Rightarrow> string \<Rightarrow> bool" where
  "task_less left right orderBy =
     (if orderBy = ''createTime'' then created_before (it_Meta left) (it_Meta right)
      else if orderBy = ''startTimestamp'' then
        time_before (itst_StartTimestamp (it_Status left)) (itst_StartTimestamp (it_Status right))
      else if orderBy = ''status'' then str_less (itst_Status (it_Status left)) (itst_Status (it_Status right))
      else if orderBy = ''inspectPolicy'' then str_less (its_InspectPolicy (it_Spec left)) (its_InspectPolicy (it_Spec right))
      else if orderBy = ''duration'' then str_less (itst_Duration (it_Status left)) (itst_Duration (it_Status right))
      else False)"

definition task_compare :: "(json \<Rightarrow> InspectTask option) \<Rightarrow> compare" where
  "task_compare dec a b orderBy = do {
     left \<leftarrow> decode_row dec a;
     right \<leftarrow> decode_row dec b;
     Some (task_less left right orderBy) }"

definition rule_less :: "InspectRule \<Rightarrow> InspectRule \<Rightarrow> string \<Rightarrow> bool" where
  "rule_less left right orderBy =
     (if orderBy = ''createTime'' then
        (if om_CreationTimestamp (ir_Meta left) = om_CreationTimestamp (ir_Meta right)
         then str_less (om_Name (ir_Meta left)) (om_Name (ir_Meta right))
         else created_before (ir_Meta left) (ir_Meta right))
      else str_less (om_Name (ir_Meta left)) (om_Name (ir_Meta right)))"

definition rule_compare :: "(json \<Rightarrow> InspectRule option) \<Rightarrow> compare" where
  "rule_compare dec a b orderBy =
     (if orderBy \<in> {''createTime'', ''name''} then do {
        left \<leftarrow> decode_row dec a;
        right \<leftarrow> decode_row dec b;
        Some (rule_less left right orderBy) }
      else Some False)"

definition result_compare :: "(json \<Rightarrow> InspectResult option) \<Rightarrow> compare" where
  "result_compare dec a b orderBy =
     (if orderBy = ''createTime'' then do {
        left \<leftarrow> decode_row dec a;
        right \<leftarrow> decode_row dec b;
        Some (created_before (res_Meta left) (res_Meta right)) }
      else Some False)"

section \<open>Filters\<close>

text \<open>Eight, four, four, four and twelve hexadecimal digits, joined by dashes.\<close>

definition is_hex :: "char \<Rightarrow> bool" where
  "is_hex c = (is_digit c \<or> (let n = of_char c :: nat in (65 \<le> n \<and> n \<le> 70) \<or> (97 \<le> n \<and> n \<le> 102)))"

definition isUUID :: "string \<Rightarrow> bool" where
  "isUUID s = (length s = 36 \<and> list_all (\<lambda>i. if i \<in> {8, 13, 18, 23} then s ! i = CHR ''-'' else is_hex (s ! i)) [0..<36])"

text \<open>A key the switch does not name leaves the verdict of the key before it.\<close>

definition plan_tag :: "InspectPlan \<Rightarrow> string \<Rightarrow> string \<Rightarrow> bool \<Rightarrow> bool" where
  "plan_tag p k v isTag =
     (let spec = ip_Spec p in
      if k = ''suspend'' then ips_Suspend spec = StringToBool v
      else if k = ''lastTaskStatus'' then ipst_LastTaskStatus (ip_Status p) = v
      else if k = ''strategy'' then
        (if v = CyclePolicy then ips_Once spec = None \<and> ips_Schedule spec \<noteq> None else ips_Once spec \<noteq> None)
      else if k = ''inspectType'' then
        (if v = InspectTypeInstant then ips_Schedule spec = None \<and> ips_Once spec = None
         else ips_Schedule spec \<noteq> None \<or> ips_Once spec \<noteq> None)
      else if k = ''name'' then
        (if isUUID v then om_UID (ip_Meta p) = v else str_contains (om_Name (ip_Meta p)) v)
      else isTag)"

definition task_tag :: "InspectTask \<Rightarrow> string \<Rightarrow> string \<Rightarrow> bool \<Rightarrow> bool" where
  "task_tag t k v isTag =
     (if k = ''status'' then itst_Status (it_Status t) = v
      else if k = ''inspectType'' then v = mget0 (om_Annotations (it_Meta t)) AnnotationInspectType
      else isTag)"

fun tag_loop :: "(string \<Rightarrow> string \<Rightarrow> bool \<Rightarrow> bool) \<Rightarrow> Filter \<Rightarrow> bool \<Rightarrow> bool" where
  "tag_loop tag [] isTag = True"
| "tag_loop tag ((k, v) # fs) isTag = (if tag k v isTag then tag_loop tag fs (tag k v isTag) else False)"

definition plan_filter :: "(json \<Rightarrow> InspectPlan option) \<Rightarrow> filterC" where
  "plan_filter dec data f = map_option (\<lambda>p. tag_loop (plan_tag p) f False) (decode_row dec data)"

definition task_filter :: "(json \<Rightarrow> InspectTask option) \<Rightarrow> filterC" where
  "task_filter dec data f = map_option (\<lambda>t. tag_loop (task_tag t) f False) (decode_row dec data)"

fun name_loop :: "string \<Rightarrow> Filter \<Rightarrow> bool" where
  "name_loop n [] = False"
| "name_loop n ((k, v) # fs) = (if k = ''name'' then str_contains n v else name_loop n fs)"

definition rule_filter :: "(json \<Rightarrow> InspectRule option) \<Rightarrow> filterC" where
  "rule_filter dec data f = map_option (\<lambda>r. name_loop (om_Name (ir_Meta r)) f) (decode_row dec data)"

definition result_filter :: "(json \<Rightarrow> InspectResult option) \<Rightarrow> filterC" where
  "result_filter dec data f = map_option (\<lambda>r. name_loop (om_Name (res_Meta r)) f) (decode_row dec data)"

section \<open>Handlers\<close>

datatype 'a payload = Object 'a | Page Result | Text string | Failure string

record 'a handled =
  hd_replies :: "(int \<times> 'a payload) list"
  hd_panic :: bool

definition reply :: "int \<Rightarrow> 'a payload \<Rightarrow> 'a handled" where
  "reply code p = \<lparr>hd_replies = [(code, p)], hd_panic = False\<rparr>"

abbreviation ok :: "'a payload \<Rightarrow> 'a handled" where
  "ok \<equiv> reply 200"

abbreviation failure :: "string \<Rightarrow> 'a handled" where
  "failure msg \<equiv> reply 500 (Failure msg)"

definition panic :: "'a handled" where
  "panic = \<lparr>hd_replies = [], hd_panic = True\<rparr>"

definition list_objects ::
    "sorter \<Rightarrow> (string \<Rightarrow> (strmap \<Rightarrow> bool) option) \<Rightarrow> ('a \<Rightarrow> json) \<Rightarrow> ('a \<Rightarrow> ObjectMeta) \<Rightarrow> compare \<Rightarrow> filterC
     \<Rightarrow> url_values \<Rightarrow> 'a list \<Rightarrow> 'a handled" where
  "list_objects srt sel enc meta c f vs cached =
     (case ParseQuery vs of
        None \<Rightarrow> panic
      | Some q \<Rightarrow>
          (case sel (q_LabelSelector q) of
             None \<Rightarrow> failure ''selector''
           | Some matches \<Rightarrow>
               (case GetPageData srt q (JArr (map enc (filter (\<lambda>x. matches (om_Labels (meta x))) cached))) (Some c) (Some f) of
                  None \<Rightarrow> panic
                | Some data \<Rightarrow> ok (Page data))))"

definition get_object :: "(string, 'a) gomap \<Rightarrow> string \<Rightarrow> 'a handled" where
  "get_object cached name = (case mget cached name of None \<Rightarrow> failure ''not found'' | Some x \<Rightarrow> ok (Object x))"

text \<open>The API server answers a write with an error or with the object it keeps.\<close>

type_synonym 'a server = "trace \<Rightarrow> call \<Rightarrow> api_err + 'a"

definition err_text :: "api_err \<Rightarrow> string" where
  "err_text e = (case e of NotFound \<Rightarrow> ''not found'' | AlreadyExists \<Rightarrow> ''already exists'' | ApiErr s \<Rightarrow> s)"

definition write_object :: "'a server \<Rightarrow> call \<Rightarrow> world \<Rightarrow> 'a handled \<times> world" where
  "write_object srv c w = (case srv (w_trace w) c of
     Inl e \<Rightarrow> failure (err_text e) | Inr x \<Rightarrow> ok (Object x), log c w)"

definition delete_object :: "env \<Rightarrow> kind \<Rightarrow> string \<Rightarrow> world \<Rightarrow> 'a handled \<times> world" where
  "delete_object E k name w =
     (let (err, w') = submit E (CDelete [] k name) w
      in (case err of Some e \<Rightarrow> failure (err_text e) | None \<Rightarrow> ok (Text ''success''), w'))"

text \<open>The body of a request, when it could be read: the document it holds, or none.\<close>

definition GetRequestBody :: "(json \<Rightarrow> 'a option) \<Rightarrow> doc option \<Rightarrow> 'a option" where
  "GetRequestBody dec body = Option.bind body (\<lambda>d. Option.bind d dec)"

definition ListInspectPlan where
  "ListInspectPlan srt sel enc dec vs w =
     list_objects srt sel enc ip_Meta (plan_compare dec) (plan_filter dec) vs (map snd (w_plans w))"

definition GetInspectPlan :: "string \<Rightarrow> world \<Rightarrow> InspectPlan handled" where
  "GetInspectPlan name w = get_object (w_plans w) name"

definition CreateInspectPlan ::
    "InspectPlan server \<Rightarrow> (json \<Rightarrow> InspectPlan option) \<Rightarrow> doc option \<Rightarrow> world \<Rightarrow> InspectPlan handled \<times> world" where
  "CreateInspectPlan srv dec body w = (case GetRequestBody dec body of
     None \<Rightarrow> (failure ''body'', w) | Some p \<Rightarrow> write_object srv (CCreate [] (OPlan p)) w)"

definition DeleteInspectPlan :: "env \<Rightarrow> string \<Rightarrow> world \<Rightarrow> InspectPlan handled \<times> world" where
  "DeleteInspectPlan E name w = delete_object E KPlan name w"

definition UpdateInspectPlan ::
    "InspectPlan server \<Rightarrow> (json \<Rightarrow> InspectPlan option) \<Rightarrow> doc option \<Rightarrow> world \<Rightarrow> InspectPlan handled \<times> world" where
  "UpdateInspectPlan srv dec body w = (case GetRequestBody dec body of
     None \<Rightarrow> (failure ''body'', w) | Some p \<Rightarrow> write_object srv (CUpdate [] (OPlan p)) w)"

definition PatchInspectPlan ::
    "InspectPlan server \<Rightarrow> string \<Rightarrow> doc option \<Rightarrow> world \<Rightarrow> InspectPlan handled \<times> world" where
  "PatchInspectPlan srv name body w = (case body of
     None \<Rightarrow> (failure ''body'', w) | Some data \<Rightarrow> write_object srv (CPatch KPlan name data False) w)"

text \<open>A plan that is not in the cache is answered, and then dereferenced all the same.\<close>

definition PatchInspectPlanStatus ::
    "InspectPlan server \<Rightarrow> string \<Rightarrow> doc option \<Rightarrow> world \<Rightarrow> InspectPlan handled \<times> world" where
  "PatchInspectPlanStatus srv name body w =
     (case mget (w_plans w) name of
        None \<Rightarrow> (\<lparr>hd_replies = [(500, Failure ''not found'')], hd_panic = True\<rparr>, w)
      | Some plan \<Rightarrow>
          (if IsPending (ipst_LastTaskStatus (ip_Status plan)) \<or> IsRunning (ipst_LastTaskStatus (ip_Status plan))
           then (failure ''Please do not repeat the execution'', w)
           else case body of
             None \<Rightarrow> (failure ''body'', w)
           | Some data \<Rightarrow> write_object srv (CPatch KPlan name data True) w))"

definition ListInspectTask where
  "ListInspectTask srt sel enc dec vs w =
     list_objects srt sel enc it_Meta (task_compare dec) (task_filter dec) vs (map snd (w_tasks w))"

definition GetInspectTask :: "string \<Rightarrow> world \<Rightarrow> InspectTask handled" where
  "GetInspectTask name w = get_object (w_tasks w) name"

definition DeleteInspectTask :: "env \<Rightarrow> string \<Rightarrow> world \<Rightarrow> InspectTask handled \<times> world" where
  "DeleteInspectTask E name w = delete_object E KTask name w"

definition ListInspectRule where
  "ListInspectRule srt sel enc dec vs w =
     list_objects srt sel enc ir_Meta (rule_compare dec) (rule_filter dec) vs (map snd (w_rules w))"

definition GetInspectRule :: "string \<Rightarrow> world \<Rightarrow> InspectRule handled" where
  "GetInspectRule name w = get_object (w_rules w) name"

definition CreateInspectRule_handler ::
    "InspectRule server \<Rightarrow> (json \<Rightarrow> InspectRule option) \<Rightarrow> doc option \<Rightarrow> world \<Rightarrow> InspectRule handled \<times> world" where
  "CreateInspectRule_handler srv dec body w = (case GetRequestBody dec body of
     None \<Rightarrow> (failure ''bind data error'', w) | Some r \<Rightarrow> write_object srv (CCreate [] (ORule r)) w)"

definition DeleteInspectRule :: "env \<Rightarrow> string \<Rightarrow> world \<Rightarrow> InspectRule handled \<times> world" where
  "DeleteInspectRule E name w = delete_object E KRule name w"

definition UpdateInspectRule ::
    "InspectRule server \<Rightarrow> (json \<Rightarrow> InspectRule option) \<Rightarrow> doc option \<Rightarrow> world \<Rightarrow> InspectRule handled \<times> world" where
  "UpdateInspectRule srv dec body w = (case GetRequestBody dec body of
     None \<Rightarrow> (failure ''body'', w) | Some r \<Rightarrow> write_object srv (CUpdate [] (ORule r)) w)"

text \<open>None: the request goes on to the next handler.\<close>

definition Validate :: "(json \<Rightarrow> InspectRule option) \<Rightarrow> doc option \<Rightarrow> InspectRule handled option" where
  "Validate dec body = (case GetRequestBody dec body of
     None \<Rightarrow> Some (failure ''body'')
   | Some r \<Rightarrow> if mget (om_Labels (ir_Meta r)) LabelRuleGroup = None
       then Some (failure (''inspect rule must have label '' @ LabelRuleGroup)) else None)"

section \<open>What the comparisons promise sort.Slice\<close>

lemma weak_order_str: "weak_order (\<lambda>a b. str_less (f a) (f b))"
  unfolding str_less_def by (rule weak_order_key)

lemma weak_order_created: "weak_order (\<lambda>a b. created_before (f a) (f b))"
  unfolding created_before_def by (rule weak_order_key)

lemma weak_order_lex:
  fixes f :: "'a \<Rightarrow> 'b :: linorder" and g :: "'a \<Rightarrow> 'c :: linorder"
  shows "weak_order (\<lambda>a b. if f a = f b then g a < g b else f a < f b)"
  unfolding weak_order_def by (auto split: if_splits)

lemma weak_order_if:
  "weak_order f \<Longrightarrow> weak_order g \<Longrightarrow> weak_order (\<lambda>a b. if c then f a b else g a b)"
  by (cases c) simp_all

lemma weak_order_never: "weak_order (\<lambda>a b. False)"
  by (simp add: weak_order_def)

lemmas weak_order_intros = weak_order_if weak_order_never weak_order_str weak_order_created

lemma time_before_not_weak:
  assumes "\<And>t. f (mk t) = t"
  shows "\<not> weak_order (\<lambda>a b. time_before (f a) (f b))"
proof
  assume "weak_order (\<lambda>a b. time_before (f a) (f b))"
  then have "\<not> time_before (f (mk (Some (Time 1)))) (f (mk (Some (Time 2))))"
    by (rule weak_orderD(2) [where b = "mk None"]) (simp_all add: assms time_before_def)
  then show False by (simp add: assms time_before_def less_time_def)
qed

lemma plan_less_weak: "k = ''createTime'' \<or> k = ''lastTaskStatus'' \<Longrightarrow> weak_order (\<lambda>a b. plan_less a b k)"
  unfolding plan_less_def by (elim disjE) (simp_all add: weak_order_str weak_order_created)

lemma task_less_weak: "k \<noteq> ''startTimestamp'' \<Longrightarrow> weak_order (\<lambda>a b. task_less a b k)"
  unfolding task_less_def by (simp only: if_False) (intro weak_order_intros)

text \<open>
  Sorting a list by its creation time, its name or a phase uses a strict weak order, as sort.Slice
  wants.  Sorting by a start time does not: an object that never started is equal to every other, and
  plans sorted by their policy are all less than each other.
\<close>

theorem compare_contracts:
  "weak_order (\<lambda>a b. plan_less a b ''createTime'') \<and> weak_order (\<lambda>a b. plan_less a b ''lastTaskStatus'')
   \<and> weak_order (\<lambda>a b. task_less a b ''createTime'') \<and> weak_order (\<lambda>a b. task_less a b ''status'')
   \<and> weak_order (\<lambda>a b. task_less a b ''inspectPolicy'') \<and> weak_order (\<lambda>a b. task_less a b ''duration'')
   \<and> (\<forall>k. weak_order (\<lambda>a b. rule_less a b k))
   \<and> \<not> weak_order (\<lambda>a b. plan_less a b ''lastTaskStartTime'')
   \<and> \<not> weak_order (\<lambda>a b. task_less a b ''startTimestamp'')
   \<and> \<not> weak_order (\<lambda>a b. plan_compare dec a b ''inspectPolicy'' = Some True)"
proof (intro conjI)
  show "weak_order (\<lambda>a b. plan_less a b ''createTime'')" "weak_order (\<lambda>a b. plan_less a b ''lastTaskStatus'')"
    by (rule plan_less_weak; simp)+
  show "weak_order (\<lambda>a b. task_less a b ''createTime'')" "weak_order (\<lambda>a b. task_less a b ''status'')"
    "weak_order (\<lambda>a b. task_less a b ''inspectPolicy'')" "weak_order (\<lambda>a b. task_less a b ''duration'')"
    by (rule task_less_weak; simp)+
  show "\<forall>k. weak_order (\<lambda>a b. rule_less a b k)"
    unfolding rule_less_def str_less_def created_before_def
    by (intro allI weak_order_if weak_order_lex weak_order_key)
  show "\<not> weak_order (\<lambda>a b. plan_less a b ''lastTaskStartTime'')"
    using time_before_not_weak [of "\<lambda>p. ipst_LastTaskStartTime (ip_Status p)"
        "\<lambda>t. p\<lparr>ip_Status := (ip_Status p)\<lparr>ipst_LastTaskStartTime := t\<rparr>\<rparr>" for p]
    by (simp add: plan_less_def)
  show "\<not> weak_order (\<lambda>a b. task_less a b ''startTimestamp'')"
    using time_before_not_weak [of "\<lambda>p. itst_StartTimestamp (it_Status p)"
        "\<lambda>t. p\<lparr>it_Status := (it_Status p)\<lparr>itst_StartTimestamp := t\<rparr>\<rparr>" for p]
    by (simp add: task_less_def)
  show "\<not> weak_order (\<lambda>a b. plan_compare dec a b ''inspectPolicy'' = Some True)"
    by (simp add: plan_compare_def weak_order_def)
qed

section \<open>Filters of several keys\<close>

text \<open>
  A filter with a key the resource does not know passes or fails with the order in which its
  map is walked: after a key that matches it passes, before it the row is dropped.
\<close>

theorem filters_depend_on_order:
  assumes "plan_tag p k v False" and "k \<in> {''suspend'', ''lastTaskStatus'', ''strategy'', ''inspectType'', ''name''}"
    and "k' \<notin> {''suspend'', ''lastTaskStatus'', ''strategy'', ''inspectType'', ''name''}"
    and "decode_row dec row = Some p"
  shows "plan_filter dec row [(k, v), (k', v')] = Some True \<and> plan_filter dec row [(k', v'), (k, v)] = Some False"
proof -
  have u: "plan_tag p k' v' t = t" for t using assms(3) by (simp add: plan_tag_def)
  show ?thesis using assms(1,4) by (simp add: plan_filter_def u)
qed

section \<open>The trigger of a plan\<close>

text \<open>
  The status of a plan is patched at most once for a request, and not while a run of it is pending
  or running; the request for a plan that is not in the cache is answered and then crashes.
\<close>

theorem patch_status_guard:
  "(case mget (w_plans w) name of
      None \<Rightarrow> hd_panic (fst (PatchInspectPlanStatus srv name body w)) \<and> snd (PatchInspectPlanStatus srv name body w) = w
    | Some plan \<Rightarrow> \<not> hd_panic (fst (PatchInspectPlanStatus srv name body w))
        \<and> length (hd_replies (fst (PatchInspectPlanStatus srv name body w))) = 1
        \<and> w_trace (snd (PatchInspectPlanStatus srv name body w)) = w_trace w @
            (if IsPending (ipst_LastTaskStatus (ip_Status plan)) \<or> IsRunning (ipst_LastTaskStatus (ip_Status plan)) \<or> body = None
             then [] else [CPatch KPlan name (the body) True]))"
  by (auto simp: PatchInspectPlanStatus_def write_object_def reply_def world_simps split: option.splits sum.splits)


definition suspended_plan :: InspectPlan where
  "suspended_plan = \<lparr>ip_Type = \<lparr>tm_Kind = [], tm_APIVersion = []\<rparr>, ip_Meta = empty_meta ''plan'',
     ip_Spec = \<lparr>ips_Schedule = None, ips_Suspend = True, ips_Timeout = [], ips_RuleNames = [], ips_MaxTasks = 0,
       ips_ClusterName = None, ips_KubeConfig = [], ips_Once = None\<rparr>,
     ip_Status = zero_PlanStatus\<rparr>"

theorem filters_depend_on_order_witness:
  "plan_filter (\<lambda>j. Some suspended_plan) [] [(''suspend'', ''true''), (''x'', [])] = Some True
   \<and> plan_filter (\<lambda>j. Some suspended_plan) [] [(''x'', []), (''suspend'', ''true'')] = Some False"
proof -
  have "decode_row (\<lambda>j. Some suspended_plan) [] = Some suspended_plan"
    by (simp add: decode_row_def MapToStruct_single)
  moreover have "plan_tag suspended_plan ''suspend'' ''true'' False"
    by (simp add: plan_tag_def suspended_plan_def StringToBool_def)
  ultimately show ?thesis
    using filters_depend_on_order [of suspended_plan "''suspend''" "''true''" "''x''" "\<lambda>j. Some suspended_plan" "[]" "[]"]
    by simp
qed

end
