(* ===== verification/Result_Api.thy ===== *)
theory Result_Api
  imports Api_Server Report_Json
begin

text \<open>
  pkg/server/api/inspectResult.go: the handlers of the requests about results.  They read the result
  files, which are parameters: none where a file cannot be read, and the document it holds (none if
  it is no JSON).  The lister hands out the objects of the cache themselves, so the handler of one
  result returns the cache too.
\<close>

section \<open>Unmarshalling over a value\<close>

text \<open>
  json.Unmarshal into a value that is not zero: a document's fields replace those of the value, and
  structs in structs likewise.  (The only null the program writes, a zero creation time, replaces as
  well.)  A document with a field of another type, which the program never writes, has no effect here.
\<close>

fun overlay :: "json \<Rightarrow> json \<Rightarrow> json" and overlay_fields :: "jobj \<Rightarrow> jobj \<Rightarrow> jobj" where
  "overlay x y = (case y of
     JObj b \<Rightarrow> (case x of JObj a \<Rightarrow> JObj (overlay_fields a b) | _ \<Rightarrow> y)
   | _ \<Rightarrow> y)"
| "overlay_fields a [] = a"
| "overlay_fields a ((k, v) # b) = overlay_fields (mput a k (case mget a k of None \<Rightarrow> v | Some w \<Rightarrow> overlay w v)) b"

definition unmarshal_into :: "('a \<Rightarrow> json) \<Rightarrow> (json \<Rightarrow> 'a option) \<Rightarrow> doc \<Rightarrow> 'a \<Rightarrow> 'a option" where
  "unmarshal_into enc dec file x = (case file of
     None \<Rightarrow> None | Some JNull \<Rightarrow> Some x | Some d \<Rightarrow> dec (overlay (enc x) d))"

section \<open>Files\<close>

type_synonym files = "string \<Rightarrow> doc option"

definition GetFileResultData :: "files \<Rightarrow> (json \<Rightarrow> InspectResult option) \<Rightarrow> string \<Rightarrow> InspectResult option" where
  "GetFileResultData file dec name = (case file (path_join ResultPathPrefix name) of
     Some (Some d) \<Rightarrow> dec d | _ \<Rightarrow> None)"

definition result_details ::
    "files \<Rightarrow> (InspectResult \<Rightarrow> json) \<Rightarrow> (json \<Rightarrow> InspectResult option) \<Rightarrow> InspectResult \<Rightarrow> InspectResult option" where
  "result_details file enc dec r =
     Option.bind (file (path_join ResultPathPrefix (om_Name (res_Meta r)))) (\<lambda>d. unmarshal_into enc dec d r)"

section \<open>Handlers\<close>

datatype 'f result_body = OneResult InspectResult | Results int "InspectResult list"
  | Raw "prometheusData list \<times> string" | Raws int "(prometheusData list \<times> string) list"
  | Summary "'f customized" | Summaries int "'f customized list" | Html html_data

definition wants_details :: "url_values \<Rightarrow> bool" where
  "wants_details vs = StringToBool (values_get vs ''details'')"

text \<open>
  The summaries of the results one after the other: the first file that cannot be read or decoded ends
  the request (the inner None), unless a panic has ended it before.
\<close>

fun summaries :: "'f floats \<Rightarrow> cluster_reads \<Rightarrow> (InspectResult \<Rightarrow> InspectResult option) \<Rightarrow> InspectResult list
    \<Rightarrow> 'f customized list option option" where
  "summaries fl N fetch [] = Some (Some [])"
| "summaries fl N fetch (r # rs) =
     (case fetch r of
        None \<Rightarrow> Some None
      | Some d \<Rightarrow> do {
          s \<leftarrow> ParseCustomizedStruct fl N d;
          rest \<leftarrow> summaries fl N fetch rs;
          Some (map_option ((#) s) rest) })"

text \<open>The first file that cannot be read or decoded ends the request.\<close>

definition ListInspectResult ::
    "sorter \<Rightarrow> (string \<Rightarrow> (strmap \<Rightarrow> bool) option) \<Rightarrow> 'f floats \<Rightarrow> cluster_reads \<Rightarrow> files
     \<Rightarrow> (InspectResult \<Rightarrow> json) \<Rightarrow> (json \<Rightarrow> InspectResult option) \<Rightarrow> url_values \<Rightarrow> InspectResult list
     \<Rightarrow> 'f result_body handled" where
  "ListInspectResult srt sel fl N file enc dec vs cached =
     (case ParseQuery vs of
        None \<Rightarrow> panic
      | Some q \<Rightarrow>
          (case sel (q_LabelSelector q) of
             None \<Rightarrow> failure ''selector''
           | Some matches \<Rightarrow>
               (case GetPageData srt q (JArr (map enc (filter (\<lambda>x. matches (om_Labels (res_Meta x))) cached)))
                       (Some (result_compare dec)) (Some (result_filter dec)) of
                  None \<Rightarrow> panic
                | Some data \<Rightarrow>
                    (let results = MapToStruct dec (r_Items data);
                         fetch = (\<lambda>r. GetFileResultData file dec (om_Name (res_Meta r)))
                     in if values_get vs ''type'' = ''prometheus'' then
                          (case those (map fetch results) of
                             None \<Rightarrow> failure ''InspectResult''
                           | Some ds \<Rightarrow> ok (Object (Raws (int (length ds)) (map ParsePrometheusData ds))))
                        else if values_get vs ''type'' = ''customized'' then
                          (case summaries fl N fetch results of
                             None \<Rightarrow> panic
                           | Some None \<Rightarrow> failure ''InspectResult''
                           | Some (Some ss) \<Rightarrow> ok (Object (Summaries (int (length ss)) ss)))
                        else if wants_details vs then
                          (case those (map (result_details file enc dec) results) of
                             None \<Rightarrow> failure ''InspectResult''
                           | Some rs \<Rightarrow> ok (Object (Results (r_TotalItems data) rs)))
                        else ok (Object (Results (r_TotalItems data) results))))))"

definition GetInspectResult ::
    "'f floats \<Rightarrow> cluster_reads \<Rightarrow> bool \<Rightarrow> bool \<Rightarrow> files \<Rightarrow> (InspectResult \<Rightarrow> json)
     \<Rightarrow> (json \<Rightarrow> InspectResult option) \<Rightarrow> url_values \<Rightarrow> string \<Rightarrow> (string, InspectResult) gomap
     \<Rightarrow> 'f result_body handled \<times> (string, InspectResult) gomap" where
  "GetInspectResult fl N no_component no_overview file enc dec vs name cached =
     (case ParseQuery vs of
        None \<Rightarrow> (panic, cached)
      | Some _ \<Rightarrow>
          (let outType = values_get vs ''type'' in
           if outType = ''html'' then
             (case HtmlOut no_component no_overview (\<lambda>p. Option.bind (Option.bind (file p) (\<lambda>d. d)) dec) name of
                None \<Rightarrow> (panic, cached)
              | Some (Inl _) \<Rightarrow> (failure ''html'', cached)
              | Some (Inr m) \<Rightarrow> (ok (Object (Html m)), cached))
           else if outType = ''json'' then
             (case GetFileResultData file dec name of
                None \<Rightarrow> (failure ''InspectResult'', cached)
              | Some data \<Rightarrow> (ok (Object (OneResult data)), cached))
           else if outType = ''customized'' then
             (case GetFileResultData file dec name of
                None \<Rightarrow> (failure ''InspectResult'', cached)
              | Some data \<Rightarrow>
                  (if values_get vs ''source'' = ''prometheus'' then (ok (Object (Raw (ParsePrometheusData data))), cached)
                   else (case ParseCustomizedStruct fl N data of
                       None \<Rightarrow> (panic, cached)
                     | Some s \<Rightarrow> (ok (Object (Summary s)), cached))))
           else case mget cached name of
             None \<Rightarrow> (failure ''not found'', cached)
           | Some result \<Rightarrow>
               (if wants_details vs then
                  (case result_details file enc dec result of
                     None \<Rightarrow> (failure ''InspectResult'', cached)
                   | Some result' \<Rightarrow> (ok (Object (OneResult result')), mput cached name result'))
                else (ok (Object (OneResult result)), cached))))"

text \<open>The disposition header and the file sent.\<close>

definition path_base :: "string \<Rightarrow> string" where
  "path_base p = (let q = rev (dropWhile (\<lambda>c. c = CHR ''/'') (rev p)) in
     if p = [] then ''.'' else if q = [] then ''/'' else last (split_slash q))"

definition DownloadInspectResult :: "string \<Rightarrow> string \<times> string" where
  "DownloadInspectResult name =
     (''attachment; filename='' @ path_base (path_join ResultPathPrefix name), path_join ResultPathPrefix (name @ ''.xlsx''))"

section \<open>What the handlers answer\<close>

lemma those_SomeD: "those (map f xs) = Some ys \<Longrightarrow> list_all2 (\<lambda>x y. f x = Some y) xs ys"
  by (induction xs arbitrary: ys) (auto split: option.splits)

text \<open>The total of the raw data and of the summaries is the size of the page, not of the list.\<close>

lemma totals_are_page_sizes:
  assumes "ListInspectResult srt sel fl N file enc dec vs cached = ok (Object body)"
  shows "case body of Raws n xs \<Rightarrow> n = int (length xs) | Summaries n xs \<Rightarrow> n = int (length xs) | _ \<Rightarrow> True"
  using assms
  by (auto simp: ListInspectResult_def reply_def panic_def Let_def split: option.splits if_splits result_body.splits)

lemma download_file:
  assumes "CHR ''/'' \<notin> set name" and "name \<noteq> []"
  shows "snd (DownloadInspectResult name) = ResultPathPrefix @ ''/'' @ name @ ''.xlsx''"
proof -
  have "name @ ''.xlsx'' \<noteq> ''.''" "name @ ''.xlsx'' \<noteq> ''..''"
    by (auto simp: append_eq_Cons_conv)
  moreover have "CHR ''/'' \<notin> set (name @ ''.xlsx'')" using assms by simp
  ultimately show ?thesis unfolding DownloadInspectResult_def using path_join_results [of "name @ ''.xlsx''"] by simp
qed

text \<open>
  C39. Asking for the details of a result changes it for everybody: the file is decoded over the object
  of the shared cache, and a later request without details gets the details as well.
\<close>

theorem details_stay_in_cache:
  assumes "mget cached name = Some r" and "result_details file enc dec r = Some r'"
    and "ParseQuery vs \<noteq> None" and "values_get vs ''type'' \<notin> {''html'', ''json'', ''customized''}" and "wants_details vs"
    and "ParseQuery vs' \<noteq> None" and "values_get vs' ''type'' \<notin> {''html'', ''json'', ''customized''}" and "\<not> wants_details vs'"
  shows "\<exists>cached'. GetInspectResult fl N nc no file enc dec vs name cached = (ok (Object (OneResult r')), cached')
    \<and> GetInspectResult fl N nc no file enc dec vs' name cached = (ok (Object (OneResult r)), cached)
    \<and> GetInspectResult fl N nc no file enc dec vs' name cached' = (ok (Object (OneResult r')), cached')"
  using assms by (auto simp: GetInspectResult_def Let_def go_map)

text \<open>A codec of the one list the run below reads, and a file that holds one item.\<close>

definition enc_sysctl :: "InspectResult \<Rightarrow> json" where
  "enc_sysctl r = JObj (omit_list ''sysctlResult'' enc_NodeMetricsResultItem (rs_SysctlResult (res_Spec r)))"

definition dec_sysctl :: "json \<Rightarrow> InspectResult option" where
  "dec_sysctl j = (case j of
     JObj obj \<Rightarrow> map_option (\<lambda>xs. demo_result\<lparr>res_Spec := (res_Spec demo_result)\<lparr>rs_SysctlResult := xs\<rparr>\<rparr>)
       (dec_list obj ''sysctlResult'' dec_NodeMetricsResultItem)
   | _ \<Rightarrow> None)"

definition result_files :: files where
  "result_files p = Some (Some (enc_sysctl (the (report_file p))))"

definition plain_floats :: "unit floats" where
  "plain_floats = \<lparr>fl_zero = (), fl_is_zero = (\<lambda>_. True), fl_less = (\<lambda>_ _. False), fl_div = (\<lambda>_ _. ()), fl_parse = (\<lambda>_. None)\<rparr>"

definition lone_cluster :: cluster_reads where
  "lone_cluster = \<lparr>cr_cluster = (\<lambda>c. Inl ''none''), cr_go = quiet_go, cr_nodes = (\<lambda>k. Inr [])\<rparr>"

theorem details_stay_in_cache_witness:
  "\<exists>r' cached'. rs_SysctlResult (res_Spec demo_result) = [] \<and> rs_SysctlResult (res_Spec r') \<noteq> []
    \<and> GetInspectResult plain_floats lone_cluster False False result_files enc_sysctl dec_sysctl [] ''r'' [(''r'', demo_result)]
        = (ok (Object (OneResult demo_result)), [(''r'', demo_result)])
    \<and> GetInspectResult plain_floats lone_cluster False False result_files enc_sysctl dec_sysctl [] ''r'' cached'
        = (ok (Object (OneResult r')), cached')"
proof -
  have "rs_SysctlResult (res_Spec (the (result_details result_files enc_sysctl dec_sysctl demo_result))) \<noteq> []
      \<and> result_details result_files enc_sysctl dec_sysctl demo_result \<noteq> None"
    by code_simp
  then obtain r' where r': "result_details result_files enc_sysctl dec_sysctl demo_result = Some r'"
      "rs_SysctlResult (res_Spec r') \<noteq> []"
    by auto
  have "ParseQuery [(''details'', [''true''])] \<noteq> None" "ParseQuery [] \<noteq> None"
    by (simp_all add: ParseQuery_def ParseFilter_def query_keys_def)
  moreover have "wants_details [(''details'', [''true''])]" "\<not> wants_details []"
    by (simp_all add: wants_details_def values_get_def StringToBool_def)
  ultimately have "\<exists>cached'. GetInspectResult plain_floats lone_cluster False False result_files enc_sysctl dec_sysctl
        [(''details'', [''true''])] ''r'' [(''r'', demo_result)] = (ok (Object (OneResult r')), cached')
      \<and> GetInspectResult plain_floats lone_cluster False False result_files enc_sysctl dec_sysctl [] ''r'' [(''r'', demo_result)]
          = (ok (Object (OneResult demo_result)), [(''r'', demo_result)])
      \<and> GetInspectResult plain_floats lone_cluster False False result_files enc_sysctl dec_sysctl [] ''r'' cached'
          = (ok (Object (OneResult r')), cached')"
    using r'(1) by (intro details_stay_in_cache) (simp_all add: values_get_def)
  moreover have "rs_SysctlResult (res_Spec demo_result) = []" by code_simp
  ultimately show ?thesis using r'(2) by blast
qed

end
