(* ===== verification/Router.thy ===== *)
theory Router
  imports Result_Api
begin

text \<open>
  pkg/server/router/router.go: the routes of the server and the handlers they lead to.  A path is the
  list of its segments below the group path; a parameter matches one segment that is not empty.  The
  redirects gin makes for a trailing slash are left out.  Then how the manager and the server start.
\<close>

datatype http_method = GET | POST | PUT | PATCH | DELETE

datatype route_handler = H_ListInspectResult | H_GetInspectResult | H_DownloadInspectResult
  | H_ListInspectTask | H_GetInspectTask | H_DeleteInspectTask
  | H_ListInspectPlan | H_GetInspectPlan | H_CreateInspectPlan | H_DeleteInspectPlan | H_UpdateInspectPlan
  | H_PatchInspectPlanStatus | H_PatchInspectPlan
  | H_ListInspectRule | H_GetInspectRule | H_CreateInspectRule | H_DeleteInspectRule | H_UpdateInspectRule

definition groupPath :: string where
  "groupPath = ''/kapis/kubeeye.kubesphere.io/v1alpha2''"

definition routes :: "(http_method \<times> string list \<times> route_handler) list" where
  "routes =
     [(GET, [''inspectresults''], H_ListInspectResult),
      (GET, [''inspectresults'', '':name''], H_GetInspectResult),
      (GET, [''inspectresults'', '':name'', ''download''], H_DownloadInspectResult),
      (GET, [''inspecttasks''], H_ListInspectTask),
      (GET, [''inspecttasks'', '':name''], H_GetInspectTask),
      (DELETE, [''inspecttasks'', '':name''], H_DeleteInspectTask),
      (GET, [''inspectplans''], H_ListInspectPlan),
      (GET, [''inspectplans'', '':name''], H_GetInspectPlan),
      (POST, [''inspectplans''], H_CreateInspectPlan),
      (DELETE, [''inspectplans'', '':name''], H_DeleteInspectPlan),
      (PUT, [''inspectplans''], H_UpdateInspectPlan),
      (PATCH, [''inspectplans'', '':name'', ''status''], H_PatchInspectPlanStatus),
      (PATCH, [''inspectplans'', '':name''], H_PatchInspectPlan),
      (GET, [''inspectrules''], H_ListInspectRule),
      (GET, [''inspectrules'', '':name''], H_GetInspectRule),
      (POST, [''inspectrules''], H_CreateInspectRule),
      (DELETE, [''inspectrules''], H_DeleteInspectRule),
      (PUT, [''inspectrules''], H_UpdateInspectRule)]"

text \<open>The value of the parameter of a pattern, when it matches: empty for a pattern without one.\<close>

fun match_path :: "string list \<Rightarrow> string list \<Rightarrow> string option" where
  "match_path [] [] = Some []"
| "match_path (p # ps) (s # ss) =
     (if p = '':name'' then (if s = [] then None else case match_path ps ss of None \<Rightarrow> None | Some _ \<Rightarrow> Some s)
      else if p = s then match_path ps ss else None)"
| "match_path _ _ = None"

definition dispatch :: "http_method \<Rightarrow> string list \<Rightarrow> (route_handler \<times> string) list" where
  "dispatch m path = List.map_filter (\<lambda>(m', pattern, h).
     if m' = m then map_option (Pair h) (match_path pattern path) else None) routes"

text \<open>A route that names a rule for deletion is missing: the one route there deletes the rule without a name.\<close>

lemma delete_rule_routes:
  "dispatch DELETE [''inspectrules'', name] = []"
  "dispatch DELETE [''inspectrules''] = [(H_DeleteInspectRule, [])]"
  "snd (DeleteInspectRule E [] w) = log (CDelete [] KRule []) w"
  by (simp_all add: dispatch_def routes_def List.map_filter_simps DeleteInspectRule_def delete_object_def world_simps)

text \<open>Plans and tasks are deleted by their names.\<close>

lemma delete_by_name:
  "name \<noteq> [] \<Longrightarrow> dispatch DELETE [''inspectplans'', name] = [(H_DeleteInspectPlan, name)]"
  "name \<noteq> [] \<Longrightarrow> dispatch DELETE [''inspecttasks'', name] = [(H_DeleteInspectTask, name)]"
  by (simp_all add: dispatch_def routes_def List.map_filter_simps)

text \<open>No two routes lead the same request to different handlers: no two patterns of a method meet.\<close>

fun meets :: "string list \<Rightarrow> string list \<Rightarrow> bool" where
  "meets [] [] = True"
| "meets (p # ps) (q # qs) = ((p = q \<or> p = '':name'' \<or> q = '':name'') \<and> meets ps qs)"
| "meets _ _ = False"

lemma match_path_meets: "match_path ps s = Some x \<Longrightarrow> match_path qs s = Some y \<Longrightarrow> meets ps qs"
proof (induction ps s arbitrary: x y qs rule: match_path.induct)
  case (2 p ps s ss)
  then show ?case by (cases qs) (auto split: if_splits option.splits)
next
  case 1
  then show ?case by (cases qs) simp_all
qed simp_all

lemma map_filter_at_most_one: "sorted_wrt (\<lambda>x y. f x = None \<or> f y = None) xs \<Longrightarrow> length (List.map_filter f xs) \<le> 1"
proof (induction xs)
  case (Cons x xs)
  have "List.map_filter f xs = []" if "f x \<noteq> None"
  proof -
    have "\<forall>y \<in> set xs. f y = None" using Cons.prems that by auto
    then show ?thesis by (simp add: List.map_filter_def filter_empty_conv)
  qed
  then show ?case using Cons by (auto simp: List.map_filter_simps split: option.split)
qed (simp add: List.map_filter_simps)

lemma routes_apart: "sorted_wrt (\<lambda>(m, p, h) (m', p', h'). \<not> (m = m' \<and> meets p p')) routes"
  by (simp add: routes_def)

lemma unique_route: "length (dispatch m path) \<le> 1"
  unfolding dispatch_def
proof (rule map_filter_at_most_one, rule sorted_wrt_mono_rel [OF _ routes_apart])
  show "(case x of (m', pattern, h) \<Rightarrow> if m' = m then map_option (Pair h) (match_path pattern path) else None) = None
      \<or> (case y of (m', pattern, h) \<Rightarrow> if m' = m then map_option (Pair h) (match_path pattern path) else None) = None"
    if "(\<lambda>(m, p, h) (m', p', h'). \<not> (m = m' \<and> meets p p')) x y" for x y
    using that by (cases x; cases y) (auto, metis match_path_meets not_None_eq)
qed

section \<open>The start of the programs\<close>

text \<open>
  cmd/ke-manager/main.go and cmd/apiserver/main.go: both make the client of their own cluster and the
  informers.  The manager ends with an error where that fails.  The server puts the error into a channel
  that nobody reads yet and goes on with nil, so it panics (None).
\<close>

definition start_informers :: "(gver \<times> string \<Rightarrow> bool) \<Rightarrow> watched" where
  "start_informers known = Start_informers (ForResources known (Some KeEyeGver) (Some K8sEyeGver) (NewInformerFactory True True))"

definition start_manager :: "client_go \<Rightarrow> (gver \<times> string \<Rightarrow> bool) \<Rightarrow> string + KubernetesClient \<times> watched" where
  "start_manager G known =
     (case GetKubeConfigInCluster G of
        Inl err \<Rightarrow> Inl err
      | Inr kubeConfig \<Rightarrow>
          (case K8SClients G kubeConfig of
             Inl err \<Rightarrow> Inl err
           | Inr clients \<Rightarrow> Inr (clients, start_informers known)))"

definition start_apiserver ::
    "client_go \<Rightarrow> (gver \<times> string \<Rightarrow> bool)
     \<Rightarrow> (KubernetesClient \<times> watched \<times> (http_method \<times> string list \<Rightarrow> (route_handler \<times> string) list)) option" where
  "start_apiserver G known = do {
     kubeConfig \<leftarrow> (case GetKubeConfigInCluster G of Inl err \<Rightarrow> None | Inr c \<Rightarrow> Some c);
     clients \<leftarrow> (case K8SClients G kubeConfig of Inl err \<Rightarrow> None | Inr k \<Rightarrow> Some k);
     Some (clients, start_informers known, \<lambda>(m, path). dispatch m path) }"

lemma start_fails_alike: "start_apiserver G known = None \<longleftrightarrow> (\<exists>err. start_manager G known = Inl err)"
  by (auto simp: start_apiserver_def start_manager_def split: sum.splits)

section \<open>The main program of the manager\<close>

text \<open>The flags, with what they are without arguments, and what controller-runtime gets of them.\<close>

record manager_flags =
  mf_MetricsAddr :: string
  mf_ProbeAddr :: string
  mf_PluginsAddr :: string
  mf_LeaderElect :: bool

definition default_flags :: manager_flags where
  "default_flags = \<lparr>mf_MetricsAddr = '':8080'', mf_ProbeAddr = '':8081'', mf_PluginsAddr = '':8888'', mf_LeaderElect = False\<rparr>"

record manager_options =
  mo_BindAddress :: string
  mo_HealthProbeBindAddress :: string
  mo_LeaderElection :: bool
  mo_LeaderElectionID :: string

definition manager_options_of :: "manager_flags \<Rightarrow> manager_options" where
  "manager_options_of f = \<lparr>mo_BindAddress = mf_MetricsAddr f, mo_HealthProbeBindAddress = mf_ProbeAddr f,
     mo_LeaderElection = mf_LeaderElect f, mo_LeaderElectionID = ''fa68b2a3.kubesphere.io''\<rparr>"

text \<open>What controller-runtime answers: an error, or None.\<close>

record controller_runtime =
  cr_NewManager :: "manager_options \<Rightarrow> string option"
  cr_Setup :: "string \<Rightarrow> string option"
  cr_Check :: "string \<Rightarrow> string option"
  cr_Start :: "string option"

text \<open>The steps of main that can fail, each with the message it logs before the program exits with 1.\<close>

definition controllers :: "string list" where
  "controllers = [''InspectPlan'', ''InspectTask'', ''InspectResult'', ''InspectRule'']"

definition setup_steps :: "controller_runtime \<Rightarrow> (string \<times> string option) list" where
  "setup_steps R = map (\<lambda>c. (''unable to create controller '' @ c, cr_Setup R c)) controllers
     @ [(''unable to set up health check'', cr_Check R ''healthz''), (''unable to set up ready check'', cr_Check R ''readyz'')]"

fun first_failure :: "(string \<times> string option) list \<Rightarrow> string option" where
  "first_failure [] = None"
| "first_failure ((msg, None) # steps) = first_failure steps"
| "first_failure ((msg, Some err) # steps) = Some msg"

text \<open>Inl is the message of an exit with 1; Inr what was watched while the manager ran to its end.\<close>

definition manager_main ::
    "controller_runtime \<Rightarrow> client_go \<Rightarrow> (gver \<times> string \<Rightarrow> bool) \<Rightarrow> manager_flags \<Rightarrow> string + watched" where
  "manager_main R G known f =
     (case cr_NewManager R (manager_options_of f) of
        Some err \<Rightarrow> Inl ''unable to start manager''
      | None \<Rightarrow>
          (case start_manager G known of
             Inl err \<Rightarrow> Inl ''Failed to load cluster clients''
           | Inr (clients, watching) \<Rightarrow>
               (case first_failure (setup_steps R) of
                  Some msg \<Rightarrow> Inl msg
                | None \<Rightarrow> (case cr_Start R of
                      Some err \<Rightarrow> Inl ''problem running manager''
                    | None \<Rightarrow> Inr watching))))"

lemma first_failure_None: "first_failure steps = None \<longleftrightarrow> (\<forall>(msg, err) \<in> set steps. err = None)"
  by (induction steps rule: first_failure.induct) auto

text \<open>The manager runs only with every controller and check set up.\<close>

lemma manager_runs:
  "manager_main R G known f = Inr watching \<longleftrightarrow>
     cr_NewManager R (manager_options_of f) = None \<and> (\<exists>clients. start_manager G known = Inr (clients, watching))
     \<and> (\<forall>c \<in> set controllers. cr_Setup R c = None) \<and> cr_Check R ''healthz'' = None \<and> cr_Check R ''readyz'' = None
     \<and> cr_Start R = None"
proof -
  have "first_failure (setup_steps R) = None \<longleftrightarrow>
      (\<forall>c \<in> set controllers. cr_Setup R c = None) \<and> cr_Check R ''healthz'' = None \<and> cr_Check R ''readyz'' = None"
    unfolding first_failure_None setup_steps_def by auto
  then show ?thesis by (auto simp: manager_main_def split: option.splits sum.splits)
qed

text \<open>The address of the receiver of plug-in results is read and used nowhere.\<close>

lemma plugins_address_unused: "manager_main R G known (f\<lparr>mf_PluginsAddr := a\<rparr>) = manager_main R G known f"
  by (simp add: manager_main_def manager_options_of_def)

text \<open>The probes of the server, beside the routes of its API.\<close>

definition probe :: "string \<Rightarrow> (int \<times> string) option" where
  "probe path = mget [(''/readyz'', (200, ''pong'')), (''/healthz'', (200, ''pong''))] path"

end
