(* ===== verification/Cluster_Audit.thy ===== *)
theory Cluster_Audit
  imports Opa_Score Kube_Access
begin

text \<open>
  pkg/inspect/resources.go: the audit of a whole cluster by rego rules, the predecessor of the OPA
  collector, which nothing calls any more.  Five functions run side by side, one for each query; what
  they share is the counter of the progress, under a mutex.  The model runs them one after the other
  in any order, and shows that the order does not matter.  Rego and the certificates a server shows
  are parameters.
\<close>

section \<open>One resource\<close>

record ValidateResult =
  vr_Name :: string
  vr_Namespace :: string
  vr_Type :: string
  vr_Level :: string
  vr_Message :: string
  vr_Reason :: string

definition zero_ValidateResult :: ValidateResult where
  "zero_ValidateResult = \<lparr>vr_Name = [], vr_Namespace = [], vr_Type = [], vr_Level = [], vr_Message = [], vr_Reason = []\<rparr>"

text \<open>
  The struct has no tags, so the keys are compared without regard to case; json.Marshal has sorted
  them, and the last of several spellings stays.  A null leaves a field as it is.
\<close>

definition vr_fields :: "(string, (string \<Rightarrow> string) \<Rightarrow> ValidateResult \<Rightarrow> ValidateResult) gomap" where
  "vr_fields = [(''name'', vr_Name_update), (''namespace'', vr_Namespace_update), (''type'', vr_Type_update),
     (''level'', vr_Level_update), (''message'', vr_Message_update), (''reason'', vr_Reason_update)]"

fun vr_set :: "jobj \<Rightarrow> ValidateResult \<Rightarrow> ValidateResult option" where
  "vr_set [] r = Some r"
| "vr_set ((k, v) # kvs) r =
     (case mget vr_fields (to_lower k) of
        None \<Rightarrow> vr_set kvs r
      | Some upd \<Rightarrow>
          (case v of
             JStr s \<Rightarrow> vr_set kvs (upd (\<lambda>_. s) r)
           | JNull \<Rightarrow> vr_set kvs r
           | _ \<Rightarrow> None))"

definition dec_ValidateResult :: "json \<Rightarrow> ValidateResult option" where
  "dec_ValidateResult j =
     (case j of
        JObj kvs \<Rightarrow> vr_set (sort_slice (\<lambda>a b. fst a < fst b) kvs) zero_ValidateResult
      | JNull \<Rightarrow> Some zero_ValidateResult
      | _ \<Rightarrow> None)"

definition zero_ResourceResult :: ResourceResult where
  "zero_ResourceResult = \<lparr>rr_NameSpace = [], rr_ResourceType = [], rr_Name = [], rr_ResultItems = []\<rparr>"

text \<open>The results in the values of the expressions; None is a value that is no object, Inl a value that is no list of results.\<close>

fun expression_results :: "json list \<Rightarrow> (unit + ValidateResult list) option" where
  "expression_results [] = Some (Inr [])"
| "expression_results (value # more_values) =
     (case value of
        JObj m \<Rightarrow>
          (case those (map (\<lambda>(k, v). unmarshal_list dec_ValidateResult (Some v)) m) of
             None \<Rightarrow> Some (Inl ())
           | Some results \<Rightarrow> map_option (map_sum id (\<lambda>r. concat results @ r)) (expression_results more_values))
      | _ \<Rightarrow> None)"

fun rules_results :: "rego \<Rightarrow> json \<Rightarrow> string \<Rightarrow> string list \<Rightarrow> (unit + ValidateResult list) option" where
  "rules_results R input query [] = Some (Inr [])"
| "rules_results R input query (rule # rules) =
     (case rg_prepare R query rule of
        Some _ \<Rightarrow> Some (Inl ())
      | None \<Rightarrow>
          (case rg_eval R query rule input of
             Inl _ \<Rightarrow> Some (Inl ())
           | Inr regoResults \<Rightarrow>
               (case expression_results (concat regoResults) of
                  None \<Rightarrow> None
                | Some (Inl ()) \<Rightarrow> Some (Inl ())
                | Some (Inr results) \<Rightarrow> map_option (map_sum id (\<lambda>r. results @ r)) (rules_results R input query rules))))"

definition add_result :: "ValidateResult \<Rightarrow> ResourceResult \<Rightarrow> ResourceResult" where
  "add_result result auditResult =
     (let item = \<lparr>rit_Level = vr_Level result, rit_Message = vr_Message result, rit_Reason = vr_Reason result\<rparr>;
          named = auditResult\<lparr>rr_Name := vr_Name result, rr_ResourceType := vr_Type result,
            rr_ResultItems := rr_ResultItems auditResult @ [item]\<rparr>
      in if vr_Type result = ''ClusterRole'' \<or> vr_Type result = ''Node'' then named
         else named\<lparr>rr_NameSpace := vr_Namespace result\<rparr>)"

text \<open>The input of the rules is the struct of the resource, whose only field is Object.\<close>

definition validateK8SResource :: "rego \<Rightarrow> jobj \<Rightarrow> string list \<Rightarrow> string \<Rightarrow> (ResourceResult \<times> bool) option" where
  "validateK8SResource R resource regoRulesList queryRule =
     (case rules_results R (JObj [(''Object'', JObj resource)]) queryRule regoRulesList of
        None \<Rightarrow> None
      | Some (Inl ()) \<Rightarrow> Some (zero_ResourceResult, False)
      | Some (Inr results) \<Rightarrow> Some (fold add_result results zero_ResourceResult, results \<noteq> []))"

section \<open>The certificate\<close>

text \<open>
  What a server shows: nothing where the request fails, no certificates (the inner None) where the
  connection is not encrypted, whose missing state is a panic, else when each certificate ends.
\<close>

type_synonym certs = "string \<Rightarrow> time list option option"

definition days_left :: "time \<Rightarrow> time \<Rightarrow> int" where
  "days_left t notAfter = (let d = time_sub notAfter t in sgn d * (\<bar>d\<bar> div (24 * 60 * minute)))"

definition zero_ResultItem :: ResultItem where
  "zero_ResultItem = \<lparr>rit_Level = [], rit_Message = [], rit_Reason = []\<rparr>"

definition validateCertExp :: "certs \<Rightarrow> time \<Rightarrow> string \<Rightarrow> (ResourceResult \<times> bool) option" where
  "validateCertExp C t ApiAddress =
     (if ApiAddress = [] then Some (zero_ResourceResult\<lparr>rr_ResultItems := [zero_ResultItem]\<rparr>, False)
      else case C ApiAddress of
        None \<Rightarrow> Some (zero_ResourceResult, False)
      | Some None \<Rightarrow> None
      | Some (Some certificates) \<Rightarrow>
          Some (if list_ex (\<lambda>notAfter. days_left t notAfter \<le> 30) certificates
            then (\<lparr>rr_NameSpace = [], rr_ResourceType = ''Cert'', rr_Name = ''certificateExpire'',
                rr_ResultItems = [\<lparr>rit_Level = ''dangerous'', rit_Message = ''CertificateExpiredPeriod'',
                  rit_Reason = ''Certificate expiration time <= 30 days''\<rparr>]\<rparr>, True)
            else (zero_ResourceResult\<lparr>rr_ResultItems := [zero_ResultItem]\<rparr>, False)))"

section \<open>The audit\<close>

record PercentOutput =
  po_TotalAuditCount :: int
  po_CurrentAuditCount :: int
  po_AuditPercent :: int

text \<open>What a resource does to the counter, under the mutex.\<close>

definition tick :: "PercentOutput \<Rightarrow> PercentOutput option" where
  "tick P = (let current = po_CurrentAuditCount P - 1 in
     map_option (\<lambda>percent. P\<lparr>po_CurrentAuditCount := current, po_AuditPercent := percent\<rparr>)
       (go_div ((po_TotalAuditCount P - current) * 100) (po_TotalAuditCount P)))"

definition q_workloads :: string where "q_workloads = ''data.kubeeye_workloads_rego''"
definition q_rbac :: string where "q_rbac = ''data.kubeeye_RBAC_rego''"
definition q_nodes :: string where "q_nodes = ''data.kubeeye_nodes_rego''"
definition q_events :: string where "q_events = ''data.kubeeye_events_rego''"
definition q_certexp :: string where "q_certexp = ''data.kubeeye_certexpiration''"

text \<open>The lists in the order of the code, the query each belongs to, and whether its loop counts.\<close>

definition audit_lists :: "K8SResource \<Rightarrow> (string \<times> ulist \<times> bool) list" where
  "audit_lists res = [(q_workloads, kr_Namespaces res, False), (q_workloads, kr_Deployments res, False),
     (q_workloads, kr_Pods res, False), (q_workloads, kr_StatefulSets res, True), (q_workloads, kr_DaemonSets res, True),
     (q_workloads, kr_Jobs res, True), (q_workloads, kr_CronJobs res, True), (q_rbac, kr_Roles res, True),
     (q_rbac, kr_ClusterRoles res, True), (q_nodes, kr_Nodes res, True), (q_events, kr_Events res, True)]"

type_synonym audit_state = "PercentOutput \<times> ResourceResult list"

definition keep_found :: "ResourceResult \<times> bool \<Rightarrow> ResourceResult list" where
  "keep_found r = (if snd r then [fst r] else [])"

fun audit_items :: "rego \<Rightarrow> string list \<Rightarrow> string \<Rightarrow> bool \<Rightarrow> jobj list \<Rightarrow> audit_state \<Rightarrow> audit_state option" where
  "audit_items R rules query counted [] st = Some st"
| "audit_items R rules query counted (resource # rest) st = do {
     P \<leftarrow> (if counted then tick (fst st) else Some (fst st));
     r \<leftarrow> validateK8SResource R resource rules query;
     audit_items R rules query counted rest (P, snd st @ keep_found r) }"

fun audit_groups :: "rego \<Rightarrow> string list \<Rightarrow> string \<Rightarrow> (string \<times> ulist \<times> bool) list \<Rightarrow> audit_state \<Rightarrow> audit_state option" where
  "audit_groups R rules query [] st = Some st"
| "audit_groups R rules query ((q, items, counted) # gs) st =
     (case items of
        Some xs \<Rightarrow> (if query = q then do {
            st' \<leftarrow> audit_items R rules query counted xs st;
            audit_groups R rules query gs st' }
          else audit_groups R rules query gs st)
      | None \<Rightarrow> audit_groups R rules query gs st)"

definition RegoRulesValidate ::
    "rego \<Rightarrow> certs \<Rightarrow> time \<Rightarrow> K8SResource \<Rightarrow> string list \<Rightarrow> string \<Rightarrow> PercentOutput \<Rightarrow> audit_state option" where
  "RegoRulesValidate R C t res rules query P = do {
     st \<leftarrow> audit_groups R rules query (audit_lists res) (P, []);
     if query = q_certexp \<and> kr_APIServerAddress res \<noteq> [] then do {
       P' \<leftarrow> tick (fst st);
       r \<leftarrow> validateCertExp C t (kr_APIServerAddress res);
       Some (P', snd st @ keep_found r) }
     else Some st }"

text \<open>The functions in the order in which their results arrive.\<close>

fun MergeRegoRulesValidate ::
    "rego \<Rightarrow> certs \<Rightarrow> time \<Rightarrow> K8SResource \<Rightarrow> string list \<Rightarrow> string list \<Rightarrow> PercentOutput \<Rightarrow> audit_state option" where
  "MergeRegoRulesValidate R C t res rules [] P = Some (P, [])"
| "MergeRegoRulesValidate R C t res rules (query # queries) P = do {
     (P', results) \<leftarrow> RegoRulesValidate R C t res rules query P;
     (P'', more_results) \<leftarrow> MergeRegoRulesValidate R C t res rules queries P';
     Some (P'', results @ more_results) }"

definition len0 :: "ulist \<Rightarrow> int" where
  "len0 items = (case items of None \<Rightarrow> 0 | Some xs \<Rightarrow> int (length xs))"

definition audit_start :: "K8SResource \<Rightarrow> PercentOutput" where
  "audit_start res =
     (let total = len0 (kr_Deployments res) + len0 (kr_Pods res) + len0 (kr_StatefulSets res) + len0 (kr_DaemonSets res)
        + len0 (kr_Jobs res) + len0 (kr_CronJobs res) + len0 (kr_Roles res) + len0 (kr_ClusterRoles res)
        + len0 (kr_Nodes res) + len0 (kr_Events res) + 1
      in \<lparr>po_TotalAuditCount = total, po_CurrentAuditCount = total, po_AuditPercent = 0\<rparr>)"

definition audit_queries :: "string list" where
  "audit_queries = [q_workloads, q_rbac, q_events, q_nodes, q_certexp]"

definition audit_run :: "rego \<Rightarrow> certs \<Rightarrow> time \<Rightarrow> K8SResource \<Rightarrow> string list \<Rightarrow> string list \<Rightarrow> audit_state option" where
  "audit_run R C t res rules order = MergeRegoRulesValidate R C t res rules order (audit_start res)"

text \<open>
  VailOpaRulesResult of pkg/inspect.  The goroutine that shows the percentage every second is told to
  stop but not waited for: its last write may come after the 100 (late).
\<close>

definition audit_result ::
    "bool \<Rightarrow> rego \<Rightarrow> certs \<Rightarrow> time \<Rightarrow> K8SResource \<Rightarrow> string list \<Rightarrow> string list \<Rightarrow> KubeeyeOpaResult option" where
  "audit_result late R C t k8sResources RegoRules order = do {
     (P, results) \<leftarrow> audit_run R C t k8sResources RegoRules order;
     scoreInfo \<leftarrow> CalculateScore results k8sResources;
     Some \<lparr>kor_ScoreInfo = scoreInfo, kor_ResourceResults = results,
       kor_Percent = (if late then po_AuditPercent P else 100),
       kor_ExtraInfo = \<lparr>ei_WorkloadsCount = kr_WorkloadsCount k8sResources,
         ei_NamespacesList = kr_NameSpacesList k8sResources\<rparr>\<rparr> }"

section \<open>The order does not matter\<close>

text \<open>The counter after some ticks.\<close>

definition ticked :: "nat \<Rightarrow> PercentOutput \<Rightarrow> PercentOutput" where
  "ticked n P = (if n = 0 then P else let current = po_CurrentAuditCount P - int n in
     P\<lparr>po_CurrentAuditCount := current,
       po_AuditPercent := the (go_div ((po_TotalAuditCount P - current) * 100) (po_TotalAuditCount P))\<rparr>)"

lemma ticked_0 [simp]: "ticked 0 P = P"
  by (simp add: ticked_def)

lemma ticked_total [simp]: "po_TotalAuditCount (ticked n P) = po_TotalAuditCount P"
  by (simp add: ticked_def Let_def)

lemma ticked_current [simp]: "po_CurrentAuditCount (ticked n P) = po_CurrentAuditCount P - int n"
  by (simp add: ticked_def Let_def)

lemma ticked_ticked [simp]: "ticked n (ticked m P) = ticked (m + n) P"
  by (simp add: ticked_def Let_def algebra_simps)

lemma tick_ticked: "po_TotalAuditCount P \<noteq> 0 \<Longrightarrow> tick P = Some (ticked 1 P)"
  by (simp add: tick_def ticked_def Let_def go_div_def)

text \<open>The rows and the ticks of a list, of a query, of the audit.\<close>

definition rows_of :: "rego \<Rightarrow> string list \<Rightarrow> string \<Rightarrow> jobj list \<Rightarrow> ResourceResult list option" where
  "rows_of R rules query items = map_option (concat \<circ> map keep_found) (those (map (\<lambda>r. validateK8SResource R r rules query) items))"

lemma rows_of_Cons: "rows_of R rules query (r # rs) = do {
    x \<leftarrow> validateK8SResource R r rules query; xs \<leftarrow> rows_of R rules query rs; Some (keep_found x @ xs) }"
  by (cases "those (map (\<lambda>r. validateK8SResource R r rules query) rs)") (auto simp: rows_of_def o_def split: option.split)

lemma audit_items_eq:
  "po_TotalAuditCount P \<noteq> 0 \<Longrightarrow> audit_items R rules query counted items (P, out)
     = map_option (\<lambda>rows. (ticked (if counted then length items else 0) P, out @ rows)) (rows_of R rules query items)"
proof (induction items arbitrary: P out)
  case Nil
  then show ?case by (simp add: rows_of_def)
next
  case (Cons r rs)
  then show ?case
    by (cases counted; cases "validateK8SResource R r rules query"; cases "rows_of R rules query rs")
       (simp_all add: tick_ticked rows_of_Cons)
qed

text \<open>The lists a query reads.\<close>

definition read_lists :: "string \<Rightarrow> (string \<times> ulist \<times> bool) list \<Rightarrow> (jobj list \<times> bool) list" where
  "read_lists query gs = List.map_filter (\<lambda>(q, items, counted). if query = q then map_option (\<lambda>xs. (xs, counted)) items else None) gs"

definition group_ticks :: "string \<Rightarrow> (string \<times> ulist \<times> bool) list \<Rightarrow> nat" where
  "group_ticks query gs = sum_list (map (\<lambda>(xs, counted). if counted then length xs else 0) (read_lists query gs))"

definition group_rows :: "rego \<Rightarrow> string list \<Rightarrow> string \<Rightarrow> (string \<times> ulist \<times> bool) list \<Rightarrow> ResourceResult list option" where
  "group_rows R rules query gs = map_option concat (those (map (rows_of R rules query \<circ> fst) (read_lists query gs)))"

lemma read_lists_Cons: "read_lists query ((q, items, counted) # gs)
    = (case items of None \<Rightarrow> read_lists query gs
       | Some xs \<Rightarrow> if query = q then (xs, counted) # read_lists query gs else read_lists query gs)"
  by (simp add: read_lists_def List.map_filter_simps split: option.split)

lemma audit_groups_eq:
  "po_TotalAuditCount P \<noteq> 0 \<Longrightarrow> audit_groups R rules query gs (P, out)
     = map_option (\<lambda>rows. (ticked (group_ticks query gs) P, out @ rows)) (group_rows R rules query gs)"
proof (induction gs arbitrary: P out)
  case Nil
  then show ?case by (simp add: group_ticks_def group_rows_def read_lists_def List.map_filter_simps)
next
  case (Cons g gs)
  obtain q items counted where g: "g = (q, items, counted)" by (cases g) auto
  consider "items = None \<or> query \<noteq> q" | xs where "items = Some xs" "query = q" by (cases items) auto
  then show ?case
  proof cases
    case 1
    then show ?thesis using Cons g
      by (auto simp: group_ticks_def group_rows_def read_lists_Cons split: option.split)
  next
    case (2 xs)
    then show ?thesis using Cons g
      by (cases "rows_of R rules q xs"; cases "those (map (rows_of R rules q \<circ> fst) (read_lists q gs))")
         (simp_all add: audit_items_eq group_ticks_def group_rows_def read_lists_Cons)
  qed
qed

definition query_ticks :: "K8SResource \<Rightarrow> string \<Rightarrow> nat" where
  "query_ticks res query = group_ticks query (audit_lists res)
     + (if query = q_certexp \<and> kr_APIServerAddress res \<noteq> [] then 1 else 0)"

definition query_rows :: "rego \<Rightarrow> certs \<Rightarrow> time \<Rightarrow> K8SResource \<Rightarrow> string list \<Rightarrow> string \<Rightarrow> ResourceResult list option" where
  "query_rows R C t res rules query = do {
     rows \<leftarrow> group_rows R rules query (audit_lists res);
     if query = q_certexp \<and> kr_APIServerAddress res \<noteq> []
     then map_option (\<lambda>r. rows @ keep_found r) (validateCertExp C t (kr_APIServerAddress res))
     else Some rows }"

lemma RegoRulesValidate_eq:
  assumes "po_TotalAuditCount P \<noteq> 0"
  shows "RegoRulesValidate R C t res rules query P
     = map_option (Pair (ticked (query_ticks res query) P)) (query_rows R C t res rules query)"
  using assms
  by (simp add: RegoRulesValidate_def audit_groups_eq query_ticks_def query_rows_def tick_ticked split: option.split bind_split)

lemma MergeRegoRulesValidate_eq:
  "po_TotalAuditCount P \<noteq> 0 \<Longrightarrow> MergeRegoRulesValidate R C t res rules order P
     = map_option (\<lambda>rows. (ticked (sum_list (map (query_ticks res) order)) P, concat rows))
         (those (map (query_rows R C t res rules) order))"
proof (induction order arbitrary: P)
  case (Cons q qs)
  then show ?case
    by (cases "query_rows R C t res rules q"; cases "those (map (query_rows R C t res rules) qs)") (simp_all add: RegoRulesValidate_eq)
qed simp


lemma audit_start_positive: "0 < po_TotalAuditCount (audit_start res)"
proof -
  have "0 \<le> len0 xs" for xs by (simp add: len0_def split: option.split)
  then show ?thesis by (simp add: audit_start_def Let_def add_nonneg_pos)
qed

lemma audit_run_eq:
  "audit_run R C t res rules order
     = map_option (\<lambda>rows. (ticked (sum_list (map (query_ticks res) order)) (audit_start res), concat rows))
         (those (map (query_rows R C t res rules) order))"
  using audit_start_positive [of res] by (simp add: audit_run_def MergeRegoRulesValidate_eq)

lemma those_map_iff: "those (map f xs) = Some ys \<longleftrightarrow> (\<forall>x \<in> set xs. f x \<noteq> None) \<and> ys = map (the \<circ> f) xs"
  by (induction xs arbitrary: ys) (auto split: option.splits)

lemma audit_run_Some:
  "audit_run R C t res rules order = Some (P, rows) \<longleftrightarrow> (\<forall>q \<in> set order. query_rows R C t res rules q \<noteq> None)
     \<and> P = ticked (sum_list (map (query_ticks res) order)) (audit_start res)
     \<and> rows = concat (map (the \<circ> query_rows R C t res rules) order)"
  by (auto simp: audit_run_eq those_map_iff)

lemma read_lists_simps: "read_lists query [] = []" "read_lists query ((q, items, counted) # gs)
    = (case items of None \<Rightarrow> read_lists query gs
       | Some xs \<Rightarrow> if query = q then (xs, counted) # read_lists query gs else read_lists query gs)"
  by (simp add: read_lists_def List.map_filter_simps) (rule read_lists_Cons)

lemma group_ticks_Cons: "int (group_ticks query ((q, items, counted) # gs))
    = (if query = q \<and> counted then len0 items else 0) + int (group_ticks query gs)"
  by (simp add: group_ticks_def read_lists_simps len0_def split: option.split)

lemma group_ticks_Nil: "group_ticks query [] = 0"
  by (simp add: group_ticks_def read_lists_simps)

lemma all_ticks: "int (sum_list (map (query_ticks res) audit_queries))
    = po_TotalAuditCount (audit_start res) - len0 (kr_Deployments res) - len0 (kr_Pods res)
      - (if kr_APIServerAddress res = [] then 1 else 0)"
  by (simp add: audit_queries_def query_ticks_def audit_lists_def group_ticks_Cons group_ticks_Nil audit_start_def Let_def
      q_workloads_def q_rbac_def q_events_def q_nodes_def q_certexp_def)

lemma audit_order_sum: "mset order = mset audit_queries \<Longrightarrow> sum_list (map (query_ticks res) order) = sum_list (map (query_ticks res) audit_queries)"
  by (metis mset_map sum_mset_sum_list)

lemma go_div_below:
  assumes "0 \<le> a" and "a < b"
  shows "the (go_div (a * 100) b) < 100"
proof -
  have "a * 100 div b * b + a * 100 mod b = a * 100" by (rule div_mult_mod_eq)
  then have "a * 100 div b * b < 100 * b" using assms pos_mod_sign [of b "a * 100"] by linarith
  then have "a * 100 div b < 100" using assms by (simp add: mult_less_cancel_right)
  then show ?thesis using assms by (cases "a = 0") (simp_all add: go_div_def sgn_if)
qed

lemma len0_nonneg: "0 \<le> len0 xs"
  by (simp add: len0_def split: option.split)

lemma audit_end:
  defines "P \<equiv> (\<lambda>res. ticked (sum_list (map (query_ticks res) audit_queries)) (audit_start res))"
  shows "po_CurrentAuditCount (P res) = len0 (kr_Deployments res) + len0 (kr_Pods res) + (if kr_APIServerAddress res = [] then 1 else 0)"
    and "0 < len0 (kr_Deployments res) + len0 (kr_Pods res) \<Longrightarrow> po_AuditPercent (P res) < 100"
proof -
  let ?n = "sum_list (map (query_ticks res) audit_queries)"
  have start: "po_CurrentAuditCount (audit_start res) = po_TotalAuditCount (audit_start res)" "po_AuditPercent (audit_start res) = 0"
    by (simp_all add: audit_start_def Let_def)
  show "po_CurrentAuditCount (P res) = len0 (kr_Deployments res) + len0 (kr_Pods res) + (if kr_APIServerAddress res = [] then 1 else 0)"
    unfolding P_def ticked_current all_ticks start(1) by simp
  assume "0 < len0 (kr_Deployments res) + len0 (kr_Pods res)"
  then have "int ?n < po_TotalAuditCount (audit_start res)" using all_ticks [of res] by (simp split: if_splits)
  then have "the (go_div (int ?n * 100) (po_TotalAuditCount (audit_start res))) < 100" by (intro go_div_below) simp_all
  then show "po_AuditPercent (P res) < 100" unfolding P_def by (simp add: ticked_def Let_def start)
qed

text \<open>
  C22. The outcome of the audit does not depend on the order in which its five functions end: they
  panic in every order or in none, and else find the same results.  What is left of the counter is
  the deployments and pods, which are in the total and which no loop counts, so the progress of a
  cluster with a pod ends below a hundred percent.
\<close>

theorem audit_progress:
  assumes "mset order = mset audit_queries"
  shows "rel_option (\<lambda>(P, rows) (P', rows'). P = P' \<and> mset rows = mset rows'
        \<and> po_CurrentAuditCount P = len0 (kr_Deployments res) + len0 (kr_Pods res) + (if kr_APIServerAddress res = [] then 1 else 0)
        \<and> (0 < len0 (kr_Deployments res) + len0 (kr_Pods res) \<longrightarrow> po_AuditPercent P < 100))
      (audit_run R C t res rules order) (audit_run R C t res rules audit_queries)"
proof -
  let ?f = "query_rows R C t res rules" and ?P = "ticked (sum_list (map (query_ticks res) audit_queries)) (audit_start res)"
  have s: "set order = set audit_queries" using assms by (metis set_mset_mset)
  have c: "mset (concat (map (the \<circ> ?f) order)) = mset (concat (map (the \<circ> ?f) audit_queries))"
    by (metis assms mset_concat mset_map sum_mset_sum_list map_map)
  show ?thesis
  proof (cases "\<forall>q \<in> set audit_queries. ?f q \<noteq> None")
    case True
    then have "audit_run R C t res rules order = Some (?P, concat (map (the \<circ> ?f) order))"
      "audit_run R C t res rules audit_queries = Some (?P, concat (map (the \<circ> ?f) audit_queries))"
      by (simp_all add: audit_run_Some s audit_order_sum [OF assms])
    then show ?thesis using c audit_end [of res] by simp
  next
    case False
    then have "audit_run R C t res rules order = None" "audit_run R C t res rules audit_queries = None"
      using audit_run_Some [of R C t res rules] s by (metis not_None_eq prod.exhaust)+
    then show ?thesis by simp
  qed
qed

section \<open>What the audit misses\<close>

lemma group_rows_no_rules: "group_rows R [] query gs = Some []"
proof -
  have "rows_of R [] query xs = Some []" for xs
    by (induction xs) (simp_all add: rows_of_Cons validateK8SResource_def keep_found_def, simp add: rows_of_def)
  then have "those (map (rows_of R [] query \<circ> fst) ls) = Some (map (\<lambda>_. []) ls)" for ls
    by (simp add: those_map_iff)
  from this [of "read_lists query gs"] show ?thesis by (simp only: group_rows_def option.map) simp
qed

text \<open>
  A certificate that ends within 30 days is reported and not counted: its level is "dangerous",
  the score looks for "danger".  Where it is all the audit finds, the score is 100, with no danger.
\<close>

theorem expired_certificate_uncounted:
  assumes "kr_APIServerAddress res = addr" and "addr \<noteq> []" and "C addr = Some (Some certificates)"
    and "notAfter \<in> set certificates" and "days_left t notAfter \<le> 30"
    and "kr_Roles res = Some roles" and "kr_ClusterRoles res = Some clusterRoles" and "kr_Events res = Some events"
    and "kr_Nodes res = Some nodes" and "0 \<le> kr_WorkloadsCount res"
  shows "\<exists>out. audit_result late R C t res [] audit_queries = Some out
    \<and> map (\<lambda>r. (rr_Name r, map rit_Level (rr_ResultItems r))) (kor_ResourceResults out) = [(''certificateExpire'', [''dangerous''])]
    \<and> si_Dangerous (kor_ScoreInfo out) = 0 \<and> si_Score (kor_ScoreInfo out) = 100"
proof -
  obtain r where r: "validateCertExp C t addr = Some (r, True)" "rr_Name r = ''certificateExpire''"
      "map rit_Level (rr_ResultItems r) = [''dangerous'']"
  proof
    have "list_ex (\<lambda>notAfter. days_left t notAfter \<le> 30) certificates" using assms(4,5) by (auto simp: list_ex_iff)
    then show "validateCertExp C t addr = Some (\<lparr>rr_NameSpace = [], rr_ResourceType = ''Cert'', rr_Name = ''certificateExpire'',
        rr_ResultItems = [\<lparr>rit_Level = ''dangerous'', rit_Message = ''CertificateExpiredPeriod'',
          rit_Reason = ''Certificate expiration time <= 30 days''\<rparr>]\<rparr>, True)"
      using assms(2,3) by (simp add: validateCertExp_def)
  qed simp_all
  have rows: "query_rows R C t res [] q = Some (if q = q_certexp then [r] else [])" for q
    using assms(1,2) r(1) by (simp add: query_rows_def group_rows_no_rules keep_found_def)
  have run: "\<exists>P. audit_run R C t res [] audit_queries = Some (P, [r])"
    by (simp add: audit_run_Some rows)
       (simp add: audit_queries_def o_def rows q_workloads_def q_rbac_def q_events_def q_nodes_def q_certexp_def)
  have n: "count_level l [r] = 0" if "l \<in> {''danger'', ''warning'', ''ignore''}" for l
  proof -
    obtain i where "rr_ResultItems r = [i]" "rit_Level i = ''dangerous''" using r(3) by auto
    then show ?thesis using that by (auto simp: count_level_def)
  qed
  let ?t = "kr_WorkloadsCount res * 20 + (int (length roles) + int (length clusterRoles)) * 3 + int (length events) + int (length nodes) + 1"
  have pos: "0 < ?t" using assms(10) by simp
  have full: "go_div (x * 2 * 100) (x * 2) = Some 100" if "0 < x" for x
    using that nonzero_mult_div_cancel_left [of "x * 2" 100] by (simp add: go_div_def sgn_if)
  from full [OF pos] have "CalculateScore [r] res = Some \<lparr>si_Score = 100, si_Total = ?t, si_Dangerous = 0, si_Warning = 0, si_Ignore = 0, si_Passing = ?t\<rparr>"
    by (simp only: CalculateScore_def n assms(6-9) Let_def bind.bind_lunit insert_iff simp_thms diff_zero add_0_right mult_zero_left)
  then show ?thesis using run r by (auto simp: audit_result_def)
qed

text \<open>
  The audit of a cluster wants every list it scores: where the roles, the cluster roles, the events
  or the nodes cannot be listed, GetK8SResources goes on with nil and the audit panics at its end; where
  the namespaces cannot be listed it has panicked before.
\<close>

theorem audit_needs_every_list:
  assumes "(res, groups) \<in> {(confNamespaces, NoGroup), (confRoles, RoleGroup), (confClusterroles, RoleGroup),
      (confEvents, NoGroup), (confNodes, NoGroup)}" and "kq_list Q res groups = Inl err"
  shows "Option.bind (GetK8SResources Q c) (\<lambda>k. audit_result late R C t k rules order) = None"
proof (cases "GetK8SResources Q c")
  case (Some k)
  then have "(res, groups) \<noteq> (confNamespaces, NoGroup)" using assms(2) GetK8SResources_panics [of Q c] by auto
  then have "None \<in> {kr_Roles k, kr_ClusterRoles k, kr_Events k, kr_Nodes k}"
    using assms GetK8SResources_lists [OF Some] by (auto simp: GetObjectCounts_def)
  then show ?thesis using Some by (simp add: audit_result_def CalculateScore_panics bind_eq_None_conv)
qed simp

section \<open>A concrete cluster\<close>

text \<open>One pod, one node and one role; a rule that finds the role too open, and a certificate that ends in five days.\<close>

definition demo_reads :: "(string \<Rightarrow> bool) \<Rightarrow> kube_reads" where
  "demo_reads broken = \<lparr>kq_version = Some (''1'', ''30''),
     kq_list = (\<lambda>r g. if broken r then Inl ''refused''
        else Inr (if r \<in> {''pods'', ''nodes'', ''roles''} then [[(''kind'', JStr r)]] else [])),
     kq_now = Time 0\<rparr>"

definition demo_resources :: K8SResource where
  "demo_resources = the (GetK8SResources (demo_reads (\<lambda>r. False)) \<lparr>rcf_Host = ''https://host''\<rparr>)"

definition role_rego :: rego where
  "role_rego = \<lparr>rg_prepare = (\<lambda>q r. None),
     rg_eval = (\<lambda>q r input. Inr (if q = q_rbac then [[JObj [(''deny'', JArr [JObj [(''Name'', JStr ''admin''), (''Type'', JStr ''Role''),
        (''Namespace'', JStr ''ns''), (''Level'', JStr ''danger'')]])]]] else [])),
     rg_print = (\<lambda>j. [])\<rparr>"

definition demo_certs :: certs where
  "demo_certs addr = Some (Some [Time (5 * 24 * 60 * minute)])"

theorem audit_progress_witness:
  "\<exists>P rows. audit_run role_rego demo_certs (Time 0) demo_resources [''rule''] [q_certexp, q_nodes, q_events, q_rbac, q_workloads] = Some (P, rows)
    \<and> length rows = 2 \<and> po_CurrentAuditCount P = 1 \<and> po_AuditPercent P = 75"
proof -
  let ?order = "[q_certexp, q_nodes, q_events, q_rbac, q_workloads]"
  have perm: "mset ?order = mset audit_queries" by (simp add: audit_queries_def)
  have "(case audit_run role_rego demo_certs (Time 0) demo_resources [''rule''] ?order of
      Some (P, rows) \<Rightarrow> length rows = 2 \<and> po_AuditPercent P = 75 | None \<Rightarrow> False)"
    by code_simp
  then obtain P rows where run: "audit_run role_rego demo_certs (Time 0) demo_resources [''rule''] ?order = Some (P, rows)"
      "length rows = 2" "po_AuditPercent P = 75"
    by (auto split: option.splits)
  have "len0 (kr_Deployments demo_resources) + len0 (kr_Pods demo_resources) + (if kr_APIServerAddress demo_resources = [] then 1 else 0) = 1"
    by code_simp
  then have "po_CurrentAuditCount P = 1"
    using audit_progress [OF perm, of demo_resources role_rego demo_certs "Time 0" "[''rule'']"] run(1)
    by (auto simp: option_rel_Some1)
  then show ?thesis using run by blast
qed

theorem expired_certificate_uncounted_witness:
  "\<exists>out. audit_result False role_rego demo_certs (Time 0) demo_resources [] audit_queries = Some out
    \<and> length (kor_ResourceResults out) = 1 \<and> si_Score (kor_ScoreInfo out) = 100"
proof -
  let ?expiry = "Time (5 * 24 * 60 * minute)"
  have addr: "kr_APIServerAddress demo_resources = ''https://host''" "''https://host'' \<noteq> []" by code_simp+
  have cert: "demo_certs ''https://host'' = Some (Some [?expiry])" "?expiry \<in> set [?expiry]" by (simp_all add: demo_certs_def)
  have soon: "days_left (Time 0) ?expiry \<le> 30" by code_simp
  have lists: "kr_Roles demo_resources = Some [[(''kind'', JStr ''roles'')]]" "kr_ClusterRoles demo_resources = Some []"
    "kr_Events demo_resources = Some []" "kr_Nodes demo_resources = Some [[(''kind'', JStr ''nodes'')]]"
    by code_simp+
  have load: "0 \<le> kr_WorkloadsCount demo_resources" by code_simp
  from expired_certificate_uncounted [where C = demo_certs and R = role_rego, OF addr cert soon lists load, of False] show ?thesis
  proof (rule exE)
    fix out
    assume out: "audit_result False role_rego demo_certs (Time 0) demo_resources [] audit_queries = Some out
      \<and> map (\<lambda>r. (rr_Name r, map rit_Level (rr_ResultItems r))) (kor_ResourceResults out) = [(''certificateExpire'', [''dangerous''])]
      \<and> si_Dangerous (kor_ScoreInfo out) = 0 \<and> si_Score (kor_ScoreInfo out) = 100"
    then have rows: "map (\<lambda>r. (rr_Name r, map rit_Level (rr_ResultItems r))) (kor_ResourceResults out) = [(''certificateExpire'', [''dangerous''])]"
      by (elim conjE)
    have "length (kor_ResourceResults out) = 1" using arg_cong [OF rows, of length] by simp
    with out show ?thesis by (intro exI [of _ out]) simp
  qed
qed

theorem audit_needs_every_list_witness:
  "GetK8SResources (demo_reads (\<lambda>r. r = ''roles'')) \<lparr>rcf_Host = ''https://host''\<rparr> \<noteq> None
   \<and> Option.bind (GetK8SResources (demo_reads (\<lambda>r. r = ''roles'')) \<lparr>rcf_Host = ''https://host''\<rparr>)
       (\<lambda>k. audit_result False role_rego demo_certs (Time 0) k [] audit_queries) = None"
proof
  show "GetK8SResources (demo_reads (\<lambda>r. r = ''roles'')) \<lparr>rcf_Host = ''https://host''\<rparr> \<noteq> None"
    by (simp add: GetK8SResources_panics demo_reads_def)
  show "Option.bind (GetK8SResources (demo_reads (\<lambda>r. r = ''roles'')) \<lparr>rcf_Host = ''https://host''\<rparr>)
       (\<lambda>k. audit_result False role_rego demo_certs (Time 0) k [] audit_queries) = None"
    using audit_needs_every_list [of confRoles RoleGroup "demo_reads (\<lambda>r. r = ''roles'')" "''refused''"]
    by (simp add: demo_reads_def)
qed

end
