(* ===== verification/Cluster_Race.thy ===== *)
theory Cluster_Race
  imports Job_Race
begin

text \<open>
  The goroutines of the clusters of a task (inspecttask_controller.go).  Each inspects its cluster and
  then appends the phases of its jobs to the status of the one task they share, with no mutex: it loads
  the slice and stores the longer one.  The model has the clusters that come as far as the append.
  Slices are values, as they are for two clusters, whose appends start from nil; with more clusters the
  arrays can have room to spare, and then even phases within a cluster can be overwritten.
\<close>

record cluster_routine =
  clr_phases :: "JobPhase list"
  clr_loaded :: "JobPhase list option"
  clr_done :: bool

record inspecting =
  in_JobPhase :: "JobPhase list"
  in_routines :: "cluster_routine list"

definition set_routine :: "nat \<Rightarrow> cluster_routine \<Rightarrow> inspecting \<Rightarrow> inspecting" where
  "set_routine i g s = s\<lparr>in_routines := (in_routines s)[i := g]\<rparr>"

inductive phase_step :: "inspecting \<Rightarrow> inspecting \<Rightarrow> bool" where
  load: "i < length (in_routines s) \<Longrightarrow> \<not> clr_done (in_routines s ! i) \<Longrightarrow> clr_loaded (in_routines s ! i) = None \<Longrightarrow>
    phase_step s (set_routine i ((in_routines s ! i)\<lparr>clr_loaded := Some (in_JobPhase s)\<rparr>) s)"
| store: "i < length (in_routines s) \<Longrightarrow> clr_loaded (in_routines s ! i) = Some xs \<Longrightarrow>
    phase_step s (set_routine i ((in_routines s ! i)\<lparr>clr_loaded := None, clr_done := True\<rparr>)
      (s\<lparr>in_JobPhase := xs @ clr_phases (in_routines s ! i)\<rparr>))"

definition start_clusters :: "JobPhase list list \<Rightarrow> inspecting" where
  "start_clusters vs = \<lparr>in_JobPhase = [],
     in_routines = map (\<lambda>ps. \<lparr>clr_phases = ps, clr_loaded = None, clr_done = False\<rparr>) vs\<rparr>"

definition all_waited :: "inspecting \<Rightarrow> bool" where
  "all_waited s \<longleftrightarrow> list_all clr_done (in_routines s)"

section \<open>Every outcome is the phases of some clusters\<close>

definition phases_of :: "JobPhase list list \<Rightarrow> nat list \<Rightarrow> JobPhase list" where
  "phases_of vs is = concat (map ((!) vs) is)"

text \<open>A value of the slice: what some of the clusters that are done have left, none twice.\<close>

definition left_by :: "JobPhase list list \<Rightarrow> inspecting \<Rightarrow> nat list \<Rightarrow> bool" where
  "left_by vs s is \<longleftrightarrow> distinct is \<and> (\<forall>i \<in> set is. i < length vs \<and> clr_done (in_routines s ! i))"

definition consistent :: "JobPhase list list \<Rightarrow> inspecting \<Rightarrow> bool" where
  "consistent vs s \<longleftrightarrow> map clr_phases (in_routines s) = vs
     \<and> (\<exists>is. left_by vs s is \<and> in_JobPhase s = phases_of vs is \<and> ((\<exists>i < length vs. clr_done (in_routines s ! i)) \<longrightarrow> is \<noteq> []))
     \<and> (\<forall>i < length vs. \<forall>xs. clr_loaded (in_routines s ! i) = Some xs \<longrightarrow>
          \<not> clr_done (in_routines s ! i) \<and> (\<exists>is. left_by vs s is \<and> xs = phases_of vs is))"

lemma consistent_start: "consistent vs (start_clusters vs)"
  by (auto simp: consistent_def start_clusters_def o_def left_by_def phases_of_def intro!: exI [of _ "[]"])

lemma left_by_mono:
  assumes "left_by vs s is" and "\<And>i. i < length vs \<Longrightarrow> clr_done (in_routines s ! i) \<Longrightarrow> clr_done (in_routines s' ! i)"
  shows "left_by vs s' is"
  using assms by (auto simp: left_by_def)

lemma consistent_step:
  assumes "phase_step s s'" and "consistent vs s"
  shows "consistent vs s'"
  using assms
proof induction
  case (load i s)
  let ?g = "(in_routines s ! i)\<lparr>clr_loaded := Some (in_JobPhase s)\<rparr>" and ?s = "set_routine i ((in_routines s ! i)\<lparr>clr_loaded := Some (in_JobPhase s)\<rparr>) s"
  have n: "length vs = length (in_routines s)" and p: "map clr_phases (in_routines s) = vs" using load(4) by (auto simp: consistent_def)
  have d: "clr_done (in_routines ?s ! j) = clr_done (in_routines s ! j)" if "j < length vs" for j
    using that n load(1) by (cases "j = i") (simp_all add: set_routine_def)
  then have l: "left_by vs ?s is = left_by vs s is" for "is" by (auto simp: left_by_def)
  have "map clr_phases (in_routines ?s) = vs" using load(1) p by (auto simp: set_routine_def map_update list_update_same_conv n)
  moreover have "in_JobPhase ?s = in_JobPhase s" by (simp add: set_routine_def)
  moreover have "clr_loaded (in_routines ?s ! j) = (if j = i then Some (in_JobPhase s) else clr_loaded (in_routines s ! j))" if "j < length vs" for j
    using that n load(1) by (simp add: set_routine_def nth_list_update)
  ultimately show ?case using load(2,4) d l unfolding consistent_def by auto
next
  case (store i s xs)
  let ?s = "set_routine i ((in_routines s ! i)\<lparr>clr_loaded := None, clr_done := True\<rparr>) (s\<lparr>in_JobPhase := xs @ clr_phases (in_routines s ! i)\<rparr>)"
  have n: "length vs = length (in_routines s)" and p: "map clr_phases (in_routines s) = vs" using store(3) by (auto simp: consistent_def)
  obtain "is" where i: "left_by vs s is" "xs = phases_of vs is" "\<not> clr_done (in_routines s ! i)"
    using store n unfolding consistent_def by metis
  have d: "clr_done (in_routines ?s ! j) = (j = i \<or> clr_done (in_routines s ! j))" if "j < length vs" for j
    using that n store(1) by (simp add: set_routine_def nth_list_update)
  have names: "left_by vs ?s (is @ [i])" "in_JobPhase ?s = phases_of vs (is @ [i])"
    using i p d n store(1) by (auto simp: left_by_def set_routine_def phases_of_def)
  have same: "map clr_phases (in_routines ?s) = vs"
    using store(1) p by (auto simp: set_routine_def map_update list_update_same_conv n)
  have loaded: "clr_loaded (in_routines ?s ! j) = (if j = i then None else clr_loaded (in_routines s ! j))" if "j < length vs" for j
    using that n store(1) by (simp add: set_routine_def nth_list_update)
  have mono: "left_by vs ?s js" if "left_by vs s js" for js by (rule left_by_mono [OF that]) (use d in auto)
  have "\<not> clr_done (in_routines ?s ! j) \<and> (\<exists>js. left_by vs ?s js \<and> ys = phases_of vs js)"
    if l: "j < length vs" "clr_loaded (in_routines ?s ! j) = Some ys" for j ys
  proof -
    have j: "j \<noteq> i" "clr_loaded (in_routines s ! j) = Some ys" using l loaded by (auto split: if_splits)
    then obtain js where "\<not> clr_done (in_routines s ! j)" "left_by vs s js" "ys = phases_of vs js"
      using store(3) l(1) unfolding consistent_def by blast
    then show ?thesis using mono d l(1) j(1) by auto
  qed
  moreover have "is @ [i] \<noteq> []" by simp
  ultimately show ?case unfolding consistent_def using names same by blast
qed

lemma consistent_run: "phase_step\<^sup>*\<^sup>* (start_clusters vs) s \<Longrightarrow> consistent vs s"
  by (induction rule: rtranclp_induct) (auto simp: consistent_start dest: consistent_step)

section \<open>Every choice of clusters is an outcome\<close>

text \<open>A schedule: the clusters that lose load first, the others load and store one after the other.\<close>

definition routine :: "JobPhase list list \<Rightarrow> nat set \<Rightarrow> nat set \<Rightarrow> nat \<Rightarrow> cluster_routine" where
  "routine vs D L i = \<lparr>clr_phases = vs ! i, clr_loaded = (if i \<in> L then Some [] else None), clr_done = (i \<in> D)\<rparr>"

definition race_at :: "JobPhase list list \<Rightarrow> JobPhase list \<Rightarrow> nat set \<Rightarrow> nat set \<Rightarrow> inspecting" where
  "race_at vs ps D L = \<lparr>in_JobPhase = ps, in_routines = map (routine vs D L) [0..<length vs]\<rparr>"

lemma start_at: "start_clusters vs = race_at vs [] {} {}"
  by (simp add: start_clusters_def race_at_def routine_def map_equality_iff)

lemma at_update: "i < length vs \<Longrightarrow> (\<And>j. j < length vs \<Longrightarrow> j \<noteq> i \<Longrightarrow> routine vs D' L' j = routine vs D L j)
    \<Longrightarrow> routine vs D' L' i = g \<Longrightarrow> set_routine i g (race_at vs ps D L) = race_at vs ps D' L'"
  by (simp add: race_at_def set_routine_def) (rule nth_equalityI, auto simp: nth_list_update)

lemma at_load:
  assumes "i < length vs" and "i \<notin> D" and "i \<notin> L"
  shows "phase_step (race_at vs [] D L) (race_at vs [] D (insert i L))"
proof -
  have g: "in_routines (race_at vs [] D L) ! i = routine vs D L i" using assms(1) by (simp add: race_at_def)
  have "set_routine i ((routine vs D L i)\<lparr>clr_loaded := Some []\<rparr>) (race_at vs [] D L) = race_at vs [] D (insert i L)"
    by (rule at_update) (use assms in \<open>auto simp: routine_def\<close>)
  then show ?thesis using phase_step.load [of i "race_at vs [] D L"] assms g by (simp add: race_at_def routine_def)
qed

lemma at_store:
  assumes "i < length vs" and "i \<in> L"
  shows "phase_step (race_at vs ps D L) (race_at vs (vs ! i) (insert i D) (L - {i}))"
proof -
  have g: "in_routines (race_at vs ps D L) ! i = routine vs D L i" using assms(1) by (simp add: race_at_def)
  have "set_routine i ((routine vs D L i)\<lparr>clr_loaded := None, clr_done := True\<rparr>) (race_at vs (vs ! i) D L)
      = race_at vs (vs ! i) (insert i D) (L - {i})"
    by (rule at_update) (use assms in \<open>auto simp: routine_def\<close>)
  moreover have "(race_at vs ps D L)\<lparr>in_JobPhase := vs ! i\<rparr> = race_at vs (vs ! i) D L" by (simp add: race_at_def)
  ultimately show ?thesis using phase_step.store [of i "race_at vs ps D L" "[]"] assms g by (simp add: race_at_def routine_def)
qed

lemma at_append:
  assumes "i < length vs" and "i \<notin> D"
  shows "phase_step\<^sup>*\<^sup>* (race_at vs ps D {}) (race_at vs (ps @ vs ! i) (insert i D) {})"
proof -
  let ?s = "race_at vs ps D {}" and ?r = "(routine vs D {} i)\<lparr>clr_loaded := Some ps\<rparr>"
  have g: "in_routines ?s ! i = routine vs D {} i" using assms(1) by (simp add: race_at_def)
  have "phase_step ?s (set_routine i ?r ?s)"
    using phase_step.load [of i ?s] assms g by (simp add: race_at_def routine_def)
  moreover have "phase_step (set_routine i ?r ?s) (race_at vs (ps @ vs ! i) (insert i D) {})"
  proof -
    have "set_routine i (?r\<lparr>clr_loaded := None, clr_done := True\<rparr>) (set_routine i ?r ?s\<lparr>in_JobPhase := ps @ vs ! i\<rparr>)
        = race_at vs (ps @ vs ! i) (insert i D) {}"
      using assms by (simp add: race_at_def set_routine_def) (rule nth_equalityI, simp_all add: nth_list_update routine_def)
    then show ?thesis
      using phase_step.store [of i "set_routine i ?r ?s" ps] assms by (simp add: race_at_def set_routine_def routine_def)
  qed
  ultimately show ?thesis by (meson converse_rtranclp_into_rtranclp rtranclp.rtrancl_refl)
qed

lemma at_loads: "distinct js \<Longrightarrow> set js \<inter> L = {} \<Longrightarrow> set js \<subseteq> {..<length vs} \<Longrightarrow>
    phase_step\<^sup>*\<^sup>* (race_at vs [] {} L) (race_at vs [] {} (set js \<union> L))"
proof (induction js arbitrary: L)
  case (Cons j js)
  have "phase_step (race_at vs [] {} L) (race_at vs [] {} (insert j L))" using Cons.prems by (intro at_load) auto
  moreover have "phase_step\<^sup>*\<^sup>* (race_at vs [] {} (insert j L)) (race_at vs [] {} (set js \<union> insert j L))"
    using Cons.prems by (intro Cons.IH) auto
  ultimately show ?case by (simp add: converse_rtranclp_into_rtranclp)
qed simp

lemma at_stores: "distinct js \<Longrightarrow> set js \<subseteq> L \<Longrightarrow> set js \<subseteq> {..<length vs} \<Longrightarrow> js \<noteq> [] \<Longrightarrow>
    phase_step\<^sup>*\<^sup>* (race_at vs ps D L) (race_at vs (vs ! last js) (D \<union> set js) (L - set js))"
proof (induction js arbitrary: ps D L)
  case (Cons j js)
  have step: "phase_step (race_at vs ps D L) (race_at vs (vs ! j) (insert j D) (L - {j}))" using Cons.prems by (intro at_store) auto
  show ?case
  proof (cases "js = []")
    case False
    then have "phase_step\<^sup>*\<^sup>* (race_at vs (vs ! j) (insert j D) (L - {j})) (race_at vs (vs ! last js) (insert j D \<union> set js) (L - {j} - set js))"
      using Cons.prems by (intro Cons.IH) auto
    moreover have "D \<union> set (j # js) = insert j D \<union> set js" "L - set (j # js) = L - {j} - set js" "last (j # js) = last js"
      using False by auto
    ultimately show ?thesis using converse_rtranclp_into_rtranclp [where r = phase_step, OF step] by metis
  qed (use step in auto)
qed simp

lemma at_appends: "distinct js \<Longrightarrow> set js \<inter> D = {} \<Longrightarrow> set js \<subseteq> {..<length vs} \<Longrightarrow>
    phase_step\<^sup>*\<^sup>* (race_at vs ps D {}) (race_at vs (ps @ phases_of vs js) (D \<union> set js) {})"
proof (induction js arbitrary: ps D)
  case (Cons j js)
  have "phase_step\<^sup>*\<^sup>* (race_at vs ps D {}) (race_at vs (ps @ vs ! j) (insert j D) {})" using Cons.prems by (intro at_append) auto
  moreover have "phase_step\<^sup>*\<^sup>* (race_at vs (ps @ vs ! j) (insert j D) {}) (race_at vs ((ps @ vs ! j) @ phases_of vs js) (insert j D \<union> set js) {})"
    using Cons.prems by (intro Cons.IH) auto
  moreover have "ps @ phases_of vs (j # js) = (ps @ vs ! j) @ phases_of vs js" "D \<union> set (j # js) = insert j D \<union> set js"
    by (simp_all add: phases_of_def)
  ultimately show ?case using rtranclp_trans by metis
qed (simp add: phases_of_def)

lemma any_choice:
  assumes "distinct is" and "is \<noteq> []" and "set is \<subseteq> {..<length vs}"
  shows "phase_step\<^sup>*\<^sup>* (start_clusters vs) (race_at vs (phases_of vs is) {..<length vs} {})"
proof -
  obtain i js where js: "is = i # js" using assms(2) by (cases "is") auto
  let ?lost = "filter (\<lambda>k. k \<notin> set is) [0..<length vs] @ [i]"
  have lost: "distinct ?lost" "set ?lost \<subseteq> {..<length vs}" "set ?lost \<inter> set js = {}" "set ?lost \<union> set js = {..<length vs}"
    using assms js by auto
  have "phase_step\<^sup>*\<^sup>* (race_at vs [] {} {}) (race_at vs [] {} (set ?lost \<union> {}))" by (rule at_loads) (use lost in auto)
  moreover have "phase_step\<^sup>*\<^sup>* (race_at vs [] {} (set ?lost)) (race_at vs (vs ! last ?lost) ({} \<union> set ?lost) (set ?lost - set ?lost))"
    by (rule at_stores) (use lost in auto)
  moreover have "phase_step\<^sup>*\<^sup>* (race_at vs (vs ! i) (set ?lost) {}) (race_at vs (vs ! i @ phases_of vs js) (set ?lost \<union> set js) {})"
    by (rule at_appends) (use lost assms js in auto)
  ultimately have "phase_step\<^sup>*\<^sup>* (race_at vs [] {} {}) (race_at vs (vs ! i @ phases_of vs js) (set ?lost \<union> set js) {})"
    by (simp only: Un_empty_right Un_empty_left Diff_cancel last_snoc)
  then show ?thesis unfolding start_at lost(4) by (simp add: js phases_of_def)
qed


text \<open>Two clusters, one with a failed job: the status may be that of the other alone.\<close>

lemma failed_cluster_lost:
  "\<exists>s. phase_step\<^sup>*\<^sup>* (start_clusters [[phase_of a PhaseFailed], [phase_of b PhaseSucceeded]]) s \<and> all_waited s
     \<and> status_after t (in_JobPhase s) = PhaseSucceeded"
proof -
  let ?vs = "[[phase_of a PhaseFailed], [phase_of b PhaseSucceeded]]"
  have "\<exists>s. phase_step\<^sup>*\<^sup>* (start_clusters ?vs) s \<and> all_waited s \<and> in_JobPhase s = [phase_of b PhaseSucceeded]"
    using any_choice [of "[1]" ?vs]
    by (intro exI [of _ "race_at ?vs [phase_of b PhaseSucceeded] {..<length ?vs} {}"])
       (simp add: phases_of_def all_waited_def race_at_def routine_def)
  moreover have "status_after t [phase_of b PhaseSucceeded] = PhaseSucceeded"
    by (simp add: status_after_iff phase_of_def del: PhaseSucceeded_def) simp
  ultimately show ?thesis by metis
qed

end
