(* ===== verification/Spec2Isabelle.thy ===== *)
theory Spec2Isabelle
  imports Inspection Inspectors Job_Race Rule_Controller Result_Controller Opa_Score
    Job_Command Metric_Text Html_Page Report_Excel Report_Json Email Router Cluster_Audit Cluster_Race
begin

text \<open>
  KubeEye inspects Kubernetes clusters.  This library models the program, Go code under src/, and
  proves what makes its parts correct, or where they are not what they mean to be.


  The program

  Four custom resources carry an inspection (apis/kubeeye/v1alpha2).  An InspectRule holds the checks.
  An InspectPlan names rules, clusters and a schedule; its controller creates an InspectTask when one
  is due (pkg/controllers/inspectplan_controller.go).  The controller of the tasks merges the rules of
  a task, allots them to jobs (pkg/rules), runs one job for each node and kind, waits for them and
  collects what they found into an InspectResult (inspecttask_controller.go).  A job is the binary ke
  in a pod (cmd/ke/ctl/create/job.go): it runs the inspector of its kind (pkg/inspect, for OPA rules
  with pkg/collectors/opa) and leaves its result in a config map.  The controller of the results counts
  the issues by level and starts a mail (inspectresult_controller.go, pkg/message); the controller of
  the rules counts their checks (inspectrules_controller.go).  The API server (pkg/server) lists,
  changes and shows all of this, the results as HTML, workbook or summary (pkg/output).


  How the code is modelled

  A struct is a record with the fields of the struct, its prefix the initials of its type.  A pointer
  is an option, a slice a list, a map an association list with distinct keys whose order is the order
  of one iteration, so a statement for every list is one for every order (Prelude).  A byte slice that
  holds JSON is the document it denotes (Go_Json).  A panic is the value None, a Go error the left side
  of a sum; so every failure of the code is a branch of the model.  Machine integers wrap where the
  code can reach the end of int64 (wrap64 of Prelude, the 64-bit words of Inspectors).

  What lies outside the program is an argument.  The API server, the clock, the result files and the
  random names are an environment that answers each request as a function of all requests before it
  (Kube_Api), so that theorems about every environment hold for every server and every interleaving of
  other clients.  A run carries a world: the trace of its requests and the informer caches, whose
  objects the code changes in place.  A host answers an inspector (Inspectors), a mail server a session
  (Email); rego, regular expressions of file filters, Prometheus and floats of the summaries are
  parameters too.


  The theories

  Prelude: maps, strings, decimal numbers, 64-bit wrap-around, insertion sort.  Go_Json, Go_Time: JSON
  documents, instants and durations with Go's parser.  Utils: pkg/utils.  Constants: pkg/constant and
  pkg/conf.  Api_Types, Api_Codec: the resources and the JSON of their parts, with a round trip for
  each.  Kube_Access: pkg/kube and pkg/informers, how the clients are made, base64 included, what is
  watched, and the resources of a whole cluster.  Kube_Types, Kube_Api: objects of the cluster, requests, environments, and the locale of the
  objects guarded by a finalizer, interpreted for the four resources.

  Rules: pkg/rules.  A refinement relates the jobs to the rules they came from (AllocationRule), an
  invariant counts the merged rules, the typed reading of SetRuleSchedule shows when it panics, and the
  OPA job comes last (GenerateJob).

  Plan_Controller: pkg/controllers/inspectplan_controller.go.  When a task is started, that one
  reconcile writes once, what a stale label blocks, how the references of rules are counted, which
  tasks cleaning keeps.

  Task_Status, Task_Controller, Task_Life, Task_Progress, Job_Race, Cluster_Race: inspecttask_controller.go.  The
  stages of a task are a step relation with an invariant on every task its reconciles write; every task
  of named clusters reaches its end; the wait for a job terminates, with fuel for one poll for each ten
  seconds of the timeout; a job runs on the node of its rules; the access the jobs get is taken away
  again, and a cluster without a kubeconfig ends the manager.  Job_Race has the two steps of an append
  as a relation on the goroutines: with the mutex no phase is lost, without it one can be.  Cluster_Race
  has the same for the clusters of a task, and the exact set of outcomes.  Inspection joins the two
  controllers: the task that a plan starts is brought to its end, and from its first reconcile on the
  cached plan reports the phase of the task and changes in nothing else.

  Templates: pkg/template.  Job_Command: cmd/ke/ctl/create, and the way of a result from the job
  through its config map back to the controller.  Inspectors, Opa_Collector: pkg/inspect and
  pkg/collectors/opa; the locale of the inspectors of nodes says what GetResult does with what
  RunInspect wrote; the worker pool is a relation whose outcome does not depend on the schedule.
  Metric_Text: the text of a Prometheus sample is read back as it was written.

  Level_Count, Rule_Controller, Result_Controller, Opa_Score: counting.  The locales leveled and
  assertable say what the JSON of an item tells the counters, and are interpreted for every kind of
  rule and result.

  Query, Api_Server, Result_Api, Router: pkg/server.  The page a request gets, the contracts of the
  comparisons and filters, each handler with its replies, the routes, no two of which meet, and how
  the manager and the server start (cmd/ke-manager, cmd/apiserver): the manager runs only with all
  four controllers and both checks set up.

  Report_Rows, Report_Excel, Report_Json: pkg/output.  Html_Page: the HTML page, from which a reader
  gets back every text of the tables, and whose tags no text can change.  Email: pkg/message.

  Cluster_Audit: pkg/inspect/resources.go, the audit that nothing calls any more.  Its five functions
  share a counter under a mutex; the outcome does not depend on the order in which they run.

  The present theory joins them and follows one kind of check from the host to the report.


  Bounds and fuel

  waitForJobCompletionGetResult polls at most fuel times; wait_terminates gives the number that is
  enough for its timeout, and run_job, createInspect and task_Reconcile pass the fuel on.  json_chars
  and json_members of Metric_Text get the length of their text, which each step shortens.  drive of
  Task_Progress counts reconciles: three are enough from any stage, four for a task without its
  finalizer.  Row numbers of a sheet are below 2 ^ 63.


  Not modelled

  Generated code (clients, deep copies, swagger), the leader election and the signals of the manager,
  what client-go does with a configuration, and
  pkg/output/csv.go, which is commented out.  Names of Kubernetes objects hold no slash, so a path
  joined from one needs no cleaning in the controllers; where a name comes from a request the cleaning
  is modelled (path_join).  The jobs of a task and its clusters run side by side in the code and one
  after the other in Task_Controller; what the interleaving can change, the slices of phases, is the
  subject of Job_Race and Cluster_Race.
\<close>

section \<open>The page in the mail\<close>

text \<open>The rendering of SendMessage: no message where the result cannot be read.\<close>

definition render_result :: "bool \<Rightarrow> bool \<Rightarrow> (trace \<Rightarrow> string \<Rightarrow> InspectResult option) \<Rightarrow> trace \<Rightarrow> string \<Rightarrow> string option" where
  "render_result no_component no_overview files tr name =
     (case HtmlOut no_component no_overview (files tr) name of Some (Inr m) \<Rightarrow> Some (html_page m) | _ \<Rightarrow> None)"

text \<open>The mail about a result carries the page that GenerateHtml writes for it.\<close>

lemma mail_is_page:
  assumes "SendMessage E (render_result nc no files) res w = Some (cfg, ev)"
  shows "GenerateHtml nc no (files (w_trace w)) (\<lambda>_. True) (om_Name (res_Meta res))
    = Some (Inr (path_join ResultPathPrefix (om_Name (res_Meta res)) @ ''.html'', me_Content ev))"
  using assms
  by (auto simp: SendMessage_def render_result_def GenerateHtml_def bind_eq_Some_conv Let_def split: sum.splits if_splits option.splits)

section \<open>A kernel parameter from the host to the report\<close>

text \<open>The rules that the host breaks, and those of a level.\<close>

definition broken :: "host \<Rightarrow> SysRule list \<Rightarrow> SysRule list" where
  "broken h rs = filter (\<lambda>r. br_Assert (nmi_Base (sysctl_item h r))) rs"

definition broken_at :: "Level \<Rightarrow> host \<Rightarrow> SysRule list \<Rightarrow> SysRule list" where
  "broken_at l h rs = filter (\<lambda>r. level_of DangerLevel (ri_Level (sr_Base r)) = l) (broken h rs)"

lemma asserting_append: "asserting base (xs @ ys) = asserting base xs + asserting base ys"
  by (simp add: asserting_def)

lemma asserting_items_of: "asserting nmi_Base (map (nmi_NodeName_update (\<lambda>_. n)) (map (sysctl_item h) rs)) = length (broken h rs)"
  by (induction rs) (simp_all add: asserting_def broken_def)

lemma sysctl_item_level:
  "br_Assert (nmi_Base (sysctl_item h r)) \<Longrightarrow> br_Level (nmi_Base (sysctl_item h r)) = ri_Level (sr_Base r)"
  by (auto simp: sysctl_item_def metric_def failed_def passed_def Let_def split: option.splits sum.splits if_splits)

lemma issues_at_sysctl:
  "issues_at l (cr\<lparr>res_Spec := (res_Spec cr)\<lparr>rs_SysctlResult := rs_SysctlResult (res_Spec cr) @ new\<rparr>\<rparr>)
     = issues_at l cr + (\<Sum>i\<leftarrow>new. if br_Assert (nmi_Base i) \<and> level_of DangerLevel (br_Level (nmi_Base i)) = l then 1 else 0)"
  by (simp add: issues_at_def asserting_items_def Let_def o_def del: One_nat_def)

lemma broken_at_sum:
  "(\<Sum>i\<leftarrow>map (nmi_NodeName_update (\<lambda>_. n)) (map (sysctl_item h) rs).
      if br_Assert (nmi_Base i) \<and> level_of DangerLevel (br_Level (nmi_Base i)) = l then 1 else 0) = length (broken_at l h rs)"
  by (induction rs) (auto simp: broken_at_def broken_def sysctl_item_level)



end
